(* ===== verification/Sc_Prelude.thy ===== *)
theory Sc_Prelude
  imports Complex_Main "HOL-Library.Word" "HOL-Library.Multiset" "HOL-Library.Monad_Syntax"
begin

text \<open>
  Shared vocabulary of the development.  A C pointer that may be \<open>NULL\<close> is a value of
  an option type; the combinators below are the two preambles that every comparison
  and every patch-list function of the consumer libraries starts with, the greedy
  matching loop that the unordered comparisons share, and the decimal and hexadecimal
  printing of the standard library that the sources use through \<open>ogs_msprintf\<close>.
\<close>

named_theorems copy_simps \<open>copy functions return their source\<close>
named_theorems eq_simps \<open>comparison functions, read as equality of keys\<close>

section \<open>Pointer preambles\<close>

text \<open>\<open>if (a == b) return true; if (!a || !b) return false;\<close> followed by the comparison of
  the two objects.  The same-object shortcut is taken by value: it agrees with the
  comparison whenever that is reflexive (each comparison has such a lemma).\<close>

fun ptr_equal :: "('a \<Rightarrow> 'a \<Rightarrow> bool) \<Rightarrow> 'a option \<Rightarrow> 'a option \<Rightarrow> bool" where
  "ptr_equal eq None None = True"
| "ptr_equal eq (Some a) (Some b) = eq a b"
| "ptr_equal eq _ _ = False"

lemma ptr_equal_refl [simp]: "(\<And>x. eq x x) \<Longrightarrow> ptr_equal eq a a"
  by (cases a) auto

lemma ptr_equal_key:
  assumes "\<And>x y. eq x y \<longleftrightarrow> key x = key y"
  shows "ptr_equal eq a b \<longleftrightarrow> map_option key a = map_option key b"
  using assms by (cases a; cases b) auto

lemma ptr_equal_eq [simp]: "ptr_equal (=) a b \<longleftrightarrow> a = b"
  by (cases a; cases b) auto

lemma ptr_equal_None [simp]:
  "ptr_equal eq None b \<longleftrightarrow> b = None" "ptr_equal eq a None \<longleftrightarrow> a = None"
  by (cases b; simp) (cases a; simp)

section \<open>Greedy matching without regard to order\<close>

text \<open>The inner loop of the unordered comparisons: walk the remaining candidates, unlink
  the first one that satisfies the test.\<close>

fun remove_first :: "('b \<Rightarrow> bool) \<Rightarrow> 'b list \<Rightarrow> 'b list option" where
  "remove_first P [] = None"
| "remove_first P (x # xs) = (if P x then Some xs else map_option ((#) x) (remove_first P xs))"

text \<open>The outer loop: every element of the first list takes one candidate away; the
  comparison fails at the first element that finds none.\<close>

fun match_all :: "('a \<Rightarrow> 'b \<Rightarrow> bool) \<Rightarrow> 'a list \<Rightarrow> 'b list \<Rightarrow> 'b list option" where
  "match_all eq [] bs = Some bs"
| "match_all eq (a # as) bs =
     (case remove_first (eq a) bs of None \<Rightarrow> None | Some bs' \<Rightarrow> match_all eq as bs')"

definition unordered_equal :: "('a \<Rightarrow> 'b \<Rightarrow> bool) \<Rightarrow> 'a list \<Rightarrow> 'b list \<Rightarrow> bool" where
  "unordered_equal eq as bs \<longleftrightarrow> length as = length bs \<and> match_all eq as bs \<noteq> None"

lemma remove_first_None: "remove_first P xs = None \<longleftrightarrow> (\<forall>x\<in>set xs. \<not> P x)"
  by (induction xs) auto

lemma remove_first_Some:
  "remove_first P xs = Some ys \<Longrightarrow>
     \<exists>us x vs. xs = us @ x # vs \<and> P x \<and> (\<forall>u\<in>set us. \<not> P u) \<and> ys = us @ vs"
proof (induction xs arbitrary: ys)
  case (Cons z zs)
  show ?case
  proof (cases "P z")
    case True
    then show ?thesis using Cons.prems by (intro exI [of _ "[]"]) auto
  next
    case False
    then obtain ys' where *: "remove_first P zs = Some ys'" "ys = z # ys'"
      using Cons.prems by auto
    then obtain us x vs where "zs = us @ x # vs" "P x" "\<forall>u\<in>set us. \<not> P u" "ys' = us @ vs"
      using Cons.IH by blast
    then show ?thesis using False * by (intro exI [of _ "z # us"] exI [of _ x] exI [of _ vs]) simp
  qed
qed simp

text \<open>The contract of the matching: the element test compares a key.\<close>

locale key_match =
  fixes eq :: "'a \<Rightarrow> 'a \<Rightarrow> bool" and key :: "'a \<Rightarrow> 'k"
  assumes eq_key: "eq x y \<longleftrightarrow> key x = key y"
begin

lemma refl [simp]: "eq x x"
  by (simp add: eq_key)

lemma sym: "eq x y \<Longrightarrow> eq y x"
  by (simp add: eq_key)

lemma trans: "eq x y \<Longrightarrow> eq y z \<Longrightarrow> eq x z"
  by (simp add: eq_key)

lemma match_all_mset:
  "length as = length bs \<Longrightarrow>
     match_all eq as bs \<noteq> None \<longleftrightarrow> mset (map key as) = mset (map key bs)"
proof (induction as arbitrary: bs)
  case (Cons a as)
  show ?case
  proof (cases "remove_first (eq a) bs")
    case None
    then have "key a \<notin> set (map key bs)" by (auto simp: remove_first_None eq_key)
    then have "mset (map key (a # as)) \<noteq> mset (map key bs)"
      by (metis list.set_intros(1) list.simps(9) set_mset_mset)
    then show ?thesis using None by simp
  next
    case (Some bs')
    then obtain us x vs where bs: "bs = us @ x # vs" "eq a x" "bs' = us @ vs"
      using remove_first_Some [OF Some] by blast
    then have "mset (map key bs) = add_mset (key a) (mset (map key bs'))"
      by (simp add: eq_key)
    moreover have "length as = length bs'" using Cons.prems bs by simp
    ultimately show ?thesis using Cons.IH [of bs'] Some by simp
  qed
qed simp

lemma unordered_equal_mset:
  "unordered_equal eq as bs \<longleftrightarrow> mset (map key as) = mset (map key bs)"
proof (cases "length as = length bs")
  case True
  then show ?thesis using match_all_mset [OF True] by (simp add: unordered_equal_def)
next
  case False
  then show ?thesis by (metis length_map size_mset unordered_equal_def)
qed

lemma unordered_refl [simp]: "unordered_equal eq as as"
  by (simp add: unordered_equal_mset)

end

section \<open>Printing of integers\<close>

definition digit_char :: "nat \<Rightarrow> char" where
  "digit_char d = char_of (if d < 10 then 48 + d else 55 + d)"

function digits_str :: "nat \<Rightarrow> nat \<Rightarrow> string" where
  "digits_str base n =
     (if base < 2 \<or> n = 0 then [] else digits_str base (n div base) @ [digit_char (n mod base)])"
  by pat_completeness auto
termination by (relation "measure snd") auto

declare digits_str.simps [simp del]

text \<open>\<open>%i\<close> of a non-negative int.\<close>

definition dec_str :: "nat \<Rightarrow> string" where
  "dec_str n = (if n = 0 then ''0'' else digits_str 10 n)"

definition char_digit :: "char \<Rightarrow> nat" where
  "char_digit c = (let k = of_char c in if k < 58 then k - 48 else k - 55)"

definition digits_val :: "nat \<Rightarrow> string \<Rightarrow> nat" where
  "digits_val base s = foldl (\<lambda>acc c. base * acc + char_digit c) 0 s"

lemma char_digit_digit_char: "d < 16 \<Longrightarrow> char_digit (digit_char d) = d"
  by (auto simp: char_digit_def digit_char_def Let_def)

lemma digits_val_append1: "digits_val b (s @ [c]) = b * digits_val b s + char_digit c"
  by (simp add: digits_val_def)

lemma digits_val_digits_str:
  assumes "2 \<le> b" "b \<le> 16"
  shows "digits_val b (digits_str b n) = n"
proof (induction n rule: less_induct)
  case (less n)
  show ?case
  proof (cases "n = 0")
    case True
    then show ?thesis by (simp add: digits_str.simps [of b 0] digits_val_def)
  next
    case False
    then have "n div b < n" using assms by simp
    moreover have "n mod b < 16"
    proof -
      have "n mod b < b" using assms by simp
      then show ?thesis using assms by linarith
    qed
    ultimately show ?thesis
      using False assms less by (subst digits_str.simps) (simp add: digits_val_append1 char_digit_digit_char)
  qed
qed

lemma digits_val_dec_str [simp]: "digits_val 10 (dec_str n) = n"
  by (simp add: dec_str_def digits_val_digits_str) (simp add: digits_val_def char_digit_def)

lemma digit_char_inj: "d < 16 \<Longrightarrow> e < 16 \<Longrightarrow> digit_char d = digit_char e \<Longrightarrow> d = e"
  by (metis char_digit_digit_char)

lemma digits_str_length:
  assumes "2 \<le> b"
  shows "n < b ^ k \<Longrightarrow> length (digits_str b n) \<le> k"
proof (induction k arbitrary: n)
  case 0
  then show ?case by (simp add: digits_str.simps [of b 0])
next
  case (Suc k)
  show ?case
  proof (cases "n = 0")
    case False
    have "n div b < b ^ k" using Suc.prems assms by (simp add: less_mult_imp_div_less mult.commute)
    then show ?thesis using Suc.IH [of "n div b"] False assms by (subst digits_str.simps) simp
  qed (simp add: digits_str.simps [of b 0])
qed

lemma digits_str_chars:
  assumes "2 \<le> b" "b \<le> 16"
  shows "set (digits_str b n) \<subseteq> digit_char ` {..<b}"
proof (induction n rule: less_induct)
  case (less n)
  show ?case
  proof (cases "n = 0")
    case False
    then have "n div b < n" "n mod b < b" using assms by auto
    then show ?thesis using False assms less by (subst digits_str.simps) auto
  qed (simp add: digits_str.simps [of b 0])
qed

lemma dec_str_chars: "set (dec_str n) \<subseteq> digit_char ` {..<10}"
proof (cases "n = 0")
  case True
  have "CHR ''0'' = digit_char 0" by code_simp
  then show ?thesis using True by (auto simp: dec_str_def)
qed (use digits_str_chars [of 10 n] in \<open>simp add: dec_str_def\<close>)

lemma dec_str_not_Nil [simp]: "dec_str n \<noteq> []"
  by (simp add: dec_str_def digits_str.simps [of 10 n])

end
