(* ===== verification/Ogs_Api.thy ===== *)
theory Ogs_Api
  imports Sc_Prelude
begin

text \<open>
  The code the consumer libraries call but that is not part of the repository: Open5GS
  (\<open>ogs_*\<close>), its generated OpenAPI bindings (\<open>OpenAPI_*\<close>) and cJSON.  JSON documents are
  the values of RFC 8259 (an object is a finite map from member names).  The arguments of
  an \<open>OpenAPI_x_create\<close> call are kept as a value of the type \<open>api_x\<close>; what the generated
  \<open>OpenAPI_x_convertToJSON\<close> makes of them is a field of the record \<open>ogs_api\<close>, and so are the
  Open5GS helpers that the sources use.  Every definition that uses them takes that record
  as its first argument.
\<close>

section \<open>JSON values\<close>

datatype json =
    JNull
  | JBool bool
  | JNum real
  | JStr string
  | JArr "json list"
  | JObj "string \<Rightarrow> json option"

section \<open>Arguments of the generated constructors\<close>

datatype api_plmn = Api_plmn_id string string

datatype api_tai = Api_tai api_plmn string "string option"

datatype api_ncgi = Api_ncgi api_plmn string "string option"

datatype api_ncgi_tai = Api_ncgi_tai api_tai "api_ncgi list"

datatype api_service_area = Api_mbs_service_area "api_ncgi_tai list option" "api_tai list option"

datatype civic_field =
    Country | A1 | A2 | A3 | A4 | A5 | A6 | Prd | Pod | Sts | Hno | Hns | Lmk | Loc | Nam | Pc
  | Bld | Unit | Flr | Room | Plc | Pcn | Pobox | Addcode | Seat | Rd | Rdsec | Rdbr | Rdsubbr
  | Prm | Pom | Usage_rules | Method | Provided_by

type_synonym api_civic_address = "civic_field \<Rightarrow> string option"

text \<open>\<open>_geographic_area_to_openapi\<close> yields \<open>NULL\<close>, hence the list of absent objects.\<close>

datatype api_ext_service_area =
  Api_external_mbs_service_area "unit option list option" "api_civic_address list option"

datatype preempt_cap = Cap_null | Cap_not_preempt | Cap_may_preempt
datatype preempt_vuln = Vuln_null | Vuln_not_preemptable | Vuln_preemptable

datatype api_arp = Api_arp bool "8 word" preempt_cap preempt_vuln

datatype api_qos_req =
  Api_mbs_qos_req "8 word" "string option" "string option" bool "16 word" "api_arp option"

datatype media_type =
    Media_null | Media_audio | Media_video | Media_data | Media_application | Media_control
  | Media_text | Media_message | Media_other

datatype api_media_info =
  Api_mbs_media_info media_type "string option" "string option" "string list option"

datatype api_media_comp =
  Api_mbs_media_comp_rm int "string option list option" "8 word" "api_media_info option"
    "string option" "api_qos_req option"

datatype api_service_info =
  Api_mbs_service_info "(string \<times> api_media_comp) list option" "8 word" "string option"
    "string option"

section \<open>The parameters\<close>

type_synonym plmn = "24 word"

record ogs_api =
  plmn_build :: "16 word \<Rightarrow> 16 word \<Rightarrow> nat \<Rightarrow> plmn"
  plmn_mcc :: "plmn \<Rightarrow> 16 word"
  plmn_mnc :: "plmn \<Rightarrow> 16 word"
  sbi_build_plmn_id :: "plmn \<Rightarrow> api_plmn"
  conv_plmn_id :: "api_plmn \<Rightarrow> json"
  conv_tai :: "api_tai \<Rightarrow> json"
  conv_ncgi :: "api_ncgi \<Rightarrow> json"
  conv_ncgi_tai :: "api_ncgi_tai \<Rightarrow> json"
  conv_service_area :: "api_service_area \<Rightarrow> json"
  conv_civic_address :: "api_civic_address \<Rightarrow> json"
  conv_ext_service_area :: "api_ext_service_area \<Rightarrow> json"
  conv_arp :: "api_arp \<Rightarrow> json"
  conv_qos_req :: "api_qos_req \<Rightarrow> json"
  conv_media_info :: "api_media_info \<Rightarrow> json"
  conv_media_comp :: "api_media_comp \<Rightarrow> json"
  conv_service_info :: "api_service_info \<Rightarrow> json"
  preempt_cap_string :: "preempt_cap \<Rightarrow> string"
  preempt_vuln_string :: "preempt_vuln \<Rightarrow> string"
  media_type_string :: "media_type \<Rightarrow> string"
  double_of_u64 :: "64 word \<Rightarrow> real"
  printf_6f_quotient :: "real \<Rightarrow> real \<Rightarrow> string"
  double_round :: "real \<Rightarrow> real"
  trimwhitespace :: "string \<Rightarrow> string"
  http_date_time :: "string \<Rightarrow> int"
  plmn_mcc_string :: "plmn \<Rightarrow> string"
  plmn_mnc_string :: "plmn \<Rightarrow> string"
  plmn_to_string :: "plmn \<Rightarrow> string"
  gmtime_string :: "int \<Rightarrow> string"
  localtime_string :: "int \<Rightarrow> string"
  pointers_string :: "nat \<Rightarrow> string"
  time_from_string :: "string \<Rightarrow> int option"
  uint64_from_string :: "string \<Rightarrow> 64 word"
  url_decode :: "string \<Rightarrow> string"
  server_starts :: "nat \<Rightarrow> bool"
  server_uri :: "nat \<Rightarrow> string \<Rightarrow> string"
  uuid_string :: "nat \<Rightarrow> string"
  url_path :: "string \<Rightarrow> string option option"
  addrinfo4 :: "bool \<Rightarrow> string \<Rightarrow> 16 word \<Rightarrow> (8 word list \<times> 16 word) list"
  addrinfo6 :: "bool \<Rightarrow> string \<Rightarrow> 16 word \<Rightarrow> (8 word list \<times> 16 word) list"
  inet_pton4 :: "string \<Rightarrow> 8 word list option"
  inet_pton6 :: "string \<Rightarrow> 8 word list option"
  report_time :: "string \<Rightarrow> int option"
  location_resource :: "string \<Rightarrow> string option option"
  time_sec :: "int \<Rightarrow> int"
  time_to_sec :: "int \<Rightarrow> int"

section \<open>Documented behaviour that some theorems rely on\<close>

text \<open>Reading back a PLMN id that was built from at most three decimal digits each.\<close>

definition plmn_laws :: "ogs_api \<Rightarrow> bool" where
  "plmn_laws api \<longleftrightarrow>
     (\<forall>c n. c \<le> 999 \<longrightarrow> n \<le> 999 \<longrightarrow>
        (let p = plmn_build api c n (if n > 99 then 3 else 2)
         in plmn_mcc api p = c \<and> plmn_mnc api p = n))"

text \<open>A PLMN id as the constructors of the libraries build it: two digits for the network
  code unless it needs three.\<close>

definition plmn_canonical :: "ogs_api \<Rightarrow> plmn \<Rightarrow> bool" where
  "plmn_canonical api p \<longleftrightarrow>
     p = plmn_build api (plmn_mcc api p) (plmn_mnc api p) (if plmn_mnc api p > 99 then 3 else 2)"

lemma plmn_build_canonical:
  "plmn_laws api \<Longrightarrow> c \<le> 999 \<Longrightarrow> n \<le> 999 \<Longrightarrow>
     plmn_canonical api (plmn_build api c n (if n > 99 then 3 else 2))"
  by (simp add: plmn_laws_def plmn_canonical_def Let_def)

lemma plmn_canonical_inject:
  "plmn_canonical api p \<Longrightarrow> plmn_canonical api q \<Longrightarrow> plmn_mcc api p = plmn_mcc api q \<Longrightarrow>
     plmn_mnc api p = plmn_mnc api q \<Longrightarrow> p = q"
  unfolding plmn_canonical_def by metis

end
