(* ===== verification/Json_Patch.thy ===== *)
theory Json_Patch
  imports Ogs_Api
begin

text \<open>
  \<open>lib/mb-smf-service-consumer/json-patch.c\<close> and the patch-list idioms that every data type
  of that library repeats.  A list of patches is a HOL list; the \<open>NULL\<close> list is the empty
  one.  Copying a patch dereferences its value, so that copying one without a value (a
  removal) is undefined behaviour: the copying functions return \<open>None\<close> there.  The second
  half gives the meaning of a patch list, RFC 6902 evaluation relative to the place the
  paths are rooted at (\<open>"/"\<close> names that place itself until a prefix is put in front of it),
  and proves what the shared array diff and the shared member diff achieve.
\<close>

section \<open>Patches\<close>

datatype patch_op = Op_add | Op_remove | Op_replace

record json_patch =
  patch_op :: patch_op
  patch_path :: "string option"
  patch_from :: "string option"
  patch_is_null :: bool
  patch_value :: "json option"

definition json_patch_new :: "patch_op \<Rightarrow> string \<Rightarrow> json option \<Rightarrow> json_patch" where
  "json_patch_new opn path value =
     \<lparr>patch_op = opn, patch_path = Some path, patch_from = None,
      patch_is_null = (value = Some JNull), patch_value = value\<rparr>"

definition prefixed_path :: "string option \<Rightarrow> string option \<Rightarrow> string option" where
  "prefixed_path path at_prefix =
     (case path of
        Some p \<Rightarrow> (case at_prefix of
                     Some pre \<Rightarrow> if p = ''/'' then Some pre else Some (pre @ p)
                   | None \<Rightarrow> Some p)
      | None \<Rightarrow> at_prefix)"

definition json_patch_new_copy_with_prefix :: "json_patch \<Rightarrow> string option \<Rightarrow> json_patch option" where
  "json_patch_new_copy_with_prefix src at_prefix =
     (case patch_value src of
        None \<Rightarrow> None
      | Some v \<Rightarrow> Some \<lparr>patch_op = patch_op src, patch_path = prefixed_path (patch_path src) at_prefix,
                       patch_from = patch_from src, patch_is_null = patch_is_null src,
                       patch_value = Some v\<rparr>)"

fun json_patches_append_list ::
  "json_patch list \<Rightarrow> json_patch list \<Rightarrow> string option \<Rightarrow> json_patch list option" where
  "json_patches_append_list dst [] at_prefix = Some dst"
| "json_patches_append_list dst (p # src) at_prefix = do {
     q \<leftarrow> json_patch_new_copy_with_prefix p at_prefix;
     json_patches_append_list (dst @ [q]) src at_prefix
   }"

definition with_prefix :: "string option \<Rightarrow> json_patch \<Rightarrow> json_patch" where
  "with_prefix at_prefix p = p\<lparr>patch_path := prefixed_path (patch_path p) at_prefix\<rparr>"

lemma json_patches_append_list_eq:
  "json_patches_append_list dst src pre =
     (if \<forall>p\<in>set src. patch_value p \<noteq> None then Some (dst @ map (with_prefix pre) src) else None)"
proof (induction src arbitrary: dst)
  case (Cons p src)
  then show ?case
    by (cases "patch_value p") (auto simp: json_patch_new_copy_with_prefix_def with_prefix_def)
qed simp

lemma json_patch_new_simps [simp]:
  "patch_value (json_patch_new opn p v) = v"
  "patch_path (json_patch_new opn p v) = Some p"
  "patch_op (json_patch_new opn p v) = opn"
  "patch_value (with_prefix pre q) = patch_value q"
  "patch_op (with_prefix pre q) = patch_op q"
  by (simp_all add: json_patch_new_def with_prefix_def)

section \<open>The idioms\<close>

text \<open>Comparison of two optional objects: a whole object is added or removed.\<close>

fun ptr_patch_list ::
  "('a \<Rightarrow> json option) \<Rightarrow> ('a \<Rightarrow> 'a \<Rightarrow> json_patch list option) \<Rightarrow> 'a option \<Rightarrow> 'a option \<Rightarrow>
     json_patch list option" where
  "ptr_patch_list js both None None = Some []"
| "ptr_patch_list js both None (Some b) = Some [json_patch_new Op_add ''/'' (js b)]"
| "ptr_patch_list js both (Some a) None = Some [json_patch_new Op_remove ''/'' None]"
| "ptr_patch_list js both (Some a) (Some b) = both a b"

text \<open>Comparison of an optional scalar member (\<open>PATCH_FIELD\<close> in \<open>civic-address.c\<close>, written
  out in the other files).\<close>

fun member_patch_list :: "string \<Rightarrow> ('a \<Rightarrow> json) \<Rightarrow> 'a option \<Rightarrow> 'a option \<Rightarrow> json_patch list" where
  "member_patch_list path js None None = []"
| "member_patch_list path js None (Some b) = [json_patch_new Op_add path (Some (js b))]"
| "member_patch_list path js (Some a) None = [json_patch_new Op_remove path None]"
| "member_patch_list path js (Some a) (Some b) =
     (if a \<noteq> b then [json_patch_new Op_replace path (Some (js b))] else [])"

definition idx_path :: "nat \<Rightarrow> string" where
  "idx_path idx = ''/'' @ dec_str idx"

text \<open>The loop over the remaining entries of two arrays: \<open>addp\<close> is the path of an addition,
  \<open>"/-"\<close> in some files and the index in others.\<close>

fun array_entries_patch_list ::
  "('a \<Rightarrow> 'a \<Rightarrow> bool) \<Rightarrow> ('a \<Rightarrow> json) \<Rightarrow> (nat \<Rightarrow> string) \<Rightarrow> nat \<Rightarrow> 'a list \<Rightarrow> 'a list \<Rightarrow> json_patch list"
where
  "array_entries_patch_list eq js addp idx [] [] = []"
| "array_entries_patch_list eq js addp idx [] (b # bs) =
     json_patch_new Op_add (addp idx) (Some (js b))
       # array_entries_patch_list eq js addp (idx + 1) [] bs"
| "array_entries_patch_list eq js addp idx (a # as) [] =
     json_patch_new Op_remove (idx_path idx) None
       # array_entries_patch_list eq js addp idx as []"
| "array_entries_patch_list eq js addp idx (a # as) (b # bs) =
     (if eq a b then [] else [json_patch_new Op_replace (idx_path idx) (Some (js b))])
       @ array_entries_patch_list eq js addp (idx + 1) as bs"

text \<open>Skipping the common prefix first.\<close>

fun skip_common :: "('a \<Rightarrow> 'a \<Rightarrow> bool) \<Rightarrow> nat \<Rightarrow> 'a list \<Rightarrow> 'a list \<Rightarrow> nat \<times> 'a list \<times> 'a list" where
  "skip_common eq idx (a # as) (b # bs) =
     (if eq a b then skip_common eq (idx + 1) as bs else (idx, a # as, b # bs))"
| "skip_common eq idx as bs = (idx, as, bs)"

definition array_json :: "('a \<Rightarrow> json) \<Rightarrow> 'a list \<Rightarrow> json" where
  "array_json js xs = JArr (map js xs)"

definition array_patch_list ::
  "('a \<Rightarrow> 'a \<Rightarrow> bool) \<Rightarrow> ('a \<Rightarrow> json) \<Rightarrow> (nat \<Rightarrow> string) \<Rightarrow> 'a list \<Rightarrow> 'a list \<Rightarrow> json_patch list" where
  "array_patch_list eq js addp a b =
     (if a = [] \<and> b = [] then []
      else if a = [] then [json_patch_new Op_add ''/'' (Some (array_json js b))]
      else if b = [] then [json_patch_new Op_remove ''/'' None]
      else (case skip_common eq 0 a b of (idx, as, bs) \<Rightarrow>
              if idx = 0 then [json_patch_new Op_replace ''/'' (Some (array_json js b))]
              else array_entries_patch_list eq js addp idx as bs))"

text \<open>The variant that enters the loop at once.\<close>

definition array_patch_list_plain ::
  "('a \<Rightarrow> 'a \<Rightarrow> bool) \<Rightarrow> ('a \<Rightarrow> json) \<Rightarrow> (nat \<Rightarrow> string) \<Rightarrow> 'a list \<Rightarrow> 'a list \<Rightarrow> json_patch list" where
  "array_patch_list_plain eq js addp a b =
     (if a = [] \<and> b = [] then []
      else if a = [] then [json_patch_new Op_add ''/'' (Some (array_json js b))]
      else if b = [] then [json_patch_new Op_remove ''/'' None]
      else array_entries_patch_list eq js addp 0 a b)"

section \<open>Evaluation of patches\<close>

fun split_slash :: "string \<Rightarrow> string list" where
  "split_slash [] = [[]]"
| "split_slash (c # cs) =
     (if c = CHR ''/'' then [] # split_slash cs
      else case split_slash cs of [] \<Rightarrow> [[c]] | t # ts \<Rightarrow> (c # t) # ts)"

definition path_tokens :: "string \<Rightarrow> string list" where
  "path_tokens p = (if p = ''/'' then [] else split_slash (tl p))"

text \<open>The operation at a place that holds a value or nothing; the result is the new content
  of the place, or \<open>None\<close> when RFC 6902 makes the patch an error.\<close>

definition apply_here :: "patch_op \<Rightarrow> json option \<Rightarrow> json option \<Rightarrow> json option option" where
  "apply_here opn v d =
     (case opn of
        Op_add \<Rightarrow> (case v of Some x \<Rightarrow> Some (Some x) | None \<Rightarrow> None)
      | Op_replace \<Rightarrow> (case (v, d) of (Some x, Some _) \<Rightarrow> Some (Some x) | _ \<Rightarrow> None)
      | Op_remove \<Rightarrow> (if d = None then None else Some None))"

definition insert_at :: "nat \<Rightarrow> 'a \<Rightarrow> 'a list \<Rightarrow> 'a list" where
  "insert_at n x xs = take n xs @ x # drop n xs"

definition delete_at :: "nat \<Rightarrow> 'a list \<Rightarrow> 'a list" where
  "delete_at n xs = take n xs @ drop (n + 1) xs"

definition apply_elem :: "patch_op \<Rightarrow> json option \<Rightarrow> string \<Rightarrow> json list \<Rightarrow> json list option" where
  "apply_elem opn v t xs =
     (case opn of
        Op_add \<Rightarrow> (case v of
            None \<Rightarrow> None
          | Some x \<Rightarrow> if t = ''-'' then Some (xs @ [x])
                     else if digits_val 10 t \<le> length xs then Some (insert_at (digits_val 10 t) x xs)
                     else None)
      | Op_replace \<Rightarrow> (case v of
            None \<Rightarrow> None
          | Some x \<Rightarrow> if t \<noteq> ''-'' \<and> digits_val 10 t < length xs then Some (xs[digits_val 10 t := x])
                     else None)
      | Op_remove \<Rightarrow> if t \<noteq> ''-'' \<and> digits_val 10 t < length xs
                     then Some (delete_at (digits_val 10 t) xs) else None)"

fun apply_at :: "patch_op \<Rightarrow> json option \<Rightarrow> string list \<Rightarrow> json option \<Rightarrow> json option option" where
  "apply_at opn v [] d = apply_here opn v d"
| "apply_at opn v (t # ts) (Some (JObj m)) =
     map_option (\<lambda>c. Some (JObj (m(t := c)))) (apply_at opn v ts (m t))"
| "apply_at opn v [t] (Some (JArr xs)) = map_option (\<lambda>ys. Some (JArr ys)) (apply_elem opn v t xs)"
| "apply_at opn v (t # u # ts) (Some (JArr xs)) =
     (let n = digits_val 10 t in
      if t \<noteq> ''-'' \<and> n < length xs then
        (case apply_at opn v (u # ts) (Some (xs ! n)) of
           Some (Some c) \<Rightarrow> Some (Some (JArr (xs[n := c])))
         | _ \<Rightarrow> None)
      else None)"
| "apply_at opn v (t # ts) d = None"

definition apply_patch :: "json_patch \<Rightarrow> json option \<Rightarrow> json option option" where
  "apply_patch p d =
     (case patch_path p of None \<Rightarrow> None
      | Some path \<Rightarrow> apply_at (patch_op p) (patch_value p) (path_tokens path) d)"

fun apply_patches :: "json_patch list \<Rightarrow> json option \<Rightarrow> json option option" where
  "apply_patches [] d = Some d"
| "apply_patches (p # ps) d = Option.bind (apply_patch p d) (apply_patches ps)"

lemma apply_patches_append:
  "apply_patches (ps @ qs) d = Option.bind (apply_patches ps d) (apply_patches qs)"
  by (induction ps arbitrary: d) (auto split: bind_split)

lemma apply_new_root [simp]:
  "apply_patch (json_patch_new opn ''/'' v) d = apply_here opn v d"
  by (simp add: apply_patch_def path_tokens_def)

lemma split_slash_not_Nil [simp]: "split_slash s \<noteq> []"
  by (cases s) (auto split: list.split)

lemma split_slash_prefix:
  "CHR ''/'' \<notin> set f \<Longrightarrow> split_slash (f @ CHR ''/'' # s) = f # split_slash s"
  by (induction f) auto

lemma split_slash_single: "CHR ''/'' \<notin> set f \<Longrightarrow> split_slash f = [f]"
  by (induction f) auto

lemma path_tokens_single:
  "CHR ''/'' \<notin> set f \<Longrightarrow> f \<noteq> [] \<Longrightarrow> path_tokens (CHR ''/'' # f) = [f]"
  by (simp add: path_tokens_def split_slash_single)

subsection \<open>Prefixing moves a patch list into a member\<close>

definition rooted :: "json_patch \<Rightarrow> bool" where
  "rooted p \<longleftrightarrow> (\<exists>q. patch_path p = Some (CHR ''/'' # q))"

lemma rooted_new [simp]: "rooted (json_patch_new opn (CHR ''/'' # q) v)"
  by (simp add: rooted_def)

lemma path_tokens_prefixed:
  assumes "CHR ''/'' \<notin> set f" "f \<noteq> []"
  shows "path_tokens (if p = ''/'' then CHR ''/'' # f else (CHR ''/'' # f) @ CHR ''/'' # q) =
           f # (if p = ''/'' then [] else split_slash q)"
  using assms by (simp add: path_tokens_def split_slash_single split_slash_prefix)

lemma apply_patch_with_prefix:
  assumes "CHR ''/'' \<notin> set f" "f \<noteq> []" "rooted p"
  shows "apply_patch (with_prefix (Some (CHR ''/'' # f)) p) (Some (JObj m)) =
           map_option (\<lambda>c. Some (JObj (m(f := c)))) (apply_patch p (m f))"
proof -
  obtain q where q: "patch_path p = Some (CHR ''/'' # q)" using assms(3) by (auto simp: rooted_def)
  have "path_tokens (the (prefixed_path (Some (CHR ''/'' # q)) (Some (CHR ''/'' # f)))) =
          f # path_tokens (CHR ''/'' # q)"
    using assms(1,2)
    by (auto simp: prefixed_path_def path_tokens_def split_slash_single split_slash_prefix)
  then show ?thesis
    by (auto simp: apply_patch_def with_prefix_def q prefixed_path_def split: if_splits)
qed

theorem apply_patches_prefix:
  assumes "CHR ''/'' \<notin> set f" "f \<noteq> []" "\<forall>p\<in>set ps. rooted p"
  shows "apply_patches (map (with_prefix (Some (CHR ''/'' # f))) ps) (Some (JObj m)) =
           map_option (\<lambda>c. Some (JObj (m(f := c)))) (apply_patches ps (m f))"
  using assms(3)
proof (induction ps arbitrary: m)
  case (Cons p ps)
  then show ?case
    using assms(1,2)
    by (cases "apply_patch p (m f)") (simp_all add: apply_patch_with_prefix fun_upd_def cong: if_cong)
qed simp

lemma with_prefix_rooted [simp]: "rooted p \<Longrightarrow> rooted (with_prefix (Some (CHR ''/'' # f)) p)"
  by (auto simp: rooted_def with_prefix_def prefixed_path_def)

subsection \<open>What the diffs achieve\<close>

text \<open>The member a list is serialised into: an absent member for the empty list.\<close>

definition array_member :: "('a \<Rightarrow> json) \<Rightarrow> 'a list \<Rightarrow> json option" where
  "array_member js xs = (if xs = [] then None else Some (array_json js xs))"

lemma idx_path_tokens [simp]: "path_tokens (idx_path n) = [dec_str n]"
proof -
  have "CHR ''/'' \<notin> digit_char ` {..<10}" by code_simp
  then have "CHR ''/'' \<notin> set (dec_str n)" using dec_str_chars by blast
  then show ?thesis by (simp add: idx_path_def path_tokens_single)
qed

lemma idx_path_rooted [simp]: "rooted (json_patch_new opn (idx_path n) v)"
  by (simp add: rooted_def idx_path_def)

lemma dec_str_not_minus [simp]: "dec_str n \<noteq> ''-''"
proof -
  have "CHR ''-'' \<notin> digit_char ` {..<10}" by code_simp
  then have "CHR ''-'' \<notin> set (dec_str n)" using dec_str_chars by blast
  then show ?thesis by auto
qed

lemma path_tokens_minus [simp]: "path_tokens ''/-'' = [''-'']"
  by (simp add: path_tokens_def)

lemma apply_remove_idx:
  "n < length xs \<Longrightarrow>
     apply_patch (json_patch_new Op_remove (idx_path n) None) (Some (JArr xs)) =
       Some (Some (JArr (delete_at n xs)))"
  by (simp add: apply_patch_def apply_elem_def)

lemma apply_replace_idx:
  "n < length xs \<Longrightarrow>
     apply_patch (json_patch_new Op_replace (idx_path n) (Some x)) (Some (JArr xs)) =
       Some (Some (JArr (xs[n := x])))"
  by (simp add: apply_patch_def apply_elem_def)

text \<open>A path that appends when the array has the given length.\<close>

definition appends :: "(nat \<Rightarrow> string) \<Rightarrow> bool" where
  "appends addp \<longleftrightarrow> (\<forall>n. addp n = ''/-'' \<or> addp n = idx_path n)"

lemma appends_paths [simp]: "appends (\<lambda>_. ''/-'')" "appends idx_path"
  by (simp_all add: appends_def)

lemma apply_add_append:
  assumes "appends addp"
  shows "apply_patch (json_patch_new Op_add (addp (length xs)) (Some x)) (Some (JArr xs)) =
           Some (Some (JArr (xs @ [x])))"
proof (cases "addp (length xs) = ''/-''")
  case True
  then show ?thesis by (simp add: apply_patch_def apply_elem_def)
next
  case False
  then have "addp (length xs) = idx_path (length xs)" using assms by (auto simp: appends_def)
  then show ?thesis by (simp add: apply_patch_def apply_elem_def insert_at_def)
qed

text \<open>The contract the diff relies on: entries the test takes for equal are serialised alike
  (on the entries that satisfy \<open>ok\<close>).\<close>

locale array_diff =
  fixes eq :: "'a \<Rightarrow> 'a \<Rightarrow> bool" and js :: "'a \<Rightarrow> json" and addp :: "nat \<Rightarrow> string"
    and ok :: "'a \<Rightarrow> bool"
  assumes eq_js: "ok x \<Longrightarrow> ok y \<Longrightarrow> eq x y \<Longrightarrow> js x = js y"
    and addp_appends: "appends addp"
begin

lemma entries_add:
  "length pre = idx \<Longrightarrow>
     apply_patches (array_entries_patch_list eq js addp idx [] bs) (Some (JArr pre)) =
       Some (Some (JArr (pre @ map js bs)))"
proof (induction bs arbitrary: idx pre)
  case (Cons b bs)
  have "apply_patch (json_patch_new Op_add (addp idx) (Some (js b))) (Some (JArr pre)) =
          Some (Some (JArr (pre @ [js b])))"
    using apply_add_append [OF addp_appends, of pre] Cons.prems by simp
  then show ?case using Cons.IH [of "pre @ [js b]" "idx + 1"] Cons.prems by simp
qed simp

lemma entries_remove:
  "length pre = idx \<Longrightarrow>
     apply_patches (array_entries_patch_list eq js addp idx as []) (Some (JArr (pre @ map js as))) =
       Some (Some (JArr pre))"
proof (induction as)
  case (Cons a as)
  have "delete_at idx (pre @ map js (a # as)) = pre @ map js as"
    using Cons.prems by (simp add: delete_at_def)
  then show ?case using Cons by (simp add: apply_remove_idx)
qed simp

lemma entries_correct:
  "(\<forall>x\<in>set as. ok x) \<Longrightarrow> (\<forall>x\<in>set bs. ok x) \<Longrightarrow> length pre = idx \<Longrightarrow>
     apply_patches (array_entries_patch_list eq js addp idx as bs) (Some (JArr (pre @ map js as))) =
       Some (Some (JArr (pre @ map js bs)))"
proof (induction as arbitrary: bs idx pre)
  case Nil
  then show ?case by (simp add: entries_add)
next
  case (Cons a as)
  show ?case
  proof (cases bs)
    case Nil
    then show ?thesis using entries_remove [of pre idx "a # as"] Cons.prems by simp
  next
    case (Cons b bs')
    have IH: "apply_patches (array_entries_patch_list eq js addp (idx + 1) as bs')
                (Some (JArr ((pre @ [js b]) @ map js as))) =
              Some (Some (JArr ((pre @ [js b]) @ map js bs')))"
      using Cons.IH [of bs' "pre @ [js b]" "idx + 1"] Cons.prems Cons by simp
    show ?thesis
    proof (cases "eq a b")
      case True
      then have "js a = js b" using eq_js Cons.prems Cons by simp
      then show ?thesis using IH True Cons by simp
    next
      case False
      have "(pre @ map js (a # as))[idx := js b] = pre @ js b # map js as"
        using Cons.prems by (simp add: list_update_append)
      then show ?thesis using IH False Cons Cons.prems by (simp add: apply_replace_idx)
    qed
  qed
qed

lemma skip_common_correct:
  "skip_common eq n a b = (idx, as, bs) \<Longrightarrow> (\<forall>x\<in>set a. ok x) \<Longrightarrow> (\<forall>x\<in>set b. ok x) \<Longrightarrow>
     \<exists>us vs. a = us @ as \<and> b = vs @ bs \<and> map js us = map js vs \<and> length us + n = idx"
proof (induction a arbitrary: n b)
  case (Cons x xs)
  show ?case
  proof (cases b)
    case (Cons y ys)
    show ?thesis
    proof (cases "eq x y")
      case True
      then obtain us vs where *: "xs = us @ as" "ys = vs @ bs" "map js us = map js vs"
          "length us + (n + 1) = idx"
        using Cons.IH [of "n + 1" ys] Cons.prems Cons by auto
      moreover have "js x = js y" using True eq_js Cons.prems Cons by simp
      ultimately show ?thesis
        using Cons by (intro exI [of _ "x # us"] exI [of _ "y # vs"]) simp
    next
      case False
      then show ?thesis using Cons.prems Cons by simp
    qed
  qed (use Cons.prems in simp)
qed simp

lemma correct:
  assumes ok: "\<forall>x\<in>set a. ok x" "\<forall>x\<in>set b. ok x"
  shows "apply_patches (array_patch_list eq js addp a b) (array_member js a) =
           Some (array_member js b)"
proof (cases "a = [] \<or> b = []")
  case True
  then show ?thesis by (auto simp: array_patch_list_def array_member_def apply_here_def)
next
  case False
  obtain idx as bs where sk: "skip_common eq 0 a b = (idx, as, bs)" by (cases "skip_common eq 0 a b")
  then obtain us vs where *: "a = us @ as" "b = vs @ bs" "map js us = map js vs" "length us = idx"
    using skip_common_correct [OF sk ok] by auto
  have "length vs = idx" using *(3,4) by (metis length_map)
  then have "apply_patches (array_entries_patch_list eq js addp idx as bs) (Some (JArr (map js a))) =
          Some (Some (JArr (map js b)))"
    using entries_correct [of as bs "map js us" idx] * ok by simp
  then show ?thesis
    using False sk by (simp add: array_patch_list_def array_member_def array_json_def apply_here_def)
qed

lemma plain_correct:
  assumes "\<forall>x\<in>set a. ok x" "\<forall>x\<in>set b. ok x"
  shows "apply_patches (array_patch_list_plain eq js addp a b) (array_member js a) =
           Some (array_member js b)"
  using entries_correct [OF assms, of "[]" 0]
  by (auto simp: array_patch_list_plain_def array_member_def array_json_def apply_here_def)

end

subsection \<open>Members of an object\<close>

definition field_name :: "string \<Rightarrow> bool" where
  "field_name f \<longleftrightarrow> f \<noteq> [] \<and> CHR ''/'' \<notin> set f"

lemma member_patch_correct:
  assumes "field_name f" "m f = map_option js a"
  shows "apply_patches (member_patch_list (CHR ''/'' # f) js a b) (Some (JObj m)) =
           Some (Some (JObj (m(f := map_option js b))))"
proof -
  have "path_tokens (CHR ''/'' # f) = [f]"
    using assms(1) by (simp add: field_name_def path_tokens_single)
  then show ?thesis
    using assms(2)
    by (cases a; cases b) (auto simp: apply_patch_def apply_here_def fun_upd_idem)
qed

lemma replace_patch_correct:
  assumes "field_name f" "m f \<noteq> None"
  shows "apply_patch (json_patch_new Op_replace (CHR ''/'' # f) (Some v)) (Some (JObj m)) =
           Some (Some (JObj (m(f := Some v))))"
  using assms by (auto simp: field_name_def apply_patch_def path_tokens_single apply_here_def)

lemma member_patch_rooted:
  "\<forall>p\<in>set (member_patch_list (CHR ''/'' # f) js a b). rooted p"
  by (cases a; cases b) auto

lemma array_entries_rooted:
  "(\<And>n. \<exists>q. addp n = CHR ''/'' # q) \<Longrightarrow>
     \<forall>p\<in>set (array_entries_patch_list eq js addp idx as bs). rooted p"
proof (induction eq js addp idx as bs rule: array_entries_patch_list.induct)
  case (2 eq js addp idx b bs)
  moreover obtain q where "addp idx = CHR ''/'' # q" using "2.prems" [of idx] by blast
  ultimately show ?case by simp
qed auto

lemma appends_slash: "appends addp \<Longrightarrow> \<exists>q. addp n = CHR ''/'' # q"
  by (metis appends_def append_Cons idx_path_def)

lemma entries_member_rooted:
  "p \<in> set (array_entries_patch_list eq js addp idx as bs) \<Longrightarrow> appends addp \<Longrightarrow> rooted p"
  by (rule bspec [OF array_entries_rooted]) (auto intro: appends_slash)

lemma array_patch_rooted:
  "appends addp \<Longrightarrow> \<forall>p\<in>set (array_patch_list eq js addp a b). rooted p"
  by (auto simp: array_patch_list_def dest: entries_member_rooted split: prod.splits if_splits)

lemma array_patch_plain_rooted:
  "appends addp \<Longrightarrow> \<forall>p\<in>set (array_patch_list_plain eq js addp a b). rooted p"
  by (auto simp: array_patch_list_plain_def dest: entries_member_rooted)

subsection \<open>When a diff can be copied under a prefix\<close>

text \<open>A patch list without removals: the only ones the append function survives.\<close>

definition has_values :: "json_patch list \<Rightarrow> bool" where
  "has_values ps \<longleftrightarrow> (\<forall>p\<in>set ps. patch_value p \<noteq> None)"

lemma has_values_simps [simp]:
  "has_values []" "has_values (p # ps) \<longleftrightarrow> patch_value p \<noteq> None \<and> has_values ps"
  "has_values (ps @ qs) \<longleftrightarrow> has_values ps \<and> has_values qs"
  by (auto simp: has_values_def)

lemma json_patches_append_iff:
  "json_patches_append_list dst src pre =
     (if has_values src then Some (dst @ map (with_prefix pre) src) else None)"
  by (simp add: json_patches_append_list_eq has_values_def)

lemma has_values_with_prefix [simp]: "has_values (map (with_prefix pre) ps) = has_values ps"
  by (simp add: has_values_def)

lemma has_values_entries:
  "has_values (array_entries_patch_list eq js addp idx as bs) \<longleftrightarrow> length as \<le> length bs"
  by (induction eq js addp idx as bs rule: array_entries_patch_list.induct) auto

lemma skip_common_lengths:
  "skip_common eq n a b = (idx, as, bs) \<Longrightarrow> length a + length bs = length b + length as"
  by (induction eq n a b rule: skip_common.induct) (auto split: if_splits)

lemma skip_common_idx: "skip_common eq n a b = (idx, as, bs) \<Longrightarrow> n \<le> idx"
  by (induction eq n a b rule: skip_common.induct) (auto split: if_splits)

lemma skip_common_0:
  "skip_common eq 0 (a # as) (b # bs) = (0, xs, ys) \<longleftrightarrow>
     \<not> eq a b \<and> xs = a # as \<and> ys = b # bs"
  by (auto dest: skip_common_idx)

text \<open>A diff of two arrays holds a removal exactly when the array gets shorter without being
  replaced as a whole.\<close>

lemma has_values_array:
  "has_values (array_patch_list eq js addp a b) \<longleftrightarrow>
     (case (a, b) of
        (x # xs, y # ys) \<Rightarrow> eq x y \<longrightarrow> length a \<le> length b
      | (x # xs, []) \<Rightarrow> False
      | _ \<Rightarrow> True)"
proof (cases a)
  case (Cons x xs)
  show ?thesis
  proof (cases b)
    case Nil
    then show ?thesis using Cons by (simp add: array_patch_list_def)
  next
    case (Cons y ys)
    note ab = \<open>a = x # xs\<close> Cons
    obtain idx as bs where sk: "skip_common eq 0 (x # xs) (y # ys) = (idx, as, bs)"
      by (cases "skip_common eq 0 (x # xs) (y # ys)")
    then have len: "length xs + length bs = length ys + length as"
      using skip_common_lengths [OF sk] by simp
    show ?thesis
    proof (cases "eq x y")
      case True
      then have "idx \<noteq> 0" using sk skip_common_idx [of eq 1 xs ys idx as bs] by auto
      then show ?thesis
        using True len ab sk
        by (simp add: array_patch_list_def has_values_entries del: skip_common.simps) arith
    next
      case False
      then show ?thesis using ab by (simp add: array_patch_list_def)
    qed
  qed
qed (simp add: array_patch_list_def)

lemma has_values_member:
  "has_values (member_patch_list p js a b) \<longleftrightarrow> \<not> (a \<noteq> None \<and> b = None)"
  by (cases a; cases b) auto

end
