(* ===== verification/Sc_Utils.thy ===== *)
theory Sc_Utils
  imports Ogs_Api
begin

text \<open>
  \<open>lib/mb-smf-service-consumer/utils.c\<close> (the copy in the BSF library is the same code for the
  cache functions): printing of hexadecimal ids and bit rates, and the expiry time of an
  HTTP response.  \<open>atoi\<close>, \<open>strcasecmp\<close>, \<open>strncasecmp\<close> and \<open>strtok_r\<close> are the functions of the C
  library; an \<open>ogs_time_t\<close> is an \<open>int\<close>.
\<close>

section \<open>Hexadecimal strings\<close>

text \<open>\<open>printf ("%.*llX", min_digits, val)\<close>\<close>

definition to_hex_string :: "64 word \<Rightarrow> nat \<Rightarrow> string" where
  "to_hex_string val min_digits =
     (let d = digits_str 16 (unat val) in replicate (min_digits - length d) (CHR ''0'') @ d)"

definition uint32_to_hex_str :: "32 word \<Rightarrow> nat \<Rightarrow> nat \<Rightarrow> string" where
  "uint32_to_hex_str val min_digits max_digits =
     (let mask = ucast ((push_bit (4 * max_digits) 1 :: 64 word) - 1) :: 32 word
      in to_hex_string (ucast (and val mask)) min_digits)"

definition uint64_to_hex_str :: "64 word \<Rightarrow> nat \<Rightarrow> nat \<Rightarrow> string" where
  "uint64_to_hex_str val min_digits max_digits =
     (let mask = (push_bit (4 * max_digits) 1 :: 64 word) - 1
      in to_hex_string (and val mask) min_digits)"

lemma push_bit_1_minus_1: "(push_bit n 1 :: 'a::len word) - 1 = mask n"
  by (simp add: mask_eq_exp_minus_1 push_bit_eq_mult)

lemma uint64_to_hex_str_mask:
  "uint64_to_hex_str v m d = to_hex_string (take_bit (4 * d) v) m"
  unfolding uint64_to_hex_str_def Let_def push_bit_1_minus_1 take_bit_eq_mask ..

lemma uint32_to_hex_str_mask:
  "4 * d \<le> 32 \<Longrightarrow> uint32_to_hex_str v m d = to_hex_string (ucast (take_bit (4 * d) v)) m"
proof -
  assume d: "4 * d \<le> 32"
  have "(ucast (mask (4 * d) :: 64 word) :: 32 word) = mask (4 * d)"
    using d by (intro bit_word_eqI) (auto simp: bit_simps bit_ucast_iff)
  then show ?thesis
    unfolding uint32_to_hex_str_def Let_def push_bit_1_minus_1 take_bit_eq_mask by simp
qed

lemma digits_val_replicate_0: "digits_val b (replicate k (CHR ''0'') @ s) = digits_val b s"
proof -
  have "char_digit (CHR ''0'') = 0" by code_simp
  then have "foldl (\<lambda>acc c. b * acc + char_digit c) 0 (replicate k (CHR ''0'')) = 0"
    by (induction k) auto
  then show ?thesis by (simp add: digits_val_def)
qed

lemma digits_val_to_hex_string [simp]: "digits_val 16 (to_hex_string v m) = unat v"
  by (simp add: to_hex_string_def Let_def digits_val_replicate_0 digits_val_digits_str)

lemma to_hex_string_length:
  "unat v < 16 ^ d \<Longrightarrow> m \<le> length (to_hex_string v m) \<and> length (to_hex_string v m) \<le> max m d"
  using digits_str_length [of 16 "unat v" d] by (auto simp: to_hex_string_def Let_def max_def)

lemma to_hex_string_chars: "set (to_hex_string v m) \<subseteq> digit_char ` {..<16}"
proof -
  have "CHR ''0'' = digit_char 0" by code_simp
  then have "set (replicate k (CHR ''0'')) \<subseteq> digit_char ` {..<16}" for k by auto
  then show ?thesis
    using digits_str_chars [of 16 "unat v"] by (simp add: to_hex_string_def Let_def)
qed

lemma unat_take_bit_hex: "unat (take_bit (4 * d) v) < 16 ^ d"
proof -
  have "(16::nat) ^ d = 2 ^ (4 * d)" by (simp add: power_mult)
  then show ?thesis by (simp add: unsigned_take_bit_eq)
qed

section \<open>Bit rates\<close>

text \<open>\<open>"%.6f %s"\<close> of the bit rate divided by the largest fitting unit.\<close>

definition bitrate_unit :: "real \<Rightarrow> real \<times> string" where
  "bitrate_unit bitrate =
     (if bitrate \<ge> 1000000000000 then (1000000000000, ''Tbps'')
      else if bitrate \<ge> 1000000000 then (1000000000, ''Gbps'')
      else if bitrate \<ge> 1000000 then (1000000, ''Mbps'')
      else if bitrate \<ge> 1000 then (1000, ''Kbps'')
      else (1, ''bps''))"

definition bitrate_to_str :: "ogs_api \<Rightarrow> 64 word \<Rightarrow> string" where
  "bitrate_to_str api rate =
     (let bitrate = double_of_u64 api rate; (divisor, units) = bitrate_unit bitrate
      in printf_6f_quotient api bitrate divisor @ '' '' @ units)"

lemma bitrate_unit_bounds:
  assumes "0 \<le> r" "bitrate_unit r = (d, u)"
  shows "r / d < 1000 \<or> d = 1000000000000" "1 \<le> r / d \<or> d = 1"
  using assms by (auto simp: bitrate_unit_def field_simps split: if_splits)

section \<open>C strings\<close>

definition to_lower :: "char \<Rightarrow> char" where
  "to_lower c = (let k = of_char c :: nat in if 65 \<le> k \<and> k \<le> 90 then char_of (k + 32) else c)"

definition strcaseeq :: "string \<Rightarrow> string \<Rightarrow> bool" where
  "strcaseeq a b \<longleftrightarrow> map to_lower a = map to_lower b"

definition strncaseeq :: "string \<Rightarrow> string \<Rightarrow> nat \<Rightarrow> bool" where
  "strncaseeq a b n \<longleftrightarrow> map to_lower (take n a) = map to_lower (take n b)"

definition is_space :: "char \<Rightarrow> bool" where
  "is_space c \<longleftrightarrow> (let k = of_char c :: nat in k = 32 \<or> (9 \<le> k \<and> k \<le> 13))"

definition is_digit :: "char \<Rightarrow> bool" where
  "is_digit c \<longleftrightarrow> (let k = of_char c :: nat in 48 \<le> k \<and> k \<le> 57)"

text \<open>\<open>(int) strtol (s, NULL, 10)\<close>, which saturates at the bounds of a 64-bit long.\<close>

definition atoi :: "string \<Rightarrow> int" where
  "atoi s =
     (let t = dropWhile is_space s;
          neg = (t \<noteq> [] \<and> hd t = CHR ''-'');
          u = (if t \<noteq> [] \<and> (hd t = CHR ''-'' \<or> hd t = CHR ''+'') then tl t else t);
          v = int (digits_val 10 (takeWhile is_digit u));
          w = (if neg then max (- (2 ^ 63)) (- v) else min (2 ^ 63 - 1) v)
      in sint (word_of_int w :: 32 word))"

subsection \<open>\<open>strtoul\<close> with base 0\<close>

definition digit_value :: "char \<Rightarrow> nat option" where
  "digit_value c =
     (if is_digit c then Some (of_char c - 48)
      else if of_char (to_lower c) \<ge> (97 :: nat) \<and> of_char (to_lower c) \<le> (122 :: nat)
      then Some (of_char (to_lower c) - 87) else None)"

fun read_digits :: "nat \<Rightarrow> nat \<Rightarrow> string \<Rightarrow> nat \<times> string" where
  "read_digits b n [] = (n, [])"
| "read_digits b n (c # cs) =
     (case digit_value c of
        Some d \<Rightarrow> if d < b then read_digits b (b * n + d) cs else (n, c # cs)
      | None \<Rightarrow> (n, c # cs))"

definition starts_digit :: "nat \<Rightarrow> string \<Rightarrow> bool" where
  "starts_digit b s = (case s of [] \<Rightarrow> False | c # _ \<Rightarrow> (case digit_value c of None \<Rightarrow> False | Some d \<Rightarrow> d < b))"

definition read_magnitude :: "string \<Rightarrow> (nat \<times> string) option" where
  "read_magnitude s =
     (case s of
        z # x # r \<Rightarrow>
          if z = CHR ''0'' \<and> to_lower x = CHR ''x'' \<and> starts_digit 16 r then Some (read_digits 16 0 r)
          else if z = CHR ''0'' then Some (read_digits 8 0 s)
          else if starts_digit 10 s then Some (read_digits 10 0 s) else None
      | _ \<Rightarrow> if starts_digit 10 s then Some (read_digits 10 0 s) else None)"

text \<open>The value and what is left; without a number the whole text is left.  A value that does
  not fit is \<open>ULONG_MAX\<close>, a minus sign negates it.\<close>

definition strtoul :: "string \<Rightarrow> 64 word \<times> string" where
  "strtoul s =
     (let t = dropWhile is_space s;
          (neg, u) = (case t of c # r \<Rightarrow> if c = CHR ''-'' then (True, r)
                                        else if c = CHR ''+'' then (False, r) else (False, t)
                              | [] \<Rightarrow> (False, t))
      in case read_magnitude u of
           None \<Rightarrow> (0, s)
         | Some (n, r) \<Rightarrow>
             (if 2 ^ 64 \<le> n then (- 1, r) else if neg then (- of_nat n, r) else (of_nat n, r)))"

text \<open>\<open>strtok_r\<close> with one delimiter: the maximal delimiter-free pieces that are not empty; the
  second argument is the piece read so far, reversed.\<close>

fun strtok_from :: "char \<Rightarrow> string \<Rightarrow> string \<Rightarrow> string list" where
  "strtok_from d acc [] = (if acc = [] then [] else [rev acc])"
| "strtok_from d acc (c # cs) =
     (if c \<noteq> d then strtok_from d (c # acc) cs
      else if acc = [] then strtok_from d [] cs
      else rev acc # strtok_from d [] cs)"

definition strtok :: "char \<Rightarrow> string \<Rightarrow> string list" where
  "strtok d s = strtok_from d [] s"

text \<open>\<open>SWITCH\<close> (Open5GS) compares the string, \<open>"OGS_SWITCH_NULL"\<close> for a null pointer.\<close>

definition switch_string :: "string option \<Rightarrow> string" where
  "switch_string s = (case s of None \<Rightarrow> ''OGS_SWITCH_NULL'' | Some t \<Rightarrow> t)"

section \<open>Cache expiry\<close>

fun cache_age_loop :: "ogs_api \<Rightarrow> int \<Rightarrow> string list \<Rightarrow> int" where
  "cache_age_loop api ret [] = ret"
| "cache_age_loop api ret (ptr # rest) =
     (let opn = trimwhitespace api ptr in
      if strcaseeq opn ''no-cache'' \<or> strcaseeq opn ''no-store'' then 0
      else if strncaseeq opn ''max-age='' 8 then cache_age_loop api (atoi (drop 8 opn)) rest
      else cache_age_loop api ret rest)"

definition cache_control_to_cache_age :: "ogs_api \<Rightarrow> string \<Rightarrow> int" where
  "cache_control_to_cache_age api cache_control =
     cache_age_loop api 0 (strtok (CHR '','') cache_control)"

record expiry_state =
  base_time :: int
  max_age :: int
  current_age :: int

definition expiry_header :: "ogs_api \<Rightarrow> string \<times> string \<Rightarrow> expiry_state \<Rightarrow> expiry_state" where
  "expiry_header api h st =
     (case h of (key, val) \<Rightarrow>
        if strcaseeq key ''Age'' then st\<lparr>current_age := atoi val\<rparr>
        else if strcaseeq key ''Cache-Control'' then
          st\<lparr>max_age := cache_control_to_cache_age api val\<rparr>
        else if strcaseeq key ''Date'' then st\<lparr>base_time := http_date_time api val\<rparr>
        else st)"

lemma expiry_header_eq:
  "expiry_header api (k, v) st =
     (if strcaseeq k ''Age'' then st\<lparr>current_age := atoi v\<rparr>
      else if strcaseeq k ''Cache-Control'' then st\<lparr>max_age := cache_control_to_cache_age api v\<rparr>
      else if strcaseeq k ''Date'' then st\<lparr>base_time := http_date_time api v\<rparr>
      else st)"
  by (simp add: expiry_header_def)

text \<open>The headers are visited in the order of the hash table; \<open>now\<close> is the value of
  \<open>ogs_time_now\<close>.\<close>

definition response_to_expiry_time :: "ogs_api \<Rightarrow> int \<Rightarrow> (string \<times> string) list \<Rightarrow> int" where
  "response_to_expiry_time api now headers =
     (let st = fold (expiry_header api) headers
                 \<lparr>base_time = now, max_age = 5, current_age = 0\<rparr>;
          age = max_age st - current_age st;
          age = (if age < 0 then 0 else age)
      in base_time st + age)"

subsection \<open>What the loops compute\<close>

definition forbids_caching :: "string \<Rightarrow> bool" where
  "forbids_caching d \<longleftrightarrow> strcaseeq d ''no-cache'' \<or> strcaseeq d ''no-store''"

definition max_age_directives :: "string list \<Rightarrow> string list" where
  "max_age_directives ds = filter (\<lambda>d. strncaseeq d ''max-age='' 8) ds"

lemma strcaseeq_take:
  assumes "strcaseeq d w" shows "strncaseeq d w (length w)"
proof -
  have "length d = length w" using assms unfolding strcaseeq_def by (metis length_map)
  then show ?thesis using assms by (simp add: strcaseeq_def strncaseeq_def)
qed

lemma max_age_not_forbids: "strncaseeq d ''max-age='' 8 \<Longrightarrow> \<not> forbids_caching d"
proof
  assume *: "strncaseeq d ''max-age='' 8" "forbids_caching d"
  have "strncaseeq d ''no-cache'' 8 \<or> strncaseeq d ''no-store'' 8"
    using *(2) strcaseeq_take [of d "''no-cache''"] strcaseeq_take [of d "''no-store''"]
    by (auto simp: forbids_caching_def eval_nat_numeral)
  moreover have "\<not> strncaseeq ''max-age='' ''no-cache'' 8" "\<not> strncaseeq ''max-age='' ''no-store'' 8"
    by code_simp+
  ultimately show False using *(1) by (auto simp: strncaseeq_def)
qed

lemma cache_age_loop_spec:
  "cache_age_loop api ret ps =
     (let ds = map (trimwhitespace api) ps in
      if \<exists>d\<in>set ds. forbids_caching d then 0
      else case rev (max_age_directives ds) of [] \<Rightarrow> ret | d # _ \<Rightarrow> atoi (drop 8 d))"
proof (induction ps arbitrary: ret)
  case (Cons p ps)
  show ?case
    by (auto simp: Let_def Cons.IH forbids_caching_def max_age_directives_def
        split: list.split)
qed (simp add: max_age_directives_def)

text \<open>The last header of a name, names compared without regard to case.\<close>

definition header_value :: "(string \<times> string) list \<Rightarrow> string \<Rightarrow> string option" where
  "header_value hs name =
     map_of (rev (map (\<lambda>(k, v). (map to_lower k, v)) hs)) (map to_lower name)"

definition expiry_of :: "ogs_api \<Rightarrow> int \<Rightarrow> (string \<Rightarrow> string option) \<Rightarrow> int" where
  "expiry_of api now hv =
     (let base = (case hv ''Date'' of None \<Rightarrow> now | Some d \<Rightarrow> http_date_time api d);
          ma = (case hv ''Cache-Control'' of None \<Rightarrow> 5
                | Some c \<Rightarrow> cache_control_to_cache_age api c);
          age = (case hv ''Age'' of None \<Rightarrow> 0 | Some a \<Rightarrow> atoi a)
      in base + max 0 (ma - age))"

lemma header_names_differ:
  "map to_lower ''Age'' \<noteq> map to_lower ''Cache-Control''"
  "map to_lower ''Age'' \<noteq> map to_lower ''Date''"
  "map to_lower ''Cache-Control'' \<noteq> map to_lower ''Date''"
  by code_simp+

lemma header_value_snoc:
  "header_value (hs @ [(k, v)]) n = (if strcaseeq k n then Some v else header_value hs n)"
  by (auto simp: header_value_def strcaseeq_def)

lemma expiry_fold:
  "fold (expiry_header api) hs \<lparr>base_time = now, max_age = 5, current_age = 0\<rparr> =
     \<lparr>base_time = (case header_value hs ''Date'' of None \<Rightarrow> now | Some d \<Rightarrow> http_date_time api d),
      max_age = (case header_value hs ''Cache-Control'' of None \<Rightarrow> 5
                 | Some c \<Rightarrow> cache_control_to_cache_age api c),
      current_age = (case header_value hs ''Age'' of None \<Rightarrow> 0 | Some a \<Rightarrow> atoi a)\<rparr>"
proof (induction hs rule: rev_induct)
  case Nil
  show ?case by (simp add: header_value_def)
next
  case (snoc h hs)
  obtain k v where h: "h = (k, v)" by (cases h)
  have one: "\<not> (strcaseeq k ''Age'' \<and> strcaseeq k ''Cache-Control'')"
    "\<not> (strcaseeq k ''Age'' \<and> strcaseeq k ''Date'')"
    "\<not> (strcaseeq k ''Cache-Control'' \<and> strcaseeq k ''Date'')"
    using header_names_differ unfolding strcaseeq_def by metis+
  then show ?case
    by (simp add: h snoc.IH expiry_header_eq header_value_snoc)
qed

lemma response_to_expiry_time_eq:
  "response_to_expiry_time api now hs = expiry_of api now (header_value hs)"
  by (simp add: response_to_expiry_time_def expiry_fold expiry_of_def Let_def max_def)

lemma header_value_perm:
  assumes "mset hs = mset hs'" "distinct (map (\<lambda>(k, v). map to_lower k) hs)"
  shows "header_value hs = header_value hs'"
proof -
  let ?low = "map (\<lambda>(k, v). (map to_lower k, v))"
  have fst: "map fst (rev (?low xs)) = rev (map (\<lambda>(k, v). map to_lower k) xs)" for xs :: "(string \<times> string) list"
    by (simp add: rev_map comp_def case_prod_unfold)
  have "distinct (map (\<lambda>(k, v). map to_lower k) hs')"
    using assms by (metis mset_eq_imp_distinct_iff mset_map)
  moreover have "set (rev (?low hs)) = set (rev (?low hs'))"
    using assms(1) by (metis mset_map set_mset_mset set_rev)
  ultimately have "map_of (rev (?low hs)) = map_of (rev (?low hs'))"
    using assms(2) by (subst map_of_inject_set) (simp_all only: fst distinct_rev)
  then show ?thesis unfolding header_value_def by metis
qed

end
