(* ===== verification/Tai.thy ===== *)
theory Tai
  imports Json_Patch Sc_Utils
begin

text \<open>
  \<open>tai.c\<close>: a tracking area identity, its setters, copy, comparison, the patch list between
  two of them and between two arrays of them.  The TAC is a 24-bit field, the optional
  network id a 64-bit word of which the setter keeps 44 bits.
\<close>

record tai =
  tai_plmn :: plmn
  tai_tac :: "24 word"
  tai_nid :: "64 word option"

definition tai_create :: tai where
  "tai_create = \<lparr>tai_plmn = 0, tai_tac = 0, tai_nid = None\<rparr>"

definition tai_clear :: "tai \<Rightarrow> tai" where
  "tai_clear t = t\<lparr>tai_plmn := 0, tai_tac := 0, tai_nid := None\<rparr>"

definition tai_set_plmn_id :: "tai option \<Rightarrow> plmn option \<Rightarrow> tai option" where
  "tai_set_plmn_id t p =
     (case (t, p) of (Some t, Some p) \<Rightarrow> Some (t\<lparr>tai_plmn := p\<rparr>) | _ \<Rightarrow> t)"

definition tai_set_tac :: "tai option \<Rightarrow> 32 word \<Rightarrow> tai option" where
  "tai_set_tac t tac =
     (case t of None \<Rightarrow> None | Some t \<Rightarrow> Some (t\<lparr>tai_tac := ucast (and tac 0xFFFFFF)\<rparr>))"

definition tai_set_network_id :: "tai option \<Rightarrow> 64 word option \<Rightarrow> tai option" where
  "tai_set_network_id t nid =
     (case t of
        None \<Rightarrow> None
      | Some t \<Rightarrow> (case nid of
                     Some n \<Rightarrow> Some (t\<lparr>tai_nid := Some (and n 0xFFFFFFFFFFF)\<rparr>)
                   | None \<Rightarrow> Some (t\<lparr>tai_nid := None\<rparr>)))"

definition tai_new :: "plmn \<Rightarrow> 32 word \<Rightarrow> 64 word option \<Rightarrow> tai option" where
  "tai_new p tac nid =
     tai_set_network_id (tai_set_tac (tai_set_plmn_id (Some tai_create) (Some p)) tac) nid"

definition mb_smf_sc_tai_new ::
  "ogs_api \<Rightarrow> 16 word \<Rightarrow> 16 word \<Rightarrow> 32 word \<Rightarrow> 64 word option \<Rightarrow> tai option" where
  "mb_smf_sc_tai_new api mcc mnc tac nid =
     tai_new (plmn_build api mcc mnc (if mnc > 99 then 3 else 2)) tac nid"

definition mb_smf_sc_tai_set_plmn :: "ogs_api \<Rightarrow> tai option \<Rightarrow> 16 word \<Rightarrow> 16 word \<Rightarrow> tai option" where
  "mb_smf_sc_tai_set_plmn api t mcc mnc =
     tai_set_plmn_id t (Some (plmn_build api mcc mnc (if mnc > 99 then 3 else 2)))"

definition tai_copy :: "tai option \<Rightarrow> tai option \<Rightarrow> tai option" where
  "tai_copy dst src =
     (case src of
        None \<Rightarrow> None
      | Some s \<Rightarrow>
          (let d = (case dst of None \<Rightarrow> tai_create | Some d \<Rightarrow> tai_clear d);
               d = d\<lparr>tai_plmn := tai_plmn s\<rparr>;
               d = d\<lparr>tai_tac := tai_tac s\<rparr>
           in Some (case tai_nid s of Some n \<Rightarrow> d\<lparr>tai_nid := Some n\<rparr> | None \<Rightarrow> d)))"

definition tai_equal :: "ogs_api \<Rightarrow> tai \<Rightarrow> tai \<Rightarrow> bool" where
  "tai_equal api a b =
     (if tai_tac a \<noteq> tai_tac b then False
      else if (tai_nid a = None) \<noteq> (tai_nid b = None) then False
      else if tai_nid a \<noteq> None \<and> the (tai_nid a) \<noteq> the (tai_nid b) then False
      else if plmn_mcc api (tai_plmn a) \<noteq> plmn_mcc api (tai_plmn b) then False
      else if plmn_mnc api (tai_plmn a) \<noteq> plmn_mnc api (tai_plmn b) then False
      else True)"

definition nid_string :: "64 word \<Rightarrow> string" where
  "nid_string n = uint64_to_hex_str n 11 11"

definition tac_string :: "24 word \<Rightarrow> string" where
  "tac_string t = uint32_to_hex_str (ucast t) 4 6"

definition tai_to_openapi :: "ogs_api \<Rightarrow> tai \<Rightarrow> api_tai" where
  "tai_to_openapi api t =
     Api_tai (sbi_build_plmn_id api (tai_plmn t)) (tac_string (tai_tac t))
       (map_option nid_string (tai_nid t))"

definition tai_to_json :: "ogs_api \<Rightarrow> tai \<Rightarrow> json" where
  "tai_to_json api t = conv_tai api (tai_to_openapi api t)"

definition tais_to_openapi :: "ogs_api \<Rightarrow> tai list \<Rightarrow> api_tai list" where
  "tais_to_openapi api ts = map (tai_to_openapi api) ts"

definition tais_to_json :: "ogs_api \<Rightarrow> tai list \<Rightarrow> json" where
  "tais_to_json api ts = array_json (tai_to_json api) ts"

definition tais_patch_list :: "ogs_api \<Rightarrow> tai list \<Rightarrow> tai list \<Rightarrow> json_patch list" where
  "tais_patch_list api a b = array_patch_list (tai_equal api) (tai_to_json api) (\<lambda>_. ''/-'') a b"

definition tai_both_patch_list :: "ogs_api \<Rightarrow> tai \<Rightarrow> tai \<Rightarrow> json_patch list" where
  "tai_both_patch_list api a b =
     (if tai_plmn a \<noteq> tai_plmn b then
        [json_patch_new Op_replace ''/plmnId''
           (Some (conv_plmn_id api (sbi_build_plmn_id api (tai_plmn b))))] else [])
     @ (if tai_tac a \<noteq> tai_tac b then
          [json_patch_new Op_replace ''/tac'' (Some (JStr (tac_string (tai_tac b))))] else [])
     @ member_patch_list ''/nid'' (\<lambda>n. JStr (nid_string n)) (tai_nid a) (tai_nid b)"

definition tai_patch_list :: "ogs_api \<Rightarrow> tai option \<Rightarrow> tai option \<Rightarrow> json_patch list option" where
  "tai_patch_list api a b =
     ptr_patch_list (\<lambda>t. Some (tai_to_json api t)) (\<lambda>a b. Some (tai_both_patch_list api a b)) a b"

section \<open>Well-formed identities\<close>

definition tai_wf :: "ogs_api \<Rightarrow> tai \<Rightarrow> bool" where
  "tai_wf api t \<longleftrightarrow>
     plmn_canonical api (tai_plmn t) \<and> (\<forall>n. tai_nid t = Some n \<longrightarrow> n < 2 ^ 44)"

lemma and_mask_44_less: "and n 0xFFFFFFFFFFF < (17592186044416 :: 64 word)"
proof -
  have "and n 0xFFFFFFFFFFF \<le> (0xFFFFFFFFFFF :: 64 word)" by (rule word_and_le1)
  also have "(0xFFFFFFFFFFF :: 64 word) < 17592186044416" by simp
  finally show ?thesis .
qed

lemma tai_set_tac_wf: "tai_set_tac (Some t) tac = Some u \<Longrightarrow> tai_wf api t \<Longrightarrow> tai_wf api u"
  by (auto simp: tai_set_tac_def tai_wf_def)

lemma tai_set_network_id_wf:
  "tai_set_network_id (Some t) nid = Some u \<Longrightarrow> tai_wf api t \<Longrightarrow> tai_wf api u"
  by (auto simp: tai_set_network_id_def tai_wf_def and_mask_44_less split: option.splits)

lemma tai_set_plmn_wf:
  "mb_smf_sc_tai_set_plmn api (Some t) mcc mnc = Some u \<Longrightarrow> tai_wf api t \<Longrightarrow> plmn_laws api \<Longrightarrow>
     mcc \<le> 999 \<Longrightarrow> mnc \<le> 999 \<Longrightarrow> tai_wf api u"
  using plmn_build_canonical [of api mcc mnc]
  by (auto simp: mb_smf_sc_tai_set_plmn_def tai_set_plmn_id_def tai_wf_def)

lemma tai_new_fields:
  "mb_smf_sc_tai_new api mcc mnc tac nid =
     Some \<lparr>tai_plmn = plmn_build api mcc mnc (if mnc > 99 then 3 else 2),
           tai_tac = ucast (and tac 0xFFFFFF),
           tai_nid = map_option (\<lambda>n. and n 0xFFFFFFFFFFF) nid\<rparr>"
  by (simp add: mb_smf_sc_tai_new_def tai_new_def tai_set_network_id_def tai_set_tac_def
      tai_set_plmn_id_def tai_create_def split: option.split)

lemma tai_new_wf:
  "plmn_laws api \<Longrightarrow> mcc \<le> 999 \<Longrightarrow> mnc \<le> 999 \<Longrightarrow>
     mb_smf_sc_tai_new api mcc mnc tac nid = Some u \<Longrightarrow> tai_wf api u"
  using plmn_build_canonical [of api mcc mnc]
  by (auto simp: tai_new_fields tai_wf_def and_mask_44_less)

section \<open>Copy and comparison\<close>

lemma tai_copy_eq [simp, copy_simps]: "tai_copy dst src = src"
  by (auto simp: tai_copy_def tai_create_def tai_clear_def Let_def split: option.split)

definition tai_key :: "ogs_api \<Rightarrow> tai \<Rightarrow> 24 word \<times> 64 word option \<times> 16 word \<times> 16 word" where
  "tai_key api t =
     (tai_tac t, tai_nid t, plmn_mcc api (tai_plmn t), plmn_mnc api (tai_plmn t))"

lemma tai_equal_key [eq_simps]: "tai_equal api a b \<longleftrightarrow> tai_key api a = tai_key api b"
  by (auto simp: tai_equal_def tai_key_def)

interpretation tai_match: key_match "tai_equal api" "tai_key api" for api
  by unfold_locales (simp add: eq_simps)

lemma tai_equal_wf:
  "tai_wf api a \<Longrightarrow> tai_wf api b \<Longrightarrow> tai_equal api a b \<longleftrightarrow> a = b"
  by (cases a; cases b)
     (auto simp: eq_simps tai_key_def tai_wf_def dest: plmn_canonical_inject)

interpretation tai_array: array_diff "tai_equal api" "tai_to_json api" "\<lambda>_. ''/-''" "tai_wf api" for api
  by unfold_locales (auto simp: tai_equal_wf)

section \<open>The patch list between two identities\<close>

text \<open>What the generated conversion is documented to produce: an object with the members of
  the 3GPP data type \<open>Tai\<close>.\<close>

definition conv_tai_law :: "ogs_api \<Rightarrow> bool" where
  "conv_tai_law api \<longleftrightarrow>
     (\<forall>p t n. conv_tai api (Api_tai p t n) =
        JObj ((\<lambda>_. None)(''plmnId'' := Some (conv_plmn_id api p), ''tac'' := Some (JStr t),
                         ''nid'' := map_option JStr n)))"

lemma field_names [simp]: "field_name ''plmnId''" "field_name ''tac''" "field_name ''nid''"
  by (auto simp: field_name_def)

lemma tai_both_correct:
  assumes "conv_tai_law api"
  shows "apply_patches (tai_both_patch_list api a b) (Some (tai_to_json api a)) =
           Some (Some (tai_to_json api b))"
proof -
  have js: "tai_to_json api t =
      JObj ((\<lambda>_. None)(''plmnId'' := Some (conv_plmn_id api (sbi_build_plmn_id api (tai_plmn t))),
        ''tac'' := Some (JStr (tac_string (tai_tac t))),
        ''nid'' := map_option (\<lambda>n. JStr (nid_string n)) (tai_nid t)))" for t
    using assms
    by (simp add: conv_tai_law_def tai_to_json_def tai_to_openapi_def option.map_comp comp_def)
  let ?m = "(\<lambda>_. None)(''plmnId'' := Some (conv_plmn_id api (sbi_build_plmn_id api (tai_plmn b))),
        ''tac'' := Some (JStr (tac_string (tai_tac b))),
        ''nid'' := map_option (\<lambda>n. JStr (nid_string n)) (tai_nid a))"
  have "apply_patches (member_patch_list ''/nid'' (\<lambda>n. JStr (nid_string n)) (tai_nid a) (tai_nid b))
          (Some (JObj ?m)) = Some (Some (tai_to_json api b))"
    by (subst member_patch_correct) (simp_all add: js)
  then show ?thesis
    by (auto simp: tai_both_patch_list_def apply_patches_append js replace_patch_correct fun_upd_twist)
qed

end
