(* ===== verification/Ncgi.thy ===== *)
theory Ncgi
  imports Tai
begin

text \<open>
  \<open>ncgi.c\<close> and \<open>ncgi-tai.c\<close>: a cell identity (PLMN id, 36-bit cell id, optional network id)
  and a tracking area with a list of cells.  Copying a cell is a \<open>memcpy\<close> that shares the
  network id; nothing ever writes through or frees that pointer, so it is copied by value
  here.  Copying and comparing a tracking area with cells leaves the cell list out, as the
  code does.
\<close>

section \<open>Cells\<close>

record ncgi =
  ncgi_plmn :: plmn
  ncgi_cell :: "36 word"
  ncgi_nid :: "64 word option"

definition ncgi_new :: ncgi where
  "ncgi_new = \<lparr>ncgi_plmn = 0, ncgi_cell = 0, ncgi_nid = None\<rparr>"

definition mb_smf_sc_ncgi_new_values ::
  "ogs_api \<Rightarrow> 16 word \<Rightarrow> 16 word \<Rightarrow> 64 word \<Rightarrow> 64 word option \<Rightarrow> ncgi" where
  "mb_smf_sc_ncgi_new_values api mcc mnc nr_cell_id network_id =
     (let r = ncgi_new\<lparr>ncgi_plmn := plmn_build api mcc mnc (if mnc < 100 then 2 else 3)\<rparr>;
          r = r\<lparr>ncgi_cell := ucast nr_cell_id\<rparr>
      in case network_id of Some n \<Rightarrow> r\<lparr>ncgi_nid := Some n\<rparr> | None \<Rightarrow> r)"

definition mb_smf_sc_ncgi_set_plmn_id :: "ogs_api \<Rightarrow> ncgi option \<Rightarrow> 16 word \<Rightarrow> 16 word \<Rightarrow> ncgi option" where
  "mb_smf_sc_ncgi_set_plmn_id api n mcc mnc =
     (case n of None \<Rightarrow> None
      | Some n \<Rightarrow> Some (n\<lparr>ncgi_plmn := plmn_build api mcc mnc (if mnc < 100 then 2 else 3)\<rparr>))"

definition ncgi_clear :: "ncgi \<Rightarrow> ncgi" where
  "ncgi_clear n = n\<lparr>ncgi_plmn := 0, ncgi_cell := 0, ncgi_nid := None\<rparr>"

definition ncgi_copy :: "ncgi option \<Rightarrow> ncgi option \<Rightarrow> ncgi option" where
  "ncgi_copy dst src =
     (case src of
        None \<Rightarrow> None
      | Some s \<Rightarrow>
          (let d = (case dst of None \<Rightarrow> ncgi_new | Some d \<Rightarrow> ncgi_clear d)
           in Some (d\<lparr>ncgi_plmn := ncgi_plmn s, ncgi_cell := ncgi_cell s, ncgi_nid := ncgi_nid s\<rparr>)))"

definition ncgi_equal :: "ncgi \<Rightarrow> ncgi \<Rightarrow> bool" where
  "ncgi_equal a b =
     (if ncgi_cell a \<noteq> ncgi_cell b then False
      else if ncgi_plmn a \<noteq> ncgi_plmn b then False
      else if (ncgi_nid a = None) \<noteq> (ncgi_nid b = None) then False
      else if ncgi_nid a \<noteq> None \<and> the (ncgi_nid a) \<noteq> the (ncgi_nid b) then False
      else True)"

definition cell_string :: "36 word \<Rightarrow> string" where
  "cell_string c = uint64_to_hex_str (ucast c) 9 9"

definition ncgi_to_openapi :: "ogs_api \<Rightarrow> ncgi \<Rightarrow> api_ncgi" where
  "ncgi_to_openapi api n =
     Api_ncgi (sbi_build_plmn_id api (ncgi_plmn n)) (cell_string (ncgi_cell n))
       (map_option nid_string (ncgi_nid n))"

definition ncgi_to_json :: "ogs_api \<Rightarrow> ncgi \<Rightarrow> json" where
  "ncgi_to_json api n = conv_ncgi api (ncgi_to_openapi api n)"

definition ncgis_to_openapi :: "ogs_api \<Rightarrow> ncgi list \<Rightarrow> api_ncgi list" where
  "ncgis_to_openapi api ns = map (ncgi_to_openapi api) ns"

definition ncgis_patch_list :: "ogs_api \<Rightarrow> ncgi list \<Rightarrow> ncgi list \<Rightarrow> json_patch list" where
  "ncgis_patch_list api a b = array_patch_list ncgi_equal (ncgi_to_json api) idx_path a b"

definition ncgi_both_patch_list :: "ogs_api \<Rightarrow> ncgi \<Rightarrow> ncgi \<Rightarrow> json_patch list" where
  "ncgi_both_patch_list api a b =
     (if ncgi_plmn a \<noteq> ncgi_plmn b then
        [json_patch_new Op_replace ''/plmnId''
           (Some (conv_plmn_id api (sbi_build_plmn_id api (ncgi_plmn b))))] else [])
     @ (if ncgi_cell a \<noteq> ncgi_cell b then
          [json_patch_new Op_replace ''/nrCellId'' (Some (JStr (cell_string (ncgi_cell b))))] else [])
     @ member_patch_list ''/nid'' (\<lambda>n. JStr (nid_string n)) (ncgi_nid a) (ncgi_nid b)"

definition ncgi_patch_list :: "ogs_api \<Rightarrow> ncgi option \<Rightarrow> ncgi option \<Rightarrow> json_patch list option" where
  "ncgi_patch_list api a b =
     ptr_patch_list (\<lambda>n. Some (ncgi_to_json api n)) (\<lambda>a b. Some (ncgi_both_patch_list api a b)) a b"

lemma ncgi_copy_eq [simp, copy_simps]: "ncgi_copy dst src = src"
  by (auto simp: ncgi_copy_def Let_def split: option.split)

lemma ncgi_equal_eq [eq_simps]: "ncgi_equal a b \<longleftrightarrow> a = b"
  by (cases a; cases b) (auto simp: ncgi_equal_def)

interpretation ncgi_match: key_match ncgi_equal "\<lambda>n. n"
  by unfold_locales (simp add: eq_simps)

interpretation ncgi_array: array_diff ncgi_equal "ncgi_to_json api" idx_path "\<lambda>_. True" for api
  by unfold_locales (auto simp: eq_simps)

definition conv_ncgi_law :: "ogs_api \<Rightarrow> bool" where
  "conv_ncgi_law api \<longleftrightarrow>
     (\<forall>p c n. conv_ncgi api (Api_ncgi p c n) =
        JObj ((\<lambda>_. None)(''plmnId'' := Some (conv_plmn_id api p), ''nrCellId'' := Some (JStr c),
                         ''nid'' := map_option JStr n)))"

lemma ncgi_both_correct:
  assumes "conv_ncgi_law api"
  shows "apply_patches (ncgi_both_patch_list api a b) (Some (ncgi_to_json api a)) =
           Some (Some (ncgi_to_json api b))"
proof -
  have js: "ncgi_to_json api n =
      JObj ((\<lambda>_. None)(''plmnId'' := Some (conv_plmn_id api (sbi_build_plmn_id api (ncgi_plmn n))),
        ''nrCellId'' := Some (JStr (cell_string (ncgi_cell n))),
        ''nid'' := map_option (\<lambda>n. JStr (nid_string n)) (ncgi_nid n)))" for n
    using assms
    by (simp add: conv_ncgi_law_def ncgi_to_json_def ncgi_to_openapi_def option.map_comp comp_def)
  let ?m = "(\<lambda>_. None)(''plmnId'' := Some (conv_plmn_id api (sbi_build_plmn_id api (ncgi_plmn b))),
        ''nrCellId'' := Some (JStr (cell_string (ncgi_cell b))),
        ''nid'' := map_option (\<lambda>n. JStr (nid_string n)) (ncgi_nid a))"
  have fn: "field_name ''nrCellId''" by (simp add: field_name_def)
  have "apply_patches (member_patch_list ''/nid'' (\<lambda>n. JStr (nid_string n)) (ncgi_nid a) (ncgi_nid b))
          (Some (JObj ?m)) = Some (Some (ncgi_to_json api b))"
    by (subst member_patch_correct) (simp_all add: js)
  then show ?thesis
    by (auto simp: ncgi_both_patch_list_def apply_patches_append js replace_patch_correct fn fun_upd_twist)
qed

section \<open>Tracking areas with cells\<close>

record ncgi_tai =
  nt_tai :: tai
  nt_ncgis :: "ncgi list"

definition ncgi_tai_new :: ncgi_tai where
  "ncgi_tai_new = \<lparr>nt_tai = tai_create, nt_ncgis = []\<rparr>"

definition ncgi_tai_clear :: "ncgi_tai \<Rightarrow> ncgi_tai" where
  "ncgi_tai_clear t = t\<lparr>nt_tai := tai_clear (nt_tai t)\<rparr>"

definition ncgi_tai_copy :: "ncgi_tai option \<Rightarrow> ncgi_tai option \<Rightarrow> ncgi_tai option" where
  "ncgi_tai_copy dst src =
     (case src of
        None \<Rightarrow> None
      | Some s \<Rightarrow>
          (let d = (case dst of None \<Rightarrow> ncgi_tai_new | Some d \<Rightarrow> ncgi_tai_clear d)
           in Some (d\<lparr>nt_tai := the (tai_copy (Some (nt_tai d)) (Some (nt_tai s)))\<rparr>)))"

definition mb_smf_sc_ncgi_tai_new_values :: "tai option \<Rightarrow> ncgi option \<Rightarrow> ncgi_tai" where
  "mb_smf_sc_ncgi_tai_new_values t n =
     (let r = ncgi_tai_new;
          r = (case t of None \<Rightarrow> r
               | Some t \<Rightarrow> r\<lparr>nt_tai := the (tai_copy (Some (nt_tai r)) (Some t))\<rparr>)
      in case n of None \<Rightarrow> r
         | Some n \<Rightarrow> r\<lparr>nt_ncgis := nt_ncgis r @ [the (ncgi_copy None (Some n))]\<rparr>)"

definition ncgi_tai_equal :: "ogs_api \<Rightarrow> ncgi_tai \<Rightarrow> ncgi_tai \<Rightarrow> bool" where
  "ncgi_tai_equal api a b = (if \<not> tai_equal api (nt_tai a) (nt_tai b) then False else True)"

definition ncgi_tai_to_openapi :: "ogs_api \<Rightarrow> ncgi_tai \<Rightarrow> api_ncgi_tai" where
  "ncgi_tai_to_openapi api t =
     Api_ncgi_tai (tai_to_openapi api (nt_tai t)) (ncgis_to_openapi api (nt_ncgis t))"

definition ncgi_tai_to_json :: "ogs_api \<Rightarrow> ncgi_tai \<Rightarrow> json" where
  "ncgi_tai_to_json api t = conv_ncgi_tai api (ncgi_tai_to_openapi api t)"

definition ncgi_tais_to_json :: "ogs_api \<Rightarrow> ncgi_tai list \<Rightarrow> json" where
  "ncgi_tais_to_json api ts = array_json (ncgi_tai_to_json api) ts"

definition ncgi_tais_patch_list :: "ogs_api \<Rightarrow> ncgi_tai list \<Rightarrow> ncgi_tai list \<Rightarrow> json_patch list" where
  "ncgi_tais_patch_list api a b =
     array_patch_list (ncgi_tai_equal api) (ncgi_tai_to_json api) idx_path a b"

definition ncgi_tai_patch_list ::
  "ogs_api \<Rightarrow> ncgi_tai option \<Rightarrow> ncgi_tai option \<Rightarrow> json_patch list option" where
  "ncgi_tai_patch_list api =
     ptr_patch_list (\<lambda>t. Some (ncgi_tai_to_json api t))
       (\<lambda>a b. do {
          tps \<leftarrow> tai_patch_list api (Some (nt_tai a)) (Some (nt_tai b));
          ps \<leftarrow> json_patches_append_list [] tps (Some ''/tai'');
          json_patches_append_list ps (ncgis_patch_list api (nt_ncgis a) (nt_ncgis b))
            (Some ''/cellList'')
        })"

definition drop_cells :: "ncgi_tai \<Rightarrow> ncgi_tai" where
  "drop_cells t = t\<lparr>nt_ncgis := []\<rparr>"

lemma ncgi_tai_copy_new [simp, copy_simps]:
  "ncgi_tai_copy None (Some s) = Some (drop_cells s)"
  by (cases s) (simp add: ncgi_tai_copy_def ncgi_tai_new_def drop_cells_def)

lemma ncgi_tai_copy_into:
  "ncgi_tai_copy (Some d) (Some s) = Some \<lparr>nt_tai = nt_tai s, nt_ncgis = nt_ncgis d\<rparr>"
  by (cases d) (simp add: ncgi_tai_copy_def ncgi_tai_clear_def)

lemma ncgi_tai_equal_key [eq_simps]:
  "ncgi_tai_equal api a b \<longleftrightarrow> tai_key api (nt_tai a) = tai_key api (nt_tai b)"
  by (simp add: ncgi_tai_equal_def eq_simps)

interpretation ncgi_tai_match: key_match "ncgi_tai_equal api" "\<lambda>t. tai_key api (nt_tai t)" for api
  by unfold_locales (simp add: eq_simps)

text \<open>Without cells (the state of every copy) the comparison is exact.\<close>

definition ncgi_tai_wf :: "ogs_api \<Rightarrow> ncgi_tai \<Rightarrow> bool" where
  "ncgi_tai_wf api t \<longleftrightarrow> tai_wf api (nt_tai t) \<and> nt_ncgis t = []"

lemma ncgi_tai_equal_wf:
  "ncgi_tai_wf api a \<Longrightarrow> ncgi_tai_wf api b \<Longrightarrow> ncgi_tai_equal api a b \<longleftrightarrow> a = b"
  using tai_equal_wf [of api "nt_tai a" "nt_tai b"]
  by (cases a; cases b) (auto simp: ncgi_tai_wf_def ncgi_tai_equal_def)

interpretation ncgi_tai_array:
  array_diff "ncgi_tai_equal api" "ncgi_tai_to_json api" idx_path "ncgi_tai_wf api" for api
  by unfold_locales (auto simp: ncgi_tai_equal_wf)

end
