(* ===== verification/Service_Area.thy ===== *)
theory Service_Area
  imports Ncgi
begin

text \<open>
  \<open>mbs-service-area.c\<close>: two lists of tracking areas, compared without regard to order by
  unlinking matches from a copy.
\<close>

record service_area =
  sa_ncgi_tais :: "ncgi_tai list"
  sa_tais :: "tai list"

definition mbs_service_area_new :: service_area where
  "mbs_service_area_new = \<lparr>sa_ncgi_tais = [], sa_tais = []\<rparr>"

definition mb_smf_sc_mbs_service_area_new_ncgi_tai :: "ncgi_tai option \<Rightarrow> service_area" where
  "mb_smf_sc_mbs_service_area_new_ncgi_tai t =
     (let r = mbs_service_area_new in
      case ncgi_tai_copy None t of None \<Rightarrow> r | Some n \<Rightarrow> r\<lparr>sa_ncgi_tais := sa_ncgi_tais r @ [n]\<rparr>)"

definition mb_smf_sc_mbs_service_area_new_tai :: "tai option \<Rightarrow> service_area" where
  "mb_smf_sc_mbs_service_area_new_tai t =
     (let r = mbs_service_area_new in
      case tai_copy None t of None \<Rightarrow> r | Some n \<Rightarrow> r\<lparr>sa_tais := sa_tais r @ [n]\<rparr>)"

definition mbs_service_area_clear :: "service_area \<Rightarrow> service_area" where
  "mbs_service_area_clear a = a\<lparr>sa_ncgi_tais := [], sa_tais := []\<rparr>"

definition mbs_service_area_copy :: "service_area option \<Rightarrow> service_area option \<Rightarrow> service_area option" where
  "mbs_service_area_copy dst src =
     (case src of
        None \<Rightarrow> None
      | Some s \<Rightarrow>
          (let d = (case dst of None \<Rightarrow> mbs_service_area_new | Some d \<Rightarrow> mbs_service_area_clear d);
               d = d\<lparr>sa_ncgi_tais := sa_ncgi_tais d
                       @ map (\<lambda>t. the (ncgi_tai_copy None (Some t))) (sa_ncgi_tais s)\<rparr>;
               d = d\<lparr>sa_tais := sa_tais d @ map (\<lambda>t. the (tai_copy None (Some t))) (sa_tais s)\<rparr>
           in Some d))"

definition mbs_service_area_equal :: "ogs_api \<Rightarrow> service_area \<Rightarrow> service_area \<Rightarrow> bool" where
  "mbs_service_area_equal api a b =
     (if length (sa_ncgi_tais a) \<noteq> length (sa_ncgi_tais b) then False
      else if length (sa_tais a) \<noteq> length (sa_tais b) then False
      else (let b_copy = the (mbs_service_area_copy None (Some b)) in
            case match_all (ncgi_tai_equal api) (sa_ncgi_tais a) (sa_ncgi_tais b_copy) of
              None \<Rightarrow> False
            | Some _ \<Rightarrow>
                (case match_all (tai_equal api) (sa_tais a) (sa_tais b_copy) of
                   None \<Rightarrow> False | Some _ \<Rightarrow> True)))"

definition mbs_service_area_to_openapi :: "ogs_api \<Rightarrow> service_area \<Rightarrow> api_service_area" where
  "mbs_service_area_to_openapi api a =
     Api_mbs_service_area
       (if length (sa_ncgi_tais a) > 0 then Some (map (ncgi_tai_to_openapi api) (sa_ncgi_tais a)) else None)
       (if length (sa_tais a) > 0 then Some (map (tai_to_openapi api) (sa_tais a)) else None)"

definition mbs_service_area_to_json :: "ogs_api \<Rightarrow> service_area \<Rightarrow> json" where
  "mbs_service_area_to_json api a = conv_service_area api (mbs_service_area_to_openapi api a)"

definition service_area_both_patch_list ::
  "ogs_api \<Rightarrow> service_area \<Rightarrow> service_area \<Rightarrow> json_patch list option" where
  "service_area_both_patch_list api a b = do {
     ps \<leftarrow> json_patches_append_list []
             (ncgi_tais_patch_list api (sa_ncgi_tais a) (sa_ncgi_tais b)) (Some ''/ncgiList'');
     json_patches_append_list ps (tais_patch_list api (sa_tais a) (sa_tais b)) (Some ''/taiList'')
   }"

definition mbs_service_area_patch_list ::
  "ogs_api \<Rightarrow> service_area option \<Rightarrow> service_area option \<Rightarrow> json_patch list option" where
  "mbs_service_area_patch_list api a b =
     ptr_patch_list (\<lambda>x. Some (mbs_service_area_to_json api x)) (service_area_both_patch_list api) a b"

section \<open>Copy and comparison\<close>

lemma mbs_service_area_copy_eq [simp, copy_simps]:
  "mbs_service_area_copy dst src =
     map_option (\<lambda>s. s\<lparr>sa_ncgi_tais := map drop_cells (sa_ncgi_tais s)\<rparr>) src"
  by (auto simp: mbs_service_area_copy_def mbs_service_area_new_def mbs_service_area_clear_def
      Let_def split: option.split)

definition service_area_key where
  "service_area_key api a =
     (mset (map (\<lambda>t. tai_key api (nt_tai t)) (sa_ncgi_tais a)), mset (map (tai_key api) (sa_tais a)))"

lemma drop_cells_key [simp]: "nt_tai (drop_cells t) = nt_tai t"
  by (simp add: drop_cells_def)

lemma mbs_service_area_equal_key [eq_simps]:
  "mbs_service_area_equal api a b \<longleftrightarrow> service_area_key api a = service_area_key api b"
proof -
  let ?b = "map drop_cells (sa_ncgi_tais b)"
  have key: "map (\<lambda>t. tai_key api (nt_tai t)) ?b = map (\<lambda>t. tai_key api (nt_tai t)) (sa_ncgi_tais b)"
    by (simp add: comp_def)
  have "mbs_service_area_equal api a b \<longleftrightarrow>
      unordered_equal (ncgi_tai_equal api) (sa_ncgi_tais a) ?b \<and>
      unordered_equal (tai_equal api) (sa_tais a) (sa_tais b)"
    by (auto simp: mbs_service_area_equal_def unordered_equal_def split: option.splits)
  also have "\<dots> \<longleftrightarrow> service_area_key api a = service_area_key api b"
    unfolding ncgi_tai_match.unordered_equal_mset tai_match.unordered_equal_mset key service_area_key_def
    by simp
  finally show ?thesis .
qed

section \<open>The patch list\<close>

text \<open>What the generated conversion is documented to produce: absent lists are left out.\<close>

definition conv_service_area_law :: "ogs_api \<Rightarrow> bool" where
  "conv_service_area_law api \<longleftrightarrow>
     (\<forall>n t. conv_service_area api (Api_mbs_service_area n t) =
        JObj ((\<lambda>_. None)(''ncgiList'' := map_option (\<lambda>l. JArr (map (conv_ncgi_tai api) l)) n,
                         ''taiList'' := map_option (\<lambda>l. JArr (map (conv_tai api) l)) t)))"

definition service_area_wf :: "ogs_api \<Rightarrow> service_area \<Rightarrow> bool" where
  "service_area_wf api a \<longleftrightarrow>
     (\<forall>t\<in>set (sa_ncgi_tais a). ncgi_tai_wf api t) \<and> (\<forall>t\<in>set (sa_tais a). tai_wf api t)"

lemma service_area_json:
  assumes "conv_service_area_law api"
  shows "mbs_service_area_to_json api a =
     JObj ((\<lambda>_. None)(''ncgiList'' := array_member (ncgi_tai_to_json api) (sa_ncgi_tais a),
                      ''taiList'' := array_member (tai_to_json api) (sa_tais a)))"
proof -
  have n: "ncgi_tai_to_json api = conv_ncgi_tai api \<circ> ncgi_tai_to_openapi api"
    and t: "tai_to_json api = conv_tai api \<circ> tai_to_openapi api"
    by (auto simp: ncgi_tai_to_json_def tai_to_json_def)
  show ?thesis
    using assms
    by (auto simp: mbs_service_area_to_json_def mbs_service_area_to_openapi_def
        conv_service_area_law_def array_member_def array_json_def n t)
qed

lemma list_field_names: "CHR ''/'' \<notin> set ''ncgiList''" "CHR ''/'' \<notin> set ''taiList''"
  by code_simp+

lemma service_area_both_crash:
  "service_area_both_patch_list api a b = None \<longleftrightarrow>
     \<not> (has_values (ncgi_tais_patch_list api (sa_ncgi_tais a) (sa_ncgi_tais b)) \<and>
        has_values (tais_patch_list api (sa_tais a) (sa_tais b)))"
  by (simp add: service_area_both_patch_list_def json_patches_append_iff)

lemma service_area_both_correct:
  assumes law: "conv_service_area_law api"
    and wf: "service_area_wf api a" "service_area_wf api b"
    and ps: "service_area_both_patch_list api a b = Some ps"
  shows "apply_patches ps (Some (mbs_service_area_to_json api a)) =
           Some (Some (mbs_service_area_to_json api b))"
proof -
  let ?n = "ncgi_tais_patch_list api (sa_ncgi_tais a) (sa_ncgi_tais b)"
  let ?t = "tais_patch_list api (sa_tais a) (sa_tais b)"
  let ?m = "\<lambda>x y. (\<lambda>_. None)(''ncgiList'' := array_member (ncgi_tai_to_json api) x,
                      ''taiList'' := array_member (tai_to_json api) y)"
  have ps_eq: "ps = map (with_prefix (Some ''/ncgiList'')) ?n @ map (with_prefix (Some ''/taiList'')) ?t"
    using ps by (auto simp: service_area_both_patch_list_def json_patches_append_iff split: if_splits)
  have n: "apply_patches ?n (array_member (ncgi_tai_to_json api) (sa_ncgi_tais a)) =
             Some (array_member (ncgi_tai_to_json api) (sa_ncgi_tais b))"
    using wf by (simp add: ncgi_tais_patch_list_def ncgi_tai_array.correct service_area_wf_def)
  have t: "apply_patches ?t (array_member (tai_to_json api) (sa_tais a)) =
             Some (array_member (tai_to_json api) (sa_tais b))"
    using wf by (simp add: tais_patch_list_def tai_array.correct service_area_wf_def)
  have rn: "\<forall>p\<in>set ?n. rooted p"
    unfolding ncgi_tais_patch_list_def by (rule array_patch_rooted) (rule appends_paths)
  have rt: "\<forall>p\<in>set ?t. rooted p"
    unfolding tais_patch_list_def by (rule array_patch_rooted) (rule appends_paths)
  have 1: "apply_patches (map (with_prefix (Some ''/ncgiList'')) ?n)
          (Some (JObj (?m (sa_ncgi_tais a) (sa_tais a)))) =
        Some (Some (JObj (?m (sa_ncgi_tais b) (sa_tais a))))"
    using apply_patches_prefix [OF list_field_names(1) _ rn, of "?m (sa_ncgi_tais a) (sa_tais a)"] n
    by (simp add: fun_upd_twist)
  have 2: "apply_patches (map (with_prefix (Some ''/taiList'')) ?t)
          (Some (JObj (?m (sa_ncgi_tais b) (sa_tais a)))) =
        Some (Some (JObj (?m (sa_ncgi_tais b) (sa_tais b))))"
    using apply_patches_prefix [OF list_field_names(2) _ rt, of "?m (sa_ncgi_tais b) (sa_tais a)"] t
    by simp
  show ?thesis by (simp add: ps_eq apply_patches_append service_area_json [OF law] 1 2)
qed

end
