(* ===== verification/Civic_Address.thy ===== *)
theory Civic_Address
  imports Json_Patch
begin

text \<open>
  \<open>civic-address.c\<close>: a structure of thirty-four optional strings.  The members are the values
  of the type \<open>civic_field\<close>; a statement the code repeats for every member is one statement
  over the list of them, in the order of the code.
\<close>

type_synonym civic_address = "civic_field \<Rightarrow> string option"

definition civic_fields :: "civic_field list" where
  "civic_fields =
     [Country, A1, A2, A3, A4, A5, A6, Prd, Pod, Sts, Hno, Hns, Lmk, Loc, Nam, Pc,
      Bld, Unit, Flr, Room, Plc, Pcn, Pobox, Addcode, Seat, Rd, Rdsec, Rdbr, Rdsubbr,
      Prm, Pom, Usage_rules, Method, Provided_by]"

fun civic_name :: "civic_field \<Rightarrow> string" where
  "civic_name Country = ''country''"
| "civic_name A1 = ''A1''"
| "civic_name A2 = ''A2''"
| "civic_name A3 = ''A3''"
| "civic_name A4 = ''A4''"
| "civic_name A5 = ''A5''"
| "civic_name A6 = ''A6''"
| "civic_name Prd = ''PRD''"
| "civic_name Pod = ''POD''"
| "civic_name Sts = ''STS''"
| "civic_name Hno = ''HNO''"
| "civic_name Hns = ''HNS''"
| "civic_name Lmk = ''LMK''"
| "civic_name Loc = ''LOC''"
| "civic_name Nam = ''NAM''"
| "civic_name Pc = ''PC''"
| "civic_name Bld = ''BLD''"
| "civic_name Unit = ''UNIT''"
| "civic_name Flr = ''FLR''"
| "civic_name Room = ''ROOM''"
| "civic_name Plc = ''PLC''"
| "civic_name Pcn = ''PCN''"
| "civic_name Pobox = ''POBOX''"
| "civic_name Addcode = ''ADDCODE''"
| "civic_name Seat = ''SEAT''"
| "civic_name Rd = ''RD''"
| "civic_name Rdsec = ''RDSEC''"
| "civic_name Rdbr = ''RDBR''"
| "civic_name Rdsubbr = ''RDSUBBR''"
| "civic_name Prm = ''PRM''"
| "civic_name Pom = ''POM''"
| "civic_name Usage_rules = ''usageRules''"
| "civic_name Method = ''method''"
| "civic_name Provided_by = ''providedBy''"

definition civic_address_new :: civic_address where
  "civic_address_new = (\<lambda>_. None)"

definition civic_address_clear :: "civic_address \<Rightarrow> civic_address" where
  "civic_address_clear a = fold (\<lambda>f d. if d f \<noteq> None then d(f := None) else d) civic_fields a"

definition civic_address_copy :: "civic_address option \<Rightarrow> civic_address option \<Rightarrow> civic_address option" where
  "civic_address_copy dst src =
     (case src of
        None \<Rightarrow> None
      | Some s \<Rightarrow>
          (let d = (case dst of None \<Rightarrow> civic_address_new | Some d \<Rightarrow> civic_address_clear d)
           in Some (fold (\<lambda>f d. case s f of Some v \<Rightarrow> d(f := Some v) | None \<Rightarrow> d) civic_fields d)))"

definition civic_address_equal :: "civic_address \<Rightarrow> civic_address \<Rightarrow> bool" where
  "civic_address_equal a b =
     (if list_ex (\<lambda>f. (a f = None) \<noteq> (b f = None)) civic_fields then False
      else if list_ex (\<lambda>f. a f \<noteq> None \<and> the (a f) \<noteq> the (b f)) civic_fields then False
      else True)"

definition civic_address_to_json :: "ogs_api \<Rightarrow> civic_address \<Rightarrow> json" where
  "civic_address_to_json api a = conv_civic_address api a"

definition civic_address_both_patch_list :: "civic_address \<Rightarrow> civic_address \<Rightarrow> json_patch list" where
  "civic_address_both_patch_list a b =
     concat (map (\<lambda>f. member_patch_list (CHR ''/'' # civic_name f) JStr (a f) (b f)) civic_fields)"

definition civic_address_patch_list ::
  "ogs_api \<Rightarrow> civic_address option \<Rightarrow> civic_address option \<Rightarrow> json_patch list option" where
  "civic_address_patch_list api a b =
     ptr_patch_list (\<lambda>x. Some (civic_address_to_json api x))
       (\<lambda>a b. Some (civic_address_both_patch_list a b)) a b"

section \<open>Lists of addresses\<close>

definition civic_addresses_copy_values :: "civic_address list \<Rightarrow> civic_address list \<Rightarrow> civic_address list" where
  "civic_addresses_copy_values dst src =
     (if src = [] then [] else map (\<lambda>a. the (civic_address_copy None (Some a))) src)"

definition civic_addresses_equal :: "civic_address list \<Rightarrow> civic_address list \<Rightarrow> bool" where
  "civic_addresses_equal a b =
     (if a = [] \<and> b = [] then True
      else if a = [] \<or> b = [] then False
      else if length a \<noteq> length b then False
      else (let b_copy = civic_addresses_copy_values [] b in
            case match_all civic_address_equal a b_copy of None \<Rightarrow> False | Some _ \<Rightarrow> True))"

definition civic_addresses_to_openapi :: "civic_address list \<Rightarrow> api_civic_address list option" where
  "civic_addresses_to_openapi as = (if as = [] then None else Some as)"

definition civic_addresses_patch_list ::
  "ogs_api \<Rightarrow> civic_address list \<Rightarrow> civic_address list \<Rightarrow> json_patch list" where
  "civic_addresses_patch_list api a b =
     array_patch_list_plain civic_address_equal (civic_address_to_json api) (\<lambda>_. ''/-'') a b"

section \<open>Every member is covered\<close>

lemma civic_fields_all [simp]: "f \<in> set civic_fields"
  by (cases f) (simp_all add: civic_fields_def)

lemma civic_fields_distinct: "distinct civic_fields"
  by (simp add: civic_fields_def)

lemma civic_names_distinct: "distinct (map civic_name civic_fields)"
  by (simp add: civic_fields_def)

lemma civic_name_inj: "civic_name f = civic_name g \<longleftrightarrow> f = g"
  using civic_names_distinct by (metis civic_fields_all distinct_map inj_onD)

lemma civic_name_field [simp]: "field_name (civic_name f)"
  by (cases f) (simp_all add: field_name_def)

lemma fold_clear:
  "fold (\<lambda>f d. if d f \<noteq> None then d(f := None) else d) fs a = (\<lambda>f. if f \<in> set fs then None else a f)"
  by (induction fs arbitrary: a) (auto simp: fun_eq_iff)

lemma fold_set:
  "fold (\<lambda>f d. case s f of Some v \<Rightarrow> d(f := Some v) | None \<Rightarrow> d) fs d =
     (\<lambda>f. if f \<in> set fs \<and> s f \<noteq> None then s f else d f)"
  by (induction fs arbitrary: d) (auto simp: fun_eq_iff split: option.splits)

lemma civic_address_clear_eq [simp]: "civic_address_clear a = civic_address_new"
  unfolding civic_address_clear_def fold_clear by (simp add: civic_address_new_def)

lemma civic_address_copy_eq [simp, copy_simps]: "civic_address_copy dst src = src"
  by (auto simp: civic_address_copy_def fold_set civic_address_new_def Let_def fun_eq_iff
      split: option.split)

lemma civic_address_equal_eq [eq_simps]: "civic_address_equal a b \<longleftrightarrow> a = b"
proof -
  have "civic_address_equal a b \<longleftrightarrow> (\<forall>f. a f = b f)"
  proof
    assume eq: "civic_address_equal a b"
    show "\<forall>f. a f = b f"
    proof
      fix f
      have "(a f = None) = (b f = None)" "\<not> (a f \<noteq> None \<and> the (a f) \<noteq> the (b f))"
        using eq civic_fields_all [of f]
        unfolding civic_address_equal_def list_ex_iff by (meson)+
      then show "a f = b f" by (cases "a f"; cases "b f") auto
    qed
  qed (simp add: civic_address_equal_def list_ex_iff)
  then show ?thesis by (simp add: fun_eq_iff)
qed

interpretation civic_match: key_match civic_address_equal "\<lambda>a. a"
  by unfold_locales (simp add: eq_simps)

interpretation civic_array:
  array_diff civic_address_equal "civic_address_to_json api" "\<lambda>_. ''/-''" "\<lambda>_. True" for api
  by unfold_locales (auto simp: eq_simps)

lemma civic_addresses_equal_mset [eq_simps]:
  "civic_addresses_equal a b \<longleftrightarrow> mset a = mset b"
proof -
  have "civic_addresses_equal a b \<longleftrightarrow> unordered_equal civic_address_equal a b"
    by (cases "a = []"; cases "b = []")
       (auto simp: civic_addresses_equal_def unordered_equal_def civic_addresses_copy_values_def
         split: option.splits)
  then show ?thesis by (simp add: civic_match.unordered_equal_mset)
qed

section \<open>The patch list between two addresses\<close>

text \<open>The object with the members that are set.\<close>

definition civic_object :: "civic_address \<Rightarrow> string \<Rightarrow> json option" where
  "civic_object a n =
     (case find (\<lambda>f. civic_name f = n) civic_fields of None \<Rightarrow> None | Some f \<Rightarrow> map_option JStr (a f))"

definition conv_civic_law :: "ogs_api \<Rightarrow> bool" where
  "conv_civic_law api \<longleftrightarrow> (\<forall>a. conv_civic_address api a = JObj (civic_object a))"

lemma civic_object_name [simp]: "civic_object a (civic_name f) = map_option JStr (a f)"
proof -
  have "\<exists>g. find (\<lambda>g. civic_name g = civic_name f) civic_fields = Some g"
    using find_None_iff [of "\<lambda>g. civic_name g = civic_name f" civic_fields]
    by (cases "find (\<lambda>g. civic_name g = civic_name f) civic_fields") auto
  then obtain g where g: "find (\<lambda>g. civic_name g = civic_name f) civic_fields = Some g" ..
  then have "civic_name g = civic_name f" by (auto simp: find_Some_iff)
  then show ?thesis using g by (simp add: civic_object_def civic_name_inj)
qed

lemma civic_object_upd: "(civic_object a)(civic_name f := map_option JStr v) = civic_object (a(f := v))"
proof
  fix n
  show "((civic_object a)(civic_name f := map_option JStr v)) n = civic_object (a(f := v)) n"
  proof (cases "find (\<lambda>g. civic_name g = n) civic_fields")
    case None
    then have "n \<noteq> civic_name f" using civic_fields_all [of f] by (auto simp: find_None_iff)
    then show ?thesis using None by (simp add: civic_object_def)
  next
    case (Some g)
    then have "civic_name g = n" by (auto simp: find_Some_iff)
    then show ?thesis by (auto simp: civic_name_inj)
  qed
qed

lemma civic_fold_correct:
  "apply_patches
      (concat (map (\<lambda>f. member_patch_list (CHR ''/'' # civic_name f) JStr (a f) (b f)) fs))
      (Some (JObj (civic_object c))) =
     Some (Some (JObj (civic_object (\<lambda>f. if f \<in> set fs then b f else c f))))"
  if "distinct fs" "\<forall>f\<in>set fs. c f = a f"
  using that
proof (induction fs arbitrary: c)
  case (Cons f fs)
  have "apply_patches (member_patch_list (CHR ''/'' # civic_name f) JStr (a f) (b f))
          (Some (JObj (civic_object c))) = Some (Some (JObj (civic_object (c(f := b f)))))"
    using Cons.prems by (subst member_patch_correct) (simp_all add: civic_object_upd)
  moreover have "(\<lambda>g. if g \<in> set fs then b g else (c(f := b f)) g) =
      (\<lambda>g. if g \<in> set (f # fs) then b g else c g)"
    by (auto simp: fun_eq_iff)
  moreover have "\<forall>g\<in>set fs. (c(f := b f)) g = a g" using Cons.prems by auto
  ultimately show ?case
    using Cons.IH [of "c(f := b f)"] Cons.prems
    by (simp only: list.map concat.simps apply_patches_append) (simp add: fun_upd_def)
qed simp

lemma civic_both_correct:
  "conv_civic_law api \<Longrightarrow>
     apply_patches (civic_address_both_patch_list a b) (Some (civic_address_to_json api a)) =
       Some (Some (civic_address_to_json api b))"
  using civic_fold_correct [OF civic_fields_distinct, of a a b]
  by (simp add: conv_civic_law_def civic_address_to_json_def civic_address_both_patch_list_def)

end
