(* ===== verification/Example_Api.thy ===== *)
theory Example_Api
  imports Service_Area Civic_Address
begin

text \<open>
  One instance of the interface to Open5GS and the generated bindings, on which the
  hypotheses about that interface hold: PLMN ids are packed as decimal numbers, the
  conversions build the objects of the 3GPP schemas, servers always start.
\<close>

text \<open>A textual address of the example is the string of its bytes.\<close>

definition bytes_of :: "string \<Rightarrow> 8 word list" where
  "bytes_of s = map of_char s"

definition example_api :: ogs_api where
  "example_api =
     \<lparr>plmn_build = (\<lambda>c n l. word_of_nat ((unat c * 1000 + unat n) * 2 + (if l = 3 then 1 else 0))),
      plmn_mcc = (\<lambda>p. word_of_nat (unat p div 2000)),
      plmn_mnc = (\<lambda>p. word_of_nat (unat p div 2 mod 1000)),
      sbi_build_plmn_id = (\<lambda>p. Api_plmn_id (dec_str (unat p div 2000)) (dec_str (unat p div 2 mod 1000))),
      conv_plmn_id = (\<lambda>p. case p of Api_plmn_id c n \<Rightarrow>
        JObj ((\<lambda>_. None)(''mcc'' := Some (JStr c), ''mnc'' := Some (JStr n)))),
      conv_tai = (\<lambda>x. case x of Api_tai p t n \<Rightarrow>
        JObj ((\<lambda>_. None)(''plmnId'' := Some (case p of Api_plmn_id c n \<Rightarrow>
                 JObj ((\<lambda>_. None)(''mcc'' := Some (JStr c), ''mnc'' := Some (JStr n)))),
               ''tac'' := Some (JStr t), ''nid'' := map_option JStr n))),
      conv_ncgi = (\<lambda>x. case x of Api_ncgi p c n \<Rightarrow>
        JObj ((\<lambda>_. None)(''plmnId'' := Some (case p of Api_plmn_id c n \<Rightarrow>
                 JObj ((\<lambda>_. None)(''mcc'' := Some (JStr c), ''mnc'' := Some (JStr n)))),
               ''nrCellId'' := Some (JStr c), ''nid'' := map_option JStr n))),
      conv_ncgi_tai = (\<lambda>x. JNull),
      conv_service_area = (\<lambda>x. case x of Api_mbs_service_area n t \<Rightarrow>
        JObj ((\<lambda>_. None)(''ncgiList'' := map_option (\<lambda>l. JArr (map (\<lambda>x. JNull) l)) n,
               ''taiList'' := map_option (\<lambda>l. JArr (map (\<lambda>x. case x of Api_tai p t n \<Rightarrow>
                 JObj ((\<lambda>_. None)(''plmnId'' := Some (case p of Api_plmn_id c n \<Rightarrow>
                   JObj ((\<lambda>_. None)(''mcc'' := Some (JStr c), ''mnc'' := Some (JStr n)))),
                 ''tac'' := Some (JStr t), ''nid'' := map_option JStr n))) l)) t))),
      conv_civic_address = (\<lambda>a. JObj (civic_object a)),
      conv_ext_service_area = (\<lambda>x. JNull), conv_arp = (\<lambda>x. JNull), conv_qos_req = (\<lambda>x. JNull),
      conv_media_info = (\<lambda>x. JNull), conv_media_comp = (\<lambda>x. JNull), conv_service_info = (\<lambda>x. JNull),
      preempt_cap_string = (\<lambda>x. []), preempt_vuln_string = (\<lambda>x. []), media_type_string = (\<lambda>x. []),
      double_of_u64 = (\<lambda>x. of_nat (unat x)), printf_6f_quotient = (\<lambda>x y. []), double_round = (\<lambda>x. x),
      trimwhitespace = (\<lambda>s. s), http_date_time = (\<lambda>s. 0),
      plmn_mcc_string = (\<lambda>p. dec_str (unat p div 2000)),
      plmn_mnc_string = (\<lambda>p. dec_str (unat p div 2 mod 1000)),
      plmn_to_string = (\<lambda>p. dec_str (unat p)), gmtime_string = (\<lambda>t. []), localtime_string = (\<lambda>t. []),
      pointers_string = dec_str, time_from_string = (\<lambda>s. if s = [] then None else Some (int (length s) * 1000000)), uint64_from_string = (\<lambda>s. 0),
      url_decode = (\<lambda>s. s), server_starts = (\<lambda>a. True), server_uri = (\<lambda>a s. s),
      uuid_string = dec_str, url_path = (\<lambda>s. Some (Some s)),
      addrinfo4 = (\<lambda>n s p. [(bytes_of s, p)]), addrinfo6 = (\<lambda>n s p. [(bytes_of s, p)]),
      inet_pton4 = (\<lambda>s. Some (bytes_of s)), inet_pton6 = (\<lambda>s. Some (bytes_of s)),
      report_time = (\<lambda>s. if s = [] then None else Some (int (length s))),
      location_resource = (\<lambda>s. Some (Some s)), time_sec = (\<lambda>t. t div 1000000),
      time_to_sec = (\<lambda>t. (t + 999999) div 1000000)\<rparr>"

lemma packed_plmn:
  fixes c n l :: nat
  assumes "c \<le> 999" "n \<le> 999" "l \<le> 1"
  shows "unat (word_of_nat ((c * 1000 + n) * 2 + l) :: 24 word) = (c * 1000 + n) * 2 + l"
    "((c * 1000 + n) * 2 + l) div 2000 = c" "((c * 1000 + n) * 2 + l) div 2 mod 1000 = n"
proof -
  have "(c * 1000 + n) * 2 + l < 2 ^ 24" using assms by simp
  then have "((c * 1000 + n) * 2 + l) mod 2 ^ LENGTH(24) = (c * 1000 + n) * 2 + l" by simp
  then show "unat (word_of_nat ((c * 1000 + n) * 2 + l) :: 24 word) = (c * 1000 + n) * 2 + l"
    unfolding unat_of_nat .
  have two: "((c * 1000 + n) * 2 + l) div 2 = c * 1000 + n" using assms(3) by simp
  moreover have "(c * 1000 + n) div 1000 = c" "(c * 1000 + n) mod 1000 = n" using assms(2) by simp_all
  moreover have "x div 2000 = x div 2 div 1000" for x :: nat by (simp add: div_mult2_eq [symmetric])
  ultimately show "((c * 1000 + n) * 2 + l) div 2000 = c" "((c * 1000 + n) * 2 + l) div 2 mod 1000 = n"
    by simp_all
qed

lemma example_plmn_laws: "plmn_laws example_api"
proof -
  have "plmn_mcc example_api p = c \<and> plmn_mnc example_api p = n"
    if "c \<le> 999" "n \<le> 999" "p = plmn_build example_api c n (if n > 99 then 3 else 2)" for c n p
  proof -
    note p = that(3)
    have b: "unat c \<le> 999" "unat n \<le> 999" using that(1,2) by (simp_all add: word_le_nat_alt)
    obtain l :: nat where l: "l \<le> 1" "p = word_of_nat ((unat c * 1000 + unat n) * 2 + l)"
    proof (cases "n > 99")
      case True
      then show ?thesis using p that [of 1] by (simp add: example_api_def)
    next
      case False
      then show ?thesis using p that [of 0] by (simp add: example_api_def)
    qed
    then have "unat p = (unat c * 1000 + unat n) * 2 + l" using packed_plmn(1) [OF b l(1)] by metis
    then show ?thesis using packed_plmn(2,3) [OF b l(1)] by (simp add: example_api_def)
  qed
  then show ?thesis by (simp add: plmn_laws_def Let_def)
qed

lemma example_conv_laws:
  "conv_tai_law example_api" "conv_ncgi_law example_api" "conv_service_area_law example_api"
  "conv_civic_law example_api"
  by (simp_all add: conv_tai_law_def conv_ncgi_law_def conv_service_area_law_def conv_civic_law_def
      example_api_def fun_eq_iff)

lemma example_simps [simp]:
  "double_round example_api = (\<lambda>x. x)" "trimwhitespace example_api = (\<lambda>s. s)"
  "server_starts example_api = (\<lambda>a. True)"
  by (simp_all add: example_api_def)

definition example_tai :: tai where
  "example_tai = \<lparr>tai_plmn = plmn_build example_api 262 1 2, tai_tac = 0x1234, tai_nid = Some 7\<rparr>"

definition other_tai :: tai where
  "other_tai = \<lparr>tai_plmn = plmn_build example_api 310 260 3, tai_tac = 0xABCDE, tai_nid = None\<rparr>"

lemma example_tais_wf: "tai_wf example_api example_tai" "tai_wf example_api other_tai"
proof -
  have "plmn_canonical example_api (plmn_build example_api 262 1 2)"
    "plmn_canonical example_api (plmn_build example_api 310 260 3)"
    using plmn_build_canonical [OF example_plmn_laws, of 262 1]
      plmn_build_canonical [OF example_plmn_laws, of 310 260] by simp_all
  then show "tai_wf example_api example_tai" "tai_wf example_api other_tai"
    by (simp_all add: tai_wf_def example_tai_def other_tai_def)
qed

end
