(* ===== verification/Geo_Area.thy ===== *)
theory Geo_Area
  imports Json_Patch
begin

text \<open>
  \<open>geographic-coordinate.c\<close> and \<open>geographic-area.c\<close>.  A double is a real and every addition
  is followed by the rounding \<open>double_round\<close> of the parameters; the two normalisation loops
  of a longitude need not end for every rounding, so they are partial functions.  The
  tagged union of shapes is a datatype.  The comparison of two areas only looks at the
  addresses of the objects; whether these are the same is an argument of the model.
\<close>

section \<open>Coordinates\<close>

record coord =
  coord_lon :: real
  coord_lat :: real

partial_function (option) lon_up :: "(real \<Rightarrow> real) \<Rightarrow> real \<Rightarrow> real option" where
  "lon_up rnd lon = (if lon \<le> -180 then lon_up rnd (rnd (lon + 360)) else Some lon)"

partial_function (option) lon_down :: "(real \<Rightarrow> real) \<Rightarrow> real \<Rightarrow> real option" where
  "lon_down rnd lon = (if lon > 180 then lon_down rnd (rnd (lon - 360)) else Some lon)"

definition rationalise_longitude :: "ogs_api \<Rightarrow> real \<Rightarrow> real option" where
  "rationalise_longitude api lon =
     Option.bind (lon_up (double_round api) lon) (lon_down (double_round api))"

definition trim_latitude :: "real \<Rightarrow> real" where
  "trim_latitude lat =
     (let lat = (if lat < -90 then -90 else lat) in if lat > 90 then 90 else lat)"

definition geographic_coordinate_new :: coord where
  "geographic_coordinate_new = \<lparr>coord_lon = 0, coord_lat = 0\<rparr>"

definition geographic_coordinate_set :: "ogs_api \<Rightarrow> coord \<Rightarrow> real \<Rightarrow> real \<Rightarrow> coord option" where
  "geographic_coordinate_set api c lon lat = do {
     l \<leftarrow> rationalise_longitude api lon;
     Some (c\<lparr>coord_lon := l, coord_lat := trim_latitude lat\<rparr>)
   }"

definition geographic_coordinate_copy ::
  "ogs_api \<Rightarrow> coord option \<Rightarrow> coord option \<Rightarrow> coord option option" where
  "geographic_coordinate_copy api dst src =
     (case src of
        None \<Rightarrow> Some None
      | Some s \<Rightarrow>
          (let d = (case dst of None \<Rightarrow> geographic_coordinate_new | Some d \<Rightarrow> d)
           in map_option Some (geographic_coordinate_set api d (coord_lon s) (coord_lat s))))"

definition geographic_coordinate_equal :: "ogs_api \<Rightarrow> coord \<Rightarrow> coord \<Rightarrow> bool option" where
  "geographic_coordinate_equal api a b = do {
     la \<leftarrow> rationalise_longitude api (coord_lon a);
     lb \<leftarrow> rationalise_longitude api (coord_lon b);
     Some (la = lb \<and> trim_latitude (coord_lat a) = trim_latitude (coord_lat b))
   }"

definition geographic_coordinate_to_json :: "coord \<Rightarrow> json" where
  "geographic_coordinate_to_json c =
     JObj ((\<lambda>_. None)(''lon'' := Some (JNum (coord_lon c)), ''lat'' := Some (JNum (coord_lat c))))"

definition geographic_coordinate_both_patch_list :: "coord \<Rightarrow> coord \<Rightarrow> json_patch list" where
  "geographic_coordinate_both_patch_list a b =
     (if coord_lon a \<noteq> coord_lon b
      then [json_patch_new Op_replace ''/lon'' (Some (JNum (coord_lon b)))] else [])
     @ (if coord_lat a \<noteq> coord_lat b
        then [json_patch_new Op_replace ''/lat'' (Some (JNum (coord_lat b)))] else [])"

definition geographic_coordinate_patch_list ::
  "coord option \<Rightarrow> coord option \<Rightarrow> json_patch list option" where
  "geographic_coordinate_patch_list a b =
     ptr_patch_list (\<lambda>c. Some (geographic_coordinate_to_json c))
       (\<lambda>a b. Some (geographic_coordinate_both_patch_list a b)) a b"

subsection \<open>The normalisation loops\<close>

text \<open>Rounding is exact on the points the loops visit from \<open>lon\<close>.\<close>

definition exact_from :: "(real \<Rightarrow> real) \<Rightarrow> real \<Rightarrow> bool" where
  "exact_from rnd lon \<longleftrightarrow>
     (\<forall>k::int. \<bar>lon + 360 * of_int k\<bar> \<le> \<bar>lon\<bar> + 360 \<longrightarrow> rnd (lon + 360 * of_int k) = lon + 360 * of_int k)"

lemma lon_up_returns:
  assumes "exact_from rnd lon"
  shows "lon \<le> 180 \<Longrightarrow> lon + 360 * real k > -180 \<Longrightarrow> j \<le> k \<Longrightarrow>
           (j = 0 \<or> lon + 360 * real (j - 1) \<le> -180) \<Longrightarrow>
           \<exists>i::nat. lon_up rnd (lon + 360 * real j) = Some (lon + 360 * real i) \<and>
             -180 < lon + 360 * real i \<and> lon + 360 * real i \<le> 180"
proof (induction "k - j" arbitrary: j)
  case 0
  then have "j = k" by simp
  then have gt: "lon + 360 * real j > -180" using 0 by simp
  have "lon + 360 * real j \<le> 180"
    using 0 by (cases "j = 0") (auto simp: of_nat_diff algebra_simps)
  then show ?case using gt by (subst lon_up.simps) (auto intro!: exI [of _ j])
next
  case (Suc d)
  show ?case
  proof (cases "lon + 360 * real j \<le> -180")
    case True
    have eq: "lon + 360 * real j + 360 = lon + 360 * real (Suc j)" by (simp add: algebra_simps)
    have "\<bar>lon + 360 * of_int (int (Suc j))\<bar> \<le> \<bar>lon\<bar> + 360"
      using True by (simp add: algebra_simps)
    then have "rnd (lon + 360 * real (Suc j)) = lon + 360 * real (Suc j)"
      using assms unfolding exact_from_def by (metis of_int_of_nat_eq)
    then have "lon_up rnd (lon + 360 * real j) = lon_up rnd (lon + 360 * real (Suc j))"
      using True by (subst lon_up.simps) (simp add: eq)
    moreover have "Suc d = k - j" "d = k - Suc j" "Suc j \<le> k" using Suc.hyps(2) by auto
    ultimately show ?thesis
      using Suc.hyps(1) [of "Suc j"] Suc.prems True by simp
  next
    case False
    have "lon + 360 * real j \<le> 180"
      using Suc.prems by (cases "j = 0") (auto simp: of_nat_diff algebra_simps)
    then show ?thesis using False by (subst lon_up.simps) (auto intro!: exI [of _ j])
  qed
qed

lemma lon_down_returns:
  assumes "exact_from rnd lon"
  shows "lon > -180 \<Longrightarrow> lon - 360 * real k \<le> 180 \<Longrightarrow> j \<le> k \<Longrightarrow>
           (j = 0 \<or> lon - 360 * real (j - 1) > 180) \<Longrightarrow>
           \<exists>i::nat. lon_down rnd (lon - 360 * real j) = Some (lon - 360 * real i) \<and>
             -180 < lon - 360 * real i \<and> lon - 360 * real i \<le> 180"
proof (induction "k - j" arbitrary: j)
  case 0
  then have "j = k" by simp
  then have le: "lon - 360 * real j \<le> 180" using 0 by simp
  have "lon - 360 * real j > -180"
    using 0 by (cases "j = 0") (auto simp: of_nat_diff algebra_simps)
  then show ?case using le by (subst lon_down.simps) (auto intro!: exI [of _ j])
next
  case (Suc d)
  show ?case
  proof (cases "lon - 360 * real j > 180")
    case True
    have eq: "lon - 360 * real j - 360 = lon - 360 * real (Suc j)" by (simp add: algebra_simps)
    have "\<bar>lon + 360 * of_int (- int (Suc j))\<bar> \<le> \<bar>lon\<bar> + 360"
      using True by (simp add: algebra_simps)
    then have "rnd (lon + 360 * of_int (- int (Suc j))) = lon + 360 * of_int (- int (Suc j))"
      using assms unfolding exact_from_def by blast
    then have "rnd (lon - 360 * real (Suc j)) = lon - 360 * real (Suc j)"
      by (simp add: algebra_simps)
    then have "lon_down rnd (lon - 360 * real j) = lon_down rnd (lon - 360 * real (Suc j))"
      using True by (subst lon_down.simps) (simp add: eq)
    moreover have "Suc d = k - j" "d = k - Suc j" "Suc j \<le> k" using Suc.hyps(2) by auto
    ultimately show ?thesis
      using Suc.hyps(1) [of "Suc j"] Suc.prems True by simp
  next
    case False
    have "lon - 360 * real j > -180"
      using Suc.prems by (cases "j = 0") (auto simp: of_nat_diff algebra_simps)
    then show ?thesis using False by (subst lon_down.simps) (auto intro!: exI [of _ j])
  qed
qed

lemma lon_up_id: "lon > -180 \<Longrightarrow> lon_up rnd lon = Some lon"
  by (subst lon_up.simps) simp

lemma lon_down_id: "lon \<le> 180 \<Longrightarrow> lon_down rnd lon = Some lon"
  by (subst lon_down.simps) simp

lemma rationalise_longitude_returns:
  assumes "exact_from (double_round api) lon"
  shows "\<exists>r. rationalise_longitude api lon = Some r \<and> -180 < r \<and> r \<le> 180 \<and>
           (\<exists>k::int. r = lon + 360 * of_int k)"
proof (cases "lon \<le> 180")
  case True
  obtain k :: nat where "- 180 - lon < 360 * real k"
    using reals_Archimedean3 [of 360] by (metis mult.commute zero_less_numeral)
  then obtain i :: nat where i: "lon_up (double_round api) (lon + 360 * real 0) = Some (lon + 360 * real i)"
      "-180 < lon + 360 * real i" "lon + 360 * real i \<le> 180"
    using lon_up_returns [OF assms True, of k 0] by auto
  have "\<exists>k::int. lon + 360 * real i = lon + 360 * of_int k"
    by (intro exI [of _ "int i"]) simp
  then show ?thesis
    using i by (simp add: rationalise_longitude_def lon_down_id)
next
  case False
  obtain k :: nat where "lon - 180 < 360 * real k"
    using reals_Archimedean3 [of 360] by (metis mult.commute zero_less_numeral)
  then obtain i :: nat where i: "lon_down (double_round api) (lon - 360 * real 0) = Some (lon - 360 * real i)"
      "-180 < lon - 360 * real i" "lon - 360 * real i \<le> 180"
    using lon_down_returns [OF assms, of k 0] False by auto
  have "\<exists>k::int. lon - 360 * real i = lon + 360 * of_int k"
    by (intro exI [of _ "- int i"]) simp
  then show ?thesis
    using i False by (simp add: rationalise_longitude_def lon_up_id)
qed

lemma lon_up_stuck:
  assumes "lon \<le> -180" "rnd (lon + 360) = lon"
  shows "lon_up rnd lon = None"
proof -
  have "lon_up r x = Some y \<Longrightarrow> r = rnd \<longrightarrow> x \<noteq> lon" for r x y
    by (rule lon_up.raw_induct [where P = "\<lambda>r x y. r = rnd \<longrightarrow> x \<noteq> lon"])
       (use assms in \<open>auto split: if_splits\<close>)
  then show ?thesis by (cases "lon_up rnd lon") auto
qed

lemma trim_latitude_range: "-90 \<le> trim_latitude lat" "trim_latitude lat \<le> 90"
  by (auto simp: trim_latitude_def Let_def)

lemma geographic_coordinate_both_correct:
  "apply_patches (geographic_coordinate_both_patch_list a b) (Some (geographic_coordinate_to_json a)) =
     Some (Some (geographic_coordinate_to_json b))"
  by (auto simp: geographic_coordinate_both_patch_list_def geographic_coordinate_to_json_def
      replace_patch_correct field_name_def fun_upd_twist)

section \<open>Areas\<close>

text \<open>\<open>x\<close>, \<open>y\<close> and the optional \<open>z\<close>.\<close>

type_synonym local_point = "real \<times> real \<times> real option"

datatype geo_area =
    Ga_none
  | Ga_point coord
  | Ga_point_uncertainty_circle coord real
  | Ga_point_uncertainty_ellipse coord real real "8 word" "8 word"
  | Ga_polygon "coord list"
  | Ga_point_altitude coord real
  | Ga_point_altitude_uncertainty coord real real real "8 word" real "8 word" "8 word option"
  | Ga_ellipsoid_arc coord "32 word" real "16 word" "16 word" "8 word"
  | Ga_local_2d_point_uncertainty_ellipse local_origin local_point real real "8 word" "8 word"
  | Ga_local_3d_point_uncertainty_ellipsoid local_origin local_point real real "8 word" "8 word"
      "8 word option"
and local_origin = Local_origin "string option" "coord option" "geo_area option" "16 word"

datatype geo_shape =
    Shape_none | Shape_point | Shape_circle | Shape_ellipse | Shape_polygon | Shape_altitude
  | Shape_altitude_uncertainty | Shape_arc | Shape_local_2d | Shape_local_3d

fun ga_shape :: "geo_area \<Rightarrow> geo_shape" where
  "ga_shape Ga_none = Shape_none"
| "ga_shape (Ga_point _) = Shape_point"
| "ga_shape (Ga_point_uncertainty_circle _ _) = Shape_circle"
| "ga_shape (Ga_point_uncertainty_ellipse _ _ _ _ _) = Shape_ellipse"
| "ga_shape (Ga_polygon _) = Shape_polygon"
| "ga_shape (Ga_point_altitude _ _) = Shape_altitude"
| "ga_shape (Ga_point_altitude_uncertainty _ _ _ _ _ _ _ _) = Shape_altitude_uncertainty"
| "ga_shape (Ga_ellipsoid_arc _ _ _ _ _ _) = Shape_arc"
| "ga_shape (Ga_local_2d_point_uncertainty_ellipse _ _ _ _ _ _) = Shape_local_2d"
| "ga_shape (Ga_local_3d_point_uncertainty_ellipsoid _ _ _ _ _ _ _) = Shape_local_3d"

definition mb_smf_sc_ga_point_new :: "ogs_api \<Rightarrow> real \<Rightarrow> real \<Rightarrow> geo_area option" where
  "mb_smf_sc_ga_point_new api longitude latitude =
     map_option Ga_point (geographic_coordinate_set api geographic_coordinate_new longitude latitude)"

definition geographic_area_clear :: "geo_area \<Rightarrow> geo_area" where
  "geographic_area_clear a = Ga_none"

text \<open>\<open>memcpy\<close> of the union, then a fresh copy of what it points to; the points of a polygon
  are not copied.\<close>

fun geographic_area_copy_values :: "geo_area \<Rightarrow> geo_area"
  and local_origin_copy :: "local_origin \<Rightarrow> local_origin" where
  "geographic_area_copy_values (Ga_polygon ps) = Ga_polygon []"
| "geographic_area_copy_values (Ga_local_2d_point_uncertainty_ellipse o1 p sma smi ori conf) =
     Ga_local_2d_point_uncertainty_ellipse (local_origin_copy o1) p sma smi ori conf"
| "geographic_area_copy_values (Ga_local_3d_point_uncertainty_ellipsoid o1 p sma smi ori conf vc) =
     Ga_local_3d_point_uncertainty_ellipsoid (local_origin_copy o1) p sma smi ori conf vc"
| "geographic_area_copy_values a = a"
| "local_origin_copy (Local_origin cid p None axes) = Local_origin cid p None axes"
| "local_origin_copy (Local_origin cid p (Some a) axes) =
     Local_origin cid p (Some (geographic_area_copy_values a)) axes"

definition geographic_area_copy :: "geo_area option \<Rightarrow> geo_area option \<Rightarrow> geo_area option" where
  "geographic_area_copy dst src =
     (case src of None \<Rightarrow> None | Some s \<Rightarrow> Some (geographic_area_copy_values s))"

text \<open>\<open>same_object\<close>: the two pointers are the same.\<close>

definition geographic_area_equal :: "bool \<Rightarrow> geo_area \<Rightarrow> geo_area \<Rightarrow> bool" where
  "geographic_area_equal same_object a b = (if same_object then True else False)"

definition geographic_areas_copy_values :: "geo_area list \<Rightarrow> geo_area list \<Rightarrow> geo_area list" where
  "geographic_areas_copy_values dst src =
     (if src = [] then [] else map (\<lambda>a. the (geographic_area_copy None (Some a))) src)"

text \<open>The two lists are members of different objects, and the copy that is searched consists
  of fresh objects.\<close>

definition geographic_areas_equal :: "geo_area list \<Rightarrow> geo_area list \<Rightarrow> bool" where
  "geographic_areas_equal a b =
     (if a = [] \<and> b = [] then True
      else if a = [] \<or> b = [] then False
      else if length a \<noteq> length b then False
      else (let b_copy = geographic_areas_copy_values [] b in
            case match_all (geographic_area_equal False) a b_copy of None \<Rightarrow> False | Some _ \<Rightarrow> True))"

definition geographic_area_to_json :: "geo_area \<Rightarrow> json" where
  "geographic_area_to_json a =
     (case a of
        Ga_point c \<Rightarrow> JObj ((\<lambda>_. None)(''shape'' := Some (JStr ''POINT''),
                                       ''point'' := Some (geographic_coordinate_to_json c)))
      | _ \<Rightarrow> JObj (\<lambda>_. None))"

definition geographic_areas_to_json :: "geo_area list \<Rightarrow> json" where
  "geographic_areas_to_json as = array_json geographic_area_to_json as"

definition geographic_area_to_openapi :: "geo_area option \<Rightarrow> unit option" where
  "geographic_area_to_openapi a = None"

definition geographic_areas_to_openapi :: "geo_area list \<Rightarrow> unit option list option" where
  "geographic_areas_to_openapi as =
     (if as = [] then None else Some (map (\<lambda>a. geographic_area_to_openapi (Some a)) as))"

text \<open>Every entry the arrays share is replaced without a comparison.\<close>

definition geographic_areas_patch_list :: "geo_area list \<Rightarrow> geo_area list \<Rightarrow> json_patch list" where
  "geographic_areas_patch_list a b =
     array_patch_list_plain (\<lambda>_ _. False) geographic_area_to_json (\<lambda>_. ''/-'') a b"

definition ga_point_patch_list :: "geo_area \<Rightarrow> geo_area \<Rightarrow> json_patch list option" where
  "ga_point_patch_list a b =
     (case (a, b) of
        (Ga_point p, Ga_point q) \<Rightarrow> do {
          ps \<leftarrow> geographic_coordinate_patch_list (Some p) (Some q);
          json_patches_append_list [] ps (Some ''/point'')
        }
      | _ \<Rightarrow> Some [])"

definition geographic_area_patch_list :: "geo_area option \<Rightarrow> geo_area option \<Rightarrow> json_patch list option" where
  "geographic_area_patch_list =
     ptr_patch_list (\<lambda>a. Some (geographic_area_to_json a))
       (\<lambda>a b. if ga_shape a \<noteq> ga_shape b
              then Some [json_patch_new Op_replace ''/'' (Some (geographic_area_to_json b))]
              else (case ga_shape a of
                      Shape_point \<Rightarrow> do {
                        ps \<leftarrow> ga_point_patch_list a b;
                        json_patches_append_list [] ps None
                      }
                    | _ \<Rightarrow> Some []))"

subsection \<open>What copy, comparison and patches do\<close>

fun no_polygon :: "geo_area \<Rightarrow> bool" and no_polygon_origin :: "local_origin \<Rightarrow> bool" where
  "no_polygon (Ga_polygon ps) \<longleftrightarrow> ps = []"
| "no_polygon (Ga_local_2d_point_uncertainty_ellipse o1 _ _ _ _ _) \<longleftrightarrow> no_polygon_origin o1"
| "no_polygon (Ga_local_3d_point_uncertainty_ellipsoid o1 _ _ _ _ _ _) \<longleftrightarrow> no_polygon_origin o1"
| "no_polygon a \<longleftrightarrow> True"
| "no_polygon_origin (Local_origin _ _ None _) \<longleftrightarrow> True"
| "no_polygon_origin (Local_origin _ _ (Some a) _) \<longleftrightarrow> no_polygon a"

lemma geographic_area_copy_id:
  "geographic_area_copy_values a = a \<longleftrightarrow> no_polygon a"
  "local_origin_copy o1 = o1 \<longleftrightarrow> no_polygon_origin o1"
  by (induction a and o1 rule: geographic_area_copy_values_local_origin_copy.induct) auto

lemma geographic_area_copy_shape: "ga_shape (geographic_area_copy_values a) = ga_shape a"
  by (cases a) auto

lemma geographic_area_copy_idem:
  "geographic_area_copy_values (geographic_area_copy_values a) = geographic_area_copy_values a"
  "local_origin_copy (local_origin_copy o1) = local_origin_copy o1"
  by (induction a and o1 rule: geographic_area_copy_values_local_origin_copy.induct) auto

lemma geographic_areas_equal_iff [eq_simps]:
  "geographic_areas_equal a b \<longleftrightarrow> a = [] \<and> b = []"
proof (cases a)
  case (Cons x xs)
  have "remove_first (geographic_area_equal False x) ys = None" for ys
    by (simp add: remove_first_None geographic_area_equal_def)
  then show ?thesis using Cons by (simp add: geographic_areas_equal_def)
qed (simp add: geographic_areas_equal_def)

interpretation geo_array:
  array_diff "\<lambda>_ _. False" geographic_area_to_json "\<lambda>_. ''/-''" "\<lambda>_. True"
  by unfold_locales auto

lemma geographic_area_patch_total: "geographic_area_patch_list a b \<noteq> None"
  by (cases a; cases b)
     (auto simp: geographic_area_patch_list_def ga_point_patch_list_def json_patches_append_iff
       geographic_coordinate_patch_list_def geographic_coordinate_both_patch_list_def
       split: geo_shape.splits geo_area.splits)

end
