(* ===== verification/Ext_Service_Area.thy ===== *)
theory Ext_Service_Area
  imports Geo_Area Civic_Address
begin

text \<open>
  \<open>ext-mbs-service-area.c\<close>: geographic areas and civic addresses.
\<close>

record ext_service_area =
  esa_areas :: "geo_area list"
  esa_addresses :: "civic_address list"

definition ext_mbs_service_area_new :: ext_service_area where
  "ext_mbs_service_area_new = \<lparr>esa_areas = [], esa_addresses = []\<rparr>"

definition ext_mbs_service_area_clear :: "ext_service_area \<Rightarrow> ext_service_area" where
  "ext_mbs_service_area_clear a = a\<lparr>esa_areas := [], esa_addresses := []\<rparr>"

definition ext_mbs_service_area_copy ::
  "ext_service_area option \<Rightarrow> ext_service_area option \<Rightarrow> ext_service_area option" where
  "ext_mbs_service_area_copy dst src =
     (case src of
        None \<Rightarrow> None
      | Some s \<Rightarrow>
          (let d = (case dst of None \<Rightarrow> ext_mbs_service_area_new
                    | Some d \<Rightarrow> ext_mbs_service_area_clear d);
               d = d\<lparr>esa_areas := geographic_areas_copy_values (esa_areas d) (esa_areas s)\<rparr>;
               d = d\<lparr>esa_addresses := civic_addresses_copy_values (esa_addresses d) (esa_addresses s)\<rparr>
           in Some d))"

text \<open>The two arguments are different objects: the same-object case is decided before.\<close>

definition ext_mbs_service_area_equal :: "ext_service_area \<Rightarrow> ext_service_area \<Rightarrow> bool" where
  "ext_mbs_service_area_equal a b \<longleftrightarrow>
     geographic_areas_equal (esa_areas a) (esa_areas b) \<and>
     civic_addresses_equal (esa_addresses a) (esa_addresses b)"

definition ext_mbs_service_area_to_openapi :: "ext_service_area \<Rightarrow> api_ext_service_area" where
  "ext_mbs_service_area_to_openapi a =
     Api_external_mbs_service_area (geographic_areas_to_openapi (esa_areas a))
       (civic_addresses_to_openapi (esa_addresses a))"

definition ext_mbs_service_area_to_json :: "ogs_api \<Rightarrow> ext_service_area \<Rightarrow> json" where
  "ext_mbs_service_area_to_json api a = conv_ext_service_area api (ext_mbs_service_area_to_openapi a)"

definition ext_mbs_service_area_patch_list ::
  "ogs_api \<Rightarrow> ext_service_area option \<Rightarrow> ext_service_area option \<Rightarrow> json_patch list option" where
  "ext_mbs_service_area_patch_list api =
     ptr_patch_list (\<lambda>x. Some (ext_mbs_service_area_to_json api x))
       (\<lambda>a b. do {
          ps \<leftarrow> json_patches_append_list [] (geographic_areas_patch_list (esa_areas a) (esa_areas b))
                  (Some ''/geographicAreaList'');
          json_patches_append_list ps (civic_addresses_patch_list api (esa_addresses a) (esa_addresses b))
            (Some ''/civicAddressList'')
        })"

lemma ext_mbs_service_area_copy_eq [simp, copy_simps]:
  "ext_mbs_service_area_copy dst src =
     map_option (\<lambda>s. s\<lparr>esa_areas := map geographic_area_copy_values (esa_areas s)\<rparr>) src"
  by (auto simp: ext_mbs_service_area_copy_def ext_mbs_service_area_new_def
      ext_mbs_service_area_clear_def geographic_areas_copy_values_def civic_addresses_copy_values_def
      geographic_area_copy_def Let_def split: option.split)

lemma ext_mbs_service_area_equal_iff [eq_simps]:
  "ext_mbs_service_area_equal a b \<longleftrightarrow>
     esa_areas a = [] \<and> esa_areas b = [] \<and> mset (esa_addresses a) = mset (esa_addresses b)"
  by (auto simp: ext_mbs_service_area_equal_def eq_simps)

end
