(* ===== verification/Qos_Media.thy ===== *)
theory Qos_Media
  imports Json_Patch Sc_Utils
begin

text \<open>
  \<open>arp.c\<close>, \<open>mbs-qos-req.c\<close> and \<open>mbs-media-info.c\<close>: allocation and retention priority,
  quality-of-service requirements and media information, each with its copy, comparison
  and patch list.
\<close>

section \<open>Allocation and retention priority\<close>

record arp =
  arp_priority_level :: "8 word"
  arp_preempt_cap :: preempt_cap
  arp_preempt_vuln :: preempt_vuln

definition arp_new :: arp where
  "arp_new = \<lparr>arp_priority_level = 0, arp_preempt_cap = Cap_null, arp_preempt_vuln = Vuln_null\<rparr>"

definition arp_copy :: "arp option \<Rightarrow> arp option \<Rightarrow> arp option" where
  "arp_copy dst src =
     (case src of
        None \<Rightarrow> None
      | Some s \<Rightarrow>
          (let d = (case dst of None \<Rightarrow> arp_new | Some d \<Rightarrow> d)
           in Some (d\<lparr>arp_priority_level := arp_priority_level s,
                      arp_preempt_cap := arp_preempt_cap s,
                      arp_preempt_vuln := arp_preempt_vuln s\<rparr>)))"

definition arp_equal :: "arp \<Rightarrow> arp \<Rightarrow> bool" where
  "arp_equal a b =
     (if arp_priority_level a \<noteq> arp_priority_level b then False
      else if arp_preempt_cap a \<noteq> arp_preempt_cap b then False
      else if arp_preempt_vuln a \<noteq> arp_preempt_vuln b then False
      else True)"

definition arp_to_openapi :: "arp \<Rightarrow> api_arp" where
  "arp_to_openapi a = Api_arp False (arp_priority_level a) (arp_preempt_cap a) (arp_preempt_vuln a)"

definition arp_to_json :: "ogs_api \<Rightarrow> arp \<Rightarrow> json" where
  "arp_to_json api a = conv_arp api (arp_to_openapi a)"

definition num_json :: "'a::len word \<Rightarrow> json" where
  "num_json w = JNum (real (unat w))"

definition arp_both_patch_list :: "ogs_api \<Rightarrow> arp \<Rightarrow> arp \<Rightarrow> json_patch list" where
  "arp_both_patch_list api a b =
     (if arp_priority_level a \<noteq> arp_priority_level b
      then [json_patch_new Op_replace ''/priorityLevel'' (Some (num_json (arp_priority_level b)))] else [])
     @ (if arp_preempt_cap a \<noteq> arp_preempt_cap b
        then [json_patch_new Op_replace ''/preemptCap''
                (Some (JStr (preempt_cap_string api (arp_preempt_cap b))))] else [])
     @ (if arp_preempt_vuln a \<noteq> arp_preempt_vuln b
        then [json_patch_new Op_replace ''/preemptVuln''
                (Some (JStr (preempt_vuln_string api (arp_preempt_vuln b))))] else [])"

definition arp_patch_list :: "ogs_api \<Rightarrow> arp option \<Rightarrow> arp option \<Rightarrow> json_patch list option" where
  "arp_patch_list api a b =
     ptr_patch_list (\<lambda>x. Some (arp_to_json api x)) (\<lambda>a b. Some (arp_both_patch_list api a b)) a b"

lemma arp_copy_eq [simp, copy_simps]: "arp_copy dst src = src"
  by (cases src; cases dst) (auto simp: arp_copy_def arp_new_def Let_def)

lemma arp_equal_eq [eq_simps]: "arp_equal a b \<longleftrightarrow> a = b"
  by (cases a; cases b) (auto simp: arp_equal_def)

lemma arp_both_has_values [simp]: "has_values (arp_both_patch_list api a b)"
  by (simp add: arp_both_patch_list_def)

section \<open>Quality of service\<close>

record qos_req =
  qos_five_qi :: "8 word"
  qos_guar_bit_rate :: "64 word option"
  qos_max_bit_rate :: "64 word option"
  qos_window :: "16 word option"
  qos_arp :: "arp option"

definition mbs_qos_req_new :: qos_req where
  "mbs_qos_req_new =
     \<lparr>qos_five_qi = 0, qos_guar_bit_rate = None, qos_max_bit_rate = None, qos_window = None,
      qos_arp = None\<rparr>"

definition mbs_qos_req_clear :: "qos_req \<Rightarrow> qos_req" where
  "mbs_qos_req_clear q =
     q\<lparr>qos_five_qi := 0, qos_guar_bit_rate := None, qos_max_bit_rate := None, qos_window := None,
       qos_arp := None\<rparr>"

definition mbs_qos_req_copy :: "qos_req option \<Rightarrow> qos_req option \<Rightarrow> qos_req option" where
  "mbs_qos_req_copy dst src =
     (case src of
        None \<Rightarrow> None
      | Some s \<Rightarrow>
          (let d = (case dst of None \<Rightarrow> mbs_qos_req_new | Some d \<Rightarrow> mbs_qos_req_clear d);
               d = d\<lparr>qos_five_qi := qos_five_qi s\<rparr>;
               d = (case qos_guar_bit_rate s of None \<Rightarrow> d | Some r \<Rightarrow> d\<lparr>qos_guar_bit_rate := Some r\<rparr>);
               d = (case qos_max_bit_rate s of None \<Rightarrow> d | Some r \<Rightarrow> d\<lparr>qos_max_bit_rate := Some r\<rparr>);
               d = (case qos_window s of None \<Rightarrow> d | Some w \<Rightarrow> d\<lparr>qos_window := Some w\<rparr>)
           in Some (d\<lparr>qos_arp := arp_copy (qos_arp d) (qos_arp s)\<rparr>)))"

definition opt_differs :: "'a option \<Rightarrow> 'a option \<Rightarrow> bool" where
  "opt_differs a b \<longleftrightarrow> (a = None) \<noteq> (b = None) \<or> (a \<noteq> None \<and> the a \<noteq> the b)"

lemma opt_differs_iff [simp]: "opt_differs a b \<longleftrightarrow> a \<noteq> b"
  by (cases a; cases b) (auto simp: opt_differs_def)

definition mbs_qos_req_equal :: "qos_req \<Rightarrow> qos_req \<Rightarrow> bool" where
  "mbs_qos_req_equal a b =
     (if qos_five_qi a \<noteq> qos_five_qi b then False
      else if opt_differs (qos_guar_bit_rate a) (qos_guar_bit_rate b) then False
      else if opt_differs (qos_max_bit_rate a) (qos_max_bit_rate b) then False
      else if opt_differs (qos_window a) (qos_window b) then False
      else ptr_equal arp_equal (qos_arp a) (qos_arp b))"

definition mbs_qos_req_to_openapi :: "ogs_api \<Rightarrow> qos_req \<Rightarrow> api_qos_req" where
  "mbs_qos_req_to_openapi api q =
     Api_mbs_qos_req (qos_five_qi q) (map_option (bitrate_to_str api) (qos_guar_bit_rate q))
       (map_option (bitrate_to_str api) (qos_max_bit_rate q)) (qos_window q \<noteq> None)
       (case qos_window q of None \<Rightarrow> 0 | Some w \<Rightarrow> w) (map_option arp_to_openapi (qos_arp q))"

definition mbs_qos_req_to_json :: "ogs_api \<Rightarrow> qos_req \<Rightarrow> json" where
  "mbs_qos_req_to_json api q = conv_qos_req api (mbs_qos_req_to_openapi api q)"

definition rate_json :: "ogs_api \<Rightarrow> 64 word \<Rightarrow> json" where
  "rate_json api r = JStr (bitrate_to_str api r)"

definition mbs_qos_req_patch_list ::
  "ogs_api \<Rightarrow> qos_req option \<Rightarrow> qos_req option \<Rightarrow> json_patch list option" where
  "mbs_qos_req_patch_list api =
     ptr_patch_list (\<lambda>x. Some (mbs_qos_req_to_json api x))
       (\<lambda>a b. do {
          arps \<leftarrow> arp_patch_list api (qos_arp a) (qos_arp b);
          json_patches_append_list
            ((if qos_five_qi a \<noteq> qos_five_qi b
              then [json_patch_new Op_replace ''/5Qi'' (Some (num_json (qos_five_qi b)))] else [])
             @ member_patch_list ''/guarBitRate'' (rate_json api) (qos_guar_bit_rate a) (qos_guar_bit_rate b)
             @ member_patch_list ''/maxBitRate'' (rate_json api) (qos_max_bit_rate a) (qos_max_bit_rate b)
             @ member_patch_list ''/averWindow'' num_json (qos_window a) (qos_window b))
            arps (Some ''/regMbsArp'')
        })"

lemma mbs_qos_req_copy_eq [simp, copy_simps]: "mbs_qos_req_copy dst src = src"
proof (cases src)
  case (Some s)
  then show ?thesis
    by (cases s; cases dst)
       (auto simp: mbs_qos_req_copy_def mbs_qos_req_new_def mbs_qos_req_clear_def Let_def
         split: option.split)
qed (simp add: mbs_qos_req_copy_def)

lemma mbs_qos_req_equal_eq [eq_simps]: "mbs_qos_req_equal a b \<longleftrightarrow> a = b"
proof -
  have "ptr_equal arp_equal x y \<longleftrightarrow> x = y" for x y
    by (cases x; cases y) (auto simp: eq_simps)
  then show ?thesis by (cases a; cases b) (auto simp: mbs_qos_req_equal_def)
qed

section \<open>Media information\<close>

record media_info =
  mi_type :: media_type
  mi_max :: "64 word option"
  mi_min :: "64 word option"
  mi_codec0 :: "string option"
  mi_codec1 :: "string option"

definition mbs_media_info_new :: media_info where
  "mbs_media_info_new =
     \<lparr>mi_type = Media_null, mi_max = None, mi_min = None, mi_codec0 = None, mi_codec1 = None\<rparr>"

definition mbs_media_info_clear :: "media_info \<Rightarrow> media_info" where
  "mbs_media_info_clear m =
     m\<lparr>mi_type := Media_null, mi_max := None, mi_min := None, mi_codec0 := None, mi_codec1 := None\<rparr>"

definition mbs_media_info_copy :: "media_info option \<Rightarrow> media_info option \<Rightarrow> media_info option" where
  "mbs_media_info_copy dst src =
     (case src of
        None \<Rightarrow> None
      | Some s \<Rightarrow>
          (let d = (case dst of None \<Rightarrow> mbs_media_info_new | Some d \<Rightarrow> mbs_media_info_clear d);
               d = d\<lparr>mi_type := mi_type s\<rparr>;
               d = (case mi_max s of None \<Rightarrow> d | Some r \<Rightarrow> d\<lparr>mi_max := Some r\<rparr>);
               d = (case mi_min s of None \<Rightarrow> d | Some r \<Rightarrow> d\<lparr>mi_min := Some r\<rparr>)
           in Some (case mi_codec0 s of
                      Some c0 \<Rightarrow>
                        (let d = d\<lparr>mi_codec0 := Some c0\<rparr>
                         in case mi_codec1 s of None \<Rightarrow> d | Some c1 \<Rightarrow> d\<lparr>mi_codec1 := Some c1\<rparr>)
                    | None \<Rightarrow>
                        (case mi_codec1 s of None \<Rightarrow> d | Some c1 \<Rightarrow> d\<lparr>mi_codec0 := Some c1\<rparr>))))"

text \<open>A single codec counts as the first one.\<close>

definition codec_pair :: "media_info \<Rightarrow> string option \<times> string option" where
  "codec_pair m =
     (if mi_codec0 m = None then (mi_codec1 m, None) else (mi_codec0 m, mi_codec1 m))"

text \<open>The comparison of the two bandwidths only looks at whether they are set.\<close>

definition mbs_media_info_equal :: "media_info \<Rightarrow> media_info \<Rightarrow> bool" where
  "mbs_media_info_equal a b =
     (if mi_type a \<noteq> mi_type b then False
      else if (mi_max a = None) \<noteq> (mi_max b = None) then False
      else if (mi_min a = None) \<noteq> (mi_min b = None) then False
      else (case (codec_pair a, codec_pair b) of
              ((a1, a2), (b1, b2)) \<Rightarrow>
                if (a1 = None) \<noteq> (b1 = None) \<or> (a2 = None) \<noteq> (b2 = None) then False
                else if a1 \<noteq> None \<and> a1 \<noteq> b1 then
                  (if b2 = None then False
                   else if a1 \<noteq> b2 then False
                   else if a2 \<noteq> None \<and> a2 \<noteq> b1 then False
                   else True)
                else if a2 \<noteq> None \<and> a2 \<noteq> b2 then False
                else True))"

definition mbs_media_info_to_openapi :: "ogs_api \<Rightarrow> media_info \<Rightarrow> api_media_info" where
  "mbs_media_info_to_openapi api m =
     (let codecs = (case mi_codec0 m of None \<Rightarrow> None | Some c \<Rightarrow> Some [c]);
          codecs = (case mi_codec1 m of None \<Rightarrow> codecs
                    | Some c \<Rightarrow> Some ((case codecs of None \<Rightarrow> [] | Some l \<Rightarrow> l) @ [c]))
      in Api_mbs_media_info (mi_type m) (map_option (bitrate_to_str api) (mi_max m))
           (map_option (bitrate_to_str api) (mi_min m)) codecs)"

definition mbs_media_info_to_json :: "ogs_api \<Rightarrow> media_info \<Rightarrow> json" where
  "mbs_media_info_to_json api m = conv_media_info api (mbs_media_info_to_openapi api m)"

definition media_type_patch_list :: "ogs_api \<Rightarrow> media_type \<Rightarrow> media_type \<Rightarrow> json_patch list" where
  "media_type_patch_list api a b =
     (if a = b then []
      else if a = Media_null then
        [json_patch_new Op_add ''/mbsMedType'' (Some (JStr (media_type_string api b)))]
      else if b = Media_null then [json_patch_new Op_remove ''/mbsMedType'' None]
      else [json_patch_new Op_replace ''/mbsMedType'' (Some (JStr (media_type_string api b)))])"

definition codec_patch_list ::
  "string option \<times> string option \<Rightarrow> string option \<times> string option \<Rightarrow> json_patch list" where
  "codec_patch_list a b =
     (case (a, b) of
        ((a1, a2), (b1, b2)) \<Rightarrow>
          (case (a1, b1) of
             (None, None) \<Rightarrow> []
           | (None, Some c) \<Rightarrow> [json_patch_new Op_add ''/codecs/-'' (Some (JStr c))]
           | (Some _, None) \<Rightarrow> [json_patch_new Op_remove ''/codecs'' None]
           | (Some x, Some c) \<Rightarrow>
               if x \<noteq> c then [json_patch_new Op_replace ''/codecs/0'' (Some (JStr c))] else [])
          @ (case (a2, b2) of
               (None, None) \<Rightarrow> []
             | (None, Some c) \<Rightarrow> [json_patch_new Op_add ''/codecs/-'' (Some (JStr c))]
             | (Some _, None) \<Rightarrow> if b1 \<noteq> None then [json_patch_new Op_remove ''/codecs/1'' None] else []
             | (Some x, Some c) \<Rightarrow>
                 if x \<noteq> c then [json_patch_new Op_replace ''/codecs/1'' (Some (JStr c))] else []))"

definition media_info_both_patch_list :: "ogs_api \<Rightarrow> media_info \<Rightarrow> media_info \<Rightarrow> json_patch list" where
  "media_info_both_patch_list api a b =
     media_type_patch_list api (mi_type a) (mi_type b)
     @ member_patch_list ''/maxReqMbsBwDl'' (rate_json api) (mi_max a) (mi_max b)
     @ member_patch_list ''/minReqMbsBwDl'' (rate_json api) (mi_min a) (mi_min b)
     @ codec_patch_list (codec_pair a) (codec_pair b)"

definition mbs_media_info_patch_list ::
  "ogs_api \<Rightarrow> media_info option \<Rightarrow> media_info option \<Rightarrow> json_patch list option" where
  "mbs_media_info_patch_list api a b =
     ptr_patch_list (\<lambda>x. Some (mbs_media_info_to_json api x))
       (\<lambda>a b. Some (media_info_both_patch_list api a b)) a b"

definition normal_codecs :: "media_info \<Rightarrow> media_info" where
  "normal_codecs m = m\<lparr>mi_codec0 := fst (codec_pair m), mi_codec1 := snd (codec_pair m)\<rparr>"

lemma mbs_media_info_copy_eq [simp, copy_simps]:
  "mbs_media_info_copy dst src = map_option normal_codecs src"
proof (cases src)
  case (Some s)
  then show ?thesis
    by (cases s; cases dst)
       (auto simp: mbs_media_info_copy_def mbs_media_info_new_def mbs_media_info_clear_def
         normal_codecs_def codec_pair_def Let_def split: option.split)
qed (simp add: mbs_media_info_copy_def)

definition codec_mset :: "media_info \<Rightarrow> string multiset" where
  "codec_mset m = mset (List.map_filter (\<lambda>c. c) [mi_codec0 m, mi_codec1 m])"

lemma mbs_media_info_equal_iff:
  "mbs_media_info_equal a b \<longleftrightarrow>
     mi_type a = mi_type b \<and> (mi_max a = None \<longleftrightarrow> mi_max b = None) \<and>
     (mi_min a = None \<longleftrightarrow> mi_min b = None) \<and> codec_mset a = codec_mset b"
  by (cases a; cases b; cases "mi_codec0 a"; cases "mi_codec1 a"; cases "mi_codec0 b";
      cases "mi_codec1 b")
     (auto simp: mbs_media_info_equal_def codec_pair_def codec_mset_def map_filter_simps
       add_eq_conv_diff add_mset_commute split: if_splits)

lemma codec_mset_normal [simp]: "codec_mset (normal_codecs m) = codec_mset m"
  by (cases m; cases "mi_codec0 m"; cases "mi_codec1 m")
     (auto simp: codec_mset_def normal_codecs_def codec_pair_def map_filter_simps)

lemma mbs_media_info_equal_copy [simp]:
  "mbs_media_info_equal m (normal_codecs m)" "mbs_media_info_equal (normal_codecs m) m"
  by (simp_all add: mbs_media_info_equal_iff) (simp_all add: normal_codecs_def)

end
