(* ===== verification/Media_Comp.thy ===== *)
theory Media_Comp
  imports Qos_Media "HOL-Library.AList"
begin

text \<open>
  \<open>flow-description.c\<close>, \<open>mbs-media-comp.c\<close> and \<open>mbs-service-info.c\<close>.  A flow description may
  lack its string; copying a list that holds such a one puts a \<open>NULL\<close> node into the new
  list, which is undefined behaviour, so the copy functions and the comparisons (which copy)
  return \<open>None\<close> then.  The media components of a service are an \<open>ogs_hash_t\<close> keyed by the
  component number: an association list in iteration order.
\<close>

section \<open>Flow descriptions\<close>

record flow_description =
  fd_string :: "string option"

definition flow_description_copy ::
  "flow_description option \<Rightarrow> flow_description option \<Rightarrow> flow_description option" where
  "flow_description_copy dst src =
     (case src of
        None \<Rightarrow> None
      | Some s \<Rightarrow> (case fd_string s of
                     None \<Rightarrow> None
                   | Some str \<Rightarrow> Some \<lparr>fd_string = Some str\<rparr>))"

fun flow_copies :: "flow_description list \<Rightarrow> flow_description list \<Rightarrow> flow_description list option" where
  "flow_copies dst [] = Some dst"
| "flow_copies dst (f # fs) = do {
     n \<leftarrow> flow_description_copy None (Some f);
     flow_copies (dst @ [n]) fs
   }"

definition flow_descriptions_copy ::
  "flow_description list option \<Rightarrow> flow_description list option \<Rightarrow>
     flow_description list option option" where
  "flow_descriptions_copy dst src =
     (case src of
        None \<Rightarrow> Some None
      | Some fs \<Rightarrow> map_option Some (flow_copies [] fs))"

definition flow_description_equal :: "flow_description \<Rightarrow> flow_description \<Rightarrow> bool" where
  "flow_description_equal a b = (\<not> opt_differs (fd_string a) (fd_string b))"

text \<open>The flag \<open>found\<close> starts as true.\<close>

fun flows_match :: "flow_description list \<Rightarrow> flow_description list \<Rightarrow> bool" where
  "flows_match [] b_copy = True"
| "flows_match (a # as) b_copy =
     (case (case remove_first (flow_description_equal a) b_copy of
              Some b' \<Rightarrow> (True, b') | None \<Rightarrow> (True, b_copy)) of
        (found, b') \<Rightarrow> if \<not> found then False else flows_match as b')"

definition flow_descriptions_equal ::
  "flow_description list option \<Rightarrow> flow_description list option \<Rightarrow> bool option" where
  "flow_descriptions_equal a b =
     (case (a, b) of
        (None, None) \<Rightarrow> Some True
      | (Some fa, Some fb) \<Rightarrow>
          (if length fa \<noteq> length fb then Some False
           else do {
             b_copy \<leftarrow> flow_descriptions_copy None (Some fb);
             Some (flows_match fa (the b_copy))
           })
      | _ \<Rightarrow> Some False)"

definition flow_description_to_json :: "flow_description \<Rightarrow> json option" where
  "flow_description_to_json f = map_option JStr (fd_string f)"

definition flow_description_to_openapi :: "flow_description \<Rightarrow> string option" where
  "flow_description_to_openapi f = fd_string f"

definition flow_descriptions_to_openapi :: "flow_description list option \<Rightarrow> string option list option" where
  "flow_descriptions_to_openapi fs =
     (case fs of
        None \<Rightarrow> None
      | Some l \<Rightarrow> if length l = 0 then None else Some (map flow_description_to_openapi l))"

text \<open>Adding \<open>NULL\<close> to a cJSON array is refused, so that such an entry is left out.\<close>

definition flow_descriptions_to_json :: "flow_description list \<Rightarrow> json option" where
  "flow_descriptions_to_json fs =
     (if length fs = 0 then None else Some (JArr (List.map_filter flow_description_to_json fs)))"

definition flow_description_patch_list :: "flow_description \<Rightarrow> flow_description \<Rightarrow> json_patch list" where
  "flow_description_patch_list a b =
     (case (fd_string a, fd_string b) of
        (None, None) \<Rightarrow> []
      | (None, Some _) \<Rightarrow> [json_patch_new Op_add ''/'' (flow_description_to_json b)]
      | (Some _, None) \<Rightarrow> [json_patch_new Op_remove ''/'' None]
      | (Some x, Some y) \<Rightarrow>
          if x \<noteq> y then [json_patch_new Op_replace ''/'' (flow_description_to_json b)] else [])"

fun flow_entries_patch_list ::
  "json_patch list \<Rightarrow> nat \<Rightarrow> flow_description list \<Rightarrow> flow_description list \<Rightarrow> json_patch list option"
where
  "flow_entries_patch_list ps idx [] [] = Some ps"
| "flow_entries_patch_list ps idx [] (b # bs) =
     flow_entries_patch_list (ps @ [json_patch_new Op_add ''/-'' (flow_description_to_json b)])
       (idx + 1) [] bs"
| "flow_entries_patch_list ps idx (a # as) [] =
     flow_entries_patch_list (ps @ [json_patch_new Op_remove (idx_path idx) None]) idx as []"
| "flow_entries_patch_list ps idx (a # as) (b # bs) = do {
     ps' \<leftarrow> json_patches_append_list ps (flow_description_patch_list a b) (Some (idx_path idx));
     flow_entries_patch_list ps' (idx + 1) as bs
   }"

definition flow_descriptions_patch_list ::
  "flow_description list option \<Rightarrow> flow_description list option \<Rightarrow> json_patch list option" where
  "flow_descriptions_patch_list a b =
     (let a = (if a = Some [] then None else a);
          b = (if b = Some [] then None else b)
      in case (a, b) of
           (None, None) \<Rightarrow> Some []
         | (None, Some fb) \<Rightarrow> Some [json_patch_new Op_add ''/'' (flow_descriptions_to_json fb)]
         | (Some _, None) \<Rightarrow> Some [json_patch_new Op_remove ''/'' None]
         | (Some fa, Some fb) \<Rightarrow> flow_entries_patch_list [] 0 fa fb)"

definition flows_set :: "flow_description list option \<Rightarrow> bool" where
  "flows_set fs \<longleftrightarrow> (\<forall>l. fs = Some l \<longrightarrow> (\<forall>f\<in>set l. fd_string f \<noteq> None))"

lemma flow_copies_eq:
  "flow_copies dst fs = (if \<forall>f\<in>set fs. fd_string f \<noteq> None then Some (dst @ fs) else None)"
proof (induction fs arbitrary: dst)
  case (Cons f fs)
  then show ?case
    by (cases f; cases "fd_string f") (auto simp: flow_description_copy_def)
qed simp

lemma flow_descriptions_copy_eq [copy_simps]:
  "flow_descriptions_copy dst src = (if flows_set src then Some src else None)"
  by (auto simp: flow_descriptions_copy_def flows_set_def flow_copies_eq split: option.split)

lemma flows_match_True [simp]: "flows_match as bs"
  by (induction as arbitrary: bs) (auto split: option.split)

lemma flow_descriptions_equal_eq:
  "flow_descriptions_equal a b =
     (case (a, b) of
        (None, None) \<Rightarrow> Some True
      | (Some fa, Some fb) \<Rightarrow>
          if length fa \<noteq> length fb then Some False
          else if flows_set b then Some True else None
      | _ \<Rightarrow> Some False)"
  by (auto simp: flow_descriptions_equal_def flow_descriptions_copy_eq split: option.split)

section \<open>Media components\<close>

record media_comp =
  mc_id :: int
  mc_flows :: "flow_description list option"
  mc_prio :: "8 word"
  mc_info :: "media_info option"
  mc_qos_ref :: "string option"
  mc_qos :: "qos_req option"

definition mbs_media_comp_new :: media_comp where
  "mbs_media_comp_new =
     \<lparr>mc_id = 0, mc_flows = None, mc_prio = 0, mc_info = None, mc_qos_ref = None, mc_qos = None\<rparr>"

definition mbs_media_comp_clear :: "media_comp \<Rightarrow> media_comp" where
  "mbs_media_comp_clear c =
     c\<lparr>mc_flows := None, mc_prio := 0, mc_info := None, mc_qos_ref := None, mc_qos := None\<rparr>"

definition mbs_media_comp_copy :: "media_comp option \<Rightarrow> media_comp option \<Rightarrow> media_comp option option" where
  "mbs_media_comp_copy dst src =
     (case src of
        None \<Rightarrow> Some None
      | Some s \<Rightarrow> do {
          let d = (case dst of None \<Rightarrow> mbs_media_comp_new | Some d \<Rightarrow> mbs_media_comp_clear d);
          let d = d\<lparr>mc_id := mc_id s\<rparr>;
          fs \<leftarrow> flow_descriptions_copy (mc_flows d) (mc_flows s);
          let d = d\<lparr>mc_flows := fs\<rparr>;
          let d = d\<lparr>mc_prio := mc_prio s\<rparr>;
          let d = d\<lparr>mc_info := mbs_media_info_copy (mc_info d) (mc_info s)\<rparr>;
          let d = (case mc_qos_ref s of None \<Rightarrow> d | Some r \<Rightarrow> d\<lparr>mc_qos_ref := Some r\<rparr>);
          Some (Some (d\<lparr>mc_qos := mbs_qos_req_copy (mc_qos d) (mc_qos s)\<rparr>))
        })"

definition mbs_media_comp_equal :: "media_comp \<Rightarrow> media_comp option \<Rightarrow> bool option" where
  "mbs_media_comp_equal a b =
     (case b of
        None \<Rightarrow> Some False
      | Some b \<Rightarrow>
          (if mc_prio a \<noteq> mc_prio b then Some False
           else if opt_differs (mc_qos_ref a) (mc_qos_ref b) then Some False
           else do {
             fl \<leftarrow> flow_descriptions_equal (mc_flows a) (mc_flows b);
             if \<not> fl then Some False
             else if \<not> ptr_equal mbs_media_info_equal (mc_info a) (mc_info b) then Some False
             else if \<not> ptr_equal mbs_qos_req_equal (mc_qos a) (mc_qos b) then Some False
             else Some True
           }))"

definition mbs_media_comp_to_openapi :: "ogs_api \<Rightarrow> media_comp \<Rightarrow> api_media_comp" where
  "mbs_media_comp_to_openapi api c =
     (let info = map_option (mbs_media_info_to_openapi api) (mc_info c);
          qos_ref = (if info = None \<and> mc_qos_ref c \<noteq> None then mc_qos_ref c else None);
          qos = (if info = None \<and> qos_ref = None
                 then map_option (mbs_qos_req_to_openapi api) (mc_qos c) else None)
      in Api_mbs_media_comp_rm (mc_id c) (flow_descriptions_to_openapi (mc_flows c)) (mc_prio c)
           info qos_ref qos)"

definition mbs_media_comp_to_json :: "ogs_api \<Rightarrow> media_comp \<Rightarrow> json" where
  "mbs_media_comp_to_json api c = conv_media_comp api (mbs_media_comp_to_openapi api c)"

definition int_str :: "int \<Rightarrow> string" where
  "int_str i = (if i < 0 then ''-'' @ dec_str (nat (- i)) else dec_str (nat i))"

text \<open>The reserve priority is a number of which zero means unset.\<close>

definition prio_json :: "8 word \<Rightarrow> json" where
  "prio_json p = JStr (''PRIO_'' @ dec_str (unat p))"

definition prio_patch_list :: "8 word \<Rightarrow> 8 word \<Rightarrow> json_patch list" where
  "prio_patch_list a b =
     (if a = b then []
      else if a = 0 then [json_patch_new Op_add ''/mbsSdfResPrio'' (Some (prio_json b))]
      else if b = 0 then [json_patch_new Op_remove ''/mbsSdfResPrio'' None]
      else [json_patch_new Op_replace ''/mbsSdfResPrio'' (Some (prio_json b))])"

definition qos_ref_patch_list :: "string option \<Rightarrow> string option \<Rightarrow> json_patch list" where
  "qos_ref_patch_list a b =
     (if (a = None) \<noteq> (b = None) then
        (case (a, b) of
           (None, Some y) \<Rightarrow> [json_patch_new Op_add ''/qosRef'' (Some (JStr y))]
         | (Some _, None) \<Rightarrow> [json_patch_new Op_remove ''/qosRef'' None]
         | (Some x, Some y) \<Rightarrow>
             if x \<noteq> y then [json_patch_new Op_replace ''/qosRef'' (Some (JStr y))] else []
         | (None, None) \<Rightarrow> [])
      else [])"

definition mbs_media_comp_patch_list ::
  "ogs_api \<Rightarrow> media_comp option \<Rightarrow> media_comp option \<Rightarrow> json_patch list option" where
  "mbs_media_comp_patch_list api =
     ptr_patch_list (\<lambda>x. Some (mbs_media_comp_to_json api x))
       (\<lambda>a b. do {
          let ps = (if mc_id a \<noteq> mc_id b
                    then [json_patch_new Op_replace ''/mbsMedCompNum'' (Some (JNum (of_int (mc_id b))))]
                    else []);
          fps \<leftarrow> flow_descriptions_patch_list (mc_flows a) (mc_flows b);
          ps \<leftarrow> json_patches_append_list ps fps (Some ''/mbsFlowDescs'');
          let ps = ps @ prio_patch_list (mc_prio a) (mc_prio b);
          ips \<leftarrow> mbs_media_info_patch_list api (mc_info a) (mc_info b);
          ps \<leftarrow> json_patches_append_list ps ips (Some ''/mbsMediaInfo'');
          let ps = ps @ qos_ref_patch_list (mc_qos_ref a) (mc_qos_ref b);
          qps \<leftarrow> mbs_qos_req_patch_list api (mc_qos a) (mc_qos b);
          json_patches_append_list ps qps (Some ''/mbsQoSReq'')
        })"

type_synonym media_comps = "(int \<times> media_comp) list"

definition mbs_media_comps_to_openapi :: "ogs_api \<Rightarrow> media_comps option \<Rightarrow> (string \<times> api_media_comp) list option" where
  "mbs_media_comps_to_openapi api cs =
     (case cs of
        None \<Rightarrow> None
      | Some l \<Rightarrow>
          if length l = 0 then None
          else Some (map (\<lambda>(k, c). (int_str (mc_id c), mbs_media_comp_to_openapi api c)) l))"

definition mbs_media_comps_to_json :: "ogs_api \<Rightarrow> media_comps \<Rightarrow> json option" where
  "mbs_media_comps_to_json api cs =
     (if length cs = 0 then None
      else Some (JObj (fold (\<lambda>(k, c) m. m(int_str (mc_id c) := Some (mbs_media_comp_to_json api c)))
                        cs (\<lambda>_. None))))"

text \<open>First loop: components of the old service that are gone or changed.\<close>

fun comps_changed ::
  "ogs_api \<Rightarrow> media_comps \<Rightarrow> json_patch list \<Rightarrow> media_comps \<Rightarrow> json_patch list option" where
  "comps_changed api b ps [] = Some ps"
| "comps_changed api b ps ((k, a_comp) # rest) =
     (let path = ''/'' @ int_str (mc_id a_comp) in
      case map_of b (mc_id a_comp) of
        None \<Rightarrow> comps_changed api b (ps @ [json_patch_new Op_remove path None]) rest
      | Some b_comp \<Rightarrow> do {
          cps \<leftarrow> mbs_media_comp_patch_list api (Some a_comp) (Some b_comp);
          ps \<leftarrow> json_patches_append_list ps cps (Some path);
          comps_changed api b ps rest
        })"

text \<open>Second loop: for a component that is new the path is built from the component that was
  not found, a \<open>NULL\<close> dereference.\<close>

fun comps_added :: "media_comps \<Rightarrow> json_patch list \<Rightarrow> media_comps \<Rightarrow> json_patch list option" where
  "comps_added a ps [] = Some ps"
| "comps_added a ps ((k, b_comp) # rest) =
     (case map_of a (mc_id b_comp) of
        None \<Rightarrow> None
      | Some _ \<Rightarrow> comps_added a ps rest)"

definition mbs_media_comps_patch_list ::
  "ogs_api \<Rightarrow> media_comps option \<Rightarrow> media_comps option \<Rightarrow> json_patch list option" where
  "mbs_media_comps_patch_list api a b =
     (let a = (if a = Some [] then None else a);
          b = (if b = Some [] then None else b)
      in case (a, b) of
           (None, None) \<Rightarrow> Some []
         | (None, Some cb) \<Rightarrow> Some [json_patch_new Op_add ''/'' (mbs_media_comps_to_json api cb)]
         | (Some _, None) \<Rightarrow> Some [json_patch_new Op_remove ''/'' None]
         | (Some ca, Some cb) \<Rightarrow> do {
             ps \<leftarrow> comps_changed api cb [] ca;
             comps_added ca ps cb
           })"

section \<open>Service information\<close>

record service_info =
  si_comps :: "media_comps option"
  si_app_id :: "string option"
  si_ambr :: "64 word option"
  si_prio :: "8 word"

definition mbs_service_info_new :: service_info where
  "mbs_service_info_new = \<lparr>si_comps = Some [], si_app_id = None, si_ambr = None, si_prio = 0\<rparr>"

definition mbs_service_info_clear :: "service_info \<Rightarrow> service_info" where
  "mbs_service_info_clear s =
     s\<lparr>si_comps := map_option (\<lambda>cs. fold (\<lambda>(k, c) h. AList.delete (mc_id c) h) cs cs) (si_comps s),
       si_app_id := None, si_ambr := None, si_prio := 0\<rparr>"

fun comps_copy :: "media_comps \<Rightarrow> media_comps \<Rightarrow> media_comps option" where
  "comps_copy d [] = Some d"
| "comps_copy d ((k, c) # rest) = do {
     n \<leftarrow> mbs_media_comp_copy None (Some c);
     comps_copy (AList.update (mc_id (the n)) (the n) d) rest
   }"

definition mbs_service_info_copy :: "service_info option \<Rightarrow> service_info option \<Rightarrow> service_info option option" where
  "mbs_service_info_copy dst src =
     (case src of
        None \<Rightarrow> Some None
      | Some s \<Rightarrow> do {
          let d = (case dst of None \<Rightarrow> mbs_service_info_new | Some d \<Rightarrow> mbs_service_info_clear d);
          d \<leftarrow> (case si_comps s of
                  None \<Rightarrow> Some d
                | Some cs \<Rightarrow> map_option (\<lambda>h. d\<lparr>si_comps := Some h\<rparr>) (comps_copy [] cs));
          let d = (case si_app_id s of None \<Rightarrow> d | Some i \<Rightarrow> d\<lparr>si_app_id := Some i\<rparr>);
          let d = (case si_ambr s of None \<Rightarrow> d | Some r \<Rightarrow> d\<lparr>si_ambr := Some r\<rparr>);
          Some (Some (d\<lparr>si_prio := si_prio s\<rparr>))
        })"

fun comps_equal :: "media_comps \<Rightarrow> media_comps \<Rightarrow> bool option" where
  "comps_equal b [] = Some True"
| "comps_equal b ((k, v) # rest) = do {
     e \<leftarrow> mbs_media_comp_equal v (map_of b k);
     if e then comps_equal b rest else Some False
   }"

definition mbs_service_info_equal :: "service_info \<Rightarrow> service_info \<Rightarrow> bool option" where
  "mbs_service_info_equal a b =
     (if si_prio a \<noteq> si_prio b then Some False
      else if (si_comps a = None) \<noteq> (si_comps b = None) then Some False
      else if (si_app_id a = None) \<noteq> (si_app_id b = None) then Some False
      else if (si_ambr a = None) \<noteq> (si_ambr b = None) then Some False
      else if si_ambr a \<noteq> None \<and> the (si_ambr a) \<noteq> the (si_ambr b) then Some False
      else if si_app_id a \<noteq> None \<and> the (si_app_id a) \<noteq> the (si_app_id b) then Some False
      else (case (si_comps a, si_comps b) of
              (Some ca, Some cb) \<Rightarrow>
                (if length ca \<noteq> length cb then Some False else comps_equal cb ca)
            | _ \<Rightarrow> Some True))"

text \<open>The two application ids are compared as pointers; they belong to different objects.\<close>

definition app_id_patch_list :: "string option \<Rightarrow> string option \<Rightarrow> json_patch list" where
  "app_id_patch_list a b =
     (case (a, b) of
        (None, None) \<Rightarrow> []
      | (None, Some y) \<Rightarrow> [json_patch_new Op_add ''/afAppId'' (Some (JStr y))]
      | (Some _, None) \<Rightarrow> [json_patch_new Op_remove ''/afAppId'' None]
      | (Some _, Some y) \<Rightarrow> [json_patch_new Op_replace ''/afAppId'' (Some (JStr y))])"

definition mbs_service_info_to_openapi :: "ogs_api \<Rightarrow> service_info \<Rightarrow> api_service_info" where
  "mbs_service_info_to_openapi api s =
     Api_mbs_service_info (mbs_media_comps_to_openapi api (si_comps s)) (si_prio s) (si_app_id s)
       (map_option (bitrate_to_str api) (si_ambr s))"

definition mbs_service_info_to_json :: "ogs_api \<Rightarrow> service_info \<Rightarrow> json" where
  "mbs_service_info_to_json api s = conv_service_info api (mbs_service_info_to_openapi api s)"

definition mbs_service_info_patch_list ::
  "ogs_api \<Rightarrow> service_info option \<Rightarrow> service_info option \<Rightarrow> json_patch list option" where
  "mbs_service_info_patch_list api =
     ptr_patch_list (\<lambda>x. Some (mbs_service_info_to_json api x))
       (\<lambda>a b. do {
          cps \<leftarrow> mbs_media_comps_patch_list api (si_comps a) (si_comps b);
          ps \<leftarrow> json_patches_append_list [] cps (Some ''/mbsMediaComps'');
          Some (ps @ prio_patch_list (si_prio a) (si_prio b)
                   @ app_id_patch_list (si_app_id a) (si_app_id b)
                   @ member_patch_list ''/mbsSessionAmbr'' (rate_json api) (si_ambr a) (si_ambr b))
        })"

definition mbs_service_info_set_mbs_media_comp ::
  "service_info option \<Rightarrow> media_comp option \<Rightarrow> service_info option" where
  "mbs_service_info_set_mbs_media_comp s c =
     (case (s, c) of
        (Some s, Some c) \<Rightarrow>
          (let h = (case si_comps s of None \<Rightarrow> [] | Some h \<Rightarrow> h)
           in Some (s\<lparr>si_comps := Some (AList.update (mc_id c) c h)\<rparr>))
      | _ \<Rightarrow> None)"

section \<open>Copies compare as equal\<close>

definition normal_comp :: "media_comp \<Rightarrow> media_comp" where
  "normal_comp c = c\<lparr>mc_info := map_option normal_codecs (mc_info c)\<rparr>"

lemma mbs_media_comp_copy_eq [copy_simps]:
  "mbs_media_comp_copy dst (Some s) =
     (if flows_set (mc_flows s) then Some (Some (normal_comp s)) else None)"
  by (cases s; cases dst)
     (auto simp: mbs_media_comp_copy_def mbs_media_comp_new_def mbs_media_comp_clear_def
       flow_descriptions_copy_eq normal_comp_def Let_def split: option.split)

lemma normal_comp_simps [simp]: "mc_id (normal_comp c) = mc_id c" "mc_flows (normal_comp c) = mc_flows c"
  by (simp_all add: normal_comp_def)

lemma mbs_media_comp_equal_copy:
  assumes "flows_set (mc_flows c)"
  shows "mbs_media_comp_equal c (Some (normal_comp c)) = Some True"
    "mbs_media_comp_equal (normal_comp c) (Some c) = Some True"
proof -
  have info: "ptr_equal mbs_media_info_equal (mc_info c) (map_option normal_codecs (mc_info c))"
    "ptr_equal mbs_media_info_equal (map_option normal_codecs (mc_info c)) (mc_info c)"
    by (cases "mc_info c"; auto)+
  have qos: "ptr_equal mbs_qos_req_equal (mc_qos c) (mc_qos c)"
    by (simp add: eq_simps)
  have fl: "flow_descriptions_equal (mc_flows c) (mc_flows c) = Some True"
    using assms by (auto simp: flow_descriptions_equal_eq split: option.split)
  show "mbs_media_comp_equal c (Some (normal_comp c)) = Some True"
    "mbs_media_comp_equal (normal_comp c) (Some c) = Some True"
    using info qos fl by (simp_all add: mbs_media_comp_equal_def normal_comp_def)
qed

text \<open>A hash keyed by the number of the component it holds.\<close>

definition comps_wf :: "media_comps \<Rightarrow> bool" where
  "comps_wf cs \<longleftrightarrow> distinct (map fst cs) \<and> (\<forall>(k, c)\<in>set cs. k = mc_id c)"

definition comps_flows_set :: "media_comps \<Rightarrow> bool" where
  "comps_flows_set cs \<longleftrightarrow> (\<forall>(k, c)\<in>set cs. flows_set (mc_flows c))"

definition normal_comps :: "media_comps \<Rightarrow> media_comps" where
  "normal_comps cs = map (\<lambda>(k, c). (k, normal_comp c)) cs"

definition service_info_wf :: "service_info \<Rightarrow> bool" where
  "service_info_wf s \<longleftrightarrow> (\<exists>cs. si_comps s = Some cs \<and> comps_wf cs)"

definition service_info_flows_set :: "service_info \<Rightarrow> bool" where
  "service_info_flows_set s \<longleftrightarrow> (\<forall>cs. si_comps s = Some cs \<longrightarrow> comps_flows_set cs)"

definition normal_info :: "service_info \<Rightarrow> service_info" where
  "normal_info s = s\<lparr>si_comps := map_option normal_comps (si_comps s)\<rparr>"

lemma AList_update_new: "k \<notin> fst ` set d \<Longrightarrow> AList.update k v d = d @ [(k, v)]"
  by (induction d) auto

lemma comps_copy_eq:
  "distinct (map fst (d @ cs)) \<Longrightarrow> (\<forall>(k, c)\<in>set cs. k = mc_id c) \<Longrightarrow>
     comps_copy d cs = (if comps_flows_set cs then Some (d @ normal_comps cs) else None)"
proof (induction cs arbitrary: d)
  case (Cons kc cs)
  obtain k c where kc: "kc = (k, c)" by (cases kc)
  have "AList.update (mc_id c) (normal_comp c) d = d @ [(k, normal_comp c)]"
    using Cons.prems kc by (subst AList_update_new) (auto simp: image_iff)
  then show ?case
    using Cons.IH [of "d @ [(k, normal_comp c)]"] Cons.prems kc
    by (auto simp: mbs_media_comp_copy_eq comps_flows_set_def normal_comps_def)
qed (simp add: comps_flows_set_def normal_comps_def)

lemma mbs_service_info_copy_eq:
  assumes "service_info_wf s"
  shows "mbs_service_info_copy dst (Some s) =
           (if service_info_flows_set s then Some (Some (normal_info s)) else None)"
proof -
  obtain cs where cs: "si_comps s = Some cs" "comps_wf cs"
    using assms by (auto simp: service_info_wf_def)
  then have copy: "comps_copy [] cs = (if comps_flows_set cs then Some (normal_comps cs) else None)"
    using comps_copy_eq [of "[]" cs] by (auto simp: comps_wf_def)
  show ?thesis
    by (cases s; cases dst)
       (use cs copy in \<open>auto simp: mbs_service_info_copy_def mbs_service_info_new_def
          mbs_service_info_clear_def service_info_flows_set_def normal_info_def Let_def
          split: option.split\<close>)
qed

lemma comps_equal_all:
  "(\<forall>(k, c)\<in>set cs. mbs_media_comp_equal c (map_of b k) = Some True) \<Longrightarrow> comps_equal b cs = Some True"
  by (induction cs) auto

lemma map_of_normal_comps: "map_of (normal_comps cs) k = map_option normal_comp (map_of cs k)"
  by (induction cs) (auto simp: normal_comps_def)

lemma mbs_service_info_equal_copy:
  assumes "service_info_wf s" "service_info_flows_set s"
  shows "mbs_service_info_equal s (normal_info s) = Some True"
    "mbs_service_info_equal (normal_info s) s = Some True"
proof -
  obtain cs where cs: "si_comps s = Some cs" "comps_wf cs" "comps_flows_set cs"
    using assms by (auto simp: service_info_wf_def service_info_flows_set_def)
  then have "\<forall>(k, c)\<in>set cs. map_of cs k = Some c \<and> flows_set (mc_flows c)"
    by (auto simp: comps_wf_def comps_flows_set_def)
  then have "comps_equal (normal_comps cs) cs = Some True" "comps_equal cs (normal_comps cs) = Some True"
    by (intro comps_equal_all; force simp: normal_comps_def [of cs, THEN arg_cong [of _ _ set]]
        map_of_normal_comps mbs_media_comp_equal_copy)+
  then show "mbs_service_info_equal s (normal_info s) = Some True"
    "mbs_service_info_equal (normal_info s) s = Some True"
    using cs by (simp_all add: mbs_service_info_equal_def normal_info_def normal_comps_def)
qed

lemma mbs_service_info_set_wf:
  assumes "service_info_wf s" "mbs_service_info_set_mbs_media_comp (Some s) (Some c) = Some t"
  shows "service_info_wf t"
proof -
  obtain cs where cs: "si_comps s = Some cs" "comps_wf cs"
    using assms by (auto simp: service_info_wf_def)
  have "k = mc_id d" if "(k, d) \<in> set (AList.update (mc_id c) c cs)" for k d
  proof -
    have "(k, d) \<in> set cs \<or> (k, d) = (mc_id c, c)"
      using that by (induction cs) (auto split: if_splits)
    then show ?thesis using cs by (auto simp: comps_wf_def)
  qed
  then have "comps_wf (AList.update (mc_id c) c cs)"
    using cs by (auto simp: comps_wf_def distinct_update)
  then show ?thesis
    using assms cs by (auto simp: mbs_service_info_set_mbs_media_comp_def service_info_wf_def)
qed

lemma mbs_service_info_set_lookup:
  "mbs_service_info_set_mbs_media_comp (Some s) (Some c) = Some t \<Longrightarrow> si_comps s = Some cs \<Longrightarrow>
     \<exists>ct. si_comps t = Some ct \<and> map_of ct = (map_of cs)(mc_id c \<mapsto> c)"
  by (auto simp: mbs_service_info_set_mbs_media_comp_def update_conv')

section \<open>When the patch list is undefined\<close>

lemma comps_added_eq:
  "comps_added a ps cs = (if \<forall>(k, c)\<in>set cs. map_of a (mc_id c) \<noteq> None then Some ps else None)"
  by (induction a ps cs rule: comps_added.induct) (auto split: option.split)

lemma new_component_crashes:
  assumes "ca \<noteq> []" "(k, c) \<in> set cb" "map_of ca (mc_id c) = None"
  shows "mbs_media_comps_patch_list api (Some ca) (Some cb) = None"
  using assms
  by (auto simp: mbs_media_comps_patch_list_def comps_added_eq split: bind_split)

end
