(* ===== verification/Fsa_Ssm.thy ===== *)
theory Fsa_Ssm
  imports Json_Patch Sc_Utils
begin

text \<open>
  \<open>mbs-fsa-id.c\<close>, \<open>ssm-addr.c\<close> and \<open>associated-session-id.c\<close>: frequency selection area ids,
  source specific multicast addresses and associated session ids.
\<close>

section \<open>Frequency selection area ids\<close>

record fsa_id =
  fsa_num :: "32 word"

definition mbs_fsa_id_new :: fsa_id where
  "mbs_fsa_id_new = \<lparr>fsa_num = 0\<rparr>"

definition mbs_fsa_id_clear :: "fsa_id \<Rightarrow> fsa_id" where
  "mbs_fsa_id_clear f = f\<lparr>fsa_num := 0\<rparr>"

definition mbs_fsa_id_copy :: "fsa_id option \<Rightarrow> fsa_id option \<Rightarrow> fsa_id option" where
  "mbs_fsa_id_copy dst src =
     (case src of
        None \<Rightarrow> None
      | Some s \<Rightarrow>
          (let d = (case dst of None \<Rightarrow> mbs_fsa_id_new | Some d \<Rightarrow> mbs_fsa_id_clear d)
           in Some (d\<lparr>fsa_num := fsa_num s\<rparr>)))"

definition mbs_fsa_ids_copy :: "fsa_id list \<Rightarrow> fsa_id list \<Rightarrow> fsa_id list" where
  "mbs_fsa_ids_copy dst src = map (\<lambda>f. the (mbs_fsa_id_copy None (Some f))) src"

definition mbs_fsa_id_equal :: "fsa_id \<Rightarrow> fsa_id \<Rightarrow> bool" where
  "mbs_fsa_id_equal a b = (fsa_num a = fsa_num b)"

fun fsa_walk :: "fsa_id list \<Rightarrow> fsa_id list \<Rightarrow> bool" where
  "fsa_walk (a # as) (b # bs) = (if \<not> mbs_fsa_id_equal a b then False else fsa_walk as bs)"
| "fsa_walk as bs = True"

definition mbs_fsa_ids_equal :: "fsa_id list \<Rightarrow> fsa_id list \<Rightarrow> bool" where
  "mbs_fsa_ids_equal a b = (if length a \<noteq> length b then False else fsa_walk a b)"

definition mbs_fsa_id_to_openapi :: "fsa_id \<Rightarrow> string" where
  "mbs_fsa_id_to_openapi f = uint32_to_hex_str (fsa_num f) 6 6"

definition mbs_fsa_id_to_json :: "fsa_id \<Rightarrow> json" where
  "mbs_fsa_id_to_json f = JStr (mbs_fsa_id_to_openapi f)"

definition mbs_fsa_ids_to_json :: "fsa_id list \<Rightarrow> json" where
  "mbs_fsa_ids_to_json fs = array_json mbs_fsa_id_to_json fs"

definition mbs_fsa_ids_patch_list :: "fsa_id list \<Rightarrow> fsa_id list \<Rightarrow> json_patch list" where
  "mbs_fsa_ids_patch_list a b =
     array_patch_list_plain mbs_fsa_id_equal mbs_fsa_id_to_json idx_path a b"

definition mbs_fsa_id_patch_list :: "fsa_id option \<Rightarrow> fsa_id option \<Rightarrow> json_patch list option" where
  "mbs_fsa_id_patch_list =
     ptr_patch_list (\<lambda>f. Some (mbs_fsa_id_to_json f))
       (\<lambda>a b. if fsa_num a \<noteq> fsa_num b
              then Some [json_patch_new Op_replace ''/'' (Some (mbs_fsa_id_to_json b))] else Some [])"

lemma mbs_fsa_id_copy_eq [simp, copy_simps]: "mbs_fsa_id_copy dst src = src"
  by (cases src; cases dst) (auto simp: mbs_fsa_id_copy_def mbs_fsa_id_new_def mbs_fsa_id_clear_def)

lemma mbs_fsa_ids_copy_eq [simp, copy_simps]: "mbs_fsa_ids_copy dst src = src"
  by (simp add: mbs_fsa_ids_copy_def)

lemma mbs_fsa_id_equal_eq [eq_simps]: "mbs_fsa_id_equal a b \<longleftrightarrow> a = b"
  by (cases a; cases b) (simp add: mbs_fsa_id_equal_def)

lemma fsa_walk_eq: "length a = length b \<Longrightarrow> fsa_walk a b \<longleftrightarrow> a = b"
  by (induction a b rule: fsa_walk.induct) (auto simp: eq_simps)

lemma mbs_fsa_ids_equal_eq [eq_simps]: "mbs_fsa_ids_equal a b \<longleftrightarrow> a = b"
  by (auto simp: mbs_fsa_ids_equal_def fsa_walk_eq)

interpretation fsa_array: array_diff mbs_fsa_id_equal mbs_fsa_id_to_json idx_path "\<lambda>_. True"
  by unfold_locales (auto simp: eq_simps)

section \<open>Multicast addresses\<close>

text \<open>The address family, and the two unions as their sixteen bytes; an IPv4 address is the
  first four of them.\<close>

datatype addr_family = Af_inet | Af_inet6 | Af_other int

record ssm_addr =
  ssm_family :: addr_family
  ssm_source :: "8 word list"
  ssm_dest :: "8 word list"

definition zero16 :: "8 word list" where
  "zero16 = replicate 16 0"

definition ssm_addr_new :: ssm_addr where
  "ssm_addr_new = \<lparr>ssm_family = Af_other 0, ssm_source = zero16, ssm_dest = zero16\<rparr>"

definition ssm_addr_clear :: "ssm_addr \<Rightarrow> ssm_addr" where
  "ssm_addr_clear a = a\<lparr>ssm_family := Af_other 0, ssm_source := zero16, ssm_dest := zero16\<rparr>"

definition ssm_addr_copy :: "ssm_addr option \<Rightarrow> ssm_addr option \<Rightarrow> ssm_addr option" where
  "ssm_addr_copy dst src =
     (case src of
        None \<Rightarrow> None
      | Some s \<Rightarrow>
          (let d = (case dst of None \<Rightarrow> ssm_addr_new | Some d \<Rightarrow> ssm_addr_clear d)
           in Some (d\<lparr>ssm_family := ssm_family s, ssm_source := ssm_source s, ssm_dest := ssm_dest s\<rparr>)))"

text \<open>Two different objects.\<close>

definition ssm_addr_both_equal :: "ssm_addr \<Rightarrow> ssm_addr \<Rightarrow> bool" where
  "ssm_addr_both_equal a b =
     (if ssm_family a \<noteq> ssm_family b then False
      else (case ssm_family a of
              Af_inet \<Rightarrow>
                (if take 4 (ssm_source a) \<noteq> take 4 (ssm_source b) then False
                 else if take 4 (ssm_dest a) \<noteq> take 4 (ssm_dest b) then False
                 else True)
            | Af_inet6 \<Rightarrow>
                (if ssm_source a \<noteq> ssm_source b then False
                 else if ssm_dest a \<noteq> ssm_dest b then False
                 else True)
            | Af_other _ \<Rightarrow> False))"

definition ssm_addr_equal :: "ssm_addr option \<Rightarrow> ssm_addr option \<Rightarrow> bool" where
  "ssm_addr_equal a b = ptr_equal ssm_addr_both_equal a b"

definition ssm_wf :: "ssm_addr \<Rightarrow> bool" where
  "ssm_wf a \<longleftrightarrow> ssm_family a = Af_inet \<or> ssm_family a = Af_inet6"

lemma ssm_addr_copy_eq [simp, copy_simps]: "ssm_addr_copy dst src = src"
  by (cases src; cases dst) (auto simp: ssm_addr_copy_def)

lemma ssm_addr_equal_refl: "ssm_wf a \<Longrightarrow> ssm_addr_both_equal a a"
  by (auto simp: ssm_addr_both_equal_def ssm_wf_def)

text \<open>On well-formed addresses the comparison is an equivalence: equality of the family and
  the bytes that count.\<close>

definition ssm_key :: "ssm_addr \<Rightarrow> addr_family \<times> 8 word list \<times> 8 word list" where
  "ssm_key a =
     (ssm_family a,
      if ssm_family a = Af_inet then take 4 (ssm_source a) else ssm_source a,
      if ssm_family a = Af_inet then take 4 (ssm_dest a) else ssm_dest a)"

lemma ssm_addr_both_equal_key:
  "ssm_addr_both_equal a b \<longleftrightarrow> ssm_wf a \<and> ssm_key a = ssm_key b"
  by (auto simp: ssm_addr_both_equal_def ssm_wf_def ssm_key_def split: addr_family.splits)

section \<open>Associated session ids\<close>

record assoc_id =
  as_ssm :: ssm_addr
  as_string :: "string option"

definition associated_session_id_new :: assoc_id where
  "associated_session_id_new = \<lparr>as_ssm = ssm_addr_new, as_string = None\<rparr>"

definition associated_session_id_clear :: "assoc_id \<Rightarrow> assoc_id" where
  "associated_session_id_clear a = a\<lparr>as_ssm := ssm_addr_clear (as_ssm a), as_string := None\<rparr>"

definition associated_session_id_copy :: "assoc_id option \<Rightarrow> assoc_id option \<Rightarrow> assoc_id option" where
  "associated_session_id_copy dst src =
     (case src of
        None \<Rightarrow> None
      | Some s \<Rightarrow>
          (let d = (case dst of None \<Rightarrow> associated_session_id_new
                    | Some d \<Rightarrow> associated_session_id_clear d);
               d = d\<lparr>as_ssm := the (ssm_addr_copy (Some (as_ssm d)) (Some (as_ssm s)))\<rparr>
           in Some (case as_string s of None \<Rightarrow> d | Some str \<Rightarrow> d\<lparr>as_string := Some str\<rparr>)))"

definition associated_session_id_equal :: "assoc_id \<Rightarrow> assoc_id \<Rightarrow> bool" where
  "associated_session_id_equal a b =
     (if (as_string a = None) \<noteq> (as_string b = None) then False
      else if as_string a \<noteq> None \<and> the (as_string a) \<noteq> the (as_string b) then False
      else if \<not> ssm_addr_both_equal (as_ssm a) (as_ssm b) then False
      else True)"

lemma associated_session_id_copy_eq [simp, copy_simps]: "associated_session_id_copy dst src = src"
proof (cases src)
  case (Some s)
  then show ?thesis
    by (cases s; cases dst)
       (auto simp: associated_session_id_copy_def associated_session_id_new_def
         associated_session_id_clear_def Let_def split: option.split)
qed (simp add: associated_session_id_copy_def)

lemma associated_session_id_equal_iff:
  "associated_session_id_equal a b \<longleftrightarrow>
     as_string a = as_string b \<and> ssm_addr_both_equal (as_ssm a) (as_ssm b)"
  by (cases "as_string a"; cases "as_string b") (auto simp: associated_session_id_equal_def)

end
