(* ===== verification/Data_Spec.thy ===== *)
theory Data_Spec
  imports Example_Api Ext_Service_Area Media_Comp Fsa_Ssm Geo_Area
begin

text \<open>
  The properties of the data layer: patch lists transform the JSON of the old value into the
  JSON of the new one (in the evaluator of \<open>Json_Patch\<close>), comparisons decide what they are
  meant to decide, copies keep what they are meant to keep, and the printing and cache
  helpers of \<open>utils.c\<close> compute what their callers expect.  Each property that has a
  hypothesis is followed by an instance on concrete values.
\<close>

section \<open>Patch lists\<close>

text \<open>C28: Applying the patch list of two lists of tracking area identities, as
  \<open>_tais_patch_list\<close> computes it, to the JSON array of the first (absent when it is empty)
  yields the JSON array of the second, for identities as the constructors build them.\<close>

theorem tais_patch_list_correct:
  assumes "\<forall>t\<in>set a \<union> set b. tai_wf api t"
  shows "apply_patches (tais_patch_list api a b) (array_member (tai_to_json api) a) =
           Some (array_member (tai_to_json api) b)"
  unfolding tais_patch_list_def by (rule tai_array.correct) (use assms in auto)

theorem tais_patch_list_correct_witness:
  "apply_patches (tais_patch_list example_api [example_tai, other_tai] [example_tai])
       (array_member (tai_to_json example_api) [example_tai, other_tai]) =
     Some (array_member (tai_to_json example_api) [example_tai])"
  by (rule tais_patch_list_correct) (simp add: example_tais_wf)

text \<open>The patch list of two optional tracking area identities turns the JSON of the first
  into the JSON of the second: a missing one is added, a removed one is removed, and of two
  present ones exactly the differing members are replaced, added or removed.\<close>

theorem tai_patch_list_correct:
  assumes "conv_tai_law api"
  shows "\<exists>ps. tai_patch_list api a b = Some ps \<and>
           apply_patches ps (map_option (tai_to_json api) a) = Some (map_option (tai_to_json api) b)"
  using tai_both_correct [OF assms]
  by (cases a; cases b) (auto simp: tai_patch_list_def apply_here_def)

theorem tai_patch_list_correct_witness:
  "\<exists>ps. tai_patch_list example_api (Some example_tai) (Some other_tai) = Some ps \<and>
     apply_patches ps (map_option (tai_to_json example_api) (Some example_tai)) =
       Some (map_option (tai_to_json example_api) (Some other_tai))"
  by (rule tai_patch_list_correct) (rule example_conv_laws)

text \<open>The patch list of two optional NR cell identities turns the JSON of the first into
  the JSON of the second.\<close>

theorem ncgi_patch_list_correct:
  assumes "conv_ncgi_law api"
  shows "\<exists>ps. ncgi_patch_list api a b = Some ps \<and>
           apply_patches ps (map_option (ncgi_to_json api) a) = Some (map_option (ncgi_to_json api) b)"
  using ncgi_both_correct [OF assms]
  by (cases a; cases b) (auto simp: ncgi_patch_list_def apply_here_def)

theorem ncgi_patch_list_correct_witness:
  "\<exists>ps. ncgi_patch_list example_api
        (Some \<lparr>ncgi_plmn = plmn_build example_api 262 1 2, ncgi_cell = 5, ncgi_nid = None\<rparr>)
        (Some \<lparr>ncgi_plmn = plmn_build example_api 262 1 2, ncgi_cell = 6, ncgi_nid = Some 9\<rparr>) = Some ps \<and>
     apply_patches ps (map_option (ncgi_to_json example_api)
        (Some \<lparr>ncgi_plmn = plmn_build example_api 262 1 2, ncgi_cell = 5, ncgi_nid = None\<rparr>)) =
     Some (map_option (ncgi_to_json example_api)
        (Some \<lparr>ncgi_plmn = plmn_build example_api 262 1 2, ncgi_cell = 6, ncgi_nid = Some 9\<rparr>))"
  by (rule ncgi_patch_list_correct) (rule example_conv_laws)

text \<open>C27: Whenever the patch list of two service areas is defined, applying it to the JSON of
  the first yields the JSON of the second, both lists at once, for areas without cell lists
  whose identities are as the constructors build them.\<close>

theorem service_area_patch_list_correct:
  assumes "conv_service_area_law api" "service_area_wf api a" "service_area_wf api b"
    and "mbs_service_area_patch_list api (Some a) (Some b) = Some ps"
  shows "apply_patches ps (Some (mbs_service_area_to_json api a)) =
           Some (Some (mbs_service_area_to_json api b))"
  by (rule service_area_both_correct [OF assms(1-3)])
     (use assms(4) in \<open>simp add: mbs_service_area_patch_list_def\<close>)

lemma example_areas:
  "service_area_wf example_api \<lparr>sa_ncgi_tais = [], sa_tais = [example_tai]\<rparr>"
  "service_area_wf example_api \<lparr>sa_ncgi_tais = [], sa_tais = [example_tai, other_tai]\<rparr>"
  by (simp_all add: service_area_wf_def example_tais_wf)

lemma example_tai_refl: "tai_equal api t t"
  by (simp add: eq_simps)

theorem service_area_patch_list_correct_witness:
  "\<exists>ps. mbs_service_area_patch_list example_api
        (Some \<lparr>sa_ncgi_tais = [], sa_tais = [example_tai]\<rparr>)
        (Some \<lparr>sa_ncgi_tais = [], sa_tais = [example_tai, other_tai]\<rparr>) = Some ps \<and> ps \<noteq> [] \<and>
     apply_patches ps (Some (mbs_service_area_to_json example_api \<lparr>sa_ncgi_tais = [], sa_tais = [example_tai]\<rparr>)) =
       Some (Some (mbs_service_area_to_json example_api \<lparr>sa_ncgi_tais = [], sa_tais = [example_tai, other_tai]\<rparr>))"
proof -
  obtain ps where ps: "mbs_service_area_patch_list example_api
        (Some \<lparr>sa_ncgi_tais = [], sa_tais = [example_tai]\<rparr>)
        (Some \<lparr>sa_ncgi_tais = [], sa_tais = [example_tai, other_tai]\<rparr>) = Some ps" "ps \<noteq> []"
    by (simp add: mbs_service_area_patch_list_def service_area_both_patch_list_def
        json_patches_append_iff tais_patch_list_def ncgi_tais_patch_list_def array_patch_list_def
        example_tai_refl)
  then show ?thesis
    using service_area_patch_list_correct [OF example_conv_laws(3) example_areas ps(1)] by blast
qed

text \<open>C38: The patch list of two service areas is undefined (a null pointer is dereferenced while
  a removal is copied under its prefix) exactly when one of the two lists becomes empty, or
  becomes shorter while its first entries compare as equal.\<close>

theorem service_area_patch_list_crash:
  "mbs_service_area_patch_list api (Some a) (Some b) = None \<longleftrightarrow>
     (sa_ncgi_tais a \<noteq> [] \<and> length (sa_ncgi_tais b) < length (sa_ncgi_tais a) \<and>
        (sa_ncgi_tais b = [] \<or> ncgi_tai_equal api (hd (sa_ncgi_tais a)) (hd (sa_ncgi_tais b)))) \<or>
     (sa_tais a \<noteq> [] \<and> length (sa_tais b) < length (sa_tais a) \<and>
        (sa_tais b = [] \<or> tai_equal api (hd (sa_tais a)) (hd (sa_tais b))))"
  by (cases "sa_ncgi_tais a"; cases "sa_ncgi_tais b"; cases "sa_tais a"; cases "sa_tais b")
     (auto simp: mbs_service_area_patch_list_def service_area_both_crash ncgi_tais_patch_list_def
       tais_patch_list_def has_values_array)

text \<open>The patch list of two optional civic addresses turns the JSON of the first into the
  JSON of the second, over all thirty-four members.\<close>

theorem civic_address_patch_list_correct:
  assumes "conv_civic_law api"
  shows "apply_patches (civic_address_both_patch_list a b) (Some (civic_address_to_json api a)) =
           Some (Some (civic_address_to_json api b))"
  by (rule civic_both_correct [OF assms])

theorem civic_address_patch_list_correct_witness:
  "apply_patches (civic_address_both_patch_list (civic_address_new(Country := Some ''GB''))
       (civic_address_new(A1 := Some ''London'')))
       (Some (civic_address_to_json example_api (civic_address_new(Country := Some ''GB'')))) =
     Some (Some (civic_address_to_json example_api (civic_address_new(A1 := Some ''London''))))"
  by (rule civic_address_patch_list_correct) (rule example_conv_laws)

text \<open>Applying the patch list of two lists of frequency selection area ids to the JSON array
  of the first yields the JSON array of the second, without any condition.\<close>

theorem fsa_ids_patch_list_correct:
  "apply_patches (mbs_fsa_ids_patch_list a b) (array_member mbs_fsa_id_to_json a) =
     Some (array_member mbs_fsa_id_to_json b)"
  unfolding mbs_fsa_ids_patch_list_def by (rule fsa_array.plain_correct) auto

text \<open>Appending a patch list under a prefix (\<open>_json_patches_append_list\<close>) has the effect of
  the list inside the member that the prefix names, for a list in which every patch carries a
  value; for any other list it is undefined.\<close>

theorem append_list_prefixes:
  assumes "CHR ''/'' \<notin> set f" "f \<noteq> []" "\<forall>p\<in>set ps. rooted p \<and> patch_value p \<noteq> None"
  shows "\<exists>qs. json_patches_append_list [] ps (Some (CHR ''/'' # f)) = Some qs \<and>
           apply_patches qs (Some (JObj m)) =
             map_option (\<lambda>c. Some (JObj (m(f := c)))) (apply_patches ps (m f))"
  using apply_patches_prefix [OF assms(1,2), of ps m] assms(3)
  by (auto simp: json_patches_append_iff has_values_def)

theorem append_list_prefixes_witness:
  "\<exists>qs. json_patches_append_list []
        [json_patch_new Op_replace ''/tac'' (Some (JStr ''12'')), json_patch_new Op_add ''/nid'' (Some (JStr ''7''))]
        (Some ''/tai'') = Some qs \<and>
     apply_patches qs (Some (JObj ((\<lambda>_. None)(''tai'' := Some (JObj ((\<lambda>_. None)(''tac'' := Some (JStr ''11'')))))))) =
       map_option (\<lambda>c. Some (JObj (((\<lambda>_. None)(''tai'' := Some (JObj ((\<lambda>_. None)(''tac'' := Some (JStr ''11''))))))(''tai'' := c))))
         (apply_patches
            [json_patch_new Op_replace ''/tac'' (Some (JStr ''12'')), json_patch_new Op_add ''/nid'' (Some (JStr ''7''))]
            (((\<lambda>_. None)(''tai'' := Some (JObj ((\<lambda>_. None)(''tac'' := Some (JStr ''11'')))))) ''tai''))"
  by (rule append_list_prefixes) auto

text \<open>A service with media components in which a component with a new number appears has no
  patch list: the path is read from the component that was not found.\<close>

theorem new_media_component_undefined:
  assumes "ca \<noteq> []" "(k, c) \<in> set cb" "map_of ca (mc_id c) = None"
    and "si_comps a = Some ca" "si_comps b = Some cb"
  shows "mbs_service_info_patch_list api (Some a) (Some b) = None"
  using new_component_crashes [OF assms(1-3)] assms(4,5) by (simp add: mbs_service_info_patch_list_def)

theorem new_media_component_undefined_witness:
  "mbs_service_info_patch_list example_api
     (Some (mbs_service_info_new\<lparr>si_comps := Some [(1, mbs_media_comp_new\<lparr>mc_id := 1\<rparr>)]\<rparr>))
     (Some (mbs_service_info_new\<lparr>si_comps := Some [(1, mbs_media_comp_new\<lparr>mc_id := 1\<rparr>),
                                                  (2, mbs_media_comp_new\<lparr>mc_id := 2\<rparr>)]\<rparr>)) = None"
  by (rule new_media_component_undefined [where k = 2 and c = "mbs_media_comp_new\<lparr>mc_id := 2\<rparr>"]) auto

section \<open>Comparisons\<close>

text \<open>C39: Two service areas compare as equal exactly when their lists hold the same tracking
  areas with the same multiplicity, in any order; the cell lists do not count.\<close>

theorem service_area_equal_iff:
  "mbs_service_area_equal api a b \<longleftrightarrow>
     mset (map (\<lambda>t. tai_key api (nt_tai t)) (sa_ncgi_tais a)) =
       mset (map (\<lambda>t. tai_key api (nt_tai t)) (sa_ncgi_tais b)) \<and>
     mset (map (tai_key api) (sa_tais a)) = mset (map (tai_key api) (sa_tais b))"
  by (simp add: eq_simps service_area_key_def)

text \<open>Two external service areas compare as equal exactly when neither holds a geographic area
  and they hold the same civic addresses with the same multiplicity: an external service area
  with a geographic area differs from every other object, its own copy included.\<close>

theorem ext_service_area_equal_iff:
  "ext_mbs_service_area_equal a b \<longleftrightarrow>
     esa_areas a = [] \<and> esa_areas b = [] \<and> mset (esa_addresses a) = mset (esa_addresses b)"
  by (simp add: eq_simps)

text \<open>Two media descriptions compare as equal exactly when they agree in type, in whether the
  two bandwidths are set and in the codecs as a multiset: the values of the bandwidths do not
  count.\<close>

theorem media_info_equal_iff:
  "mbs_media_info_equal a b \<longleftrightarrow>
     mi_type a = mi_type b \<and> (mi_max a = None \<longleftrightarrow> mi_max b = None) \<and>
     (mi_min a = None \<longleftrightarrow> mi_min b = None) \<and> codec_mset a = codec_mset b"
  by (rule mbs_media_info_equal_iff)

text \<open>Two lists of flow descriptions of the same length compare as equal whatever they hold,
  as long as every description of the second has its string.\<close>

theorem flow_descriptions_equal_same_length:
  assumes "length fa = length fb" "\<forall>f\<in>set fb. fd_string f \<noteq> None"
  shows "flow_descriptions_equal (Some fa) (Some fb) = Some True"
  using assms by (simp add: flow_descriptions_equal_eq flows_set_def)

theorem flow_descriptions_equal_same_length_witness:
  "flow_descriptions_equal (Some [\<lparr>fd_string = Some ''permit''\<rparr>]) (Some [\<lparr>fd_string = Some ''deny''\<rparr>]) = Some True"
  by (rule flow_descriptions_equal_same_length) auto

text \<open>On identities as the constructors build them the comparison of two tracking areas is
  equality of the structures, although it compares the numbers of the PLMN id only.\<close>

theorem tai_equal_exact:
  assumes "tai_wf api a" "tai_wf api b"
  shows "tai_equal api a b \<longleftrightarrow> a = b"
  by (rule tai_equal_wf [OF assms])

theorem tai_equal_exact_witness:
  "tai_equal example_api example_tai other_tai \<longleftrightarrow> example_tai = other_tai"
  by (rule tai_equal_exact) (rule example_tais_wf)+

section \<open>Construction and copies\<close>

text \<open>The public constructor of a tracking area identity keeps the low 24 bits of the area
  code and the low 44 bits of the network id, and its result is well formed and reads back the
  country and network code.\<close>

theorem tai_new_result:
  assumes "plmn_laws api" "mcc \<le> 999" "mnc \<le> 999"
  shows "\<exists>t. mb_smf_sc_tai_new api mcc mnc tac nid = Some t \<and> tai_wf api t \<and>
           plmn_mcc api (tai_plmn t) = mcc \<and> plmn_mnc api (tai_plmn t) = mnc \<and>
           unat (tai_tac t) = unat tac mod 2 ^ 24 \<and>
           map_option unat (tai_nid t) = map_option (\<lambda>n. unat n mod 2 ^ 44) nid"
proof -
  have tac: "unat (ucast (and tac 0xFFFFFF) :: 24 word) = unat tac mod 2 ^ 24"
  proof -
    have "and tac 0xFFFFFF = take_bit 24 tac" by (simp add: take_bit_eq_mask mask_eq_exp_minus_1)
    then have "unat (ucast (and tac 0xFFFFFF) :: 24 word) = take_bit 24 (unat tac)"
      by (simp only: unsigned_ucast_eq unsigned_take_bit_eq) simp
    then show ?thesis by (simp only: take_bit_nat_def)
  qed
  have nid: "unat (and n 0xFFFFFFFFFFF) = unat n mod 2 ^ 44" for n :: "64 word"
  proof -
    have "and n 0xFFFFFFFFFFF = take_bit 44 n" by (simp add: take_bit_eq_mask mask_eq_exp_minus_1)
    then show ?thesis by (simp only: unsigned_take_bit_eq take_bit_nat_def)
  qed
  have read: "plmn_mcc api (plmn_build api mcc mnc (if mnc > 99 then 3 else 2)) = mcc"
    "plmn_mnc api (plmn_build api mcc mnc (if mnc > 99 then 3 else 2)) = mnc"
    using assms by (auto simp: plmn_laws_def Let_def)
  show ?thesis
    using tai_new_wf [OF assms] read tac nid
    by (auto simp: tai_new_fields option.map_comp comp_def)
qed

theorem tai_new_result_witness:
  "\<exists>t. mb_smf_sc_tai_new example_api 310 260 0x1FFFFFF (Some (-1)) = Some t \<and> tai_wf example_api t \<and>
     plmn_mcc example_api (tai_plmn t) = 310 \<and> plmn_mnc example_api (tai_plmn t) = 260 \<and>
     unat (tai_tac t) = unat (0x1FFFFFF :: 32 word) mod 2 ^ 24 \<and>
     map_option unat (tai_nid t) = map_option (\<lambda>n. unat n mod 2 ^ 44) (Some (-1 :: 64 word))"
  by (rule tai_new_result) (simp_all add: example_plmn_laws)

text \<open>A copy of a service area has the same tracking areas but loses the list of cells of
  every tracking area; it compares as equal to its source.\<close>

theorem service_area_copy_result:
  "\<exists>c. mbs_service_area_copy dst (Some s) = Some c \<and> sa_tais c = sa_tais s \<and>
     map nt_tai (sa_ncgi_tais c) = map nt_tai (sa_ncgi_tais s) \<and>
     map nt_ncgis (sa_ncgi_tais c) = replicate (length (sa_ncgi_tais s)) [] \<and> mbs_service_area_equal api s c"
  by (auto simp: eq_simps service_area_key_def drop_cells_def comp_def image_mset.compositionality
      map_replicate_const)

text \<open>A copy of a well-formed service information keeps everything except that a single codec
  moves to the first place, and it compares as equal to its source in both directions.\<close>

theorem service_info_copy_equal:
  assumes "service_info_wf s" "service_info_flows_set s"
  shows "\<exists>c. mbs_service_info_copy dst (Some s) = Some (Some c) \<and>
           mbs_service_info_equal s c = Some True \<and> mbs_service_info_equal c s = Some True \<and>
           si_app_id c = si_app_id s \<and> si_ambr c = si_ambr s \<and> si_prio c = si_prio s \<and>
           map_option (map fst) (si_comps c) = map_option (map fst) (si_comps s)"
  using assms mbs_service_info_copy_eq [OF assms(1), of dst] mbs_service_info_equal_copy [OF assms]
  by (auto simp: normal_info_def normal_comps_def option.map_comp comp_def case_prod_unfold)

theorem service_info_copy_equal_witness:
  "\<exists>c. mbs_service_info_copy None
        (Some \<lparr>si_comps = Some [(4, mbs_media_comp_new\<lparr>mc_id := 4, mc_prio := 2\<rparr>)], si_app_id = Some ''app'',
               si_ambr = Some 1000, si_prio = 7\<rparr>) = Some (Some c) \<and>
     mbs_service_info_equal \<lparr>si_comps = Some [(4, mbs_media_comp_new\<lparr>mc_id := 4, mc_prio := 2\<rparr>)],
        si_app_id = Some ''app'', si_ambr = Some 1000, si_prio = 7\<rparr> c = Some True \<and>
     mbs_service_info_equal c \<lparr>si_comps = Some [(4, mbs_media_comp_new\<lparr>mc_id := 4, mc_prio := 2\<rparr>)],
        si_app_id = Some ''app'', si_ambr = Some 1000, si_prio = 7\<rparr> = Some True \<and>
     si_app_id c = Some ''app'' \<and> si_ambr c = Some 1000 \<and> si_prio c = 7 \<and>
     map_option (map fst) (si_comps c) = Some [4]"
  using service_info_copy_equal
    [of "\<lparr>si_comps = Some [(4, mbs_media_comp_new\<lparr>mc_id := 4, mc_prio := 2\<rparr>)], si_app_id = Some ''app'',
          si_ambr = Some 1000, si_prio = 7\<rparr>" None]
  by (simp add: service_info_wf_def service_info_flows_set_def comps_wf_def comps_flows_set_def
      flows_set_def mbs_media_comp_new_def)

text \<open>Setting a media component stores it under its number, leaves every other component as it
  is and keeps the table well formed.\<close>

theorem set_media_comp_result:
  assumes "service_info_wf s" "si_comps s = Some cs"
  shows "\<exists>t ct. mbs_service_info_set_mbs_media_comp (Some s) (Some c) = Some t \<and> service_info_wf t \<and>
           si_comps t = Some ct \<and> map_of ct = (map_of cs)(mc_id c \<mapsto> c)"
proof -
  obtain t where t: "mbs_service_info_set_mbs_media_comp (Some s) (Some c) = Some t"
    by (simp add: mbs_service_info_set_mbs_media_comp_def Let_def)
  show ?thesis
    using t mbs_service_info_set_wf [OF assms(1) t] mbs_service_info_set_lookup [OF t assms(2)] by blast
qed

theorem set_media_comp_result_witness:
  "\<exists>t ct. mbs_service_info_set_mbs_media_comp
        (Some (mbs_service_info_new\<lparr>si_comps := Some [(1, mbs_media_comp_new\<lparr>mc_id := 1\<rparr>)]\<rparr>))
        (Some (mbs_media_comp_new\<lparr>mc_id := 1, mc_prio := 9\<rparr>)) = Some t \<and> service_info_wf t \<and>
     si_comps t = Some ct \<and>
     map_of ct = (map_of [(1, mbs_media_comp_new\<lparr>mc_id := 1\<rparr>)])
       (mc_id (mbs_media_comp_new\<lparr>mc_id := 1, mc_prio := 9\<rparr>) \<mapsto> mbs_media_comp_new\<lparr>mc_id := 1, mc_prio := 9\<rparr>)"
  by (rule set_media_comp_result) (simp_all add: service_info_wf_def comps_wf_def)

section \<open>Coordinates\<close>



text \<open>A longitude so far below -180 that adding 360 is lost in the rounding is never
  normalised: the loop does not end.\<close>

theorem longitude_loop_diverges:
  assumes "lon \<le> -180" "double_round api (lon + 360) = lon"
  shows "geographic_coordinate_set api c lon lat = None"
  using lon_up_stuck [of lon "double_round api"] assms by (simp add: geographic_coordinate_set_def rationalise_longitude_def)

theorem longitude_loop_diverges_witness:
  "geographic_coordinate_set (example_api\<lparr>double_round := (\<lambda>x. if x < -1000000 then -9000000 else x)\<rparr>)
     geographic_coordinate_new (-9000000) 0 = None"
  by (rule longitude_loop_diverges) simp_all

section \<open>Printing and caching\<close>

text \<open>The hexadecimal text of a 64 bit value reads back as its low digits, has at least the
  minimal and at most the maximal number of digits and consists of the digits 0 to 9 and A to F.\<close>

theorem uint64_hex_result:
  assumes "m \<le> d"
  shows "digits_val 16 (uint64_to_hex_str v m d) = unat v mod 16 ^ d \<and>
         m \<le> length (uint64_to_hex_str v m d) \<and> length (uint64_to_hex_str v m d) \<le> d \<and>
         set (uint64_to_hex_str v m d) \<subseteq> digit_char ` {..<16}"
proof (intro conjI)
  have "(2::nat) ^ (4 * d) = 16 ^ d" by (simp add: power_mult)
  then show "digits_val 16 (uint64_to_hex_str v m d) = unat v mod 16 ^ d"
    by (simp only: uint64_to_hex_str_mask digits_val_to_hex_string unsigned_take_bit_eq take_bit_nat_def)
  show "m \<le> length (uint64_to_hex_str v m d)" "length (uint64_to_hex_str v m d) \<le> d"
    using to_hex_string_length [OF unat_take_bit_hex, of m d v] assms
    by (simp_all add: uint64_to_hex_str_mask max_def)
  show "set (uint64_to_hex_str v m d) \<subseteq> digit_char ` {..<16}"
    unfolding uint64_to_hex_str_mask by (rule to_hex_string_chars)
qed

theorem uint64_hex_result_witness:
  "digits_val 16 (uint64_to_hex_str 0x123456789ABCDEF 11 11) = unat (0x123456789ABCDEF :: 64 word) mod 16 ^ 11 \<and>
   11 \<le> length (uint64_to_hex_str 0x123456789ABCDEF 11 11) \<and>
   length (uint64_to_hex_str 0x123456789ABCDEF 11 11) \<le> 11 \<and>
   set (uint64_to_hex_str 0x123456789ABCDEF 11 11) \<subseteq> digit_char ` {..<16}"
  by (rule uint64_hex_result) simp

text \<open>The age taken from a Cache-Control header is zero when one of its directives forbids
  caching, else the number of the last max-age directive, else zero.\<close>

theorem cache_control_age:
  "cache_control_to_cache_age api h =
     (let ds = map (trimwhitespace api) (strtok (CHR '','') h) in
      if \<exists>d\<in>set ds. forbids_caching d then 0
      else case rev (max_age_directives ds) of [] \<Rightarrow> 0 | d # _ \<Rightarrow> atoi (drop 8 d))"
  by (simp add: cache_control_to_cache_age_def cache_age_loop_spec)

text \<open>The expiry time of a response does not depend on the order in which its headers are
  visited, when no header occurs twice.\<close>

theorem expiry_order_independent:
  assumes "mset hs = mset hs'" "distinct (map (\<lambda>(k, v). map to_lower k) hs)"
  shows "response_to_expiry_time api now hs = response_to_expiry_time api now hs'"
  by (simp add: response_to_expiry_time_eq header_value_perm [OF assms])

theorem expiry_order_independent_witness:
  "response_to_expiry_time example_api 100 [(''age'', ''3''), (''Cache-Control'', ''max-age=60'')] =
   response_to_expiry_time example_api 100 [(''Cache-Control'', ''max-age=60''), (''age'', ''3'')]"
proof (rule expiry_order_independent)
  have "map to_lower ''age'' \<noteq> map to_lower ''Cache-Control''" by code_simp
  then show "distinct (map (\<lambda>(k, v). map to_lower k) [(''age'', ''3''), (''Cache-Control'', ''max-age=60'')])"
    by simp
qed simp

end
