(* ===== verification/Sc_State.thy ===== *)
theory Sc_State
  imports Service_Area Ext_Service_Area Media_Comp Fsa_Ssm
begin

text \<open>
  The run-time state of \<open>lib/mb-smf-service-consumer\<close>: the objects the library allocates
  (sessions, TMGIs, status subscriptions, reference-counted SBI objects and the single
  words an application hands over), the context with its two lists, and the log of what
  leaves the library (requests sent, callbacks called, data handed to free functions).  An
  object is a finite-map entry under its address; using an address that is not allocated is
  undefined behaviour, so every operation returns an option of the new state.  The members
  of a session that the C code shares between two structures (area session id, start and
  termination time) are addresses of such words.
\<close>

type_synonym addr = nat

section \<open>Objects\<close>

text \<open>\<open>_priv_tmgi_t\<close> (\<open>priv_tmgi.h\<close>), the public part included.\<close>

record tmgi =
  tm_service_id :: "string option"
  tm_plmn :: plmn
  tm_expiry :: int
  tm_callback :: "nat option"
  tm_cb_data :: "nat option"
  tm_sbi :: "addr option"
  tm_repr :: "string option"
  tm_allocated :: bool

text \<open>\<open>_priv_mbs_status_subscription_t\<close> (\<open>priv_mbs-status-subscription.h\<close>).\<close>

record subscription =
  su_area_session :: "16 word"
  su_flags :: "32 word"
  su_correlation :: "string option"
  su_expiry :: int
  su_callback :: "nat option"
  su_cb_data :: "nat option"
  su_id :: "string option"
  su_session :: "addr option"
  su_changed :: bool
  su_repr :: "string option"
  su_server :: "addr option"
  su_url :: "string option"

datatype service_type = Broadcast | Multicast
datatype activity_status = Activity_none | Activity_active | Activity_inactive

text \<open>\<open>ogs_s_nssai_t\<close>: slice type and differentiator.\<close>

type_synonym snssai = "8 word \<times> 24 word"

text \<open>\<open>mb_smf_sc_mbs_session_t\<close> (\<open>mbs-session.h\<close>).  The tunnel is the list of addresses
  (their bytes) and ports; no tunnel is the empty list.\<close>

record mbs_session =
  se_service_type :: service_type
  se_ssm :: "ssm_addr option"
  se_tmgi :: "addr option"
  se_tunnel :: "(8 word list \<times> 16 word) list"
  se_tunnel_req :: bool
  se_tmgi_req :: bool
  se_location_dependent :: bool
  se_any_ue_ind :: bool
  se_contact_pcf_ind :: bool
  se_area_session_id :: "addr option"
  se_service_area :: "service_area option"
  se_ext_service_area :: "ext_service_area option"
  se_dnn :: "string option"
  se_snssai :: "snssai option"
  se_start_time :: "addr option"
  se_termination_time :: "addr option"
  se_service_info :: "service_info option"
  se_activity :: activity_status
  se_fsa_ids :: "fsa_id list"
  se_assoc_id :: "assoc_id option"

text \<open>\<open>_priv_mbs_session_t\<close> (\<open>priv_mbs-session.h\<close>).  A callback slot holds the function, its
  data and the function that frees the data.\<close>

record callback_slot =
  cb_fun :: "nat option"
  cb_data :: "nat option"
  cb_free :: "nat option"

record session =
  ps_public :: mbs_session
  ps_id :: "string option"
  ps_new :: "addr list"
  ps_active :: "(string \<times> addr) list option"
  ps_deleted :: "addr list"
  ps_previous :: "mbs_session option"
  ps_create_cb :: callback_slot
  ps_update_cb :: callback_slot
  ps_delete_cb :: callback_slot
  ps_is_deleted :: bool
  ps_sbi :: "addr option"

text \<open>\<open>_context_t\<close> (\<open>context.c\<close>); of the notification address the family and the port count.\<close>

record sc_context =
  ctx_sessions :: "addr list"
  ctx_tmgis :: "addr list"
  ctx_notif :: "(addr_family \<times> 16 word) option"

section \<open>What leaves the library\<close>

text \<open>A request is logged with the objects it is built from; a PATCH request also with the
  patches it carries.\<close>

datatype request =
    Rq_session_create addr
  | Rq_session_update addr "json_patch list"
  | Rq_session_remove addr
  | Rq_subscription_create addr addr
  | Rq_subscription_update addr addr "json_patch list"
  | Rq_subscription_delete addr addr
  | Rq_tmgi_allocate "addr list option" "addr list option"
  | Rq_tmgi_deallocate "addr list"

datatype result_code = Ogs_ok | Ogs_error | Ogs_etimedout | Ogs_done

text \<open>\<open>mb_smf_sc_mbs_status_notification_result_t\<close> (\<open>mbs-status-subscription.h\<close>).\<close>

datatype delivery_status = Delivery_started | Delivery_terminated

record notification =
  nf_event_type :: "32 word"
  nf_type_name :: "string option"
  nf_session :: "addr option"
  nf_correlation :: "string option"
  nf_time :: int
  nf_delivery :: delivery_status
  nf_tunnels :: "(8 word list option \<times> 8 word list option \<times> 16 word) list"

datatype event =
    Ev_request addr request
  | Ev_session_callback nat addr result_code "string option" "nat option"
  | Ev_tmgi_callback nat addr result_code "string option" "nat option"
  | Ev_status_callback nat notification "nat option"
  | Ev_free_data nat nat
  | Ev_xact_remove_all addr
  | Ev_server_stop addr
  | Ev_server_response nat int
  | Ev_xact_remove addr
  | Ev_xact_forward addr

section \<open>The state\<close>

record world =
  w_sessions :: "addr \<Rightarrow> session option"
  w_subscs :: "addr \<Rightarrow> subscription option"
  w_tmgis :: "addr \<Rightarrow> tmgi option"
  w_refs :: "addr \<Rightarrow> nat option"
  w_words :: "addr \<Rightarrow> int option"
  w_ctx :: "sc_context option"
  w_fixed :: "addr option"
  w_next :: addr
  w_log :: "event list"

definition put_session :: "addr \<Rightarrow> session \<Rightarrow> world \<Rightarrow> world" where
  "put_session a s w = w\<lparr>w_sessions := (w_sessions w)(a \<mapsto> s)\<rparr>"

definition put_subsc :: "addr \<Rightarrow> subscription \<Rightarrow> world \<Rightarrow> world" where
  "put_subsc a s w = w\<lparr>w_subscs := (w_subscs w)(a \<mapsto> s)\<rparr>"

definition put_tmgi :: "addr \<Rightarrow> tmgi \<Rightarrow> world \<Rightarrow> world" where
  "put_tmgi a t w = w\<lparr>w_tmgis := (w_tmgis w)(a \<mapsto> t)\<rparr>"

definition log_event :: "event \<Rightarrow> world \<Rightarrow> world" where
  "log_event e w = w\<lparr>w_log := w_log w @ [e]\<rparr>"

text \<open>Freeing the word behind a pointer; \<open>free (NULL)\<close> is not called by the code.\<close>

definition free_word :: "addr option \<Rightarrow> world \<Rightarrow> world option" where
  "free_word p w =
     (case p of
        None \<Rightarrow> Some w
      | Some a \<Rightarrow> (case w_words w a of
                     None \<Rightarrow> None
                   | Some _ \<Rightarrow> Some (w\<lparr>w_words := (w_words w)(a := None)\<rparr>)))"

lemmas put_defs = put_session_def put_subsc_def put_tmgi_def log_event_def

lemma put_session_sel [simp]:
  "w_sessions (put_session a s w) = (w_sessions w)(a \<mapsto> s)"
  "w_subscs (put_session a s w) = w_subscs w" "w_tmgis (put_session a s w) = w_tmgis w"
  "w_refs (put_session a s w) = w_refs w" "w_words (put_session a s w) = w_words w"
  "w_ctx (put_session a s w) = w_ctx w" "w_next (put_session a s w) = w_next w"
  "w_fixed (put_session a s w) = w_fixed w"
  "w_log (put_session a s w) = w_log w"
  by (simp_all add: put_session_def)

lemma put_subsc_sel [simp]:
  "w_sessions (put_subsc a s w) = w_sessions w"
  "w_subscs (put_subsc a s w) = (w_subscs w)(a \<mapsto> s)" "w_tmgis (put_subsc a s w) = w_tmgis w"
  "w_refs (put_subsc a s w) = w_refs w" "w_words (put_subsc a s w) = w_words w"
  "w_ctx (put_subsc a s w) = w_ctx w" "w_next (put_subsc a s w) = w_next w"
  "w_fixed (put_subsc a s w) = w_fixed w"
  "w_log (put_subsc a s w) = w_log w"
  by (simp_all add: put_subsc_def)

lemma put_tmgi_sel [simp]:
  "w_sessions (put_tmgi a t w) = w_sessions w" "w_subscs (put_tmgi a t w) = w_subscs w"
  "w_tmgis (put_tmgi a t w) = (w_tmgis w)(a \<mapsto> t)"
  "w_refs (put_tmgi a t w) = w_refs w" "w_words (put_tmgi a t w) = w_words w"
  "w_ctx (put_tmgi a t w) = w_ctx w" "w_next (put_tmgi a t w) = w_next w"
  "w_fixed (put_tmgi a t w) = w_fixed w"
  "w_log (put_tmgi a t w) = w_log w"
  by (simp_all add: put_tmgi_def)

lemma log_event_sel [simp]:
  "w_sessions (log_event e w) = w_sessions w" "w_subscs (log_event e w) = w_subscs w"
  "w_tmgis (log_event e w) = w_tmgis w" "w_refs (log_event e w) = w_refs w"
  "w_words (log_event e w) = w_words w" "w_ctx (log_event e w) = w_ctx w"
  "w_next (log_event e w) = w_next w"
  "w_fixed (log_event e w) = w_fixed w" "w_log (log_event e w) = w_log w @ [e]"
  by (simp_all add: log_event_def)

section \<open>Reference-counted SBI objects (\<open>ref_count_sbi_object.h\<close>)\<close>

definition ref_count_sbi_object_new :: "world \<Rightarrow> addr \<times> world" where
  "ref_count_sbi_object_new w =
     (let a = w_next w in (a, w\<lparr>w_refs := (w_refs w)(a \<mapsto> 0 + 1), w_next := a + 1\<rparr>))"

definition ref_count_sbi_object_unref :: "addr option \<Rightarrow> world \<Rightarrow> world option" where
  "ref_count_sbi_object_unref p w =
     (case p of
        None \<Rightarrow> Some w
      | Some a \<Rightarrow> do {
          n \<leftarrow> w_refs w a;
          let n' = n - 1;
          if n' = 0 then Some (log_event (Ev_xact_remove_all a) (w\<lparr>w_refs := (w_refs w)(a := None)\<rparr>))
          else Some (w\<lparr>w_refs := (w_refs w)(a \<mapsto> n')\<rparr>)
        })"

definition ref_count_sbi_object_ref :: "addr option \<Rightarrow> world \<Rightarrow> world option" where
  "ref_count_sbi_object_ref p w =
     (case p of
        None \<Rightarrow> Some w
      | Some a \<Rightarrow> do {
          n \<leftarrow> w_refs w a;
          Some (w\<lparr>w_refs := (w_refs w)(a \<mapsto> n + 1)\<rparr>)
        })"

text \<open>\<open>ogs_sbi_xact_add\<close> and \<open>ogs_sbi_discover_and_send\<close>: the transaction needs an SBI object
  that is alive.\<close>

definition send_request :: "addr option \<Rightarrow> request \<Rightarrow> world \<Rightarrow> world option" where
  "send_request p rq w =
     (case p of
        None \<Rightarrow> None
      | Some a \<Rightarrow> (case w_refs w a of
                     None \<Rightarrow> None
                   | Some _ \<Rightarrow> Some (log_event (Ev_request a rq) w)))"

section \<open>The context lists (\<open>context.c\<close>)\<close>

definition context_new :: "world \<Rightarrow> world" where
  "context_new w = w\<lparr>w_ctx := Some \<lparr>ctx_sessions = [], ctx_tmgis = [], ctx_notif = None\<rparr>\<rparr>"

definition context_add_mbs_session :: "addr option \<Rightarrow> world \<Rightarrow> bool \<times> world" where
  "context_add_mbs_session s w =
     (case (w_ctx w, s) of
        (Some c, Some a) \<Rightarrow> (True, w\<lparr>w_ctx := Some (c\<lparr>ctx_sessions := ctx_sessions c @ [a]\<rparr>)\<rparr>)
      | _ \<Rightarrow> (False, w))"

definition context_add_tmgi :: "addr option \<Rightarrow> world \<Rightarrow> (bool \<times> world) option" where
  "context_add_tmgi t w =
     (case t of
        None \<Rightarrow> Some (False, w)
      | Some a \<Rightarrow> (case w_ctx w of
                     None \<Rightarrow> None
                   | Some c \<Rightarrow> Some (True, w\<lparr>w_ctx := Some (c\<lparr>ctx_tmgis := ctx_tmgis c @ [a]\<rparr>)\<rparr>)))"

text \<open>Unlinking a node that is not linked into the list corrupts it.\<close>

definition context_remove_tmgi :: "addr option \<Rightarrow> world \<Rightarrow> (bool \<times> world) option" where
  "context_remove_tmgi t w =
     (case t of
        None \<Rightarrow> Some (False, w)
      | Some a \<Rightarrow> (case w_ctx w of
                     None \<Rightarrow> None
                   | Some c \<Rightarrow>
                       if a \<in> set (ctx_tmgis c)
                       then Some (True, w\<lparr>w_ctx := Some (c\<lparr>ctx_tmgis := remove1 a (ctx_tmgis c)\<rparr>)\<rparr>)
                       else None))"

definition context_tmgis :: "world \<Rightarrow> addr list option" where
  "context_tmgis w = map_option ctx_tmgis (w_ctx w)"

definition context_mbs_sessions :: "world \<Rightarrow> addr list option" where
  "context_mbs_sessions w = map_option ctx_sessions (w_ctx w)"

definition context_active_sessions_exists :: "addr option \<Rightarrow> world \<Rightarrow> bool" where
  "context_active_sessions_exists s w =
     (case (w_ctx w, s) of (Some c, Some a) \<Rightarrow> a \<in> set (ctx_sessions c) | _ \<Rightarrow> False)"

text \<open>The first object of the list whose SBI object is the given one.\<close>

fun first_with_sbi :: "(addr \<Rightarrow> addr option option) \<Rightarrow> addr \<Rightarrow> addr list \<Rightarrow> addr option option" where
  "first_with_sbi sbi o1 [] = Some None"
| "first_with_sbi sbi o1 (a # as) = do {
     p \<leftarrow> sbi a;
     if p = Some o1 then Some (Some a) else first_with_sbi sbi o1 as
   }"

definition context_sbi_object_to_session :: "addr option \<Rightarrow> world \<Rightarrow> addr option option" where
  "context_sbi_object_to_session sbi w =
     (case (w_ctx w, sbi) of
        (Some c, Some o1) \<Rightarrow>
          first_with_sbi (\<lambda>a. map_option ps_sbi (w_sessions w a)) o1 (ctx_sessions c)
      | _ \<Rightarrow> Some None)"

definition context_sbi_object_to_tmgi :: "addr option \<Rightarrow> world \<Rightarrow> addr option option" where
  "context_sbi_object_to_tmgi sbi w =
     (case (w_ctx w, sbi) of
        (Some c, Some o1) \<Rightarrow>
          first_with_sbi (\<lambda>a. map_option tm_sbi (w_tmgis w a)) o1 (ctx_tmgis c)
      | _ \<Rightarrow> Some None)"

lemma first_with_sbi_Some:
  "first_with_sbi sbi o1 as = Some (Some a) \<Longrightarrow> a \<in> set as \<and> sbi a = Some (Some o1)"
  by (induction as) (auto split: bind_splits if_splits)

lemma first_with_sbi_None:
  "first_with_sbi sbi o1 as = Some None \<Longrightarrow> a \<in> set as \<Longrightarrow> sbi a \<noteq> Some (Some o1)"
  by (induction as) (auto split: bind_splits if_splits)

lemma first_with_sbi_total:
  "(\<forall>a\<in>set as. sbi a \<noteq> None) \<Longrightarrow> first_with_sbi sbi o1 as \<noteq> None"
  by (induction as) (auto split: bind_splits)

end
