(* ===== verification/Status_Subscription.thy ===== *)
theory Status_Subscription
  imports Sc_State
begin

text \<open>
  \<open>mbs-status-subscription.c\<close> (the object, its setters with the cached text, its release and
  the three requests about it) and the part of \<open>nmbsmf-mbs-session-build.c\<close> that gives a
  subscription its notification server.  A subscription and its \<open>cache\<close> structure are one
  record here: the code allocates and frees them together.
\<close>

section \<open>Event flags\<close>

definition event_flag_table :: "(32 word \<times> string) list" where
  "event_flag_table =
     [(1, ''MBS_REL_TMGI_EXPIRY''), (2, ''BROADCAST_DELIVERY_STATUS''),
      (4, ''INGRESS_TUNNEL_ADD_CHANGE'')]"

definition flag_events :: "32 word \<Rightarrow> string list" where
  "flag_events flags = map snd (filter (\<lambda>(t, s). and flags t \<noteq> 0) event_flag_table)"

section \<open>The object\<close>

definition mbs_status_subscription_new ::
  "16 word \<Rightarrow> 32 word \<Rightarrow> string option \<Rightarrow> int \<Rightarrow> nat option \<Rightarrow> nat option \<Rightarrow> world \<Rightarrow> addr \<times> world" where
  "mbs_status_subscription_new area_session_id event_type_flags correlation_id expiry_time callback data w =
     (let a = w_next w;
          s = \<lparr>su_area_session = area_session_id, su_flags = event_type_flags,
               su_correlation = correlation_id, su_expiry = expiry_time, su_callback = callback,
               su_cb_data = data, su_id = None, su_session = None, su_changed = False,
               su_repr = None, su_server = None, su_url = None\<rparr>
      in (a, put_subsc a s (w\<lparr>w_next := a + 1\<rparr>)))"

definition subscription_set_area_session_id :: "16 word \<Rightarrow> subscription \<Rightarrow> subscription" where
  "subscription_set_area_session_id i s =
     (if su_area_session s = i then s
      else s\<lparr>su_area_session := i, su_repr := None, su_changed := True\<rparr>)"

definition subscription_set_event_type_flags :: "32 word \<Rightarrow> subscription \<Rightarrow> subscription" where
  "subscription_set_event_type_flags flags s =
     (if su_flags s = flags then s
      else s\<lparr>su_flags := flags, su_repr := None, su_changed := True\<rparr>)"

definition subscription_set_correlation_id :: "string option \<Rightarrow> subscription \<Rightarrow> subscription" where
  "subscription_set_correlation_id c s =
     (if c \<noteq> None \<and> su_correlation s \<noteq> None \<and> the (su_correlation s) = the c then s
      else if c = None \<and> su_correlation s = None then s
      else (let s = s\<lparr>su_correlation := None\<rparr>;
                s = (case c of None \<Rightarrow> s | Some i \<Rightarrow> s\<lparr>su_correlation := Some i\<rparr>)
            in s\<lparr>su_repr := None, su_changed := True\<rparr>))"

definition subscription_set_expiry_time :: "int \<Rightarrow> subscription \<Rightarrow> subscription" where
  "subscription_set_expiry_time e s =
     (if e = su_expiry s then s
      else s\<lparr>su_expiry := e, su_repr := None, su_changed := True\<rparr>)"

definition subscription_set_notification_callback :: "nat option \<Rightarrow> nat option \<Rightarrow> subscription \<Rightarrow> subscription" where
  "subscription_set_notification_callback cb d s = s\<lparr>su_callback := cb, su_cb_data := d\<rparr>"

text \<open>The public setters ignore a \<open>NULL\<close> subscription.\<close>

definition on_subscription :: "(subscription \<Rightarrow> subscription) \<Rightarrow> addr option \<Rightarrow> world \<Rightarrow> world option" where
  "on_subscription f p w =
     (case p of
        None \<Rightarrow> Some w
      | Some a \<Rightarrow> do {
          s \<leftarrow> w_subscs w a;
          Some (put_subsc a (f s) w)
        })"

text \<open>The printed form: \<open>%s\<close> of a null pointer prints \<open>(null)\<close>, \<open>%u\<close> the area session id and
  \<open>%i\<close> the flags as a signed integer.\<close>

definition printf_s :: "string option \<Rightarrow> string" where
  "printf_s s = (case s of None \<Rightarrow> ''(null)'' | Some t \<Rightarrow> t)"

definition printf_i :: "32 word \<Rightarrow> string" where
  "printf_i x = (if sint x < 0 then ''-'' @ dec_str (nat (- sint x)) else dec_str (nat (sint x)))"

fun join_with :: "string \<Rightarrow> string list \<Rightarrow> string" where
  "join_with sep [] = []"
| "join_with sep [x] = x"
| "join_with sep (x # y # xs) = x @ sep @ join_with sep (y # xs)"

definition subscription_text :: "ogs_api \<Rightarrow> subscription \<Rightarrow> string" where
  "subscription_text api s =
     ''MBS Session Status Subscription(area_session_id='' @ dec_str (unat (su_area_session s))
     @ '', event_type_flags='' @ printf_i (su_flags s) @ '' (''
     @ join_with ''|'' (flag_events (su_flags s))
     @ ''), correlation_id='' @ printf_s (su_correlation s) @ '', expiry_time=''
     @ localtime_string api ((su_expiry s + 2208988800) * 1000000)
     @ ''): id='' @ printf_s (su_id s) @ '', url='' @ printf_s (su_url s)"

definition mbs_status_subscription_as_string :: "ogs_api \<Rightarrow> addr option \<Rightarrow> world \<Rightarrow> (string option \<times> world) option" where
  "mbs_status_subscription_as_string api p w =
     (case p of
        None \<Rightarrow> Some (None, w)
      | Some a \<Rightarrow> do {
          s \<leftarrow> w_subscs w a;
          (case su_repr s of
             Some t \<Rightarrow> Some (Some t, w)
           | None \<Rightarrow>
               (let t = subscription_text api s
                in Some (Some t, put_subsc a (s\<lparr>su_repr := Some t\<rparr>) w)))
        })"

section \<open>Notification servers (\<open>nmbsmf-mbs-session-build.c\<close>)\<close>

text \<open>\<open>fixed_port_notifications\<close> is the member \<open>w_fixed\<close>.  Whether Open5GS can start a server
  and the URI of a server are parameters.\<close>

definition new_sbi_server :: "ogs_api \<Rightarrow> world \<Rightarrow> addr option \<times> world" where
  "new_sbi_server api w =
     (let a = w_next w; w = w\<lparr>w_next := a + 1\<rparr>
      in if server_starts api a then (Some a, w) else (None, w))"

definition notification_address :: "world \<Rightarrow> addr_family \<times> 16 word" where
  "notification_address w =
     (case w_ctx w of
        None \<Rightarrow> (Af_inet, 0)
      | Some c \<Rightarrow> (case ctx_notif c of None \<Rightarrow> (Af_inet, 0) | Some a \<Rightarrow> a))"

definition is_ephemeral :: "addr_family \<times> 16 word \<Rightarrow> bool" where
  "is_ephemeral a =
     (case a of
        (Af_inet, port) \<Rightarrow> port = 0
      | (Af_inet6, port) \<Rightarrow> port = 0
      | _ \<Rightarrow> False)"

definition allocate_notification_server :: "ogs_api \<Rightarrow> addr \<Rightarrow> world \<Rightarrow> world option" where
  "allocate_notification_server api a w = do {
     s \<leftarrow> w_subscs w a;
     (if su_server s \<noteq> None then Some w
      else if is_ephemeral (notification_address w) then
        (case new_sbi_server api w of
           (None, w) \<Rightarrow> Some w
         | (Some v, w) \<Rightarrow>
             Some (put_subsc a (s\<lparr>su_server := Some v, su_url := Some (server_uri api v ''notification'')\<rparr>) w))
      else
        (let w = (case w_fixed w of
                    Some v \<Rightarrow> w
                  | None \<Rightarrow> (case new_sbi_server api w of (v, w) \<Rightarrow> w\<lparr>w_fixed := v\<rparr>))
         in case w_fixed w of
              None \<Rightarrow> Some w
            | Some v \<Rightarrow>
                (let n = w_next w
                 in Some (put_subsc a
                      (s\<lparr>su_server := Some v, su_url := Some (server_uri api v (uuid_string api n))\<rparr>)
                      (w\<lparr>w_next := n + 1\<rparr>)))))
   }"

definition notification_server_free :: "addr option \<Rightarrow> world \<Rightarrow> world" where
  "notification_server_free p w =
     (case p of
        None \<Rightarrow> w
      | Some v \<Rightarrow> if w_fixed w = Some v then w else log_event (Ev_server_stop v) w)"

definition tidy_fixed_notification_server :: "world \<Rightarrow> world" where
  "tidy_fixed_notification_server w =
     (case w_fixed w of None \<Rightarrow> w | Some v \<Rightarrow> log_event (Ev_server_stop v) w)"

section \<open>Release\<close>

definition mbs_status_subscription_delete :: "addr \<Rightarrow> world \<Rightarrow> world option" where
  "mbs_status_subscription_delete a w = do {
     s \<leftarrow> w_subscs w a;
     let w = notification_server_free (su_server s) w;
     Some (w\<lparr>w_subscs := (w_subscs w)(a := None)\<rparr>)
   }"

end
