(* ===== verification/Tmgi.thy ===== *)
theory Tmgi
  imports Sc_State
begin

text \<open>
  \<open>tmgi.c\<close>: the life of a TMGI object, its setters with the cached text representation, the
  allocation, refresh and deallocation requests with their SBI objects, and the search for
  the TMGI a response of the MB-SMF is about.
\<close>

section \<open>Creation and release\<close>

definition tmgi_create :: "nat option \<Rightarrow> nat option \<Rightarrow> world \<Rightarrow> (addr \<times> world) option" where
  "tmgi_create callback callback_data w =
     (let a = w_next w;
          t = \<lparr>tm_service_id = None, tm_plmn = 0, tm_expiry = 0, tm_callback = callback,
               tm_cb_data = callback_data, tm_sbi = None, tm_repr = None, tm_allocated = False\<rparr>;
          w = put_tmgi a t (w\<lparr>w_next := a + 1\<rparr>)
      in do {
           (ok, w) \<leftarrow> context_add_tmgi (Some a) w;
           Some (a, w)
         })"

definition tmgi_free :: "addr option \<Rightarrow> world \<Rightarrow> world option" where
  "tmgi_free p w =
     (case p of
        None \<Rightarrow> Some w
      | Some a \<Rightarrow> do {
          t \<leftarrow> w_tmgis w a;
          (ok, w) \<leftarrow> context_remove_tmgi (Some a) w;
          w \<leftarrow> ref_count_sbi_object_unref (tm_sbi t) w;
          Some (w\<lparr>w_tmgis := (w_tmgis w)(a := None)\<rparr>)
        })"

section \<open>Setters\<close>

definition tmgi_clear_repr :: "tmgi \<Rightarrow> tmgi" where
  "tmgi_clear_repr t = t\<lparr>tm_repr := None\<rparr>"

definition tmgi_set_mbs_service_id :: "string option \<Rightarrow> tmgi \<Rightarrow> tmgi" where
  "tmgi_set_mbs_service_id sid t =
     (let t = t\<lparr>tm_allocated := True\<rparr> in
      if tm_service_id t = None \<and> sid = None then t
      else if tm_service_id t = None \<or> sid = None \<or> the (tm_service_id t) \<noteq> the sid then
        (let t = t\<lparr>tm_service_id := None\<rparr>;
             t = (case sid of None \<Rightarrow> t | Some i \<Rightarrow> t\<lparr>tm_service_id := Some i\<rparr>)
         in tmgi_clear_repr t)
      else t)"

definition tmgi_set_plmn :: "ogs_api \<Rightarrow> 16 word \<Rightarrow> 16 word \<Rightarrow> tmgi \<Rightarrow> tmgi" where
  "tmgi_set_plmn api mcc mnc t =
     (let t = t\<lparr>tm_allocated := True\<rparr> in
      if plmn_mcc api (tm_plmn t) \<noteq> mcc \<or> plmn_mnc api (tm_plmn t) \<noteq> mnc then
        tmgi_clear_repr (t\<lparr>tm_plmn := plmn_build api mcc mnc (if mnc < 100 then 2 else 3)\<rparr>)
      else t)"

definition tmgi_set_expiry_time :: "int \<Rightarrow> tmgi \<Rightarrow> tmgi" where
  "tmgi_set_expiry_time expiry t =
     (let t = t\<lparr>tm_allocated := True\<rparr> in
      if tm_expiry t \<noteq> expiry then (tmgi_clear_repr t)\<lparr>tm_expiry := expiry\<rparr> else t)"

definition tmgi_set_callback :: "nat option \<Rightarrow> nat option \<Rightarrow> tmgi \<Rightarrow> tmgi" where
  "tmgi_set_callback callback callback_data t =
     t\<lparr>tm_callback := callback, tm_cb_data := callback_data\<rparr>"

text \<open>The text that \<open>_tmgi_repr\<close> builds, and the function that caches it.\<close>

definition tmgi_repr_text :: "ogs_api \<Rightarrow> addr \<Rightarrow> tmgi \<Rightarrow> string" where
  "tmgi_repr_text api a t =
     ''TMGI['' @ pointers_string api a @ '']: plmn='' @ plmn_to_string api (tm_plmn t)
     @ (case tm_service_id t of
          None \<Rightarrow> []
        | Some i \<Rightarrow> '', mbs_service_id='' @ [CHR 0x22] @ i @ [CHR 0x22])
     @ (if tm_expiry t \<noteq> 0 then '', expiry_time='' @ gmtime_string api (tm_expiry t * 1000000) else [])"

definition tmgi_repr :: "ogs_api \<Rightarrow> addr option \<Rightarrow> world \<Rightarrow> (string option \<times> world) option" where
  "tmgi_repr api p w =
     (case p of
        None \<Rightarrow> Some (None, w)
      | Some a \<Rightarrow> do {
          t \<leftarrow> w_tmgis w a;
          (case tm_repr t of
             Some s \<Rightarrow> Some (Some s, w)
           | None \<Rightarrow>
               (let s = tmgi_repr_text api a t
                in Some (Some s, put_tmgi a (t\<lparr>tm_repr := Some s\<rparr>) w)))
        })"

fun tmgi_list_repr_from :: "ogs_api \<Rightarrow> string \<Rightarrow> string \<Rightarrow> addr list \<Rightarrow> world \<Rightarrow> (string \<times> world) option" where
  "tmgi_list_repr_from api acc sep [] w = Some (acc, w)"
| "tmgi_list_repr_from api acc sep (a # as) w = do {
     (s, w) \<leftarrow> tmgi_repr api (Some a) w;
     tmgi_list_repr_from api (acc @ sep @ ''{'' @ the s @ ''}'') '', '' as w
   }"

definition tmgi_list_repr :: "ogs_api \<Rightarrow> addr list option \<Rightarrow> world \<Rightarrow> (string \<times> world) option" where
  "tmgi_list_repr api l w =
     (case l of None \<Rightarrow> Some ([], w) | Some as \<Rightarrow> tmgi_list_repr_from api [] [] as w)"

section \<open>Comparison and copy\<close>

definition tmgi_both_equal :: "tmgi \<Rightarrow> tmgi \<Rightarrow> bool" where
  "tmgi_both_equal a b =
     (if tm_service_id a \<noteq> None \<or> tm_service_id b \<noteq> None then
        (if tm_service_id a = None \<or> tm_service_id b = None then False
         else if the (tm_service_id a) \<noteq> the (tm_service_id b) then False
         else tm_plmn a = tm_plmn b)
      else tm_plmn a = tm_plmn b)"

definition tmgi_equal :: "addr option \<Rightarrow> addr option \<Rightarrow> world \<Rightarrow> bool option" where
  "tmgi_equal a b w =
     (if a = b then Some True
      else (case (a, b) of
              (Some x, Some y) \<Rightarrow> do {
                tx \<leftarrow> w_tmgis w x;
                ty \<leftarrow> w_tmgis w y;
                Some (tmgi_both_equal tx ty)
              }
            | _ \<Rightarrow> Some False))"

definition tmgi_copy :: "addr option \<Rightarrow> addr option \<Rightarrow> world \<Rightarrow> (addr option \<times> world) option" where
  "tmgi_copy dest src w =
     (if dest = src then Some (dest, w)
      else (case src of
              None \<Rightarrow> do {
                w \<leftarrow> tmgi_free dest w;
                Some (None, w)
              }
            | Some sa \<Rightarrow> do {
                s \<leftarrow> w_tmgis w sa;
                (da, w) \<leftarrow> (case dest of
                            Some d \<Rightarrow> Some (d, w)
                          | None \<Rightarrow> tmgi_create (tm_callback s) (tm_cb_data s) w);
                d \<leftarrow> w_tmgis w da;
                let d = d\<lparr>tm_service_id := None\<rparr>;
                let d = (case tm_service_id s of None \<Rightarrow> d | Some i \<Rightarrow> d\<lparr>tm_service_id := Some i\<rparr>);
                let d = d\<lparr>tm_plmn := tm_plmn s\<rparr>;
                let d = d\<lparr>tm_expiry := tm_expiry s\<rparr>;
                w \<leftarrow> ref_count_sbi_object_unref (tm_sbi d) w;
                w \<leftarrow> ref_count_sbi_object_ref (tm_sbi s) w;
                let d = d\<lparr>tm_sbi := tm_sbi s\<rparr>;
                Some (Some da, put_tmgi da (tmgi_clear_repr d) w)
              }))"

definition tmgi_replace_sbi_object :: "addr \<Rightarrow> addr option \<Rightarrow> world \<Rightarrow> world option" where
  "tmgi_replace_sbi_object a sbi w = do {
     t \<leftarrow> w_tmgis w a;
     w \<leftarrow> ref_count_sbi_object_unref (tm_sbi t) w;
     w \<leftarrow> ref_count_sbi_object_ref sbi w;
     Some (put_tmgi a (t\<lparr>tm_sbi := sbi\<rparr>) w)
   }"

section \<open>Requests\<close>

text \<open>Every new TMGI gives up its SBI object and takes the one of this request.\<close>

fun assign_sbi :: "addr \<Rightarrow> addr list \<Rightarrow> world \<Rightarrow> world option" where
  "assign_sbi r [] w = Some w"
| "assign_sbi r (a # as) w = do {
     t \<leftarrow> w_tmgis w a;
     w \<leftarrow> ref_count_sbi_object_unref (tm_sbi t) w;
     w \<leftarrow> ref_count_sbi_object_ref (Some r) w;
     assign_sbi r as (put_tmgi a (t\<lparr>tm_sbi := Some r\<rparr>) w)
   }"

definition tmgi_list_send_allocate ::
  "ogs_api \<Rightarrow> addr list option \<Rightarrow> addr list option \<Rightarrow> world \<Rightarrow> world option" where
  "tmgi_list_send_allocate api new_tmgis refresh_tmgis w =
     (if new_tmgis = None \<and> refresh_tmgis = None then Some w
      else do {
        (s1, w) \<leftarrow> tmgi_list_repr api new_tmgis w;
        (s2, w) \<leftarrow> tmgi_list_repr api refresh_tmgis w;
        (sbi, w) \<leftarrow>
          (case new_tmgis of
             Some new \<Rightarrow>
               (case ref_count_sbi_object_new w of
                  (r, w) \<Rightarrow> do {
                    w \<leftarrow> assign_sbi r new w;
                    w \<leftarrow> ref_count_sbi_object_unref (Some r) w;
                    Some (Some r, w)
                  })
           | None \<Rightarrow>
               (case the refresh_tmgis of
                  [] \<Rightarrow> None
                | a # _ \<Rightarrow> do {
                    t \<leftarrow> w_tmgis w a;
                    Some (tm_sbi t, w)
                  }));
        send_request sbi (Rq_tmgi_allocate new_tmgis refresh_tmgis) w
      })"

definition tmgi_list_send_deallocate :: "ogs_api \<Rightarrow> addr list option \<Rightarrow> world \<Rightarrow> world option" where
  "tmgi_list_send_deallocate api tmgis w =
     (case tmgis of
        None \<Rightarrow> Some w
      | Some [] \<Rightarrow> Some w
      | Some (a # as) \<Rightarrow> do {
          (s, w) \<leftarrow> tmgi_list_repr api tmgis w;
          t \<leftarrow> w_tmgis w a;
          (sbi, w) \<leftarrow>
            (case tm_sbi t of
               Some r \<Rightarrow> Some (Some r, w)
             | None \<Rightarrow>
                 (case ref_count_sbi_object_new w of
                    (r, w) \<Rightarrow> Some (Some r, put_tmgi a (t\<lparr>tm_sbi := Some r\<rparr>) w)));
          send_request sbi (Rq_tmgi_deallocate (a # as)) w
        })"

definition tmgi_send_allocate :: "ogs_api \<Rightarrow> addr option \<Rightarrow> world \<Rightarrow> world option" where
  "tmgi_send_allocate api p w =
     (case p of None \<Rightarrow> Some w | Some a \<Rightarrow> tmgi_list_send_allocate api (Some [a]) None w)"

definition tmgi_send_refresh :: "ogs_api \<Rightarrow> addr option \<Rightarrow> world \<Rightarrow> world option" where
  "tmgi_send_refresh api p w =
     (case p of None \<Rightarrow> Some w | Some a \<Rightarrow> tmgi_list_send_allocate api None (Some [a]) w)"

definition tmgi_send_deallocate :: "ogs_api \<Rightarrow> addr option \<Rightarrow> world \<Rightarrow> world option" where
  "tmgi_send_deallocate api p w =
     (case p of None \<Rightarrow> Some w | Some a \<Rightarrow> tmgi_list_send_deallocate api (Some [a]) w)"

fun filter_tmgis :: "(tmgi \<Rightarrow> bool) \<Rightarrow> addr list \<Rightarrow> world \<Rightarrow> addr list option" where
  "filter_tmgis P [] w = Some []"
| "filter_tmgis P (a # as) w = do {
     t \<leftarrow> w_tmgis w a;
     rest \<leftarrow> filter_tmgis P as w;
     Some (if P t then a # rest else rest)
   }"

definition needs_refresh :: "int \<Rightarrow> tmgi \<Rightarrow> bool" where
  "needs_refresh now t \<longleftrightarrow> tm_allocated t \<and> tm_expiry t \<noteq> 0 \<and> tm_expiry t \<le> now"

definition tmgi_send_allocate_all :: "ogs_api \<Rightarrow> world \<Rightarrow> world option" where
  "tmgi_send_allocate_all api w = do {
     ts \<leftarrow> context_tmgis w;
     new \<leftarrow> filter_tmgis (\<lambda>t. \<not> tm_allocated t) ts w;
     tmgi_list_send_allocate api (Some new) None w
   }"

definition tmgi_send_refresh_all :: "ogs_api \<Rightarrow> int \<Rightarrow> world \<Rightarrow> world option" where
  "tmgi_send_refresh_all api now w = do {
     ts \<leftarrow> context_tmgis w;
     refresh \<leftarrow> filter_tmgis (needs_refresh now) ts w;
     tmgi_list_send_allocate api None (Some refresh) w
   }"

definition tmgi_send_allocate_and_refresh_all :: "ogs_api \<Rightarrow> int \<Rightarrow> world \<Rightarrow> world option" where
  "tmgi_send_allocate_and_refresh_all api now w = do {
     ts \<leftarrow> context_tmgis w;
     refresh \<leftarrow> filter_tmgis (needs_refresh now) ts w;
     new \<leftarrow> filter_tmgis (\<lambda>t. \<not> tm_allocated t) ts w;
     tmgi_list_send_allocate api (Some new) (Some refresh) w
   }"

definition mb_smf_sc_tmgi_create :: "ogs_api \<Rightarrow> nat option \<Rightarrow> nat option \<Rightarrow> world \<Rightarrow> (addr \<times> world) option" where
  "mb_smf_sc_tmgi_create api callback callback_data w = do {
     (a, w) \<leftarrow> tmgi_create callback callback_data w;
     w \<leftarrow> tmgi_send_allocate api (Some a) w;
     Some (a, w)
   }"

section \<open>The TMGI a response is about\<close>

text \<open>\<open>OpenAPI_tmgi_t\<close>: service id, country code and network code.\<close>

type_synonym api_tmgi = "string option \<times> string \<times> string"

definition tmgi_matches :: "ogs_api \<Rightarrow> api_tmgi \<Rightarrow> tmgi \<Rightarrow> bool" where
  "tmgi_matches api m t =
     (case m of
        (sid, mcc, mnc) \<Rightarrow>
          (case sid of
             Some i \<Rightarrow>
               (case tm_service_id t of
                  Some j \<Rightarrow> i = j
                | None \<Rightarrow> \<not> tm_allocated t)
           | None \<Rightarrow> tm_service_id t = None)
          \<and> (tm_allocated t \<longrightarrow>
               mcc = plmn_mcc_string api (tm_plmn t) \<and> mnc = plmn_mnc_string api (tm_plmn t)))"

fun first_matching :: "(tmgi \<Rightarrow> bool) \<Rightarrow> addr list \<Rightarrow> world \<Rightarrow> addr option option" where
  "first_matching P [] w = Some None"
| "first_matching P (a # as) w = do {
     t \<leftarrow> w_tmgis w a;
     if P t then Some (Some a) else first_matching P as w
   }"

definition tmgi_find_matching_openapi_type ::
  "ogs_api \<Rightarrow> api_tmgi option \<Rightarrow> world \<Rightarrow> addr option option" where
  "tmgi_find_matching_openapi_type api m w =
     (case m of
        None \<Rightarrow> Some None
      | Some m \<Rightarrow> do {
          ts \<leftarrow> context_tmgis w;
          first_matching (tmgi_matches api m) ts w
        })"

end
