(* ===== verification/Session_Data.thy ===== *)
theory Session_Data
  imports Status_Subscription Tmgi
begin

text \<open>
  The public part of an MBS session (\<open>mbs-session.c\<close>): release, copy, comparison and patch
  list of \<open>mb_smf_sc_mbs_session_t\<close>.  The TMGI and the three shared scalars are pointers, so
  these operations read and change the state; \<open>None\<close> is the use of a pointer that is not
  allocated.
\<close>

section \<open>Release\<close>

definition mbs_session_calloc :: mbs_session where
  "mbs_session_calloc =
     \<lparr>se_service_type = Broadcast, se_ssm = None, se_tmgi = None, se_tunnel = [], se_tunnel_req = False,
      se_tmgi_req = False, se_location_dependent = False, se_any_ue_ind = False,
      se_contact_pcf_ind = False, se_area_session_id = None, se_service_area = None,
      se_ext_service_area = None, se_dnn = None, se_snssai = None, se_start_time = None,
      se_termination_time = None, se_service_info = None, se_activity = Activity_none,
      se_fsa_ids = [], se_assoc_id = None\<rparr>"

definition mbs_session_public_clear :: "mbs_session \<Rightarrow> world \<Rightarrow> (mbs_session \<times> world) option" where
  "mbs_session_public_clear s w = do {
     let s = s\<lparr>se_ssm := None\<rparr>;
     w \<leftarrow> (if se_tmgi_req s \<and> se_tmgi s \<noteq> None then tmgi_free (se_tmgi s) w else Some w);
     let s = s\<lparr>se_tmgi := None, se_tmgi_req := True\<rparr>;
     let s = s\<lparr>se_tunnel := []\<rparr>;
     w \<leftarrow> free_word (se_area_session_id s) w;
     let s = s\<lparr>se_area_session_id := None, se_service_area := None, se_ext_service_area := None,
               se_dnn := None, se_snssai := None\<rparr>;
     w \<leftarrow> free_word (se_start_time s) w;
     let s = s\<lparr>se_start_time := None\<rparr>;
     w \<leftarrow> free_word (se_termination_time s) w;
     let s = s\<lparr>se_termination_time := None, se_service_info := None, se_fsa_ids := [],
               se_assoc_id := None\<rparr>;
     Some (s, w)
   }"

definition mbs_session_public_free :: "mbs_session option \<Rightarrow> world \<Rightarrow> world option" where
  "mbs_session_public_free p w =
     (case p of
        None \<Rightarrow> Some w
      | Some s \<Rightarrow> map_option snd (mbs_session_public_clear s w))"

section \<open>Copy\<close>

text \<open>\<open>d\<close> is the structure that receives the values, allocated or reused.\<close>

definition mbs_session_copy_values :: "mbs_session \<Rightarrow> mbs_session \<Rightarrow> world \<Rightarrow> (mbs_session \<times> world) option" where
  "mbs_session_copy_values d s w = do {
     let d = d\<lparr>se_service_type := se_service_type s\<rparr>;
     let d = d\<lparr>se_ssm := se_ssm s\<rparr>;
     (t, w) \<leftarrow> (if se_tmgi_req s then tmgi_copy (se_tmgi d) (se_tmgi s) w else Some (se_tmgi s, w));
     let d = d\<lparr>se_tmgi := t\<rparr>;
     let d = d\<lparr>se_tunnel := se_tunnel s, se_tunnel_req := se_tunnel_req s, se_tmgi_req := se_tmgi_req s,
               se_location_dependent := se_location_dependent s, se_any_ue_ind := se_any_ue_ind s,
               se_contact_pcf_ind := se_contact_pcf_ind s,
               se_area_session_id := se_area_session_id s\<rparr>;
     let d = d\<lparr>se_service_area := mbs_service_area_copy (se_service_area d) (se_service_area s)\<rparr>;
     let d = d\<lparr>se_ext_service_area :=
                 ext_mbs_service_area_copy (se_ext_service_area d) (se_ext_service_area s)\<rparr>;
     let d = d\<lparr>se_dnn := se_dnn s, se_snssai := se_snssai s\<rparr>;
     let d = d\<lparr>se_start_time := se_start_time s, se_termination_time := se_termination_time d\<rparr>;
     si \<leftarrow> mbs_service_info_copy (se_service_info d) (se_service_info s);
     let d = d\<lparr>se_service_info := si, se_activity := se_activity s\<rparr>;
     let d = d\<lparr>se_fsa_ids := mbs_fsa_ids_copy (se_fsa_ids d) (se_fsa_ids s)\<rparr>;
     let d = d\<lparr>se_assoc_id := associated_session_id_copy (se_assoc_id d) (se_assoc_id s)\<rparr>;
     Some (d, w)
   }"

definition mbs_session_public_copy ::
  "mbs_session option \<Rightarrow> mbs_session option \<Rightarrow> world \<Rightarrow> (mbs_session option \<times> world) option" where
  "mbs_session_public_copy dest src w =
     (case src of
        None \<Rightarrow> (case dest of
                   None \<Rightarrow> Some (None, w)
                 | Some d \<Rightarrow> do {
                     (d, w) \<leftarrow> mbs_session_public_clear d w;
                     Some (None, w)
                   })
      | Some s \<Rightarrow> do {
          let d = (case dest of None \<Rightarrow> mbs_session_calloc | Some d \<Rightarrow> d);
          (d, w) \<leftarrow> mbs_session_copy_values d s w;
          Some (Some d, w)
        })"

section \<open>Comparison\<close>

definition opt_word :: "addr option \<Rightarrow> world \<Rightarrow> int option option" where
  "opt_word p w =
     (case p of
        None \<Rightarrow> Some None
      | Some a \<Rightarrow> (case w_words w a of None \<Rightarrow> None | Some v \<Rightarrow> Some (Some v)))"

definition set_alike :: "'a option \<Rightarrow> 'b option \<Rightarrow> bool" where
  "set_alike a b \<longleftrightarrow> (a = None) = (b = None)"

definition flags_equal :: "mbs_session \<Rightarrow> mbs_session \<Rightarrow> bool" where
  "flags_equal a b \<longleftrightarrow>
     se_service_type a = se_service_type b \<and> se_tunnel_req a = se_tunnel_req b \<and>
     se_tmgi_req a = se_tmgi_req b \<and> se_location_dependent a = se_location_dependent b \<and>
     se_any_ue_ind a = se_any_ue_ind b \<and> se_contact_pcf_ind a = se_contact_pcf_ind b \<and>
     se_activity a = se_activity b"

definition presence_equal :: "mbs_session \<Rightarrow> mbs_session \<Rightarrow> bool" where
  "presence_equal a b \<longleftrightarrow>
     set_alike (se_ssm a) (se_ssm b) \<and> set_alike (se_tmgi a) (se_tmgi b) \<and>
     (se_tunnel a = []) = (se_tunnel b = []) \<and>
     set_alike (se_area_session_id a) (se_area_session_id b) \<and>
     set_alike (se_service_area a) (se_service_area b) \<and>
     set_alike (se_ext_service_area a) (se_ext_service_area b) \<and>
     set_alike (se_dnn a) (se_dnn b) \<and> set_alike (se_snssai a) (se_snssai b) \<and>
     set_alike (se_start_time a) (se_start_time b) \<and>
     set_alike (se_termination_time a) (se_termination_time b) \<and>
     set_alike (se_service_info a) (se_service_info b) \<and>
     set_alike (se_assoc_id a) (se_assoc_id b)"

text \<open>The comparisons behind the pointers, in the order of the code; each one is made only
  when the ones before it succeeded.\<close>

definition and_then :: "bool option \<Rightarrow> bool option \<Rightarrow> bool option" where
  "and_then p q = do { b \<leftarrow> p; if b then q else Some False }"

definition words_equal :: "addr option \<Rightarrow> addr option \<Rightarrow> world \<Rightarrow> bool option" where
  "words_equal a b w =
     (case a of
        None \<Rightarrow> Some True
      | Some _ \<Rightarrow> do {
          x \<leftarrow> opt_word a w;
          y \<leftarrow> opt_word b w;
          Some (x = y)
        })"

definition if_set :: "('a \<Rightarrow> 'a \<Rightarrow> bool option) \<Rightarrow> 'a option \<Rightarrow> 'a option \<Rightarrow> bool option" where
  "if_set eq a b = (case a of None \<Rightarrow> Some True | Some x \<Rightarrow> (case b of None \<Rightarrow> None | Some y \<Rightarrow> eq x y))"

definition mbs_session_both_equal :: "ogs_api \<Rightarrow> mbs_session \<Rightarrow> mbs_session \<Rightarrow> world \<Rightarrow> bool option" where
  "mbs_session_both_equal api a b w =
     (if \<not> flags_equal a b then Some False
      else if \<not> presence_equal a b then Some False
      else if length (se_fsa_ids a) \<noteq> length (se_fsa_ids b) then Some False
      else
        and_then (words_equal (se_area_session_id a) (se_area_session_id b) w)
       (and_then (words_equal (se_start_time a) (se_start_time b) w)
       (and_then (words_equal (se_termination_time a) (se_termination_time b) w)
       (and_then (if_set (\<lambda>x y. Some (x = y)) (se_dnn a) (se_dnn b))
       (and_then (if_set (\<lambda>x y. Some (ssm_addr_both_equal x y)) (se_ssm a) (se_ssm b))
       (and_then (if se_tmgi a = None then Some True else tmgi_equal (se_tmgi a) (se_tmgi b) w)
       (and_then (if_set (\<lambda>x y. Some (mbs_service_area_equal api x y)) (se_service_area a) (se_service_area b))
       (and_then (if_set (\<lambda>x y. Some (ext_mbs_service_area_equal x y)) (se_ext_service_area a) (se_ext_service_area b))
       (and_then (if_set (\<lambda>x y. Some (x = y)) (se_snssai a) (se_snssai b))
       (and_then (if_set mbs_service_info_equal (se_service_info a) (se_service_info b))
       (and_then (if_set (\<lambda>x y. Some (associated_session_id_equal x y)) (se_assoc_id a) (se_assoc_id b))
         (Some (mbs_fsa_ids_equal (se_fsa_ids a) (se_fsa_ids b))))))))))))))"

text \<open>Two structures that are not the same object.\<close>

definition mbs_session_public_equal ::
  "ogs_api \<Rightarrow> mbs_session option \<Rightarrow> mbs_session option \<Rightarrow> world \<Rightarrow> bool option" where
  "mbs_session_public_equal api a b w =
     (case (a, b) of
        (None, None) \<Rightarrow> Some True
      | (Some x, Some y) \<Rightarrow> mbs_session_both_equal api x y w
      | _ \<Rightarrow> Some False)"

section \<open>Patch list\<close>

definition activity_status_json :: "activity_status \<Rightarrow> json" where
  "activity_status_json a =
     (case a of
        Activity_active \<Rightarrow> JStr ''ACTIVE''
      | Activity_inactive \<Rightarrow> JStr ''INACTIVE''
      | Activity_none \<Rightarrow> JNull)"

definition activity_patch_list :: "activity_status \<Rightarrow> activity_status \<Rightarrow> json_patch list" where
  "activity_patch_list a b =
     (if a = b then []
      else if a = Activity_none then
        [json_patch_new Op_add ''/activityStatus'' (Some (activity_status_json b))]
      else if b = Activity_none then [json_patch_new Op_remove ''/activityStatus'' None]
      else [json_patch_new Op_replace ''/activityStatus'' (Some (activity_status_json b))])"

text \<open>The comparisons that only produce a warning still read through the pointers.\<close>

definition time_equal :: "addr option \<Rightarrow> addr option \<Rightarrow> world \<Rightarrow> bool option" where
  "time_equal a b w =
     (if a = b then Some True
      else if a = None \<or> b = None then Some False
      else do {
        x \<leftarrow> opt_word a w;
        y \<leftarrow> opt_word b w;
        Some (x = y)
      })"

definition session_both_patch_list ::
  "ogs_api \<Rightarrow> mbs_session \<Rightarrow> mbs_session \<Rightarrow> world \<Rightarrow> json_patch list option" where
  "session_both_patch_list api a b w = do {
     tmgi_same \<leftarrow> tmgi_equal (se_tmgi a) (se_tmgi b) w;
     let ps = (if se_contact_pcf_ind a \<noteq> se_contact_pcf_ind b
               then [json_patch_new Op_replace ''/contactPcfInd'' (Some (JBool (se_contact_pcf_ind b)))]
               else []);
     area \<leftarrow> mbs_service_area_patch_list api (se_service_area a) (se_service_area b);
     ps \<leftarrow> json_patches_append_list ps area (Some ''/mbsServiceArea'');
     ext \<leftarrow> ext_mbs_service_area_patch_list api (se_ext_service_area a) (se_ext_service_area b);
     ps \<leftarrow> json_patches_append_list ps ext (Some ''/extMbsServiceArea'');
     start_same \<leftarrow> time_equal (se_start_time a) (se_start_time b) w;
     term_same \<leftarrow> time_equal (se_termination_time a) (se_termination_time b) w;
     info \<leftarrow> mbs_service_info_patch_list api (se_service_info a) (se_service_info b);
     ps \<leftarrow> json_patches_append_list ps info (Some ''/mbsServInfo'');
     (if se_service_type a = Broadcast
      then json_patches_append_list ps (mbs_fsa_ids_patch_list (se_fsa_ids a) (se_fsa_ids b))
             (Some ''/mbsFsaIdList'')
      else Some (ps @ activity_patch_list (se_activity a) (se_activity b)))
   }"

definition mbs_session_public_patch_list ::
  "ogs_api \<Rightarrow> mbs_session option \<Rightarrow> mbs_session option \<Rightarrow> world \<Rightarrow> json_patch list option" where
  "mbs_session_public_patch_list api a b w =
     (case (a, b) of
        (Some x, Some y) \<Rightarrow> session_both_patch_list api x y w
      | _ \<Rightarrow> Some [])"

definition mbs_session_patch_list :: "ogs_api \<Rightarrow> addr \<Rightarrow> world \<Rightarrow> json_patch list option" where
  "mbs_session_patch_list api a w = do {
     s \<leftarrow> w_sessions w a;
     mbs_session_public_patch_list api (ps_previous s) (Some (ps_public s)) w
   }"

end
