(* ===== verification/Session_Ops.thy ===== *)
theory Session_Ops
  imports Session_Data
begin

text \<open>
  The operations on MBS session objects: creation, callbacks, TMGI assignment, the requests
  of \<open>mbs-session.c\<close> and \<open>mbs-status-subscription.c\<close>, the subscription lists, the decision
  what to push to the MB-SMF, deletion, and the parts of \<open>context.c\<close> that need sessions.
  Callbacks of the application are logged; they do not call back into the library.
\<close>

section \<open>Creation\<close>

definition no_callback :: callback_slot where
  "no_callback = \<lparr>cb_fun = None, cb_data = None, cb_free = None\<rparr>"

definition mbs_session_new :: "world \<Rightarrow> addr \<times> world" where
  "mbs_session_new w =
     (let a = w_next w;
          s = \<lparr>ps_public = mbs_session_calloc\<lparr>se_tmgi_req := True\<rparr>, ps_id = None, ps_new = [],
               ps_active = None, ps_deleted = [], ps_previous = None, ps_create_cb = no_callback,
               ps_update_cb = no_callback, ps_delete_cb = no_callback, ps_is_deleted = False,
               ps_sbi = None\<rparr>
      in (a, put_session a s (w\<lparr>w_next := a + 1\<rparr>)))"

text \<open>An address is the list of its bytes, four or sixteen; it is written over the front of
  the zeroed union.\<close>

definition overlay :: "8 word list \<Rightarrow> 8 word list \<Rightarrow> 8 word list" where
  "overlay bytes mem = bytes @ drop (length bytes) mem"

definition session_ssm ::
  "addr_family \<Rightarrow> 8 word list option \<Rightarrow> 8 word list option \<Rightarrow> ssm_addr option" where
  "session_ssm fam source dest =
     (let ssm = (case source of
                   None \<Rightarrow> None
                 | Some b \<Rightarrow> Some (\<lparr>ssm_family = fam, ssm_source = overlay b zero16, ssm_dest = zero16\<rparr>))
      in case dest of
           None \<Rightarrow> ssm
         | Some b \<Rightarrow>
             (let m = (case ssm of
                         None \<Rightarrow> \<lparr>ssm_family = fam, ssm_source = zero16, ssm_dest = zero16\<rparr>
                       | Some m \<Rightarrow> m)
              in Some (m\<lparr>ssm_dest := overlay b (ssm_dest m)\<rparr>)))"

definition mbs_session_new_addr ::
  "addr_family \<Rightarrow> 8 word list option \<Rightarrow> 8 word list option \<Rightarrow> world \<Rightarrow> (addr \<times> world) option" where
  "mbs_session_new_addr fam source dest w =
     (case mbs_session_new w of
        (a, w) \<Rightarrow> do {
          s \<leftarrow> w_sessions w a;
          let w = put_session a (s\<lparr>ps_public := (ps_public s)\<lparr>se_ssm := session_ssm fam source dest\<rparr>\<rparr>) w;
          (case context_add_mbs_session (Some a) w of (ok, w) \<Rightarrow> Some (a, w))
        })"

definition mbs_session_mark_deleted :: "addr option \<Rightarrow> world \<Rightarrow> world option" where
  "mbs_session_mark_deleted p w =
     (case p of
        None \<Rightarrow> Some w
      | Some a \<Rightarrow> do {
          s \<leftarrow> w_sessions w a;
          Some (put_session a (s\<lparr>ps_is_deleted := True\<rparr>) w)
        })"

section \<open>Callbacks\<close>

text \<open>Releasing the data of one slot: it is passed to the free function unless one of the
  other two slots still holds it.\<close>

definition release_slot :: "callback_slot \<Rightarrow> nat option \<Rightarrow> nat option \<Rightarrow> callback_slot \<times> event list" where
  "release_slot c other1 other2 =
     (case cb_data c of
        None \<Rightarrow> (c, [])
      | Some d \<Rightarrow>
          (c\<lparr>cb_data := None\<rparr>,
           case cb_free c of
             None \<Rightarrow> []
           | Some f \<Rightarrow> if Some d \<noteq> other1 \<and> Some d \<noteq> other2 then [Ev_free_data f d] else []))"

definition release_create_callback_data :: "session \<Rightarrow> session \<times> event list" where
  "release_create_callback_data s =
     (case release_slot (ps_create_cb s) (cb_data (ps_delete_cb s)) (cb_data (ps_update_cb s)) of
        (c, es) \<Rightarrow> (s\<lparr>ps_create_cb := c\<rparr>, es))"

definition release_update_callback_data :: "session \<Rightarrow> session \<times> event list" where
  "release_update_callback_data s =
     (case release_slot (ps_update_cb s) (cb_data (ps_create_cb s)) (cb_data (ps_delete_cb s)) of
        (c, es) \<Rightarrow> (s\<lparr>ps_update_cb := c\<rparr>, es))"

definition release_delete_callback_data :: "session \<Rightarrow> session \<times> event list" where
  "release_delete_callback_data s =
     (case release_slot (ps_delete_cb s) (cb_data (ps_create_cb s)) (cb_data (ps_update_cb s)) of
        (c, es) \<Rightarrow> (s\<lparr>ps_delete_cb := c\<rparr>, es))"

definition release_callback_data :: "session \<Rightarrow> session \<times> event list" where
  "release_callback_data s =
     (let (s, e1) = release_create_callback_data s;
          (s, e2) = release_update_callback_data s;
          (s, e3) = release_delete_callback_data s
      in (s, e1 @ e2 @ e3))"

definition set_create_callback_freefn ::
  "nat option \<Rightarrow> nat option \<Rightarrow> nat option \<Rightarrow> session \<Rightarrow> session \<times> event list" where
  "set_create_callback_freefn callback data data_free s =
     (let (s, es) = (if cb_data (ps_create_cb s) \<noteq> data then release_create_callback_data s else (s, []))
      in (s\<lparr>ps_create_cb := \<lparr>cb_fun = callback, cb_data = data, cb_free = data_free\<rparr>\<rparr>, es))"

definition set_update_callback_freefn ::
  "nat option \<Rightarrow> nat option \<Rightarrow> nat option \<Rightarrow> session \<Rightarrow> session \<times> event list" where
  "set_update_callback_freefn callback data data_free s =
     (let (s, es) = (if cb_data (ps_update_cb s) \<noteq> data then release_update_callback_data s else (s, []))
      in (s\<lparr>ps_update_cb := \<lparr>cb_fun = callback, cb_data = data, cb_free = data_free\<rparr>\<rparr>, es))"

definition set_delete_callback_freefn ::
  "nat option \<Rightarrow> nat option \<Rightarrow> nat option \<Rightarrow> session \<Rightarrow> session \<times> event list" where
  "set_delete_callback_freefn callback data data_free s =
     (let (s, es) = (if cb_data (ps_delete_cb s) \<noteq> data then release_delete_callback_data s else (s, []))
      in (s\<lparr>ps_delete_cb := \<lparr>cb_fun = callback, cb_data = data, cb_free = data_free\<rparr>\<rparr>, es))"

definition set_callback_freefn ::
  "nat option \<Rightarrow> nat option \<Rightarrow> nat option \<Rightarrow> session \<Rightarrow> bool \<times> session \<times> event list" where
  "set_callback_freefn callback data data_free s =
     (if ps_is_deleted s then (False, s, [])
      else (let (s, e1) = set_create_callback_freefn callback data data_free s;
                (s, e2) = set_update_callback_freefn callback data data_free s;
                (s, e3) = set_delete_callback_freefn callback data data_free s
            in (True, s, e1 @ e2 @ e3)))"

definition mbs_session_set_callback ::
  "addr option \<Rightarrow> nat option \<Rightarrow> nat option \<Rightarrow> nat option \<Rightarrow> world \<Rightarrow> (bool \<times> world) option" where
  "mbs_session_set_callback p callback data data_free w =
     (case p of
        None \<Rightarrow> Some (False, w)
      | Some a \<Rightarrow> do {
          s \<leftarrow> w_sessions w a;
          (case set_callback_freefn callback data data_free s of
             (ok, s, es) \<Rightarrow> Some (ok, fold log_event es (put_session a s w)))
        })"

definition mbs_session_do_callback ::
  "(session \<Rightarrow> callback_slot) \<Rightarrow> result_code \<Rightarrow> string option \<Rightarrow> addr option \<Rightarrow> world \<Rightarrow> world option" where
  "mbs_session_do_callback slot result problem p w =
     (case p of
        None \<Rightarrow> Some w
      | Some a \<Rightarrow> do {
          s \<leftarrow> w_sessions w a;
          (case cb_fun (slot s) of
             None \<Rightarrow> Some w
           | Some f \<Rightarrow> Some (log_event (Ev_session_callback f a result problem (cb_data (slot s))) w))
        })"

definition mbs_session_do_created_callback :: "addr option \<Rightarrow> world \<Rightarrow> world option" where
  "mbs_session_do_created_callback = mbs_session_do_callback ps_create_cb Ogs_ok None"

definition mbs_session_do_create_error_callback :: "string option \<Rightarrow> addr option \<Rightarrow> world \<Rightarrow> world option" where
  "mbs_session_do_create_error_callback = mbs_session_do_callback ps_create_cb Ogs_error"

definition mbs_session_do_create_timeout_callback :: "addr option \<Rightarrow> world \<Rightarrow> world option" where
  "mbs_session_do_create_timeout_callback = mbs_session_do_callback ps_create_cb Ogs_etimedout None"

definition mbs_session_do_updated_callback :: "addr option \<Rightarrow> world \<Rightarrow> world option" where
  "mbs_session_do_updated_callback = mbs_session_do_callback ps_update_cb Ogs_ok None"

definition mbs_session_do_update_error_callback :: "string option \<Rightarrow> addr option \<Rightarrow> world \<Rightarrow> world option" where
  "mbs_session_do_update_error_callback = mbs_session_do_callback ps_update_cb Ogs_error"

definition mbs_session_do_update_timeout_callback :: "addr option \<Rightarrow> world \<Rightarrow> world option" where
  "mbs_session_do_update_timeout_callback = mbs_session_do_callback ps_update_cb Ogs_etimedout None"

definition mbs_session_do_deleted_callback :: "addr option \<Rightarrow> world \<Rightarrow> world option" where
  "mbs_session_do_deleted_callback = mbs_session_do_callback ps_delete_cb Ogs_done None"

section \<open>The TMGI of a session\<close>

definition mbs_session_set_tmgi :: "addr option \<Rightarrow> addr option \<Rightarrow> world \<Rightarrow> (bool \<times> world) option" where
  "mbs_session_set_tmgi p tmgi w =
     (case p of
        None \<Rightarrow> Some (False, w)
      | Some a \<Rightarrow> do {
          s \<leftarrow> w_sessions w a;
          (if ps_is_deleted s then Some (False, w)
           else if se_tmgi (ps_public s) = tmgi then Some (True, w)
           else do {
             same \<leftarrow> (if se_tmgi (ps_public s) \<noteq> None \<and> tmgi \<noteq> None
                      then tmgi_equal tmgi (se_tmgi (ps_public s)) w else Some False);
             (if same then Some (True, w)
              else (let s = s\<lparr>ps_public := (ps_public s)\<lparr>se_tmgi := tmgi\<rparr>\<rparr>
                    in case tmgi of
                         None \<Rightarrow> Some (True, put_session a s w)
                       | Some t \<Rightarrow> do {
                           x \<leftarrow> w_tmgis w t;
                           let old = ps_sbi s;
                           w \<leftarrow> ref_count_sbi_object_ref (tm_sbi x) w;
                           let s = s\<lparr>ps_sbi := tm_sbi x\<rparr>;
                           w \<leftarrow> ref_count_sbi_object_unref old w;
                           let s = s\<lparr>ps_public := (ps_public s)\<lparr>se_tmgi_req := False\<rparr>\<rparr>;
                           Some (True, put_session a s w)
                         }))
           })
        })"

end
