(* ===== verification/Session_Push.thy ===== *)
theory Session_Push
  imports Session_Ops
begin

text \<open>
  Requests about sessions and status subscriptions, the subscription lists of a session, the
  decision what to push to the MB-SMF, deletion, and the context functions over sessions.
  \<open>ogs_sbi_xact_add\<close> calls the builder of the request at once: its effect on the
  subscription that goes with a session creation (the notification server) and the patches
  of an update are part of the send operations.
\<close>

section \<open>Requests about a session\<close>

text \<open>\<open>_nmbsmf_mbs_session_build_create\<close>: the subscription whose events go with the creation,
  the first new one or the first active one.\<close>

definition first_subscription :: "session \<Rightarrow> addr option" where
  "first_subscription s =
     (case ps_new s of
        a # _ \<Rightarrow> Some a
      | [] \<Rightarrow> (case ps_active s of
                 Some ((k, a) # _) \<Rightarrow> Some a
               | _ \<Rightarrow> None))"

definition session_build_create :: "ogs_api \<Rightarrow> addr \<Rightarrow> world \<Rightarrow> world option" where
  "session_build_create api a w = do {
     s \<leftarrow> w_sessions w a;
     (case first_subscription s of
        None \<Rightarrow> Some w
      | Some b \<Rightarrow> do {
          u \<leftarrow> w_subscs w b;
          (if flag_events (su_flags u) = [] then Some w else allocate_notification_server api b w)
        })
   }"

definition mbs_session_send_create :: "ogs_api \<Rightarrow> addr \<Rightarrow> world \<Rightarrow> world option" where
  "mbs_session_send_create api a w = do {
     s \<leftarrow> w_sessions w a;
     target \<leftarrow> (case se_tmgi (ps_public s) of
                  None \<Rightarrow> Some None
                | Some t \<Rightarrow> do { x \<leftarrow> w_tmgis w t; Some (Some (tm_plmn x)) });
     let w = (case ps_sbi s of
                Some r \<Rightarrow> w
              | None \<Rightarrow> (case ref_count_sbi_object_new w of
                           (r, w) \<Rightarrow> put_session a (s\<lparr>ps_sbi := Some r\<rparr>) w));
     w \<leftarrow> session_build_create api a w;
     s \<leftarrow> w_sessions w a;
     send_request (ps_sbi s) (Rq_session_create a) w
   }"

definition mbs_session_send_update :: "ogs_api \<Rightarrow> addr \<Rightarrow> world \<Rightarrow> world option" where
  "mbs_session_send_update api a w = do {
     s \<leftarrow> w_sessions w a;
     patches \<leftarrow> mbs_session_patch_list api a w;
     send_request (ps_sbi s) (Rq_session_update a patches) w
   }"

definition mbs_session_send_remove :: "addr \<Rightarrow> world \<Rightarrow> world option" where
  "mbs_session_send_remove a w = do {
     s \<leftarrow> w_sessions w a;
     send_request (ps_sbi s) (Rq_session_remove a) w
   }"

section \<open>Requests about a subscription\<close>

definition mbs_status_subscription_send_create :: "addr \<Rightarrow> world \<Rightarrow> world option" where
  "mbs_status_subscription_send_create a w = do {
     u \<leftarrow> w_subscs w a;
     (case su_session u of
        None \<Rightarrow> Some w
      | Some b \<Rightarrow> do {
          s \<leftarrow> w_sessions w b;
          send_request (ps_sbi s) (Rq_subscription_create b a) w
        })
   }"

text \<open>The builder of this request takes the patches of the session.\<close>

definition mbs_status_subscription_send_update :: "ogs_api \<Rightarrow> addr \<Rightarrow> world \<Rightarrow> world option" where
  "mbs_status_subscription_send_update api a w = do {
     u \<leftarrow> w_subscs w a;
     (case su_session u of
        None \<Rightarrow> Some w
      | Some b \<Rightarrow> do {
          s \<leftarrow> w_sessions w b;
          patches \<leftarrow> mbs_session_patch_list api b w;
          send_request (ps_sbi s) (Rq_subscription_update b a patches) w
        })
   }"

definition mbs_status_subscription_send_delete :: "addr \<Rightarrow> world \<Rightarrow> world option" where
  "mbs_status_subscription_send_delete a w = do {
     u \<leftarrow> w_subscs w a;
     (case su_session u of
        None \<Rightarrow> Some w
      | Some b \<Rightarrow> do {
          s \<leftarrow> w_sessions w b;
          send_request (ps_sbi s) (Rq_subscription_delete b a) w
        })
   }"

section \<open>The subscription lists\<close>

definition clear_changed :: "addr \<Rightarrow> world \<Rightarrow> world option" where
  "clear_changed a w = do {
     u \<leftarrow> w_subscs w a;
     Some (put_subsc a (u\<lparr>su_changed := False\<rparr>) w)
   }"

fun create_new_subscriptions :: "addr list \<Rightarrow> world \<Rightarrow> world option" where
  "create_new_subscriptions [] w = Some w"
| "create_new_subscriptions (a # as) w = do {
     u \<leftarrow> w_subscs w a;
     w \<leftarrow> (if su_changed u then mbs_status_subscription_send_create a w else Some w);
     w \<leftarrow> clear_changed a w;
     create_new_subscriptions as w
   }"

fun update_active_subscriptions :: "ogs_api \<Rightarrow> addr list \<Rightarrow> world \<Rightarrow> world option" where
  "update_active_subscriptions api [] w = Some w"
| "update_active_subscriptions api (a # as) w = do {
     u \<leftarrow> w_subscs w a;
     w \<leftarrow> (if su_changed u
           then Option.bind (mbs_status_subscription_send_update api a w) (clear_changed a)
           else Some w);
     update_active_subscriptions api as w
   }"

fun delete_old_subscriptions :: "addr \<Rightarrow> addr list \<Rightarrow> world \<Rightarrow> world option" where
  "delete_old_subscriptions s [] w = Some w"
| "delete_old_subscriptions s (a # as) w = do {
     w \<leftarrow> mbs_status_subscription_send_delete a w;
     w \<leftarrow> clear_changed a w;
     x \<leftarrow> w_sessions w s;
     let w = put_session s (x\<lparr>ps_deleted := remove1 a (ps_deleted x)\<rparr>) w;
     w \<leftarrow> mbs_status_subscription_delete a w;
     delete_old_subscriptions s as w
   }"

definition active_addrs :: "session \<Rightarrow> addr list" where
  "active_addrs s = (case ps_active s of None \<Rightarrow> [] | Some h \<Rightarrow> map snd h)"

definition mbs_session_subscriptions_update :: "ogs_api \<Rightarrow> addr \<Rightarrow> world \<Rightarrow> world option" where
  "mbs_session_subscriptions_update api a w = do {
     s \<leftarrow> w_sessions w a;
     w \<leftarrow> create_new_subscriptions (ps_new s) w;
     s \<leftarrow> w_sessions w a;
     w \<leftarrow> update_active_subscriptions api (active_addrs s) w;
     s \<leftarrow> w_sessions w a;
     delete_old_subscriptions a (ps_deleted s) w
   }"

definition mbs_session_add_subscription :: "addr option \<Rightarrow> addr option \<Rightarrow> world \<Rightarrow> (bool \<times> world) option" where
  "mbs_session_add_subscription p q w =
     (case (p, q) of
        (Some a, Some b) \<Rightarrow> do {
          s \<leftarrow> w_sessions w a;
          (if ps_is_deleted s then Some (False, w)
           else do {
             let w = (case ps_active s of
                        None \<Rightarrow> put_session a (s\<lparr>ps_active := Some []\<rparr>) w
                      | Some _ \<Rightarrow> w);
             u \<leftarrow> w_subscs w b;
             w \<leftarrow> (case su_id u of
                     None \<Rightarrow> Some w
                   | Some i \<Rightarrow> do {
                       o1 \<leftarrow> su_session u;
                       x \<leftarrow> w_sessions w o1;
                       h \<leftarrow> ps_active x;
                       let w = put_session o1 (x\<lparr>ps_active := Some (AList.delete i h)\<rparr>) w;
                       w \<leftarrow> mbs_status_subscription_send_delete b w;
                       Some (put_subsc b (u\<lparr>su_id := None\<rparr>) w)
                     });
             s \<leftarrow> w_sessions w a;
             let w = put_session a (s\<lparr>ps_new := ps_new s @ [b]\<rparr>) w;
             u \<leftarrow> w_subscs w b;
             Some (True, put_subsc b (u\<lparr>su_session := Some a, su_changed := True\<rparr>) w)
           })
        }
      | _ \<Rightarrow> Some (False, w))"

text \<open>A subscription that waits in the new list is released and then marked as changed, a
  write to freed memory.\<close>

definition mbs_session_remove_subscription :: "addr option \<Rightarrow> addr option \<Rightarrow> world \<Rightarrow> (bool \<times> world) option" where
  "mbs_session_remove_subscription p q w =
     (case (p, q) of
        (Some a, Some b) \<Rightarrow> do {
          s \<leftarrow> w_sessions w a;
          (if ps_is_deleted s then Some (False, w)
           else do {
             u \<leftarrow> w_subscs w b;
             (if su_session u \<noteq> Some a then Some (False, w)
              else (case su_id u of
                Some i \<Rightarrow>
                  (let s = (case ps_active s of
                              None \<Rightarrow> s
                            | Some h \<Rightarrow> s\<lparr>ps_active := Some (AList.delete i h)\<rparr>);
                       w = put_session a (s\<lparr>ps_deleted := ps_deleted s @ [b]\<rparr>) w
                   in Some (True, put_subsc b (u\<lparr>su_changed := True\<rparr>) w))
              | None \<Rightarrow>
                  if b \<in> set (ps_new s) then do {
                    let w = put_session a (s\<lparr>ps_new := remove1 b (ps_new s)\<rparr>) w;
                    w \<leftarrow> mbs_status_subscription_delete b w;
                    u \<leftarrow> w_subscs w b;
                    Some (True, put_subsc b (u\<lparr>su_changed := True\<rparr>) w)
                  }
                  else Some (True, w)))
           })
        }
      | _ \<Rightarrow> Some (False, w))"

definition mb_smf_sc_mbs_status_subscription_delete :: "addr option \<Rightarrow> world \<Rightarrow> world option" where
  "mb_smf_sc_mbs_status_subscription_delete q w =
     (case q of
        None \<Rightarrow> Some w
      | Some b \<Rightarrow> do {
          u \<leftarrow> w_subscs w b;
          (if su_id u \<noteq> None \<or> su_session u \<noteq> None
           then map_option snd (mbs_session_remove_subscription (su_session u) (Some b) w)
           else mbs_status_subscription_delete b w)
        })"

definition mbs_session_find_active_subscription :: "addr option \<Rightarrow> string option \<Rightarrow> world \<Rightarrow> addr option option" where
  "mbs_session_find_active_subscription p i w =
     (case (p, i) of
        (Some a, Some k) \<Rightarrow> do {
          s \<leftarrow> w_sessions w a;
          (if ps_is_deleted s then Some None
           else (case ps_active s of None \<Rightarrow> Some None | Some h \<Rightarrow> Some (map_of h k)))
        }
      | _ \<Rightarrow> Some None)"

fun first_subsc :: "(subscription \<Rightarrow> bool) \<Rightarrow> addr list \<Rightarrow> world \<Rightarrow> addr option option" where
  "first_subsc P [] w = Some None"
| "first_subsc P (a # as) w = do {
     u \<leftarrow> w_subscs w a;
     if P u then Some (Some a) else first_subsc P as w
   }"

definition correlation_matches :: "string option \<Rightarrow> subscription \<Rightarrow> bool" where
  "correlation_matches c u \<longleftrightarrow>
     (c = None \<and> su_correlation u = None) \<or>
     (c \<noteq> None \<and> su_correlation u \<noteq> None \<and> the c = the (su_correlation u))"

definition mbs_session_find_subscription :: "addr option \<Rightarrow> string option \<Rightarrow> world \<Rightarrow> addr option option" where
  "mbs_session_find_subscription p c w =
     (case p of
        None \<Rightarrow> Some None
      | Some a \<Rightarrow> do {
          s \<leftarrow> w_sessions w a;
          (if ps_is_deleted s then Some None
           else do {
             r \<leftarrow> first_subsc (correlation_matches c) (ps_new s) w;
             (case r of
                Some b \<Rightarrow> Some (Some b)
              | None \<Rightarrow> first_subsc (correlation_matches c) (active_addrs s) w)
           })
        })"

section \<open>Pushing changes\<close>

definition mbs_session_push_changes :: "ogs_api \<Rightarrow> addr option \<Rightarrow> world \<Rightarrow> (bool \<times> world) option" where
  "mbs_session_push_changes api p w =
     (case p of
        None \<Rightarrow> Some (False, w)
      | Some a \<Rightarrow> do {
          s \<leftarrow> w_sessions w a;
          (if ps_is_deleted s then map_option (Pair True) (mbs_session_send_remove a w)
           else (case ps_previous s of
             None \<Rightarrow> map_option (Pair True) (mbs_session_send_create api a w)
           | Some prev \<Rightarrow> do {
               same \<leftarrow> mbs_session_public_equal api (Some prev) (Some (ps_public s)) w;
               (if same then map_option (Pair True) (mbs_session_subscriptions_update api a w)
                else if \<not> ssm_addr_equal (se_ssm prev) (se_ssm (ps_public s)) then do {
                  w \<leftarrow> (if se_ssm prev \<noteq> None then mbs_session_send_remove a w else Some w);
                  w \<leftarrow> mbs_session_send_create api a w;
                  Some (True, w)
                }
                else do {
                  tmgi_same \<leftarrow> tmgi_equal (se_tmgi prev) (se_tmgi (ps_public s)) w;
                  (if \<not> tmgi_same then do {
                     w \<leftarrow> (if se_tmgi prev \<noteq> None then mbs_session_send_remove a w else Some w);
                     w \<leftarrow> mbs_session_send_create api a w;
                     Some (True, w)
                   }
                   else do {
                     w \<leftarrow> mbs_session_send_update api a w;
                     map_option (Pair True) (mbs_session_subscriptions_update api a w)
                   })
                })
             }))
        })"

fun push_sessions :: "ogs_api \<Rightarrow> addr list \<Rightarrow> world \<Rightarrow> (bool \<times> world) option" where
  "push_sessions api [] w = Some (True, w)"
| "push_sessions api (a # as) w = do {
     (r1, w) \<leftarrow> mbs_session_push_changes api (Some a) w;
     (r2, w) \<leftarrow> push_sessions api as w;
     Some (r1 \<and> r2, w)
   }"

definition mbs_session_push_all_changes :: "ogs_api \<Rightarrow> world \<Rightarrow> (bool \<times> world) option" where
  "mbs_session_push_all_changes api w = do {
     ss \<leftarrow> context_mbs_sessions w;
     push_sessions api ss w
   }"

section \<open>Deletion\<close>

fun delete_subscriptions :: "addr list \<Rightarrow> world \<Rightarrow> world option" where
  "delete_subscriptions [] w = Some w"
| "delete_subscriptions (a # as) w = do {
     w \<leftarrow> mbs_status_subscription_delete a w;
     delete_subscriptions as w
   }"

text \<open>\<open>__free_status_subscription\<close> takes the session it is given for the hash table.\<close>

definition mbs_session_delete :: "addr option \<Rightarrow> world \<Rightarrow> world option" where
  "mbs_session_delete p w =
     (case p of
        None \<Rightarrow> Some w
      | Some a \<Rightarrow> do {
          s \<leftarrow> w_sessions w a;
          w \<leftarrow> mbs_session_public_free (ps_previous s) w;
          (case release_callback_data (s\<lparr>ps_previous := None\<rparr>) of
             (s, es) \<Rightarrow> do {
               let w = fold log_event es (put_session a s w);
               w \<leftarrow> delete_subscriptions (ps_new s) w;
               w \<leftarrow> (case ps_active s of
                       None \<Rightarrow> Some w
                     | Some [] \<Rightarrow> Some w
                     | Some (x # h) \<Rightarrow> None);
               w \<leftarrow> delete_subscriptions (ps_deleted s) w;
               w \<leftarrow> ref_count_sbi_object_unref (ps_sbi s) w;
               (d, w) \<leftarrow> mbs_session_public_clear (ps_public s) w;
               Some (w\<lparr>w_sessions := (w_sessions w)(a := None)\<rparr>)
             })
        })"

definition context_remove_mbs_session :: "addr option \<Rightarrow> world \<Rightarrow> (bool \<times> world) option" where
  "context_remove_mbs_session p w =
     (case (w_ctx w, p) of
        (Some c, Some a) \<Rightarrow>
          (if a \<in> set (ctx_sessions c) then do {
             w \<leftarrow> mbs_session_delete (Some a) (w\<lparr>w_ctx := Some (c\<lparr>ctx_sessions := remove1 a (ctx_sessions c)\<rparr>)\<rparr>);
             Some (True, w)
           }
           else None)
      | _ \<Rightarrow> Some (False, w))"

fun remove_sessions :: "addr list \<Rightarrow> world \<Rightarrow> world option" where
  "remove_sessions [] w = Some w"
| "remove_sessions (a # as) w = do {
     (ok, w) \<leftarrow> context_remove_mbs_session (Some a) w;
     remove_sessions as w
   }"

fun remove_tmgis :: "addr list \<Rightarrow> world \<Rightarrow> world option" where
  "remove_tmgis [] w = Some w"
| "remove_tmgis (a # as) w = do {
     (ok, w) \<leftarrow> context_remove_tmgi (Some a) w;
     remove_tmgis as w
   }"

definition context_destroy :: "world \<Rightarrow> world option" where
  "context_destroy w =
     (case w_ctx w of
        None \<Rightarrow> Some w
      | Some c \<Rightarrow> do {
          w \<leftarrow> remove_sessions (ctx_sessions c) w;
          ts \<leftarrow> context_tmgis w;
          w \<leftarrow> remove_tmgis ts w;
          Some (w\<lparr>w_ctx := None\<rparr>)
        })"

definition mb_smf_sc_terminate :: "world \<Rightarrow> world option" where
  "mb_smf_sc_terminate w = context_destroy (tidy_fixed_notification_server w)"

section \<open>Finding a subscription by its server\<close>

fun any_notification_server :: "addr \<Rightarrow> addr list \<Rightarrow> world \<Rightarrow> bool option" where
  "any_notification_server v [] w = Some False"
| "any_notification_server v (a # as) w = do {
     s \<leftarrow> w_sessions w a;
     r \<leftarrow> first_subsc (\<lambda>u. su_server u = Some v) (ps_new s) w;
     (if r \<noteq> None then Some True
      else do {
        r \<leftarrow> first_subsc (\<lambda>u. su_server u = Some v) (active_addrs s) w;
        (if r \<noteq> None then Some True else any_notification_server v as w)
      })
   }"

definition context_is_notification_server :: "addr \<Rightarrow> world \<Rightarrow> bool option" where
  "context_is_notification_server v w = do {
     ss \<leftarrow> context_mbs_sessions w;
     any_notification_server v ss w
   }"

definition url_path_equal :: "ogs_api \<Rightarrow> string option \<Rightarrow> string option \<Rightarrow> bool" where
  "url_path_equal api url path =
     (case (url, path) of
        (None, None) \<Rightarrow> True
      | (Some u, Some p) \<Rightarrow>
          (let p = (case p of c # q \<Rightarrow> if c = CHR ''/'' then q else p | [] \<Rightarrow> p)
           in case url_path api u of
                None \<Rightarrow> False
              | Some None \<Rightarrow> p = []
              | Some (Some q) \<Rightarrow> q = p)
      | _ \<Rightarrow> False)"

fun find_notified :: "ogs_api \<Rightarrow> addr \<Rightarrow> string option \<Rightarrow> addr list \<Rightarrow> world \<Rightarrow> addr option option" where
  "find_notified api v path [] w = Some None"
| "find_notified api v path (a # as) w = do {
     s \<leftarrow> w_sessions w a;
     r \<leftarrow> first_subsc (\<lambda>u. su_server u = Some v \<and> url_path_equal api (su_url u) path) (ps_new s) w;
     (case r of
        Some b \<Rightarrow> Some (Some b)
      | None \<Rightarrow> do {
          h \<leftarrow> ps_active s;
          r \<leftarrow> first_subsc (\<lambda>u. su_server u = Some v \<and> url_path_equal api (su_url u) path) (map snd h) w;
          (case r of
             Some b \<Rightarrow> Some (Some b)
           | None \<Rightarrow> find_notified api v path as w)
        })
   }"

definition context_find_subscription :: "ogs_api \<Rightarrow> addr \<Rightarrow> string option \<Rightarrow> world \<Rightarrow> addr option option" where
  "context_find_subscription api v path w = do {
     ss \<leftarrow> context_mbs_sessions w;
     find_notified api v path ss w
   }"

end
