(* ===== verification/Sc_Refs.thy ===== *)
theory Sc_Refs
  imports Tmgi
begin

text \<open>
  The memory discipline of the reference-counted SBI objects: in a well-formed state the
  count of an object is the number of sessions and TMGIs that point to it plus the
  references the running operation holds, and an object without references is freed.
  References move between a local variable and a structure when the structure is written
  (\<open>refs_put_tmgi\<close>, \<open>refs_put_session\<close>); the operations on the counter move the local ones.
\<close>

definition opt_ref :: "addr option \<Rightarrow> addr multiset" where
  "opt_ref p = (case p of None \<Rightarrow> {#} | Some a \<Rightarrow> {#a#})"

definition session_sbi :: "world \<Rightarrow> addr \<Rightarrow> addr option" where
  "session_sbi w a = Option.bind (w_sessions w a) ps_sbi"

definition tmgi_sbi :: "world \<Rightarrow> addr \<Rightarrow> addr option" where
  "tmgi_sbi w a = Option.bind (w_tmgis w a) tm_sbi"

text \<open>All references held by the objects below an address, as a multiset.\<close>

definition held_refs :: "world \<Rightarrow> addr multiset" where
  "held_refs w = (\<Sum>a\<in>{..<w_next w}. opt_ref (session_sbi w a) + opt_ref (tmgi_sbi w a))"

text \<open>\<open>M\<close> counts all references; \<open>E\<close> are those in local variables.\<close>

definition count_cell :: "nat \<Rightarrow> nat option" where
  "count_cell n = (if n = 0 then None else Some n)"

definition objects_below :: "world \<Rightarrow> bool" where
  "objects_below w \<longleftrightarrow>
     (\<forall>a\<in>dom (w_sessions w) \<union> dom (w_tmgis w) \<union> dom (w_subscs w). a < w_next w)"

definition counts_ok :: "addr multiset \<Rightarrow> world \<Rightarrow> bool" where
  "counts_ok M w \<longleftrightarrow>
     (\<forall>r. w_refs w r = count_cell (count M r)) \<and> (\<forall>r\<ge>w_next w. count M r = 0) \<and> objects_below w"

definition refs_ok :: "addr multiset \<Rightarrow> world \<Rightarrow> bool" where
  "refs_ok E w \<longleftrightarrow> counts_ok (held_refs w + E) w"

lemma count_cell_simps [simp]:
  "count_cell 0 = None" "count_cell (Suc n) = Some (Suc n)" "count_cell n = None \<longleftrightarrow> n = 0"
  "count_cell n = Some m \<longleftrightarrow> m = n \<and> n \<noteq> 0"
  by (auto simp: count_cell_def)

lemma opt_ref_simps [simp]: "opt_ref None = {#}" "opt_ref (Some a) = {#a#}"
  by (simp_all add: opt_ref_def)

lemma session_sbi_simps [simp]:
  "session_sbi (put_session a s w) b = (if b = a then ps_sbi s else session_sbi w b)"
  "session_sbi (put_tmgi a t w) b = session_sbi w b"
  "session_sbi (put_subsc a u w) b = session_sbi w b"
  "session_sbi (log_event e w) b = session_sbi w b"
  by (auto simp: session_sbi_def)

lemma tmgi_sbi_simps [simp]:
  "tmgi_sbi (put_session a s w) b = tmgi_sbi w b"
  "tmgi_sbi (put_tmgi a t w) b = (if b = a then tm_sbi t else tmgi_sbi w b)"
  "tmgi_sbi (put_subsc a u w) b = tmgi_sbi w b"
  "tmgi_sbi (log_event e w) b = tmgi_sbi w b"
  by (auto simp: tmgi_sbi_def)

lemma held_refs_log [simp]: "held_refs (log_event e w) = held_refs w"
  "held_refs (put_subsc a u w) = held_refs w"
  by (simp_all add: held_refs_def)

lemma held_refs_cong:
  "w_sessions w' = w_sessions w \<Longrightarrow> w_tmgis w' = w_tmgis w \<Longrightarrow> w_next w' = w_next w \<Longrightarrow>
     held_refs w' = held_refs w"
  by (simp add: held_refs_def session_sbi_def tmgi_sbi_def)

lemma sum_split_one:
  fixes f :: "nat \<Rightarrow> 'a multiset"
  assumes "a < n"
  shows "(\<Sum>b\<in>{..<n}. f b) = f a + (\<Sum>b\<in>{..<n} - {a}. f b)"
  using assms by (simp add: sum.remove)

lemma held_refs_put_session:
  assumes "a < w_next w"
  shows "held_refs (put_session a s w) + opt_ref (session_sbi w a) = held_refs w + opt_ref (ps_sbi s)"
proof -
  let ?f = "\<lambda>b. opt_ref (session_sbi w b) + opt_ref (tmgi_sbi w b)"
  have "held_refs (put_session a s w) =
      opt_ref (ps_sbi s) + opt_ref (tmgi_sbi w a) + (\<Sum>b\<in>{..<w_next w} - {a}. ?f b)"
    using assms by (simp add: held_refs_def sum_split_one)
  moreover have "held_refs w = ?f a + (\<Sum>b\<in>{..<w_next w} - {a}. ?f b)"
    using assms by (simp add: held_refs_def sum_split_one)
  ultimately show ?thesis by (simp add: ac_simps)
qed

lemma held_refs_put_tmgi:
  assumes "a < w_next w"
  shows "held_refs (put_tmgi a t w) + opt_ref (tmgi_sbi w a) = held_refs w + opt_ref (tm_sbi t)"
proof -
  let ?f = "\<lambda>b. opt_ref (session_sbi w b) + opt_ref (tmgi_sbi w b)"
  have "held_refs (put_tmgi a t w) =
      opt_ref (session_sbi w a) + opt_ref (tm_sbi t) + (\<Sum>b\<in>{..<w_next w} - {a}. ?f b)"
    using assms by (simp add: held_refs_def sum_split_one)
  moreover have "held_refs w = ?f a + (\<Sum>b\<in>{..<w_next w} - {a}. ?f b)"
    using assms by (simp add: held_refs_def sum_split_one)
  ultimately show ?thesis by (simp add: ac_simps)
qed

section \<open>Moving references\<close>

lemma refs_ok_dom:
  "refs_ok E w \<Longrightarrow> w_tmgis w a = Some t \<Longrightarrow> a < w_next w"
  "refs_ok E w \<Longrightarrow> w_sessions w a = Some s \<Longrightarrow> a < w_next w"
  "refs_ok E w \<Longrightarrow> w_subscs w a = Some u \<Longrightarrow> a < w_next w"
  by (auto simp: refs_ok_def counts_ok_def objects_below_def)

lemma refs_ok_alive: "refs_ok E w \<Longrightarrow> r \<in># held_refs w + E \<Longrightarrow> \<exists>n. w_refs w r = Some n"
  by (simp add: refs_ok_def counts_ok_def count_greater_zero_iff [symmetric] del: count_greater_zero_iff)

lemma counts_ok_log [simp]: "counts_ok M (log_event e w) = counts_ok M w"
  by (simp add: counts_ok_def objects_below_def)

lemma refs_ok_log [simp]: "refs_ok E (log_event e w) = refs_ok E w"
  by (simp add: refs_ok_def)

lemma counts_ok_put:
  "counts_ok M w \<Longrightarrow> a < w_next w \<Longrightarrow> counts_ok M (put_tmgi a t w)"
  "counts_ok M w \<Longrightarrow> a < w_next w \<Longrightarrow> counts_ok M (put_session a s w)"
  "counts_ok M w \<Longrightarrow> a < w_next w \<Longrightarrow> counts_ok M (put_subsc a u w)"
  by (auto simp: counts_ok_def objects_below_def)

lemma refs_put_tmgi:
  assumes ok: "refs_ok (E + opt_ref (tm_sbi t)) w" and a: "a < w_next w"
  shows "refs_ok (E + opt_ref (tmgi_sbi w a)) (put_tmgi a t w)"
proof -
  have "held_refs (put_tmgi a t w) + (E + opt_ref (tmgi_sbi w a)) =
        held_refs w + (E + opt_ref (tm_sbi t))"
    using held_refs_put_tmgi [OF a, of t] by (simp add: ac_simps)
  then show ?thesis using ok a unfolding refs_ok_def by (metis counts_ok_put(1))
qed

lemma refs_put_session:
  assumes ok: "refs_ok (E + opt_ref (ps_sbi s)) w" and a: "a < w_next w"
  shows "refs_ok (E + opt_ref (session_sbi w a)) (put_session a s w)"
proof -
  have "held_refs (put_session a s w) + (E + opt_ref (session_sbi w a)) =
        held_refs w + (E + opt_ref (ps_sbi s))"
    using held_refs_put_session [OF a, of s] by (simp add: ac_simps)
  then show ?thesis using ok a unfolding refs_ok_def by (metis counts_ok_put(2))
qed

text \<open>Writing an object without touching its reference.\<close>

lemma refs_put_tmgi_same:
  assumes "refs_ok E w" "w_tmgis w a = Some t" "tm_sbi t' = tm_sbi t"
  shows "refs_ok E (put_tmgi a t' w)"
proof -
  have a: "a < w_next w" using assms refs_ok_dom by blast
  have "held_refs (put_tmgi a t' w) = held_refs w"
    using held_refs_put_tmgi [OF a, of t'] assms by (simp add: tmgi_sbi_def)
  then show ?thesis using assms(1) a counts_ok_put by (simp add: refs_ok_def)
qed

lemma refs_put_session_same:
  assumes "refs_ok E w" "w_sessions w a = Some s" "ps_sbi s' = ps_sbi s"
  shows "refs_ok E (put_session a s' w)"
proof -
  have a: "a < w_next w" using assms refs_ok_dom by blast
  have "held_refs (put_session a s' w) = held_refs w"
    using held_refs_put_session [OF a, of s'] assms by (simp add: session_sbi_def)
  then show ?thesis using assms(1) a counts_ok_put by (simp add: refs_ok_def)
qed

lemma refs_put_subsc:
  assumes "refs_ok E w" "w_subscs w a = Some u"
  shows "refs_ok E (put_subsc a u' w)"
  using assms refs_ok_dom(3) [OF assms] counts_ok_put by (simp add: refs_ok_def)

lemma refs_new:
  assumes ok: "refs_ok E w" and new: "ref_count_sbi_object_new w = (r, w')"
  shows "refs_ok (add_mset r E) w'" "r = w_next w" "w_sessions w' = w_sessions w"
    "w_tmgis w' = w_tmgis w" "w_subscs w' = w_subscs w" "w_ctx w' = w_ctx w" "w_next w' = w_next w + 1"
    "w_words w' = w_words w"
proof -
  have w': "w' = w\<lparr>w_refs := (w_refs w)(w_next w \<mapsto> 1), w_next := w_next w + 1\<rparr>" and r: "r = w_next w"
    using new by (auto simp: ref_count_sbi_object_new_def Let_def)
  have below: "objects_below w" using ok by (simp add: refs_ok_def counts_ok_def)
  then have "w_next w \<notin> dom (w_sessions w)" "w_next w \<notin> dom (w_tmgis w)"
    by (auto simp: objects_below_def)
  then have none: "session_sbi w (w_next w) = None" "tmgi_sbi w (w_next w) = None"
    by (simp_all add: session_sbi_def tmgi_sbi_def domIff)
  have held: "held_refs w' = held_refs w"
    using none by (simp add: held_refs_def w' session_sbi_def tmgi_sbi_def lessThan_Suc)
  have zero: "count (held_refs w) (w_next w) = 0" "count E (w_next w) = 0"
    using ok by (auto simp: refs_ok_def counts_ok_def)
  have "objects_below w'" using below by (auto simp: objects_below_def w' less_Suc_eq)
  then show "refs_ok (add_mset r E) w'"
    using ok zero unfolding refs_ok_def counts_ok_def held by (simp add: w' r)
qed (use new in \<open>auto simp: ref_count_sbi_object_new_def Let_def\<close>)

lemma ref_sel:
  assumes "ref_count_sbi_object_ref p w = Some w'"
  shows "w_sessions w' = w_sessions w" "w_tmgis w' = w_tmgis w" "w_subscs w' = w_subscs w"
    "w_ctx w' = w_ctx w" "w_next w' = w_next w" "w_words w' = w_words w" "w_log w' = w_log w"
  using assms by (auto simp: ref_count_sbi_object_ref_def split: option.splits bind_splits)

lemma unref_sel:
  assumes "ref_count_sbi_object_unref p w = Some w'"
  shows "w_sessions w' = w_sessions w" "w_tmgis w' = w_tmgis w" "w_subscs w' = w_subscs w"
    "w_ctx w' = w_ctx w" "w_next w' = w_next w" "w_words w' = w_words w"
  using assms
  by (auto simp: ref_count_sbi_object_unref_def Let_def split: option.splits bind_splits if_splits)

lemma refs_set_cell:
  assumes "refs_ok E w" "count M r = n" "\<forall>x. x \<noteq> r \<longrightarrow> count M x = count (held_refs w + E) x"
    "r < w_next w" "M = held_refs w + E'"
  shows "refs_ok E' (w\<lparr>w_refs := (w_refs w)(r := count_cell n)\<rparr>)"
proof -
  let ?w' = "w\<lparr>w_refs := (w_refs w)(r := count_cell n)\<rparr>"
  have "held_refs ?w' = held_refs w" by (rule held_refs_cong) simp_all
  moreover have "objects_below ?w' = objects_below w" by (simp add: objects_below_def)
  ultimately show ?thesis
    using assms unfolding refs_ok_def counts_ok_def by auto
qed

lemma refs_ref:
  assumes ok: "refs_ok E w" and alive: "\<forall>r. p = Some r \<longrightarrow> r \<in># held_refs w + E"
  shows "\<exists>w'. ref_count_sbi_object_ref p w = Some w' \<and> refs_ok (E + opt_ref p) w'"
proof (cases p)
  case (Some r)
  let ?n = "count (held_refs w + E) r"
  have pos: "?n \<noteq> 0" using alive Some by (metis count_eq_zero_iff)
  then have n: "w_refs w r = Some ?n" "r < w_next w"
    using ok unfolding refs_ok_def counts_ok_def by (metis count_cell_def, metis leI)
  have "refs_ok (add_mset r E) (w\<lparr>w_refs := (w_refs w)(r := count_cell (?n + 1))\<rparr>)"
    by (rule refs_set_cell [OF ok, where M = "held_refs w + add_mset r E"]) (use n in auto)
  then show ?thesis using Some n by (simp add: ref_count_sbi_object_ref_def)
qed (use ok in \<open>simp add: ref_count_sbi_object_ref_def\<close>)

lemma refs_unref:
  assumes ok: "refs_ok (E + opt_ref p) w"
  shows "\<exists>w'. ref_count_sbi_object_unref p w = Some w' \<and> refs_ok E w'"
proof (cases p)
  case (Some r)
  let ?n = "count (held_refs w + E) r"
  have n: "w_refs w r = Some (Suc ?n)" "r < w_next w"
    using ok Some by (auto simp: refs_ok_def counts_ok_def leI)
      (metis Suc_neq_Zero count_add_mset leI)+
  have upd: "refs_ok E (w\<lparr>w_refs := (w_refs w)(r := count_cell ?n)\<rparr>)"
    by (rule refs_set_cell [OF ok, where M = "held_refs w + E"]) (use n Some in auto)
  obtain k where k: "k = ?n" by simp
  show ?thesis
  proof (cases k)
    case 0
    then have "refs_ok E (w\<lparr>w_refs := (w_refs w)(r := None)\<rparr>)" using upd k by simp
    moreover have "w_refs w r = Some (Suc 0)" using n k 0 by simp
    ultimately show ?thesis using Some by (simp add: ref_count_sbi_object_unref_def)
  next
    case (Suc m)
    then have "refs_ok E (w\<lparr>w_refs := (w_refs w)(r \<mapsto> Suc m)\<rparr>)" using upd k by simp
    moreover have "w_refs w r = Some (Suc (Suc m))" using n k Suc by simp
    ultimately show ?thesis using Some by (simp add: ref_count_sbi_object_unref_def Let_def)
  qed
qed (use ok in \<open>simp add: ref_count_sbi_object_unref_def\<close>)

end
