(* ===== verification/Tmgi_Props.thy ===== *)
theory Tmgi_Props
  imports Sc_Refs
begin

text \<open>
  What the TMGI operations keep: the text cache (a cached representation is the current
  one), the reference counts, and liveness of the SBI object a request is sent with.
\<close>

section \<open>The cached representation\<close>

definition tmgi_cache_ok :: "ogs_api \<Rightarrow> addr \<Rightarrow> tmgi \<Rightarrow> bool" where
  "tmgi_cache_ok api a t \<longleftrightarrow> (\<forall>s. tm_repr t = Some s \<longrightarrow> s = tmgi_repr_text api a t)"

definition tmgi_caches_ok :: "ogs_api \<Rightarrow> world \<Rightarrow> bool" where
  "tmgi_caches_ok api w \<longleftrightarrow> (\<forall>a t. w_tmgis w a = Some t \<longrightarrow> tmgi_cache_ok api a t)"

lemma tmgi_cache_cleared [simp]: "tmgi_cache_ok api a (tmgi_clear_repr t)"
  "tm_repr t = None \<Longrightarrow> tmgi_cache_ok api a t"
  by (simp_all add: tmgi_cache_ok_def tmgi_clear_repr_def)

lemma tmgi_cache_allocated [simp]:
  "tmgi_cache_ok api a (t\<lparr>tm_allocated := b\<rparr>) \<longleftrightarrow> tmgi_cache_ok api a t"
  by (simp add: tmgi_cache_ok_def tmgi_repr_text_def)

lemma tmgi_cache_setters:
  assumes "tmgi_cache_ok api a t"
  shows "tmgi_cache_ok api a (tmgi_set_mbs_service_id sid t)"
    "tmgi_cache_ok api a (tmgi_set_plmn api mcc mnc t)"
    "tmgi_cache_ok api a (tmgi_set_expiry_time e t)"
    "tmgi_cache_ok api a (tmgi_set_callback cb d t)"
  using assms
  by (auto simp: tmgi_set_mbs_service_id_def tmgi_set_plmn_def tmgi_set_expiry_time_def
      tmgi_set_callback_def Let_def tmgi_cache_ok_def tmgi_repr_text_def tmgi_clear_repr_def)

lemma tmgi_repr_result:
  assumes ok: "tmgi_caches_ok api w" and t: "w_tmgis w a = Some t"
  shows "\<exists>w'. tmgi_repr api (Some a) w = Some (Some (tmgi_repr_text api a t), w') \<and>
           tmgi_caches_ok api w' \<and> (\<exists>t'. w_tmgis w' = (w_tmgis w)(a \<mapsto> t') \<and> tm_sbi t' = tm_sbi t)"
proof (cases "tm_repr t")
  case None
  let ?t = "t\<lparr>tm_repr := Some (tmgi_repr_text api a t)\<rparr>"
  have "tmgi_repr api (Some a) w = Some (Some (tmgi_repr_text api a t), put_tmgi a ?t w)"
    using t None by (simp add: tmgi_repr_def Let_def)
  moreover have "tmgi_caches_ok api (put_tmgi a ?t w)"
    using ok by (auto simp: tmgi_caches_ok_def tmgi_cache_ok_def tmgi_repr_text_def)
  moreover have "w_tmgis (put_tmgi a ?t w) = (w_tmgis w)(a \<mapsto> ?t) \<and> tm_sbi ?t = tm_sbi t" by simp
  ultimately show ?thesis by blast
next
  case (Some s)
  then have "s = tmgi_repr_text api a t"
    using ok t by (auto simp: tmgi_caches_ok_def tmgi_cache_ok_def)
  then have "tmgi_repr api (Some a) w = Some (Some (tmgi_repr_text api a t), w)"
    using t Some by (simp add: tmgi_repr_def)
  then show ?thesis using ok t by (intro exI conjI) (auto intro: exI [of _ t] simp: fun_upd_idem)
qed

section \<open>Setters: what they set\<close>

lemma tmgi_set_mbs_service_id_fields [simp]:
  "tm_service_id (tmgi_set_mbs_service_id sid t) = sid"
  "tm_plmn (tmgi_set_mbs_service_id sid t) = tm_plmn t"
  "tm_expiry (tmgi_set_mbs_service_id sid t) = tm_expiry t"
  "tm_sbi (tmgi_set_mbs_service_id sid t) = tm_sbi t"
  "tm_callback (tmgi_set_mbs_service_id sid t) = tm_callback t"
  "tm_cb_data (tmgi_set_mbs_service_id sid t) = tm_cb_data t"
  "tm_allocated (tmgi_set_mbs_service_id sid t)"
  by (auto simp: tmgi_set_mbs_service_id_def tmgi_clear_repr_def Let_def split: option.splits)

lemma tmgi_set_plmn_fields [simp]:
  "tm_service_id (tmgi_set_plmn api mcc mnc t) = tm_service_id t"
  "tm_expiry (tmgi_set_plmn api mcc mnc t) = tm_expiry t"
  "tm_sbi (tmgi_set_plmn api mcc mnc t) = tm_sbi t"
  "tm_callback (tmgi_set_plmn api mcc mnc t) = tm_callback t"
  "tm_cb_data (tmgi_set_plmn api mcc mnc t) = tm_cb_data t"
  "tm_allocated (tmgi_set_plmn api mcc mnc t)"
  by (auto simp: tmgi_set_plmn_def tmgi_clear_repr_def Let_def)

lemma tmgi_set_plmn_read:
  assumes "plmn_laws api" "mcc \<le> 999" "mnc \<le> 999"
  shows "plmn_mcc api (tm_plmn (tmgi_set_plmn api mcc mnc t)) = mcc"
    "plmn_mnc api (tm_plmn (tmgi_set_plmn api mcc mnc t)) = mnc"
proof -
  have "(if mnc < 100 then 2 else 3 :: nat) = (if mnc > 99 then 3 else 2)"
    by (auto simp: word_less_nat_alt)
  then show "plmn_mcc api (tm_plmn (tmgi_set_plmn api mcc mnc t)) = mcc"
    "plmn_mnc api (tm_plmn (tmgi_set_plmn api mcc mnc t)) = mnc"
    using assms
    by (auto simp: tmgi_set_plmn_def tmgi_clear_repr_def Let_def plmn_laws_def)
qed

lemma tmgi_set_expiry_fields [simp]:
  "tm_service_id (tmgi_set_expiry_time e t) = tm_service_id t"
  "tm_plmn (tmgi_set_expiry_time e t) = tm_plmn t"
  "tm_expiry (tmgi_set_expiry_time e t) = e"
  "tm_sbi (tmgi_set_expiry_time e t) = tm_sbi t"
  "tm_callback (tmgi_set_expiry_time e t) = tm_callback t"
  "tm_cb_data (tmgi_set_expiry_time e t) = tm_cb_data t"
  "tm_allocated (tmgi_set_expiry_time e t)"
  by (auto simp: tmgi_set_expiry_time_def tmgi_clear_repr_def Let_def)

section \<open>Comparison\<close>

lemma tmgi_both_equal_iff [eq_simps]:
  "tmgi_both_equal a b \<longleftrightarrow> tm_service_id a = tm_service_id b \<and> tm_plmn a = tm_plmn b"
  by (cases "tm_service_id a"; cases "tm_service_id b") (auto simp: tmgi_both_equal_def)

interpretation tmgi_match: key_match tmgi_both_equal "\<lambda>t. (tm_service_id t, tm_plmn t)"
  by unfold_locales (simp add: eq_simps)

section \<open>Reference counts\<close>

lemma held_refs_iff:
  "r \<in># held_refs w \<longleftrightarrow> (\<exists>a<w_next w. session_sbi w a = Some r \<or> tmgi_sbi w a = Some r)"
proof -
  have "r \<in># (\<Sum>b\<in>A. opt_ref (session_sbi w b) + opt_ref (tmgi_sbi w b)) \<longleftrightarrow>
      (\<exists>a\<in>A. session_sbi w a = Some r \<or> tmgi_sbi w a = Some r)" if "finite A" for A :: "nat set"
    using that by induction (auto simp: opt_ref_def split: option.splits)
  then show ?thesis unfolding held_refs_def by (metis finite_lessThan lessThan_iff)
qed

lemma unref_put_tmgi:
  "ref_count_sbi_object_unref p (put_tmgi a t w) = map_option (put_tmgi a t) (ref_count_sbi_object_unref p w)"
  by (auto simp: ref_count_sbi_object_unref_def put_tmgi_def log_event_def Let_def
      split: option.split bind_split)

lemma ref_put_tmgi:
  "ref_count_sbi_object_ref p (put_tmgi a t w) = map_option (put_tmgi a t) (ref_count_sbi_object_ref p w)"
  by (auto simp: ref_count_sbi_object_ref_def put_tmgi_def split: option.split bind_split)

lemma put_tmgi_twice [simp]: "put_tmgi a t (put_tmgi a t' w) = put_tmgi a t w"
  by (simp add: put_tmgi_def)

text \<open>Giving up the old SBI object of a TMGI and taking another one that is alive.\<close>

definition alive_elsewhere :: "addr multiset \<Rightarrow> addr \<Rightarrow> world \<Rightarrow> addr option \<Rightarrow> bool" where
  "alive_elsewhere E a w p \<longleftrightarrow>
     (\<forall>r. p = Some r \<longrightarrow> r \<in># E \<or> (\<exists>b. b \<noteq> a \<and> b < w_next w \<and> tmgi_sbi w b = Some r) \<or>
        (\<exists>b<w_next w. session_sbi w b = Some r))"

lemma tmgi_swap_sbi:
  assumes ok: "refs_ok E w" and t: "w_tmgis w a = Some t"
    and new: "alive_elsewhere E a w p" and t': "tm_sbi t' = p"
  shows "\<exists>w1 w2. ref_count_sbi_object_unref (tm_sbi t) w = Some w1 \<and>
           ref_count_sbi_object_ref p w1 = Some w2 \<and> refs_ok E (put_tmgi a t' w2) \<and>
           w_tmgis w1 = w_tmgis w \<and> w_tmgis w2 = w_tmgis w \<and> w_sessions w2 = w_sessions w \<and>
           w_subscs w2 = w_subscs w \<and> w_ctx w2 = w_ctx w \<and> w_next w2 = w_next w \<and> w_words w2 = w_words w"
proof -
  have a: "a < w_next w" using ok t refs_ok_dom by blast
  have sbi_a: "tmgi_sbi w a = tm_sbi t" using t by (simp add: tmgi_sbi_def)
  let ?n = "t'\<lparr>tm_sbi := None\<rparr>"
  have "refs_ok (E + opt_ref (tm_sbi t)) (put_tmgi a ?n w)"
    using refs_put_tmgi [of E ?n w a] ok a sbi_a by simp
  then obtain x where x: "ref_count_sbi_object_unref (tm_sbi t) (put_tmgi a ?n w) = Some x" "refs_ok E x"
    using refs_unref by blast
  then obtain w1 where w1: "ref_count_sbi_object_unref (tm_sbi t) w = Some w1" "x = put_tmgi a ?n w1"
    by (auto simp: unref_put_tmgi)
  note sel1 = unref_sel [OF w1(1)]
  have "\<forall>r. p = Some r \<longrightarrow> r \<in># held_refs x + E"
  proof (intro allI impI)
    fix r assume "p = Some r"
    then have "r \<in># E \<or> (\<exists>b. b \<noteq> a \<and> b < w_next w \<and> tmgi_sbi w b = Some r) \<or>
        (\<exists>b<w_next w. session_sbi w b = Some r)"
      using new by (simp add: alive_elsewhere_def)
    moreover have "tmgi_sbi x b = tmgi_sbi w b" if "b \<noteq> a" for b
      using that sel1 w1(2) by (simp add: tmgi_sbi_def)
    moreover have "session_sbi x b = session_sbi w b" for b
      using sel1 w1(2) by (simp add: session_sbi_def)
    moreover have "w_next x = w_next w" using sel1 w1(2) by simp
    ultimately have "r \<in># E \<or> r \<in># held_refs x"
      unfolding held_refs_iff by metis
    then show "r \<in># held_refs x + E" by auto
  qed
  then obtain y where y: "ref_count_sbi_object_ref p x = Some y" "refs_ok (E + opt_ref p) y"
    using refs_ref [OF x(2)] by blast
  then obtain w2 where w2: "ref_count_sbi_object_ref p w1 = Some w2" "y = put_tmgi a ?n w2"
    by (auto simp: w1(2) ref_put_tmgi)
  note sel2 = ref_sel [OF w2(1)]
  have "refs_ok (E + opt_ref (tmgi_sbi y a)) (put_tmgi a t' y)"
    using refs_put_tmgi [of E t' y a] y(2) t' a sel1 sel2 w2(2) by simp
  then have "refs_ok E (put_tmgi a t' w2)" using w2(2) by simp
  then show ?thesis using w1(1) w2(1) sel1 sel2 by auto
qed

lemma tmgi_replace_refs:
  assumes "refs_ok E w" "w_tmgis w a = Some t" "alive_elsewhere E a w p"
  shows "\<exists>w'. tmgi_replace_sbi_object a p w = Some w' \<and> refs_ok E w' \<and> w_sessions w' = w_sessions w \<and>
           w_tmgis w' = (w_tmgis w)(a \<mapsto> t\<lparr>tm_sbi := p\<rparr>) \<and> w_ctx w' = w_ctx w \<and>
           w_subscs w' = w_subscs w \<and> w_words w' = w_words w \<and> w_next w' = w_next w"
  using tmgi_swap_sbi [OF assms, of "t\<lparr>tm_sbi := p\<rparr>"] assms
  by (auto simp: tmgi_replace_sbi_object_def)

lemma refs_ok_fresh:
  assumes "refs_ok E w"
  shows "w_tmgis w (w_next w) = None" "w_sessions w (w_next w) = None" "w_subscs w (w_next w) = None"
    "w_refs w (w_next w) = None"
  using assms by (auto simp: refs_ok_def counts_ok_def objects_below_def)

lemma refs_next:
  assumes "refs_ok E w"
  shows "refs_ok E (w\<lparr>w_next := w_next w + 1\<rparr>)"
proof -
  let ?w = "w\<lparr>w_next := w_next w + 1\<rparr>"
  have "held_refs ?w = held_refs w"
    using refs_ok_fresh [OF assms]
    by (simp add: held_refs_def session_sbi_def tmgi_sbi_def lessThan_Suc)
  then show ?thesis
    using assms by (auto simp: refs_ok_def counts_ok_def objects_below_def less_Suc_eq)
qed

lemma refs_ctx [simp]: "refs_ok E (w\<lparr>w_ctx := c\<rparr>) = refs_ok E w"
  by (simp add: refs_ok_def counts_ok_def objects_below_def held_refs_def session_sbi_def tmgi_sbi_def)

lemma tmgi_create_refs:
  assumes ok: "refs_ok E w" and ctx: "w_ctx w = Some c"
  shows "\<exists>w'. tmgi_create cb d w = Some (w_next w, w') \<and> refs_ok E w' \<and> w_sessions w' = w_sessions w \<and>
           w_subscs w' = w_subscs w \<and> w_words w' = w_words w \<and> w_next w' = w_next w + 1 \<and>
           w_ctx w' = Some (c\<lparr>ctx_tmgis := ctx_tmgis c @ [w_next w]\<rparr>) \<and> w_log w' = w_log w \<and>
           w_tmgis w' = (w_tmgis w)(w_next w \<mapsto>
             \<lparr>tm_service_id = None, tm_plmn = 0, tm_expiry = 0, tm_callback = cb, tm_cb_data = d,
              tm_sbi = None, tm_repr = None, tm_allocated = False\<rparr>)"
proof -
  let ?t = "\<lparr>tm_service_id = None, tm_plmn = 0, tm_expiry = 0, tm_callback = cb, tm_cb_data = d,
              tm_sbi = None, tm_repr = None, tm_allocated = False\<rparr>"
  let ?w = "w\<lparr>w_next := w_next w + 1\<rparr>"
  have fresh: "tmgi_sbi ?w (w_next w) = None" using refs_ok_fresh [OF ok] by (simp add: tmgi_sbi_def)
  have "refs_ok E (put_tmgi (w_next w) ?t ?w)"
    using refs_put_tmgi [of E ?t ?w "w_next w"] refs_next [OF ok] fresh by simp
  then show ?thesis
    using ctx by (simp add: tmgi_create_def context_add_tmgi_def Let_def)
qed

lemma unref_del_tmgi:
  "ref_count_sbi_object_unref p (w\<lparr>w_tmgis := f, w_ctx := c\<rparr>) =
     map_option (\<lambda>w. w\<lparr>w_tmgis := f, w_ctx := c\<rparr>) (ref_count_sbi_object_unref p w)"
  by (auto simp: ref_count_sbi_object_unref_def log_event_def Let_def split: option.split bind_split)

lemma refs_del_tmgi:
  assumes ok: "refs_ok E w" and t: "w_tmgis w a = Some t"
  shows "refs_ok (E + opt_ref (tm_sbi t)) (w\<lparr>w_tmgis := (w_tmgis w)(a := None)\<rparr>)"
proof -
  let ?n = "t\<lparr>tm_sbi := None\<rparr>" and ?w = "w\<lparr>w_tmgis := (w_tmgis w)(a := None)\<rparr>"
  have a: "a < w_next w" using ok t refs_ok_dom by blast
  have put: "refs_ok (E + opt_ref (tm_sbi t)) (put_tmgi a ?n w)"
    using refs_put_tmgi [of E ?n w a] ok a t by (simp add: tmgi_sbi_def)
  have "held_refs ?w = held_refs (put_tmgi a ?n w)"
    by (simp add: held_refs_def session_sbi_def tmgi_sbi_def put_tmgi_def)
      (rule sum.cong, auto)
  then show ?thesis
    using put by (auto simp: refs_ok_def counts_ok_def objects_below_def)
qed

lemma tmgi_free_refs:
  assumes ok: "refs_ok E w" and t: "w_tmgis w a = Some t"
    and ctx: "w_ctx w = Some c" "a \<in> set (ctx_tmgis c)"
  shows "\<exists>w'. tmgi_free (Some a) w = Some w' \<and> refs_ok E w' \<and> w_sessions w' = w_sessions w \<and>
           w_subscs w' = w_subscs w \<and> w_words w' = w_words w \<and> w_next w' = w_next w \<and>
           w_ctx w' = Some (c\<lparr>ctx_tmgis := remove1 a (ctx_tmgis c)\<rparr>) \<and>
           w_tmgis w' = (w_tmgis w)(a := None)"
proof -
  let ?c = "Some (c\<lparr>ctx_tmgis := remove1 a (ctx_tmgis c)\<rparr>)"
  let ?f = "(w_tmgis w)(a := None)"
  have "refs_ok (E + opt_ref (tm_sbi t)) (w\<lparr>w_tmgis := ?f, w_ctx := ?c\<rparr>)"
    using refs_del_tmgi [OF ok t] by simp
  then obtain x where x: "ref_count_sbi_object_unref (tm_sbi t) (w\<lparr>w_tmgis := ?f, w_ctx := ?c\<rparr>) = Some x"
      "refs_ok E x"
    using refs_unref by blast
  then obtain w1 where w1: "ref_count_sbi_object_unref (tm_sbi t) w = Some w1" "x = w1\<lparr>w_tmgis := ?f, w_ctx := ?c\<rparr>"
    by (auto simp: unref_del_tmgi)
  note sel = unref_sel [OF w1(1)]
  have "ref_count_sbi_object_unref (tm_sbi t) (w\<lparr>w_ctx := ?c\<rparr>) = Some (w1\<lparr>w_ctx := ?c\<rparr>)"
    using unref_del_tmgi [where p = "tm_sbi t" and w = w and f = "w_tmgis w" and c = ?c] w1(1) sel by simp
  then have "tmgi_free (Some a) w = Some x"
    using t ctx w1 sel by (simp add: tmgi_free_def context_remove_tmgi_def)
  then show ?thesis using x(2) w1(2) sel by auto
qed

section \<open>Copies of a TMGI\<close>

definition tmgi_copied :: "tmgi \<Rightarrow> tmgi" where
  "tmgi_copied s = s\<lparr>tm_repr := None, tm_allocated := False\<rparr>"

lemma tmgi_copied_equal [simp]: "tmgi_both_equal s (tmgi_copied s)" "tmgi_both_equal (tmgi_copied s) s"
  by (simp_all add: eq_simps tmgi_copied_def)

lemma tmgi_copy_new:
  assumes ok: "refs_ok E w" and src: "w_tmgis w sa = Some s" and ctx: "w_ctx w = Some c"
  shows "\<exists>w'. tmgi_copy None (Some sa) w = Some (Some (w_next w), w') \<and> refs_ok E w' \<and>
           w_sessions w' = w_sessions w \<and> w_subscs w' = w_subscs w \<and> w_words w' = w_words w \<and>
           w_next w' = w_next w + 1 \<and>
           w_ctx w' = Some (c\<lparr>ctx_tmgis := ctx_tmgis c @ [w_next w]\<rparr>) \<and>
           w_tmgis w' = (w_tmgis w)(w_next w \<mapsto> tmgi_copied s)"
proof -
  let ?da = "w_next w"
  let ?t = "\<lparr>tm_service_id = None, tm_plmn = 0, tm_expiry = 0, tm_callback = tm_callback s,
              tm_cb_data = tm_cb_data s, tm_sbi = None, tm_repr = None, tm_allocated = False\<rparr>"
  obtain v where v: "tmgi_create (tm_callback s) (tm_cb_data s) w = Some (?da, v)" "refs_ok E v"
      "w_sessions v = w_sessions w" "w_subscs v = w_subscs w" "w_words v = w_words w"
      "w_next v = w_next w + 1" "w_ctx v = Some (c\<lparr>ctx_tmgis := ctx_tmgis c @ [?da]\<rparr>)"
      "w_tmgis v = (w_tmgis w)(?da \<mapsto> ?t)"
    using tmgi_create_refs [OF ok ctx] by blast
  have sa: "sa < w_next w" using ok src refs_ok_dom by blast
  then have "tmgi_sbi v sa = tm_sbi s" using src v(8) by (simp add: tmgi_sbi_def)
  then have "alive_elsewhere E ?da v (tm_sbi s)"
    unfolding alive_elsewhere_def using sa v(6) by (metis less_SucI add.commute less_irrefl_nat plus_1_eq_Suc)
  then obtain w1 w2 where sw: "ref_count_sbi_object_unref (tm_sbi ?t) v = Some w1"
      "ref_count_sbi_object_ref (tm_sbi s) w1 = Some w2" "refs_ok E (put_tmgi ?da (tmgi_copied s) w2)"
      "w_tmgis w2 = w_tmgis v" "w_sessions w2 = w_sessions v" "w_subscs w2 = w_subscs v"
      "w_ctx w2 = w_ctx v" "w_next w2 = w_next v" "w_words w2 = w_words v"
    using tmgi_swap_sbi [OF v(2), of ?da ?t "tm_sbi s" "tmgi_copied s"] v(8) by (auto simp: tmgi_copied_def)
  have "tmgi_copy None (Some sa) w = Some (Some ?da, put_tmgi ?da (tmgi_copied s) w2)"
    using src v sw
    by (cases s) (auto simp: tmgi_copy_def tmgi_copied_def tmgi_clear_repr_def Let_def split: option.split)
  then show ?thesis using sw v by auto
qed

section \<open>Requests\<close>

text \<open>What the text cache leaves unchanged.\<close>

definition repr_only :: "world \<Rightarrow> world \<Rightarrow> bool" where
  "repr_only w w' \<longleftrightarrow>
     w' = w\<lparr>w_tmgis := w_tmgis w'\<rparr> \<and>
     (\<forall>a. map_option tmgi_clear_repr (w_tmgis w' a) = map_option tmgi_clear_repr (w_tmgis w a))"

lemma repr_only_refl [simp]: "repr_only w w"
  by (simp add: repr_only_def)

lemma repr_only_trans: "repr_only u v \<Longrightarrow> repr_only v w \<Longrightarrow> repr_only u w"
  unfolding repr_only_def
  by (metis (no_types, lifting) world.surjective world.update_convs(3))

lemma repr_only_alive: "repr_only w w' \<Longrightarrow> (w_tmgis w' a = None) = (w_tmgis w a = None)"
  unfolding repr_only_def by (metis map_option_is_None)

lemma repr_only_tmgi:
  assumes "repr_only w w'" "w_tmgis w' a = Some t'"
  shows "\<exists>t. w_tmgis w a = Some t \<and> tmgi_clear_repr t' = tmgi_clear_repr t"
  using assms unfolding repr_only_def by (metis map_option_eq_Some)

lemma tmgi_repr_refs:
  assumes "refs_ok E w" "w_tmgis w a = Some t"
  shows "\<exists>s w'. tmgi_repr api (Some a) w = Some (Some s, w') \<and> refs_ok E w' \<and> repr_only w w'"
proof (cases "tm_repr t")
  case None
  let ?t = "t\<lparr>tm_repr := Some (tmgi_repr_text api a t)\<rparr>"
  have "refs_ok E (put_tmgi a ?t w)" by (rule refs_put_tmgi_same [OF assms]) simp
  moreover have "repr_only w (put_tmgi a ?t w)"
    using assms by (auto simp: repr_only_def put_tmgi_def tmgi_clear_repr_def)
  ultimately show ?thesis using assms None by (auto simp: tmgi_repr_def Let_def)
qed (use assms in \<open>auto simp: tmgi_repr_def\<close>)

lemma tmgi_list_repr_from_refs:
  assumes "refs_ok E w" "\<forall>a\<in>set as. w_tmgis w a \<noteq> None"
  shows "\<exists>s w'. tmgi_list_repr_from api acc sep as w = Some (s, w') \<and> refs_ok E w' \<and> repr_only w w'"
  using assms
proof (induction as arbitrary: acc sep w)
  case (Cons a as)
  then obtain t where t: "w_tmgis w a = Some t" by auto
  obtain s v where v: "tmgi_repr api (Some a) w = Some (Some s, v)" "refs_ok E v" "repr_only w v"
    using tmgi_repr_refs [OF Cons.prems(1) t] by blast
  then have "\<forall>a\<in>set as. w_tmgis v a \<noteq> None"
    using Cons.prems(2) repr_only_alive by auto
  from Cons.IH [OF v(2) this, of "acc @ sep @ ''{'' @ s @ ''}''" "'', ''"]
  show ?case using v repr_only_trans by fastforce
qed simp

lemma tmgi_list_repr_refs:
  assumes "refs_ok E w" "\<forall>as. l = Some as \<longrightarrow> (\<forall>a\<in>set as. w_tmgis w a \<noteq> None)"
  shows "\<exists>s w'. tmgi_list_repr api l w = Some (s, w') \<and> refs_ok E w' \<and> repr_only w w'"
  using assms tmgi_list_repr_from_refs by (cases l) (auto simp: tmgi_list_repr_def)

lemma assign_sbi_refs:
  assumes "refs_ok E w" "r \<in># E" "\<forall>a\<in>set as. w_tmgis w a \<noteq> None"
  shows "\<exists>w'. assign_sbi r as w = Some w' \<and> refs_ok E w' \<and> w_sessions w' = w_sessions w \<and>
           w_subscs w' = w_subscs w \<and> w_ctx w' = w_ctx w \<and> w_next w' = w_next w \<and>
           w_words w' = w_words w \<and>
           w_tmgis w' = (\<lambda>a. if a \<in> set as then map_option (\<lambda>t. t\<lparr>tm_sbi := Some r\<rparr>) (w_tmgis w a) else w_tmgis w a)"
  using assms
proof (induction as arbitrary: w)
  case (Cons a as)
  then obtain t where t: "w_tmgis w a = Some t" by auto
  let ?t = "t\<lparr>tm_sbi := Some r\<rparr>"
  have "alive_elsewhere E a w (Some r)" using Cons.prems by (simp add: alive_elsewhere_def)
  then obtain w1 w2 where sw: "ref_count_sbi_object_unref (tm_sbi t) w = Some w1"
      "ref_count_sbi_object_ref (Some r) w1 = Some w2" "refs_ok E (put_tmgi a ?t w2)"
      "w_tmgis w2 = w_tmgis w" "w_sessions w2 = w_sessions w" "w_subscs w2 = w_subscs w"
      "w_ctx w2 = w_ctx w" "w_next w2 = w_next w" "w_words w2 = w_words w"
    using tmgi_swap_sbi [OF Cons.prems(1) t, of "Some r" ?t] by auto
  have "\<forall>b\<in>set as. w_tmgis (put_tmgi a ?t w2) b \<noteq> None"
    using Cons.prems(3) sw(4) by auto
  from Cons.IH [OF sw(3) Cons.prems(2) this] show ?case
    using t sw by (auto simp: fun_eq_iff)
qed auto

lemma held_by_tmgi:
  assumes "refs_ok E w" "w_tmgis w a = Some t" "tm_sbi t = Some r"
  shows "r \<in># held_refs w"
  using refs_ok_dom(1) [OF assms(1,2)] assms by (auto simp: held_refs_iff tmgi_sbi_def)

lemma send_request_alive:
  assumes "refs_ok E w" "r \<in># held_refs w + E"
  shows "send_request (Some r) rq w = Some (log_event (Ev_request r rq) w)"
  using refs_ok_alive [OF assms] by (auto simp: send_request_def)

text \<open>A request for at least one new TMGI: all of them share one new SBI object, which the
  request is sent with and which nothing else holds.\<close>

lemma tmgi_allocate_new:
  assumes ok: "refs_ok E w" and new: "new \<noteq> []" "\<forall>a\<in>set new. w_tmgis w a \<noteq> None"
    and refresh: "\<forall>as. refresh = Some as \<longrightarrow> (\<forall>a\<in>set as. w_tmgis w a \<noteq> None)"
  shows "\<exists>w' r. tmgi_list_send_allocate api (Some new) refresh w = Some w' \<and> refs_ok E w' \<and>
           r = w_next w \<and> last (w_log w') = Ev_request r (Rq_tmgi_allocate (Some new) refresh) \<and>
           (\<forall>a\<in>set new. tmgi_sbi w' a = Some r) \<and>
           (\<forall>a. a \<notin> set new \<longrightarrow> tmgi_sbi w' a = tmgi_sbi w a)"
proof -
  obtain s1 w1 where w1: "tmgi_list_repr api (Some new) w = Some (s1, w1)" "refs_ok E w1" "repr_only w w1"
    using tmgi_list_repr_refs [OF ok] new(2) by blast
  have "\<forall>as. refresh = Some as \<longrightarrow> (\<forall>a\<in>set as. w_tmgis w1 a \<noteq> None)"
    using refresh repr_only_alive [OF w1(3)] by blast
  then obtain s2 w2 where w2: "tmgi_list_repr api refresh w1 = Some (s2, w2)" "refs_ok E w2" "repr_only w1 w2"
    using tmgi_list_repr_refs [OF w1(2)] by blast
  have only: "repr_only w w2" using w1(3) w2(3) repr_only_trans by blast
  then have nxt: "w_next w2 = w_next w" by (metis repr_only_def world.select_convs(8) world.surjective world.update_convs(3))
  obtain r w3 where w3: "ref_count_sbi_object_new w2 = (r, w3)" by (cases "ref_count_sbi_object_new w2")
  note n = refs_new [OF w2(2) w3]
  have "\<forall>a\<in>set new. w_tmgis w3 a \<noteq> None"
    using new(2) only n(4) by (simp add: repr_only_alive)
  then obtain w4 where w4: "assign_sbi r new w3 = Some w4" "refs_ok (add_mset r E) w4" "w_next w4 = w_next w3"
      "w_tmgis w4 = (\<lambda>a. if a \<in> set new then map_option (\<lambda>t. t\<lparr>tm_sbi := Some r\<rparr>) (w_tmgis w3 a) else w_tmgis w3 a)"
    using assign_sbi_refs [OF n(1), of r new] by auto
  have "refs_ok (E + opt_ref (Some r)) w4" using w4(2) by simp
  then obtain w5 where w5: "ref_count_sbi_object_unref (Some r) w4 = Some w5" "refs_ok E w5"
    using refs_unref by blast
  note sel5 = unref_sel [OF w5(1)]
  have live: "\<exists>t. w_tmgis w5 a = Some t \<and> tm_sbi t = Some r" if "a \<in> set new" for a
    using that \<open>\<forall>a\<in>set new. w_tmgis w3 a \<noteq> None\<close> w4(4) sel5(2) by auto
  then obtain a t where "w_tmgis w5 a = Some t" "tm_sbi t = Some r"
    using new(1) by (metis list.set_intros(1) neq_Nil_conv)
  then have "r \<in># held_refs w5 + E" using held_by_tmgi [OF w5(2)] by auto
  then have send: "send_request (Some r) rq w5 = Some (log_event (Ev_request r rq) w5)" for rq
    using send_request_alive [OF w5(2)] by blast
  have others: "tmgi_sbi w5 a = tmgi_sbi w a" if "a \<notin> set new" for a
  proof -
    have "w_tmgis w5 a = w_tmgis w2 a" using that w4(4) sel5(2) n(4) by simp
    moreover have "map_option tm_sbi (w_tmgis w2 a) = map_option tm_sbi (w_tmgis w a)"
    proof -
      have *: "tm_sbi (tmgi_clear_repr x) = tm_sbi x" for x by (simp add: tmgi_clear_repr_def)
      show ?thesis using only unfolding repr_only_def
        by (cases "w_tmgis w2 a"; cases "w_tmgis w a") (metis map_option_eq_Some option.distinct(1)
            option.inject option.simps(8,9) *)+
    qed
    ultimately show ?thesis
      by (cases "w_tmgis w2 a"; cases "w_tmgis w a") (auto simp: tmgi_sbi_def)
  qed
  have "tmgi_list_send_allocate api (Some new) refresh w =
      Some (log_event (Ev_request r (Rq_tmgi_allocate (Some new) refresh)) w5)"
    using w1(1) w2(1) w3 w4(1) w5(1) send by (simp add: tmgi_list_send_allocate_def)
  moreover have "tmgi_sbi w5 a = Some r" if "a \<in> set new" for a
    using live [OF that] by (auto simp: tmgi_sbi_def)
  ultimately show ?thesis
    using w5(2) n(2) nxt others
    by (intro exI [of _ "log_event (Ev_request r (Rq_tmgi_allocate (Some new) refresh)) w5"] exI [of _ r])
      auto
qed

text \<open>With an empty list nothing holds the new object: it is freed before it is used.\<close>

lemma assign_sbi_Nil_unref:
  assumes "refs_ok E w" "ref_count_sbi_object_new w = (r, w')" "ref_count_sbi_object_unref (Some r) w' = Some v"
  shows "w_refs v r = None"
  using assms by (auto simp: ref_count_sbi_object_new_def ref_count_sbi_object_unref_def Let_def)

lemma tmgi_allocate_empty:
  assumes "refs_ok E w"
  shows "tmgi_list_send_allocate api (Some []) None w = None"
proof -
  obtain r w' where new: "ref_count_sbi_object_new w = (r, w')" by (cases "ref_count_sbi_object_new w")
  show ?thesis
    using new assign_sbi_Nil_unref [OF assms new]
    by (auto simp: tmgi_list_send_allocate_def tmgi_list_repr_def send_request_def split: bind_split)
qed

lemma tmgi_refresh_empty: "tmgi_list_send_allocate api None (Some []) w = None"
  by (simp add: tmgi_list_send_allocate_def tmgi_list_repr_def)

section \<open>The search\<close>

lemma first_matching_Some:
  "first_matching P as w = Some (Some a) \<Longrightarrow>
     \<exists>xs ys t. as = xs @ a # ys \<and> w_tmgis w a = Some t \<and> P t \<and>
       (\<forall>x\<in>set xs. \<exists>u. w_tmgis w x = Some u \<and> \<not> P u)"
proof (induction as)
  case (Cons b as)
  then obtain t where t: "w_tmgis w b = Some t" by (auto split: bind_splits)
  show ?case
  proof (cases "P t")
    case True
    then have "b # as = [] @ a # as" "P t" "w_tmgis w a = Some t" using Cons.prems t by auto
    then show ?thesis by (metis empty_iff list.set(1))
  next
    case False
    then obtain xs ys u where "as = xs @ a # ys" "w_tmgis w a = Some u" "P u"
        "\<forall>x\<in>set xs. \<exists>u. w_tmgis w x = Some u \<and> \<not> P u"
      using Cons t by auto
    then have "b # as = (b # xs) @ a # ys" "w_tmgis w a = Some u" "P u"
        "\<forall>x\<in>set (b # xs). \<exists>u. w_tmgis w x = Some u \<and> \<not> P u"
      using False t by auto
    then show ?thesis by blast
  qed
qed simp

lemma first_matching_None:
  "first_matching P as w = Some None \<longleftrightarrow> (\<forall>a\<in>set as. \<exists>u. w_tmgis w a = Some u \<and> \<not> P u)"
  by (induction as) (auto split: bind_splits)

end
