(* ===== verification/Session_Props.thy ===== *)
theory Session_Props
  imports Session_Push Tmgi_Props
begin

text \<open>
  What the session operations guarantee: callback data is released once, a cached copy
  compares as equal exactly when nothing that the copy loses is set, the SBI objects are
  counted correctly, and what happens to a subscription on its way through the lists.
\<close>

section \<open>Callback data\<close>

definition times_freed :: "nat \<Rightarrow> event list \<Rightarrow> nat" where
  "times_freed d es = length (filter (\<lambda>e. \<exists>f. e = Ev_free_data f d) es)"

definition callback_data :: "session \<Rightarrow> nat option set" where
  "callback_data s = {cb_data (ps_create_cb s), cb_data (ps_update_cb s), cb_data (ps_delete_cb s)}"

definition all_freeable :: "session \<Rightarrow> bool" where
  "all_freeable s \<longleftrightarrow>
     cb_free (ps_create_cb s) \<noteq> None \<and> cb_free (ps_update_cb s) \<noteq> None \<and> cb_free (ps_delete_cb s) \<noteq> None"

lemmas callback_defs = release_slot_def release_create_callback_data_def
  release_update_callback_data_def release_delete_callback_data_def release_callback_data_def
  set_create_callback_freefn_def set_update_callback_freefn_def set_delete_callback_freefn_def
  set_callback_freefn_def

lemma times_freed_simps [simp]: "times_freed d [] = 0"
  "times_freed d (Ev_free_data f e # es) = (if e = d then 1 else 0) + times_freed d es"
  "times_freed d (es @ fs) = times_freed d es + times_freed d fs"
  by (auto simp: times_freed_def)

lemma release_once:
  assumes "all_freeable s" "release_callback_data s = (t, es)"
  shows "times_freed d es = (if Some d \<in> callback_data s then 1 else 0)"
    "callback_data t = {None}"
  using assms
  by (auto simp: callback_defs all_freeable_def callback_data_def Let_def split: option.splits if_splits)

lemma set_callback_releases:
  assumes "all_freeable s" "\<not> ps_is_deleted s" "set_callback_freefn cb data fr s = (ok, t, es)"
  shows "ok" "times_freed d es = (if Some d \<in> callback_data s \<and> data \<noteq> Some d then 1 else 0)"
    "callback_data t = {data}"
  using assms
  by (auto simp: callback_defs all_freeable_def callback_data_def Let_def split: option.splits if_splits)

section \<open>The TMGI of a session\<close>

lemma put_session_twice [simp]: "put_session a s (put_session a s' w) = put_session a s w"
  by (simp add: put_session_def)

lemma unref_put_session:
  "ref_count_sbi_object_unref p (put_session a s w) = map_option (put_session a s) (ref_count_sbi_object_unref p w)"
  by (auto simp: ref_count_sbi_object_unref_def put_session_def log_event_def Let_def
      split: option.split bind_split)

text \<open>Taking over the SBI object of a TMGI: the reference is taken before the old one is
  given up.\<close>

lemma session_swap_sbi:
  assumes ok: "refs_ok E w" and s: "w_sessions w a = Some s"
    and new: "\<forall>r. p = Some r \<longrightarrow> r \<in># held_refs w + E" and s': "ps_sbi s' = p"
  shows "\<exists>w1 w2. ref_count_sbi_object_ref p w = Some w1 \<and>
           ref_count_sbi_object_unref (ps_sbi s) w1 = Some w2 \<and> refs_ok E (put_session a s' w2) \<and>
           w_sessions w2 = w_sessions w \<and> w_tmgis w2 = w_tmgis w \<and> w_subscs w2 = w_subscs w \<and>
           w_ctx w2 = w_ctx w \<and> w_next w2 = w_next w \<and> w_words w2 = w_words w"
proof -
  obtain w1 where w1: "ref_count_sbi_object_ref p w = Some w1" "refs_ok (E + opt_ref p) w1"
    using refs_ref [OF ok new] by blast
  note sel1 = ref_sel [OF w1(1)]
  have a: "a < w_next w1" using ok s refs_ok_dom sel1 by metis
  have "session_sbi w1 a = ps_sbi s" using s sel1 by (simp add: session_sbi_def)
  then have "refs_ok (E + opt_ref (ps_sbi s)) (put_session a s' w1)"
    using refs_put_session [of E s' w1 a] w1(2) a s' by simp
  then obtain x where x: "ref_count_sbi_object_unref (ps_sbi s) (put_session a s' w1) = Some x" "refs_ok E x"
    using refs_unref by blast
  then obtain w2 where w2: "ref_count_sbi_object_unref (ps_sbi s) w1 = Some w2" "x = put_session a s' w2"
    by (auto simp: unref_put_session)
  note sel2 = unref_sel [OF w2(1)]
  show ?thesis using w1 w2 x sel1 sel2 by auto
qed

lemma mbs_session_set_tmgi_result:
  assumes ok: "refs_ok E w" and s: "w_sessions w a = Some s" "\<not> ps_is_deleted s"
    and t: "w_tmgis w t = Some x"
    and old: "\<forall>o1. se_tmgi (ps_public s) = Some o1 \<longrightarrow> w_tmgis w o1 \<noteq> None"
  shows "\<exists>w'. mbs_session_set_tmgi (Some a) (Some t) w = Some (True, w') \<and> refs_ok E w' \<and>
           (\<exists>s' y. w_sessions w' = (w_sessions w)(a \<mapsto> s') \<and> w_tmgis w' = w_tmgis w \<and>
              se_tmgi (ps_public s') = Some y \<and> (y = t \<or> tmgi_equal (Some t) (Some y) w = Some True) \<and>
              (s' \<noteq> s \<longrightarrow> y = t \<and> ps_sbi s' = tm_sbi x \<and> \<not> se_tmgi_req (ps_public s')))"
proof (cases "se_tmgi (ps_public s) = Some t")
  case True
  then show ?thesis using assms by (auto simp: mbs_session_set_tmgi_def fun_upd_idem intro!: exI [of _ s])
next
  case False
  let ?same = "(if se_tmgi (ps_public s) \<noteq> None \<and> Some t \<noteq> None
                then tmgi_equal (Some t) (se_tmgi (ps_public s)) w else Some False)"
  obtain b where b: "?same = Some b"
    using t old False by (cases "se_tmgi (ps_public s)") (auto simp: tmgi_equal_def)
  show ?thesis
  proof (cases b)
    case True
    then obtain y where y: "se_tmgi (ps_public s) = Some y" "tmgi_equal (Some t) (Some y) w = Some True"
      using b by (cases "se_tmgi (ps_public s)") auto
    have "mbs_session_set_tmgi (Some a) (Some t) w = Some (True, w)"
      using y s False by (simp add: mbs_session_set_tmgi_def)
    then show ?thesis using ok y s by (auto simp: fun_upd_idem intro!: exI [of _ s])
  next
    case F: False
    let ?s' = "s\<lparr>ps_sbi := tm_sbi x, ps_public := (ps_public s)\<lparr>se_tmgi := Some t, se_tmgi_req := False\<rparr>\<rparr>"
    have "\<forall>r. tm_sbi x = Some r \<longrightarrow> r \<in># held_refs w + E" using held_by_tmgi [OF ok t] by auto
    then obtain w1 w2 where sw: "ref_count_sbi_object_ref (tm_sbi x) w = Some w1"
        "ref_count_sbi_object_unref (ps_sbi s) w1 = Some w2" "refs_ok E (put_session a ?s' w2)"
        "w_sessions w2 = w_sessions w" "w_tmgis w2 = w_tmgis w"
      using session_swap_sbi [OF ok s(1), of "tm_sbi x" ?s'] by auto
    have "mbs_session_set_tmgi (Some a) (Some t) w = Some (True, put_session a ?s' w2)"
      using b F s t False sw by (auto simp: mbs_session_set_tmgi_def Let_def split: if_splits)
    then show ?thesis using sw by (auto intro!: exI [of _ ?s'])
  qed
qed

section \<open>The cached copy\<close>

text \<open>What a copy into a fresh structure is, apart from the address of its TMGI.\<close>

definition copied_session :: "addr option \<Rightarrow> mbs_session \<Rightarrow> mbs_session" where
  "copied_session t s =
     s\<lparr>se_tmgi := t, se_termination_time := None,
       se_service_area := map_option (\<lambda>a. a\<lparr>sa_ncgi_tais := map drop_cells (sa_ncgi_tais a)\<rparr>) (se_service_area s),
       se_ext_service_area :=
         map_option (\<lambda>a. a\<lparr>esa_areas := map geographic_area_copy_values (esa_areas a)\<rparr>) (se_ext_service_area s),
       se_service_info := map_option normal_info (se_service_info s)\<rparr>"

definition session_info_ok :: "mbs_session \<Rightarrow> bool" where
  "session_info_ok s \<longleftrightarrow>
     (\<forall>i. se_service_info s = Some i \<longrightarrow> service_info_wf i \<and> service_info_flows_set i)"

lemma copy_values_new:
  assumes "session_info_ok s"
  shows "mbs_session_copy_values mbs_session_calloc s w =
           Option.bind (if se_tmgi_req s then tmgi_copy None (se_tmgi s) w else Some (se_tmgi s, w))
             (\<lambda>(t, w'). Some (copied_session t s, w'))"
proof -
  have "mbs_service_info_copy None (se_service_info s) = Some (map_option normal_info (se_service_info s))"
    using assms mbs_service_info_copy_eq [of _ None]
    by (cases "se_service_info s") (auto simp: session_info_ok_def mbs_service_info_copy_def)
  then show ?thesis
    by (cases s)
       (auto simp: mbs_session_copy_values_def mbs_session_calloc_def copied_session_def Let_def
          split: bind_split)
qed

text \<open>The members that make a session differ from its own copy.\<close>

definition copy_comparable :: "mbs_session \<Rightarrow> bool" where
  "copy_comparable s \<longleftrightarrow>
     se_termination_time s = None \<and>
     (\<forall>m. se_ssm s = Some m \<longrightarrow> ssm_wf m) \<and>
     (\<forall>i. se_assoc_id s = Some i \<longrightarrow> ssm_wf (as_ssm i)) \<and>
     (\<forall>e. se_ext_service_area s = Some e \<longrightarrow> esa_areas e = [])"

definition words_alive :: "mbs_session \<Rightarrow> world \<Rightarrow> bool" where
  "words_alive s w \<longleftrightarrow>
     (\<forall>a. se_area_session_id s = Some a \<or> se_start_time s = Some a \<longrightarrow> w_words w a \<noteq> None)"

lemma words_equal_same: "(\<forall>x. a = Some x \<longrightarrow> w_words w x \<noteq> None) \<Longrightarrow> words_equal a a w = Some True"
  by (auto simp: words_equal_def opt_word_def split: option.split)

lemma if_set_refl:
  "(\<forall>x. a = Some x \<longrightarrow> eq x (f x) = Some (P x)) \<Longrightarrow>
     if_set eq a (map_option f a) = Some (\<forall>x. a = Some x \<longrightarrow> P x)"
  by (cases a) (auto simp: if_set_def)

lemma and_then_Some [simp]: "and_then (Some p) (Some q) = Some (p \<and> q)" "and_then (Some True) r = r"
  by (auto simp: and_then_def)

lemma ssm_same: "ssm_addr_both_equal m m \<longleftrightarrow> ssm_wf m"
  by (simp add: ssm_addr_both_equal_key)

lemma service_area_same:
  "mbs_service_area_equal api a (a\<lparr>sa_ncgi_tais := map drop_cells (sa_ncgi_tais a)\<rparr>)"
  "mbs_service_area_equal api (a\<lparr>sa_ncgi_tais := map drop_cells (sa_ncgi_tais a)\<rparr>) a"
  by (simp_all add: eq_simps service_area_key_def image_mset.compositionality comp_def)

text \<open>The comparison of the code: the cached copy with the session.\<close>

lemma copied_session_equal:
  assumes info: "session_info_ok s" and words: "words_alive s w"
    and tmgi: "se_tmgi s \<noteq> None \<Longrightarrow> tmgi_equal t (se_tmgi s) w = Some True" "set_alike t (se_tmgi s)"
  shows "mbs_session_both_equal api (copied_session t s) s w = Some (copy_comparable s)"
proof (cases "se_termination_time s = None")
  case False
  then show ?thesis
    by (simp add: mbs_session_both_equal_def copied_session_def presence_equal_def set_alike_def
        copy_comparable_def)
next
  case True
  let ?d = "copied_session t s"
  have flags: "flags_equal ?d s" by (simp add: flags_equal_def copied_session_def)
  have presence: "presence_equal ?d s"
    using True tmgi(2) by (simp add: presence_equal_def copied_session_def set_alike_def)
  have fsa: "se_fsa_ids ?d = se_fsa_ids s" by (simp add: copied_session_def)
  have w: "words_equal (se_area_session_id ?d) (se_area_session_id s) w = Some True"
    "words_equal (se_start_time ?d) (se_start_time s) w = Some True"
    "words_equal (se_termination_time ?d) (se_termination_time s) w = Some True"
    using words True words_equal_same [of "se_area_session_id s" w] words_equal_same [of "se_start_time s" w]
    by (auto simp: copied_session_def words_alive_def words_equal_def)
  have dnn: "if_set (\<lambda>x y. Some (x = y)) (se_dnn ?d) (se_dnn s) = Some True"
    "if_set (\<lambda>x y. Some (x = y)) (se_snssai ?d) (se_snssai s) = Some True"
    by (auto simp: copied_session_def if_set_def split: option.split)
  have ssm: "if_set (\<lambda>x y. Some (ssm_addr_both_equal x y)) (se_ssm ?d) (se_ssm s) =
      Some (\<forall>m. se_ssm s = Some m \<longrightarrow> ssm_wf m)"
    by (auto simp: copied_session_def if_set_def ssm_same split: option.split)
  have as: "if_set (\<lambda>x y. Some (associated_session_id_equal x y)) (se_assoc_id ?d) (se_assoc_id s) =
      Some (\<forall>i. se_assoc_id s = Some i \<longrightarrow> ssm_wf (as_ssm i))"
    by (auto simp: copied_session_def if_set_def ssm_same associated_session_id_equal_iff split: option.split)
  have tm: "(if se_tmgi ?d = None then Some True else tmgi_equal (se_tmgi ?d) (se_tmgi s) w) = Some True"
    using tmgi by (auto simp: copied_session_def set_alike_def)
  have area: "if_set (\<lambda>x y. Some (mbs_service_area_equal api x y)) (se_service_area ?d) (se_service_area s) = Some True"
    by (auto simp: copied_session_def if_set_def service_area_same split: option.split)
  have ext: "if_set (\<lambda>x y. Some (ext_mbs_service_area_equal x y)) (se_ext_service_area ?d) (se_ext_service_area s) =
      Some (\<forall>e. se_ext_service_area s = Some e \<longrightarrow> esa_areas e = [])"
    by (auto simp: copied_session_def if_set_def eq_simps split: option.split)
  have inf: "if_set mbs_service_info_equal (se_service_info ?d) (se_service_info s) = Some True"
    using info mbs_service_info_equal_copy
    by (auto simp: copied_session_def if_set_def session_info_ok_def split: option.split)
  show ?thesis
    using flags presence fsa w dnn ssm as tm area ext inf True
    by (simp add: mbs_session_both_equal_def eq_simps copy_comparable_def and_then_def)
qed

text \<open>Together: what the comparison of a fresh cached copy with its session yields.\<close>

lemma cached_copy_compares:
  assumes ok: "refs_ok E w" and ctx: "w_ctx w = Some c"
    and info: "session_info_ok s" and words: "words_alive s w"
    and tmgi: "\<forall>t. se_tmgi s = Some t \<longrightarrow> w_tmgis w t \<noteq> None"
  shows "\<exists>t w'. mbs_session_public_copy None (Some s) w = Some (Some (copied_session t s), w') \<and>
           refs_ok E w' \<and> w_words w' = w_words w \<and> w_sessions w' = w_sessions w \<and>
           mbs_session_public_equal api (Some (copied_session t s)) (Some s) w' = Some (copy_comparable s)"
proof (cases "se_tmgi_req s \<and> se_tmgi s \<noteq> None")
  case True
  then obtain sa x where sa: "se_tmgi s = Some sa" "w_tmgis w sa = Some x" using tmgi by auto
  obtain w' where w': "tmgi_copy None (Some sa) w = Some (Some (w_next w), w')" "refs_ok E w'"
      "w_words w' = w_words w" "w_sessions w' = w_sessions w" "w_tmgis w' = (w_tmgis w)(w_next w \<mapsto> tmgi_copied x)"
    using tmgi_copy_new [OF ok sa(2) ctx] by blast
  have "sa \<noteq> w_next w" using refs_ok_dom(1) [OF ok sa(2)] by simp
  then have "tmgi_equal (Some (w_next w)) (se_tmgi s) w' = Some True"
    using sa w'(5) by (simp add: tmgi_equal_def)
  then have "mbs_session_both_equal api (copied_session (Some (w_next w)) s) s w' = Some (copy_comparable s)"
    using copied_session_equal [OF info, of w' "Some (w_next w)"] words w'(3) sa
    by (simp add: words_alive_def set_alike_def)
  then show ?thesis
    using True sa w' copy_values_new [OF info]
    by (auto simp: mbs_session_public_copy_def mbs_session_public_equal_def)
next
  case False
  have "mbs_session_both_equal api (copied_session (se_tmgi s) s) s w = Some (copy_comparable s)"
    using copied_session_equal [OF info words, of "se_tmgi s"] by (simp add: tmgi_equal_def set_alike_def)
  moreover have "(if se_tmgi_req s then tmgi_copy None (se_tmgi s) w else Some (se_tmgi s, w)) = Some (se_tmgi s, w)"
    using False by (auto simp: tmgi_copy_def)
  ultimately show ?thesis
    using ok copy_values_new [OF info]
    by (auto simp: mbs_session_public_copy_def mbs_session_public_equal_def)
qed

section \<open>Memory shared between a session and its cached copy\<close>

definition words_shrink :: "world \<Rightarrow> world \<Rightarrow> bool" where
  "words_shrink w w' \<longleftrightarrow> (\<forall>x. w_words w x = None \<longrightarrow> w_words w' x = None)"

lemma words_shrink_refl: "w_words w' = w_words w \<Longrightarrow> words_shrink w w'"
  by (simp add: words_shrink_def)

lemma words_shrink_trans: "words_shrink u v \<Longrightarrow> words_shrink v w \<Longrightarrow> words_shrink u w"
  by (simp add: words_shrink_def)

lemma free_word_shrink: "free_word p w = Some w' \<Longrightarrow> words_shrink w w'"
  by (auto simp: free_word_def words_shrink_def split: option.splits)

lemma free_word_gone: "free_word (Some x) w = Some w' \<Longrightarrow> w_words w x \<noteq> None \<and> w_words w' x = None"
  by (auto simp: free_word_def split: option.splits)

lemma tmgi_free_words:
  assumes "tmgi_free p w = Some w'"
  shows "w_words w' = w_words w"
proof (cases p)
  case (Some a)
  then obtain t c v where "w_tmgis w a = Some t" "w_ctx w = Some c"
      "ref_count_sbi_object_unref (tm_sbi t) (w\<lparr>w_ctx := Some (c\<lparr>ctx_tmgis := remove1 a (ctx_tmgis c)\<rparr>)\<rparr>) = Some v"
      "w' = v\<lparr>w_tmgis := (w_tmgis v)(a := None)\<rparr>"
    using assms
    by (auto simp: tmgi_free_def context_remove_tmgi_def split: option.splits bind_splits if_splits)
  then show ?thesis using unref_sel(6) by fastforce
qed (use assms in \<open>simp add: tmgi_free_def\<close>)

lemma public_clear_steps:
  assumes "mbs_session_public_clear s w = Some (d, w')"
  obtains w1 w2 w3 where "w_words w1 = w_words w" "free_word (se_area_session_id s) w1 = Some w2"
    "free_word (se_start_time s) w2 = Some w3" "free_word (se_termination_time s) w3 = Some w'"
  using assms
  by (auto simp: mbs_session_public_clear_def Let_def split: bind_splits if_splits dest: tmgi_free_words)

lemma public_clear_words:
  assumes "mbs_session_public_clear s w = Some (d, w')"
  shows "words_shrink w w'"
    "se_start_time s = Some x \<Longrightarrow> w_words w x \<noteq> None \<and> w_words w' x = None"
proof -
  obtain w1 w2 w3 where st: "w_words w1 = w_words w" "free_word (se_area_session_id s) w1 = Some w2"
    "free_word (se_start_time s) w2 = Some w3" "free_word (se_termination_time s) w3 = Some w'"
    by (rule public_clear_steps [OF assms])
  note sh = words_shrink_refl [OF st(1)] free_word_shrink [OF st(2)] free_word_shrink [OF st(3)]
    free_word_shrink [OF st(4)]
  show "words_shrink w w'" using sh words_shrink_trans by blast
  assume "se_start_time s = Some x"
  then have "w_words w2 x \<noteq> None \<and> w_words w3 x = None" using st(3) free_word_gone by auto
  then show "w_words w x \<noteq> None \<and> w_words w' x = None" using sh by (auto simp: words_shrink_def)
qed

lemma subscription_delete_words:
  "mbs_status_subscription_delete a w = Some w' \<Longrightarrow> w_words w' = w_words w"
  by (auto simp: mbs_status_subscription_delete_def notification_server_free_def Let_def
      split: bind_splits option.splits if_splits)

lemma delete_subscriptions_words: "delete_subscriptions as w = Some w' \<Longrightarrow> w_words w' = w_words w"
  by (induction as arbitrary: w) (auto split: bind_splits dest: subscription_delete_words)

lemma fold_log_event_words [simp]: "w_words (fold log_event es w) = w_words w"
  by (induction es arbitrary: w) auto

lemma release_keeps [simp]:
  "release_callback_data s = (t, es) \<Longrightarrow>
     ps_public t = ps_public s \<and> ps_new t = ps_new s \<and> ps_active t = ps_active s \<and>
     ps_deleted t = ps_deleted s \<and> ps_sbi t = ps_sbi s"
  by (auto simp: callback_defs Let_def split: option.splits if_splits)

text \<open>The start time freed with the cached copy is freed again with the session.\<close>

lemma shared_start_time_double_free:
  assumes s: "w_sessions w a = Some s" "ps_previous s = Some p"
    and shared: "se_start_time p = Some x" "se_start_time (ps_public s) = Some x"
  shows "mbs_session_delete (Some a) w = None"
proof (rule ccontr)
  assume "mbs_session_delete (Some a) w \<noteq> None"
  then obtain w1 t es w2 w3 w4 d w5 where
      w1: "mbs_session_public_free (Some p) w = Some w1"
    and rel: "release_callback_data (s\<lparr>ps_previous := None\<rparr>) = (t, es)"
    and w2: "delete_subscriptions (ps_new t) (fold log_event es (put_session a t w1)) = Some w2"
    and w3: "delete_subscriptions (ps_deleted t) w2 = Some w3"
    and w4: "ref_count_sbi_object_unref (ps_sbi t) w3 = Some w4"
    and w5: "mbs_session_public_clear (ps_public t) w4 = Some (d, w5)"
    using s by (auto simp: mbs_session_delete_def split: bind_splits prod.splits option.splits list.splits)
  obtain q where "mbs_session_public_clear p w = Some (q, w1)"
    using w1 by (auto simp: mbs_session_public_free_def)
  then have "w_words w1 x = None" using public_clear_words(2) shared(1) by blast
  moreover have "w_words w4 = w_words w1"
    using unref_sel(6) [OF w4] delete_subscriptions_words [OF w3] delete_subscriptions_words [OF w2] by simp
  ultimately have "w_words w4 x = None" by simp
  moreover have "se_start_time (ps_public t) = Some x" using release_keeps [OF rel] shared(2) by simp
  ultimately show False using public_clear_words(2) [OF w5] by blast
qed

lemma copy_start_time:
  assumes "mbs_session_public_copy d (Some s) w = Some (Some c, w')"
  shows "se_start_time c = se_start_time s"
  using assms
  by (auto simp: mbs_session_public_copy_def mbs_session_copy_values_def Let_def split: bind_splits)

lemma delete_with_active_subscription:
  assumes "w_sessions w a = Some s" "ps_active s = Some (k # h)"
  shows "mbs_session_delete (Some a) w = None"
proof -
  have "ps_active t = Some (k # h)" if "release_callback_data (s\<lparr>ps_previous := None\<rparr>) = (t, es)" for t es
    using release_keeps [OF that] assms by simp
  then show ?thesis
    using assms by (auto simp: mbs_session_delete_def split: bind_split prod.split)
qed

section \<open>The way of a subscription\<close>

lemma add_subscription_result:
  assumes s: "w_sessions w a = Some s" "\<not> ps_is_deleted s" and u: "w_subscs w b = Some u" "su_id u = None"
  shows "\<exists>w'. mbs_session_add_subscription (Some a) (Some b) w = Some (True, w') \<and>
           w_sessions w' = (w_sessions w)(a \<mapsto>
             s\<lparr>ps_new := ps_new s @ [b], ps_active := Some (case ps_active s of None \<Rightarrow> [] | Some h \<Rightarrow> h)\<rparr>) \<and>
           w_subscs w' = (w_subscs w)(b \<mapsto> u\<lparr>su_session := Some a, su_changed := True\<rparr>)"
  using assms
  by (cases s; cases "ps_active s") (auto simp: mbs_session_add_subscription_def Let_def)

lemma remove_waiting_subscription:
  assumes "w_sessions w a = Some s" "\<not> ps_is_deleted s" "w_subscs w b = Some u" "su_session u = Some a"
    "su_id u = None" "b \<in> set (ps_new s)"
  shows "mbs_session_remove_subscription (Some a) (Some b) w = None"
  using assms
  by (auto simp: mbs_session_remove_subscription_def mbs_status_subscription_delete_def
      notification_server_free_def Let_def split: option.split)

lemma remove_active_subscription:
  assumes "w_sessions w a = Some s" "\<not> ps_is_deleted s" "w_subscs w b = Some u" "su_session u = Some a"
    "su_id u = Some i"
  shows "\<exists>w' s'. mbs_session_remove_subscription (Some a) (Some b) w = Some (True, w') \<and>
           w_sessions w' = (w_sessions w)(a \<mapsto> s') \<and> ps_deleted s' = ps_deleted s @ [b] \<and>
           (\<forall>h. ps_active s = Some h \<longrightarrow> ps_active s' = Some (AList.delete i h)) \<and>
           w_subscs w' = (w_subscs w)(b \<mapsto> u\<lparr>su_changed := True\<rparr>)"
  using assms
  by (cases "ps_active s") (auto simp: mbs_session_remove_subscription_def Let_def)

end
