(* ===== verification/Push_Props.thy ===== *)
theory Push_Props
  imports Session_Props
begin

text \<open>
  Pushing the changes of a session: the decision as an abstract function of the session and
  its cached copy, and the proof that \<open>_mbs_session_push_changes\<close> sends exactly the requests
  of that decision, keeps the reference counts and leaves no subscription pending.
\<close>

section \<open>The requests about sessions in a log\<close>

fun is_session_request :: "request \<Rightarrow> bool" where
  "is_session_request (Rq_session_create a) = True"
| "is_session_request (Rq_session_update a ps) = True"
| "is_session_request (Rq_session_remove a) = True"
| "is_session_request _ = False"

fun session_request :: "event \<Rightarrow> request list" where
  "session_request (Ev_request r rq) = (if is_session_request rq then [rq] else [])"
| "session_request _ = []"

definition session_requests :: "world \<Rightarrow> request list" where
  "session_requests w = concat (map session_request (w_log w))"

lemma session_requests_log [simp]:
  "session_requests (log_event e w) = session_requests w @ session_request e"
  "session_requests (put_session a s w) = session_requests w"
  "session_requests (put_subsc b u w) = session_requests w"
  by (simp_all add: session_requests_def)

lemma session_requests_next [simp]:
  "session_requests (w\<lparr>w_next := n\<rparr>) = session_requests w"
  "session_requests (w\<lparr>w_fixed := f\<rparr>) = session_requests w"
  "session_requests (w\<lparr>w_refs := r\<rparr>) = session_requests w"
  "session_requests (w\<lparr>w_subscs := m\<rparr>) = session_requests w"
  by (simp_all add: session_requests_def)

section \<open>What the subscription steps leave alone\<close>

definition core_same :: "world \<Rightarrow> world \<Rightarrow> bool" where
  "core_same w w' \<longleftrightarrow>
     w_tmgis w' = w_tmgis w \<and> w_words w' = w_words w \<and> w_ctx w' = w_ctx w \<and> w_refs w' = w_refs w \<and>
     w_next w' = w_next w \<and> w_fixed w' = w_fixed w \<and> session_requests w' = session_requests w"

lemma core_same_refl [simp]: "core_same w w"
  by (simp add: core_same_def)

lemma core_same_trans: "core_same u v \<Longrightarrow> core_same v w \<Longrightarrow> core_same u w"
  by (simp add: core_same_def)

lemma core_same_put [simp]: "core_same w (put_subsc b u w)" "core_same w (put_session a s w)"
  by (simp_all add: core_same_def)

lemma core_same_log: "session_request e = [] \<Longrightarrow> core_same w (log_event e w)"
  by (simp add: core_same_def)

lemma patch_list_cong:
  assumes "core_same w w'" "w_sessions w' = w_sessions w"
  shows "mbs_session_patch_list api a w' = mbs_session_patch_list api a w"
proof -
  have eqs: "w_tmgis w' = w_tmgis w" "w_words w' = w_words w" using assms by (simp_all add: core_same_def)
  have t: "tmgi_equal x y w' = tmgi_equal x y w" for x y unfolding tmgi_equal_def eqs ..
  have u: "time_equal x y w' = time_equal x y w" for x y unfolding time_equal_def opt_word_def eqs ..
  show ?thesis
    unfolding mbs_session_patch_list_def mbs_session_public_patch_list_def session_both_patch_list_def
      assms(2) t u ..
qed

lemma session_holds:
  assumes "refs_ok E w" "w_sessions w a = Some s" "ps_sbi s = Some r"
  shows "r \<in># held_refs w + E"
  using refs_ok_dom(2) [OF assms(1,2)] assms by (auto simp: held_refs_iff session_sbi_def)

lemma session_sends:
  assumes "refs_ok E w" "w_sessions w a = Some s" "ps_sbi s = Some r"
  shows "send_request (ps_sbi s) rq w = Some (log_event (Ev_request r rq) w)"
  using send_request_alive [OF assms(1) session_holds [OF assms]] assms(3) by simp

definition attached :: "addr \<Rightarrow> world \<Rightarrow> addr \<Rightarrow> bool" where
  "attached a w b \<longleftrightarrow> (\<exists>u. w_subscs w b = Some u \<and> su_session u = Some a)"

definition settle :: "addr set \<Rightarrow> world \<Rightarrow> addr \<Rightarrow> subscription option" where
  "settle B w = (\<lambda>b. if b \<in> B then map_option (\<lambda>u. u\<lparr>su_changed := False\<rparr>) (w_subscs w b) else w_subscs w b)"

lemma attached_settle: "w_subscs w' = settle B w \<Longrightarrow> attached a w' b = attached a w b"
  by (auto simp: attached_def settle_def)

lemma settle_twice:
  "w_subscs v = settle B w \<Longrightarrow> settle C v = settle (B \<union> C) w"
  by (auto simp: settle_def fun_eq_iff option.map_comp comp_def)

lemma settle_empty [simp]: "settle {} w = w_subscs w"
  by (simp add: settle_def)

lemma settle_one:
  assumes "w_subscs v = w_subscs w" "w_subscs w b = Some u"
  shows "w_subscs (put_subsc b (u\<lparr>su_changed := False\<rparr>) v) = settle {b} w"
  using assms by (auto simp: settle_def fun_eq_iff)

lemma create_new_result:
  assumes "refs_ok E w" "w_sessions w a = Some s" "ps_sbi s = Some r" "\<forall>b\<in>set bs. attached a w b"
  shows "\<exists>w'. create_new_subscriptions bs w = Some w' \<and> refs_ok E w' \<and> core_same w w' \<and>
           w_sessions w' = w_sessions w \<and> w_subscs w' = settle (set bs) w"
  using assms
proof (induction bs arbitrary: w)
  case (Cons b bs)
  then obtain u where u: "w_subscs w b = Some u" "su_session u = Some a" by (auto simp: attached_def)
  let ?v = "if su_changed u then log_event (Ev_request r (Rq_subscription_create a b)) w else w"
  let ?w = "put_subsc b (u\<lparr>su_changed := False\<rparr>) ?v"
  have step: "(if su_changed u then mbs_status_subscription_send_create b w else Some w) = Some ?v"
    using u Cons.prems(2) session_sends [OF Cons.prems(1-3)]
    by (simp add: mbs_status_subscription_send_create_def)
  have sub: "w_subscs ?w = settle {b} w" using settle_one [of ?v w b u] u by simp
  have v: "refs_ok E ?w" by (rule refs_put_subsc [where u = u]) (use Cons.prems(1) u in auto)
  have core: "core_same w ?w" by (auto simp: core_same_def)
  have ses: "w_sessions ?w = w_sessions w" by simp
  have "\<forall>c\<in>set bs. attached a ?w c"
    using attached_settle [OF sub] Cons.prems(4) by auto
  then obtain w' where w': "create_new_subscriptions bs ?w = Some w'" "refs_ok E w'"
      "core_same ?w w'" "w_sessions w' = w_sessions ?w" "w_subscs w' = settle (set bs) ?w"
    using Cons.IH [OF v] Cons.prems(2,3) unfolding ses by blast
  have "clear_changed b ?v = Some ?w" using u by (simp add: clear_changed_def)
  then have "create_new_subscriptions (b # bs) w = Some w'" using u step w'(1) by simp
  moreover have "w_subscs w' = settle (set (b # bs)) w" using w'(5) settle_twice [OF sub] by simp
  moreover have "w_sessions w' = w_sessions w" using w'(4) by simp
  ultimately show ?case using w'(2) core_same_trans [OF core w'(3)] by blast
qed auto

lemma update_active_result:
  assumes "refs_ok E w" "w_sessions w a = Some s" "ps_sbi s = Some r" "\<forall>b\<in>set bs. attached a w b"
    "mbs_session_patch_list api a w \<noteq> None"
  shows "\<exists>w'. update_active_subscriptions api bs w = Some w' \<and> refs_ok E w' \<and> core_same w w' \<and>
           w_sessions w' = w_sessions w \<and> w_subscs w' = settle (set bs) w"
  using assms
proof (induction bs arbitrary: w)
  case (Cons b bs)
  then obtain u ps where u: "w_subscs w b = Some u" "su_session u = Some a"
    and ps: "mbs_session_patch_list api a w = Some ps" by (auto simp: attached_def)
  let ?v = "if su_changed u then log_event (Ev_request r (Rq_subscription_update a b ps)) w else w"
  let ?w = "put_subsc b (u\<lparr>su_changed := False\<rparr>) ?v"
  have sub: "w_subscs ?w = settle {b} w" using settle_one [of ?v w b u] u by simp
  have unch: "\<not> su_changed u \<Longrightarrow> put_subsc b (u\<lparr>su_changed := False\<rparr>) w = w"
    using u by (cases u) (simp add: put_subsc_def fun_upd_idem)
  have step: "(if su_changed u
       then Option.bind (mbs_status_subscription_send_update api b w) (clear_changed b) else Some w) = Some ?w"
    using u ps Cons.prems(2) session_sends [OF Cons.prems(1-3)] unch
    by (simp add: mbs_status_subscription_send_update_def clear_changed_def)
  have v: "refs_ok E ?w" by (rule refs_put_subsc [where u = u]) (use Cons.prems(1) u in auto)
  have core: "core_same w ?w" by (auto simp: core_same_def)
  have "\<forall>c\<in>set bs. attached a ?w c" using attached_settle [OF sub] Cons.prems(4) by auto
  moreover have "mbs_session_patch_list api a ?w \<noteq> None"
    using Cons.prems(5) patch_list_cong [OF core] by simp
  moreover have ses: "w_sessions ?w = w_sessions w" by simp
  ultimately obtain w' where w': "update_active_subscriptions api bs ?w = Some w'" "refs_ok E w'"
      "core_same ?w w'" "w_sessions w' = w_sessions ?w" "w_subscs w' = settle (set bs) ?w"
    using Cons.IH [OF v] Cons.prems(2,3) unfolding ses by blast
  then have "update_active_subscriptions api (b # bs) w = Some w'" using u step by simp
  moreover have "w_subscs w' = settle (set (b # bs)) w" using w'(5) settle_twice [OF sub] by simp
  moreover have "w_sessions w' = w_sessions w" using w'(4) by simp
  ultimately show ?case using w'(2) core_same_trans [OF core w'(3)] by blast
qed auto

lemma refs_del_subsc: "refs_ok E w \<Longrightarrow> refs_ok E (w\<lparr>w_subscs := (w_subscs w)(b := None)\<rparr>)"
proof -
  let ?w = "w\<lparr>w_subscs := (w_subscs w)(b := None)\<rparr>"
  have "held_refs ?w = held_refs w" by (rule held_refs_cong) simp_all
  then show "refs_ok E w \<Longrightarrow> refs_ok E ?w"
    by (auto simp: refs_ok_def counts_ok_def objects_below_def)
qed

lemma subscription_delete_result:
  assumes "refs_ok E w" "w_subscs w b = Some u"
  shows "\<exists>w'. mbs_status_subscription_delete b w = Some w' \<and> refs_ok E w' \<and> core_same w w' \<and>
           w_sessions w' = w_sessions w \<and> w_subscs w' = (w_subscs w)(b := None)"
proof -
  let ?v = "notification_server_free (su_server u) w"
  have v: "refs_ok E ?v" "core_same w ?v" "w_sessions ?v = w_sessions w" "w_subscs ?v = w_subscs w"
    using assms(1) by (auto simp: notification_server_free_def core_same_def split: option.split)
  have "mbs_status_subscription_delete b w = Some (?v\<lparr>w_subscs := (w_subscs ?v)(b := None)\<rparr>)"
    using assms(2) by (simp add: mbs_status_subscription_delete_def Let_def)
  then show ?thesis using refs_del_subsc [OF v(1)] v by (auto simp: core_same_def)
qed

lemma delete_old_result:
  assumes "refs_ok E w" "w_sessions w a = Some s" "ps_sbi s = Some r" "\<forall>b\<in>set bs. attached a w b"
    "ps_deleted s = bs" "distinct bs"
  shows "\<exists>w'. delete_old_subscriptions a bs w = Some w' \<and> refs_ok E w' \<and> core_same w w' \<and>
           w_sessions w' = (w_sessions w)(a \<mapsto> s\<lparr>ps_deleted := []\<rparr>) \<and>
           w_subscs w' = (\<lambda>b. if b \<in> set bs then None else w_subscs w b)"
  using assms
proof (induction bs arbitrary: w s)
  case Nil
  then show ?case by (cases s) (auto simp: fun_upd_idem)
next
  case (Cons b bs)
  then obtain u where u: "w_subscs w b = Some u" "su_session u = Some a" by (auto simp: attached_def)
  let ?s = "s\<lparr>ps_deleted := bs\<rparr>"
  let ?v = "put_subsc b (u\<lparr>su_changed := False\<rparr>) (log_event (Ev_request r (Rq_subscription_delete a b)) w)"
  let ?x = "put_session a ?s ?v"
  have v: "refs_ok E ?v" by (rule refs_put_subsc [where u = u]) (use Cons.prems(1) u in auto)
  have x: "refs_ok E ?x" by (rule refs_put_session_same [OF v, where s = s]) (use Cons.prems(2) in auto)
  obtain y where y: "mbs_status_subscription_delete b ?x = Some y" "refs_ok E y" "core_same ?x y"
      "w_sessions y = w_sessions ?x" "w_subscs y = (w_subscs ?x)(b := None)"
    using subscription_delete_result [OF x, of b "u\<lparr>su_changed := False\<rparr>"] by auto
  have sy: "w_sessions y = (w_sessions w)(a \<mapsto> ?s)" "w_subscs y = (w_subscs w)(b := None)"
    using y by auto
  have core: "core_same w y" using y(3) by (auto simp: core_same_def)
  have "\<forall>c\<in>set bs. attached a y c" using Cons.prems(4,6) sy by (auto simp: attached_def)
  then obtain w' where w': "delete_old_subscriptions a bs y = Some w'" "refs_ok E w'" "core_same y w'"
      "w_sessions w' = (w_sessions y)(a \<mapsto> ?s\<lparr>ps_deleted := []\<rparr>)"
      "w_subscs w' = (\<lambda>c. if c \<in> set bs then None else w_subscs y c)"
  proof -
    have "w_sessions y a = Some ?s" "ps_sbi ?s = Some r" "ps_deleted ?s = bs" "distinct bs"
      using sy(1) Cons.prems by auto
    then show ?thesis using Cons.IH [OF y(2)] \<open>\<forall>c\<in>set bs. attached a y c\<close> that by blast
  qed
  have "delete_old_subscriptions a (b # bs) w = Some w'"
    using u y(1) w'(1) Cons.prems session_sends [OF Cons.prems(1-3)]
    by (simp add: mbs_status_subscription_send_delete_def clear_changed_def)
  then show ?case using w' sy core_same_trans [OF core] by (auto simp: fun_eq_iff)
qed

text \<open>A session whose lists are sound.\<close>

definition subs_ok :: "addr \<Rightarrow> session \<Rightarrow> world \<Rightarrow> bool" where
  "subs_ok a s w \<longleftrightarrow>
     distinct (ps_deleted s) \<and>
     (\<forall>b\<in>set (ps_new s) \<union> set (active_addrs s) \<union> set (ps_deleted s). attached a w b)"

definition subs_after :: "session \<Rightarrow> world \<Rightarrow> addr \<Rightarrow> subscription option" where
  "subs_after s w =
     (\<lambda>b. if b \<in> set (ps_deleted s) then None
          else settle (set (ps_new s) \<union> set (active_addrs s)) w b)"

lemma subscriptions_update_result:
  assumes ok: "refs_ok E w" and s: "w_sessions w a = Some s" "ps_sbi s = Some r" "subs_ok a s w"
    and ps: "mbs_session_patch_list api a w \<noteq> None"
  shows "\<exists>w'. mbs_session_subscriptions_update api a w = Some w' \<and> refs_ok E w' \<and> core_same w w' \<and>
           w_sessions w' = (w_sessions w)(a \<mapsto> s\<lparr>ps_deleted := []\<rparr>) \<and> w_subscs w' = subs_after s w"
proof -
  have att: "\<forall>b\<in>set (ps_new s). attached a w b" "\<forall>b\<in>set (active_addrs s). attached a w b"
    "\<forall>b\<in>set (ps_deleted s). attached a w b" "distinct (ps_deleted s)"
    using s(3) by (auto simp: subs_ok_def)
  obtain w1 where w1: "create_new_subscriptions (ps_new s) w = Some w1" "refs_ok E w1" "core_same w w1"
      "w_sessions w1 = w_sessions w" "w_subscs w1 = settle (set (ps_new s)) w"
    using create_new_result [OF ok s(1,2) att(1)] by blast
  note a1 = attached_settle [OF w1(5)]
  have "mbs_session_patch_list api a w1 \<noteq> None" using ps patch_list_cong [OF w1(3,4)] by simp
  then obtain w2 where w2: "update_active_subscriptions api (active_addrs s) w1 = Some w2" "refs_ok E w2"
      "core_same w1 w2" "w_sessions w2 = w_sessions w1" "w_subscs w2 = settle (set (active_addrs s)) w1"
    using update_active_result [OF w1(2), of a s r "active_addrs s" api] s w1(4) a1 att(2) by auto
  note a2 = attached_settle [OF w2(5)]
  have "\<forall>b\<in>set (ps_deleted s). attached a w2 b" using a1 a2 att(3) by simp
  then obtain w3 where w3: "delete_old_subscriptions a (ps_deleted s) w2 = Some w3" "refs_ok E w3"
      "core_same w2 w3" "w_sessions w3 = (w_sessions w2)(a \<mapsto> s\<lparr>ps_deleted := []\<rparr>)"
      "w_subscs w3 = (\<lambda>b. if b \<in> set (ps_deleted s) then None else w_subscs w2 b)"
    using delete_old_result [OF w2(2), of a s r "ps_deleted s"] s w1(4) w2(4) att(4) by auto
  have "mbs_session_subscriptions_update api a w = Some w3"
    using s w1 w2 w3 by (simp add: mbs_session_subscriptions_update_def)
  moreover
  have "w_subscs w2 = settle (set (ps_new s) \<union> set (active_addrs s)) w"
    using w2(5) settle_twice [OF w1(5)] by simp
  then have "w_subscs w3 = subs_after s w" by (auto simp: subs_after_def w3(5) fun_eq_iff)
  moreover have "core_same w w3" using w1(3) w2(3) w3(3) core_same_trans by blast
  moreover have "w_sessions w3 = (w_sessions w)(a \<mapsto> s\<lparr>ps_deleted := []\<rparr>)" using w1(4) w2(4) w3(4) by simp
  ultimately show ?thesis using w3(2) by blast
qed

section \<open>The decision\<close>

datatype push_decision = Push_remove | Push_create | Push_recreate bool | Push_update | Push_subscriptions

definition push_decision :: "ogs_api \<Rightarrow> session \<Rightarrow> world \<Rightarrow> push_decision option" where
  "push_decision api s w =
     (if ps_is_deleted s then Some Push_remove
      else case ps_previous s of
        None \<Rightarrow> Some Push_create
      | Some p \<Rightarrow> do {
          same \<leftarrow> mbs_session_both_equal api p (ps_public s) w;
          if same then Some Push_subscriptions
          else if \<not> ssm_addr_equal (se_ssm p) (se_ssm (ps_public s)) then Some (Push_recreate (se_ssm p \<noteq> None))
          else do {
            t \<leftarrow> tmgi_equal (se_tmgi p) (se_tmgi (ps_public s)) w;
            Some (if t then Push_update else Push_recreate (se_tmgi p \<noteq> None))
          }
        })"

fun decision_requests :: "addr \<Rightarrow> json_patch list \<Rightarrow> push_decision \<Rightarrow> request list" where
  "decision_requests a ps Push_remove = [Rq_session_remove a]"
| "decision_requests a ps Push_create = [Rq_session_create a]"
| "decision_requests a ps (Push_recreate old) =
     (if old then [Rq_session_remove a] else []) @ [Rq_session_create a]"
| "decision_requests a ps Push_update = [Rq_session_update a ps]"
| "decision_requests a ps Push_subscriptions = []"

text \<open>What the operation relies on: the counts are right, the lists of the session and its
  pointers are sound, the patch list between the cached copy and the session exists, and a
  session that was created or that is to be removed has its SBI object.\<close>

definition push_ready :: "ogs_api \<Rightarrow> addr \<Rightarrow> session \<Rightarrow> json_patch list \<Rightarrow> world \<Rightarrow> bool" where
  "push_ready api a s ps w \<longleftrightarrow>
     w_sessions w a = Some s \<and> subs_ok a s w \<and>
     (\<forall>t. se_tmgi (ps_public s) = Some t \<longrightarrow> w_tmgis w t \<noteq> None) \<and>
     mbs_session_patch_list api a w = Some ps \<and>
     (ps_is_deleted s \<or> ps_previous s \<noteq> None \<longrightarrow> ps_sbi s \<noteq> None)"

lemma refs_put_subsc_fresh:
  assumes "refs_ok E w" "w_subscs w b = Some u"
  shows "refs_ok E (put_subsc b v (w\<lparr>w_next := w_next w + 1\<rparr>))"
  by (rule refs_put_subsc [where u = u]) (use refs_next [OF assms(1)] assms(2) in auto)

lemma refs_fixed [simp]: "refs_ok E (w\<lparr>w_fixed := f\<rparr>) = refs_ok E w"
  by (simp add: refs_ok_def counts_ok_def objects_below_def held_refs_def session_sbi_def tmgi_sbi_def)

lemma new_server_result:
  assumes "refs_ok E w"
  shows "\<exists>p w'. new_sbi_server api w = (p, w') \<and> refs_ok E w' \<and> w_sessions w' = w_sessions w \<and>
           w_tmgis w' = w_tmgis w \<and> w_subscs w' = w_subscs w \<and> session_requests w' = session_requests w"
  using refs_next [OF assms] by (auto simp: new_sbi_server_def Let_def)

lemma allocate_server_result:
  assumes ok: "refs_ok E w" and u: "w_subscs w b = Some u"
  shows "\<exists>w'. allocate_notification_server api b w = Some w' \<and> refs_ok E w' \<and> w_sessions w' = w_sessions w \<and>
           w_tmgis w' = w_tmgis w \<and> session_requests w' = session_requests w"
proof -
  obtain p v where v: "new_sbi_server api w = (p, v)" "refs_ok E v" "w_sessions v = w_sessions w"
      "w_tmgis v = w_tmgis w" "w_subscs v = w_subscs w" "session_requests v = session_requests w"
    using new_server_result [OF ok] by blast
  have put: "refs_ok E (put_subsc b x v)" for x
    by (rule refs_put_subsc [where u = u]) (use v u in auto)
  have fresh: "refs_ok E (put_subsc b x (y\<lparr>w_next := w_next y + 1\<rparr>))"
    if "refs_ok E y" "w_subscs y = w_subscs w" for x y
    by (rule refs_put_subsc_fresh [OF that(1)]) (use that(2) u in simp)
  show ?thesis
    using u v put ok fresh [of w] fresh [of "v\<lparr>w_fixed := p\<rparr>"]
    by (auto simp: allocate_notification_server_def Let_def split: option.split)
qed

lemma build_create_result:
  assumes ok: "refs_ok E w" and s: "w_sessions w a = Some s" "subs_ok a s w"
  shows "\<exists>w'. session_build_create api a w = Some w' \<and> refs_ok E w' \<and> w_sessions w' = w_sessions w \<and>
           w_tmgis w' = w_tmgis w \<and> session_requests w' = session_requests w"
proof (cases "first_subscription s")
  case None
  then show ?thesis using ok s by (auto simp: session_build_create_def)
next
  case (Some b)
  then have "b \<in> set (ps_new s) \<union> set (active_addrs s)"
    by (auto simp: first_subscription_def active_addrs_def split: list.splits option.splits)
  then obtain u where u: "w_subscs w b = Some u" using s(2) by (auto simp: subs_ok_def attached_def)
  then show ?thesis
    using allocate_server_result [OF ok u, of api] ok s Some by (auto simp: session_build_create_def)
qed

lemma send_create_result:
  assumes ok: "refs_ok E w" and s: "w_sessions w a = Some s" "subs_ok a s w"
    and t: "\<forall>t. se_tmgi (ps_public s) = Some t \<longrightarrow> w_tmgis w t \<noteq> None"
  shows "\<exists>w' r. mbs_session_send_create api a w = Some w' \<and> refs_ok E w' \<and>
           session_requests w' = session_requests w @ [Rq_session_create a] \<and>
           w_sessions w' = (w_sessions w)(a \<mapsto> s\<lparr>ps_sbi := Some r\<rparr>) \<and>
           (\<forall>q. ps_sbi s = Some q \<longrightarrow> r = q)"
proof -
  obtain r v where v: "(case ps_sbi s of Some r \<Rightarrow> w
        | None \<Rightarrow> (case ref_count_sbi_object_new w of (r, w) \<Rightarrow> put_session a (s\<lparr>ps_sbi := Some r\<rparr>) w)) = v"
      "refs_ok E v" "w_sessions v = (w_sessions w)(a \<mapsto> s\<lparr>ps_sbi := Some r\<rparr>)" "w_subscs v = w_subscs w"
      "session_requests v = session_requests w" "\<forall>q. ps_sbi s = Some q \<longrightarrow> r = q"
  proof (cases "ps_sbi s")
    case (Some r)
    then have "s\<lparr>ps_sbi := Some r\<rparr> = s" by (cases s) simp
    then show ?thesis
      by (intro that [of w r]) (use Some ok s(1) in \<open>simp_all add: fun_upd_idem\<close>)
  next
    case None
    obtain r x where new: "ref_count_sbi_object_new w = (r, x)" by (cases "ref_count_sbi_object_new w")
    note n = refs_new [OF ok new]
    let ?v = "put_session a (s\<lparr>ps_sbi := Some r\<rparr>) x"
    have a: "a < w_next x" using refs_ok_dom(2) [OF ok s(1)] n(7) by simp
    have "session_sbi x a = None" using s None n(3) by (simp add: session_sbi_def)
    then have "refs_ok E ?v"
      using refs_put_session [of E "s\<lparr>ps_sbi := Some r\<rparr>" x a] n(1) a by simp
    moreover have "session_requests x = session_requests w"
      using new by (auto simp: ref_count_sbi_object_new_def session_requests_def Let_def)
    ultimately show ?thesis using that [of ?v r] None new n by simp
  qed
  have sv: "w_sessions v a = Some (s\<lparr>ps_sbi := Some r\<rparr>)" "subs_ok a (s\<lparr>ps_sbi := Some r\<rparr>) v"
    using v s(2) by (auto simp: subs_ok_def active_addrs_def attached_def)
  obtain y where y: "session_build_create api a v = Some y" "refs_ok E y" "w_sessions y = w_sessions v"
      "session_requests y = session_requests v"
    using build_create_result [OF v(2) sv, of api] by blast
  have send: "send_request (Some r) rq y = Some (log_event (Ev_request r rq) y)" for rq
    using session_sends [OF y(2), of a "s\<lparr>ps_sbi := Some r\<rparr>" r] y(3) sv(1) by simp
  have "mbs_session_send_create api a w = Some (log_event (Ev_request r (Rq_session_create a)) y)"
    using s(1) t v(1) y(1,3) sv(1) send
    by (cases "se_tmgi (ps_public s)") (auto simp: mbs_session_send_create_def Let_def)
  then show ?thesis using y v by auto
qed

lemma send_remove_result:
  assumes "refs_ok E w" "w_sessions w a = Some s" "ps_sbi s = Some r"
  shows "mbs_session_send_remove a w = Some (log_event (Ev_request r (Rq_session_remove a)) w)"
  using session_sends [OF assms] assms(2) by (simp add: mbs_session_send_remove_def)

lemma subs_ok_log [simp]: "subs_ok a s (log_event e w) = subs_ok a s w"
  by (simp add: subs_ok_def attached_def)

lemma recreate_result:
  assumes ok: "refs_ok E w" and rdy: "push_ready api a s ps w" and sbi: "ps_sbi s \<noteq> None"
  shows "\<exists>w'. Option.bind (if old then mbs_session_send_remove a w else Some w) (mbs_session_send_create api a) = Some w' \<and>
           refs_ok E w' \<and> session_requests w' = session_requests w @ decision_requests a ps (Push_recreate old)"
proof -
  obtain r where r: "ps_sbi s = Some r" using sbi by auto
  let ?v = "if old then log_event (Ev_request r (Rq_session_remove a)) w else w"
  have s: "w_sessions w a = Some s" "subs_ok a s w"
    "\<forall>t. se_tmgi (ps_public s) = Some t \<longrightarrow> w_tmgis w t \<noteq> None"
    using rdy by (auto simp: push_ready_def)
  have v: "(if old then mbs_session_send_remove a w else Some w) = Some ?v" "refs_ok E ?v"
    "w_sessions ?v a = Some s" "subs_ok a s ?v"
    "\<forall>t. se_tmgi (ps_public s) = Some t \<longrightarrow> w_tmgis ?v t \<noteq> None"
    using send_remove_result [OF ok s(1) r] ok s by auto
  show ?thesis using send_create_result [OF v(2-5), of api] v(1) by auto
qed

lemma push_changes_result:
  assumes ok: "refs_ok E w" and rdy: "push_ready api a s ps w" and dec: "push_decision api s w = Some d"
  shows "\<exists>w'. mbs_session_push_changes api (Some a) w = Some (True, w') \<and> refs_ok E w' \<and>
           session_requests w' = session_requests w @ decision_requests a ps d \<and>
           (d = Push_update \<or> d = Push_subscriptions \<longrightarrow>
              w_subscs w' = subs_after s w \<and> w_sessions w' = (w_sessions w)(a \<mapsto> s\<lparr>ps_deleted := []\<rparr>))"
proof -
  have s: "w_sessions w a = Some s" "subs_ok a s w"
    "\<forall>t. se_tmgi (ps_public s) = Some t \<longrightarrow> w_tmgis w t \<noteq> None"
    "mbs_session_patch_list api a w = Some ps" "ps_is_deleted s \<or> ps_previous s \<noteq> None \<longrightarrow> ps_sbi s \<noteq> None"
    using rdy by (auto simp: push_ready_def)
  note push = mbs_session_push_changes_def s(1)
  show ?thesis
  proof (cases d)
    case Push_remove
    then have del: "ps_is_deleted s"
      using dec by (auto simp: push_decision_def split: option.splits bind_splits if_splits)
    then obtain r where "ps_sbi s = Some r" using s(5) by auto
    then show ?thesis using send_remove_result [OF ok s(1)] ok del Push_remove by (simp add: push)
  next
    case Push_create
    then have "\<not> ps_is_deleted s" "ps_previous s = None"
      using dec by (auto simp: push_decision_def split: option.splits bind_splits if_splits)
    then show ?thesis using send_create_result [OF ok s(1-3), of api] Push_create by (auto simp: push)
  next
    case (Push_recreate old)
    then obtain p where p: "\<not> ps_is_deleted s" "ps_previous s = Some p"
        "mbs_session_both_equal api p (ps_public s) w = Some False"
        "\<not> ssm_addr_equal (se_ssm p) (se_ssm (ps_public s)) \<and> old = (se_ssm p \<noteq> None) \<or>
         ssm_addr_equal (se_ssm p) (se_ssm (ps_public s)) \<and> old = (se_tmgi p \<noteq> None) \<and>
         tmgi_equal (se_tmgi p) (se_tmgi (ps_public s)) w = Some False"
      using dec by (auto simp: push_decision_def split: option.splits bind_splits if_splits)
    have tail: "Option.bind x (\<lambda>w. Option.bind (f w) (\<lambda>w. Some (True, w))) =
        map_option (Pair True) (Option.bind x f)" for x and f :: "world \<Rightarrow> world option"
      by (cases x) (simp_all add: map_option_case split: bind_split option.split)
    have "mbs_session_push_changes api (Some a) w =
        map_option (Pair True)
          (Option.bind (if old then mbs_session_send_remove a w else Some w) (mbs_session_send_create api a))"
      unfolding tail [symmetric] using p
      by (elim disjE conjE) (simp_all add: push mbs_session_public_equal_def)
    then show ?thesis using recreate_result [OF ok rdy, of old] p s(5) Push_recreate by auto
  next
    case Push_update
    then obtain p where p: "\<not> ps_is_deleted s" "ps_previous s = Some p"
        "mbs_session_both_equal api p (ps_public s) w = Some False"
        "ssm_addr_equal (se_ssm p) (se_ssm (ps_public s))"
        "tmgi_equal (se_tmgi p) (se_tmgi (ps_public s)) w = Some True"
      using dec by (auto simp: push_decision_def split: option.splits bind_splits if_splits)
    then obtain r where r: "ps_sbi s = Some r" using s(5) by auto
    let ?v = "log_event (Ev_request r (Rq_session_update a ps)) w"
    have upd: "mbs_session_send_update api a w = Some ?v"
      using s session_sends [OF ok s(1) r] by (simp add: mbs_session_send_update_def)
    have "mbs_session_patch_list api a ?v \<noteq> None"
    proof -
      have "mbs_session_patch_list api a ?v = mbs_session_patch_list api a w"
        unfolding mbs_session_patch_list_def mbs_session_public_patch_list_def session_both_patch_list_def
          tmgi_equal_def time_equal_def opt_word_def log_event_sel ..
      then show ?thesis using s(4) by simp
    qed
    then obtain w' where "mbs_session_subscriptions_update api a ?v = Some w'" "refs_ok E w'" "core_same ?v w'"
        "w_sessions w' = (w_sessions ?v)(a \<mapsto> s\<lparr>ps_deleted := []\<rparr>)" "w_subscs w' = subs_after s ?v"
      using subscriptions_update_result [of E ?v a s r api] ok s r by auto
    moreover have "subs_after s ?v = subs_after s w" unfolding subs_after_def settle_def log_event_sel ..
    ultimately show ?thesis
      using upd p Push_update by (auto simp: push mbs_session_public_equal_def core_same_def)
  next
    case Push_subscriptions
    then obtain p where p: "\<not> ps_is_deleted s" "ps_previous s = Some p"
        "mbs_session_both_equal api p (ps_public s) w = Some True"
      using dec by (auto simp: push_decision_def split: option.splits bind_splits if_splits)
    then obtain r where r: "ps_sbi s = Some r" using s(5) by auto
    show ?thesis
      using subscriptions_update_result [OF ok s(1) r s(2), of api] s(4) p Push_subscriptions
      by (auto simp: push mbs_session_public_equal_def core_same_def)
  qed
qed

end
