(* ===== verification/State_Spec.thy ===== *)
theory State_Spec
  imports Push_Props Example_Api
begin

text \<open>
  The properties of the run-time layer below the session decision: reference counts, the
  text cache and the search of the TMGIs, callback data, and the subscription lists.  The
  example states hold a few objects with their counts.
\<close>

section \<open>Example states\<close>

definition plain_tmgi :: "addr option \<Rightarrow> tmgi" where
  "plain_tmgi r =
     \<lparr>tm_service_id = Some ''0A0B0C'', tm_plmn = 0, tm_expiry = 0, tm_callback = None, tm_cb_data = None,
      tm_sbi = r, tm_repr = None, tm_allocated = True\<rparr>"

definition plain_session :: "addr option \<Rightarrow> session" where
  "plain_session r =
     \<lparr>ps_public = mbs_session_calloc, ps_id = Some ''s1'', ps_new = [], ps_active = None, ps_deleted = [],
      ps_previous = None, ps_create_cb = no_callback, ps_update_cb = no_callback, ps_delete_cb = no_callback,
      ps_is_deleted = False, ps_sbi = r\<rparr>"

definition plain_subscription :: "string option \<Rightarrow> subscription" where
  "plain_subscription i =
     \<lparr>su_area_session = 0, su_flags = 7, su_correlation = Some ''c'', su_expiry = 0, su_callback = None,
      su_cb_data = None, su_id = i, su_session = Some 0, su_changed = False, su_repr = None,
      su_server = None, su_url = None\<rparr>"

text \<open>A session at 0, a TMGI at 1 that holds the SBI object at 2, a subscription at 3.\<close>

definition example_world :: "session \<Rightarrow> subscription \<Rightarrow> world" where
  "example_world s u =
     \<lparr>w_sessions = [0 \<mapsto> s], w_subscs = [3 \<mapsto> u], w_tmgis = [1 \<mapsto> plain_tmgi (Some 2)],
      w_refs = (\<lambda>r. if r = 2 then Some (if ps_sbi s = Some 2 then 2 else 1) else None), w_words = [9 \<mapsto> 77],
      w_ctx = Some \<lparr>ctx_sessions = [0], ctx_tmgis = [1], ctx_notif = None\<rparr>, w_fixed = None,
      w_next = 4, w_log = []\<rparr>"

lemma example_held:
  "held_refs (example_world s u) = opt_ref (ps_sbi s) + {#2#}"
proof -
  have "{..<4::nat} = {0, 1, 2, 3}" by auto
  then show ?thesis
    by (simp add: held_refs_def example_world_def session_sbi_def tmgi_sbi_def plain_tmgi_def)
qed

lemma example_refs_ok:
  assumes "ps_sbi s = None \<or> ps_sbi s = Some 2"
  shows "refs_ok {#} (example_world s u)"
  using assms unfolding refs_ok_def counts_ok_def example_held
  by (auto simp: example_world_def objects_below_def count_cell_def split: if_splits)

lemma example_world_sel [simp]:
  "w_sessions (example_world s u) = [0 \<mapsto> s]" "w_subscs (example_world s u) = [3 \<mapsto> u]"
  "w_tmgis (example_world s u) = [1 \<mapsto> plain_tmgi (Some 2)]" "w_words (example_world s u) = [9 \<mapsto> 77]"
  "w_ctx (example_world s u) = Some \<lparr>ctx_sessions = [0], ctx_tmgis = [1], ctx_notif = None\<rparr>"
  "w_next (example_world s u) = 4" "w_log (example_world s u) = []"
  by (simp_all add: example_world_def)

lemma plain_sel [simp]:
  "ps_sbi (plain_session r) = r" "ps_public (plain_session r) = mbs_session_calloc"
  "\<not> ps_is_deleted (plain_session r)" "ps_new (plain_session r) = []" "ps_active (plain_session r) = None"
  "ps_deleted (plain_session r) = []" "ps_previous (plain_session r) = None"
  "su_id (plain_subscription i) = i" "su_session (plain_subscription i) = Some 0"
  "tm_sbi (plain_tmgi r) = r" "tm_repr (plain_tmgi r) = None"
  by (simp_all add: plain_session_def plain_subscription_def plain_tmgi_def)

lemma calloc_sel [simp]:
  "se_tmgi mbs_session_calloc = None" "se_ssm mbs_session_calloc = None"
  by (simp_all add: mbs_session_calloc_def)

abbreviation small_world :: world where
  "small_world \<equiv> example_world (plain_session None) (plain_subscription None)"

section \<open>TMGIs\<close>

text \<open>Sending an allocation for a non-empty list of live new TMGIs returns; the request is sent
  with a new SBI object, every new TMGI holds exactly that object afterwards (having given up
  its old one), every other TMGI keeps its own, and all reference counts are right.\<close>

theorem allocate_shares_object:
  assumes "refs_ok E w" "new \<noteq> []" "\<forall>a\<in>set new. w_tmgis w a \<noteq> None"
    and "\<forall>as. refresh = Some as \<longrightarrow> (\<forall>a\<in>set as. w_tmgis w a \<noteq> None)"
  shows "\<exists>w'. tmgi_list_send_allocate api (Some new) refresh w = Some w' \<and> refs_ok E w' \<and>
           last (w_log w') = Ev_request (w_next w) (Rq_tmgi_allocate (Some new) refresh) \<and>
           (\<forall>a. tmgi_sbi w' a = (if a \<in> set new then Some (w_next w) else tmgi_sbi w a))"
  using tmgi_allocate_new [OF assms, of api] by auto

theorem allocate_shares_object_witness:
  "\<exists>w'. tmgi_list_send_allocate example_api (Some [1]) None small_world = Some w' \<and> refs_ok {#} w' \<and>
     last (w_log w') = Ev_request (w_next small_world) (Rq_tmgi_allocate (Some [1]) None) \<and>
     (\<forall>a. tmgi_sbi w' a = (if a \<in> set [1] then Some (w_next small_world) else tmgi_sbi small_world a))"
  by (rule allocate_shares_object) (simp_all add: example_refs_ok)

text \<open>An allocation for an empty list of new TMGIs uses the SBI object after it was freed, and a
  refresh of an empty list reads the first TMGI of the empty list: both are undefined, so
  allocating or refreshing all TMGIs is undefined when there is none to allocate or refresh.\<close>

theorem allocate_all_empty:
  assumes "refs_ok E w" "w_ctx w = Some c"
    and "\<forall>a\<in>set (ctx_tmgis c). \<exists>t. w_tmgis w a = Some t \<and> tm_allocated t \<and> \<not> needs_refresh now t"
  shows "tmgi_send_allocate_all api w = None \<and> tmgi_send_refresh_all api now w = None"
proof -
  have none: "filter_tmgis P as w = Some []"
    if "\<forall>a\<in>set as. \<exists>t. w_tmgis w a = Some t \<and> \<not> P t" for P as
    using that by (induction as) auto
  have "filter_tmgis (\<lambda>t. \<not> tm_allocated t) (ctx_tmgis c) w = Some []"
    by (rule none) (use assms(3) in blast)
  moreover have "filter_tmgis (needs_refresh now) (ctx_tmgis c) w = Some []"
    by (rule none) (use assms(3) in blast)
  ultimately show ?thesis
    using assms(2) tmgi_allocate_empty [OF assms(1), of api] tmgi_refresh_empty [of api w]
    by (simp add: tmgi_send_allocate_all_def tmgi_send_refresh_all_def context_tmgis_def)
qed

theorem allocate_all_empty_witness:
  "tmgi_send_allocate_all example_api small_world = None \<and>
   tmgi_send_refresh_all example_api 100 small_world = None"
  by (rule allocate_all_empty [where E = "{#}" and c = "\<lparr>ctx_sessions = [0], ctx_tmgis = [1], ctx_notif = None\<rparr>"])
     (simp_all add: example_refs_ok needs_refresh_def plain_tmgi_def)

text \<open>Copying a live TMGI into a new object returns; the new object is entered into the context,
  carries the service id, the PLMN, the expiry time and the callback of the source and shares
  its SBI object, with the count raised, but counts as not allocated.\<close>

theorem tmgi_copy_result:
  assumes "refs_ok E w" "w_tmgis w sa = Some s" "w_ctx w = Some c"
  shows "\<exists>w' d. tmgi_copy None (Some sa) w = Some (Some (w_next w), w') \<and> refs_ok E w' \<and>
           w_tmgis w' = (w_tmgis w)(w_next w \<mapsto> d) \<and> tmgi_both_equal s d \<and>
           tm_expiry d = tm_expiry s \<and> tm_sbi d = tm_sbi s \<and> tm_callback d = tm_callback s \<and>
           \<not> tm_allocated d \<and> w_ctx w' = Some (c\<lparr>ctx_tmgis := ctx_tmgis c @ [w_next w]\<rparr>)"
proof -
  obtain w' where "tmgi_copy None (Some sa) w = Some (Some (w_next w), w')" "refs_ok E w'"
      "w_ctx w' = Some (c\<lparr>ctx_tmgis := ctx_tmgis c @ [w_next w]\<rparr>)"
      "w_tmgis w' = (w_tmgis w)(w_next w \<mapsto> tmgi_copied s)"
    using tmgi_copy_new [OF assms] by blast
  then show ?thesis
    by (intro exI [of _ w'] exI [of _ "tmgi_copied s"]) (simp add: tmgi_copied_def eq_simps)
qed

theorem tmgi_copy_result_witness:
  "\<exists>w' d. tmgi_copy None (Some 1) small_world = Some (Some 4, w') \<and>
     refs_ok {#} w' \<and> w_tmgis w' = [1 \<mapsto> plain_tmgi (Some 2), 4 \<mapsto> d] \<and> tm_sbi d = Some 2"
  using tmgi_copy_result [of "{#}" small_world 1
      "plain_tmgi (Some 2)" "\<lparr>ctx_sessions = [0], ctx_tmgis = [1], ctx_notif = None\<rparr>"]
  by (auto simp: example_refs_ok)

text \<open>Releasing a TMGI that is in the context list returns, takes it out of the list, gives up
  its reference (freeing the SBI object with the last one) and keeps every other count.\<close>

theorem tmgi_free_result:
  assumes "refs_ok E w" "w_tmgis w a = Some t" "w_ctx w = Some c" "a \<in> set (ctx_tmgis c)"
  shows "\<exists>w'. tmgi_free (Some a) w = Some w' \<and> refs_ok E w' \<and> w_tmgis w' = (w_tmgis w)(a := None) \<and>
           w_ctx w' = Some (c\<lparr>ctx_tmgis := remove1 a (ctx_tmgis c)\<rparr>)"
  using tmgi_free_refs [OF assms] by blast

theorem tmgi_free_result_witness:
  "\<exists>w'. tmgi_free (Some 1) small_world = Some w' \<and>
     refs_ok {#} w' \<and> w_tmgis w' = [1 \<mapsto> plain_tmgi (Some 2)](1 := None) \<and>
     w_ctx w' = Some (\<lparr>ctx_sessions = [0], ctx_tmgis = [1], ctx_notif = None\<rparr>\<lparr>ctx_tmgis := remove1 1 [1]\<rparr>)"
  using tmgi_free_result [of "{#}" small_world 1
      "plain_tmgi (Some 2)" "\<lparr>ctx_sessions = [0], ctx_tmgis = [1], ctx_notif = None\<rparr>"]
  by (simp add: example_refs_ok)

text \<open>The cached text of a TMGI is always its current text: when that holds for all TMGIs, asking
  for the text returns the current one and keeps it so, and every setter keeps it so.\<close>

theorem tmgi_text_cache_coherent:
  assumes "tmgi_caches_ok api w" "w_tmgis w a = Some t"
  shows "(\<exists>w'. tmgi_repr api (Some a) w = Some (Some (tmgi_repr_text api a t), w') \<and> tmgi_caches_ok api w') \<and>
         tmgi_caches_ok api (put_tmgi a (tmgi_set_mbs_service_id sid t) w) \<and>
         tmgi_caches_ok api (put_tmgi a (tmgi_set_plmn api mcc mnc t) w) \<and>
         tmgi_caches_ok api (put_tmgi a (tmgi_set_expiry_time e t) w) \<and>
         tmgi_caches_ok api (put_tmgi a (tmgi_set_callback cb d t) w)"
proof -
  have "tmgi_cache_ok api a t" using assms by (simp add: tmgi_caches_ok_def)
  note set = tmgi_cache_setters [OF this]
  have "tmgi_caches_ok api (put_tmgi a x w)" if "tmgi_cache_ok api a x" for x
    using that assms(1) by (simp add: tmgi_caches_ok_def)
  then show ?thesis using set tmgi_repr_result [OF assms] by blast
qed

theorem tmgi_text_cache_coherent_witness:
  "(\<exists>w'. tmgi_repr example_api (Some 1) small_world =
        Some (Some (tmgi_repr_text example_api 1 (plain_tmgi (Some 2))), w') \<and> tmgi_caches_ok example_api w') \<and>
   tmgi_caches_ok example_api (put_tmgi 1 (tmgi_set_mbs_service_id (Some ''1'') (plain_tmgi (Some 2))) small_world) \<and>
   tmgi_caches_ok example_api (put_tmgi 1 (tmgi_set_plmn example_api 262 1 (plain_tmgi (Some 2))) small_world) \<and>
   tmgi_caches_ok example_api (put_tmgi 1 (tmgi_set_expiry_time 5 (plain_tmgi (Some 2))) small_world) \<and>
   tmgi_caches_ok example_api (put_tmgi 1 (tmgi_set_callback None None (plain_tmgi (Some 2))) small_world)"
  by (rule tmgi_text_cache_coherent) (auto simp: tmgi_caches_ok_def)

text \<open>The TMGI that a response of the MB-SMF is attributed to is the first one of the context
  list that matches the received identity.\<close>

theorem find_matching_first:
  assumes "tmgi_find_matching_openapi_type api (Some m) w = Some (Some a)"
  shows "\<exists>xs ys t c. w_ctx w = Some c \<and> ctx_tmgis c = xs @ a # ys \<and> w_tmgis w a = Some t \<and> tmgi_matches api m t \<and>
           (\<forall>x\<in>set xs. \<exists>u. w_tmgis w x = Some u \<and> \<not> tmgi_matches api m u)"
proof -
  obtain c where c: "w_ctx w = Some c" "first_matching (tmgi_matches api m) (ctx_tmgis c) w = Some (Some a)"
    using assms by (auto simp: tmgi_find_matching_openapi_type_def context_tmgis_def split: bind_splits)
  then show ?thesis using first_matching_Some [OF c(2)] by auto
qed

theorem find_matching_first_witness:
  "\<exists>t. w_tmgis small_world 1 = Some t \<and> tmgi_matches example_api (Some ''0A0B0C'', ''0'', ''0'') t"
proof -
  have "dec_str 0 = ''0''" by (simp add: dec_str_def)
  then have "tmgi_matches example_api (Some ''0A0B0C'', ''0'', ''0'') (plain_tmgi (Some 2))"
    by (simp add: tmgi_matches_def plain_tmgi_def example_api_def)
  then have "tmgi_find_matching_openapi_type example_api (Some (Some ''0A0B0C'', ''0'', ''0''))
      small_world = Some (Some 1)"
    by (simp add: tmgi_find_matching_openapi_type_def context_tmgis_def)
  then show ?thesis using find_matching_first by blast
qed

section \<open>Sessions: callbacks and TMGI\<close>


definition shared_callbacks :: session where
  "shared_callbacks =
     (plain_session None)\<lparr>ps_create_cb := \<lparr>cb_fun = Some 1, cb_data = Some 5, cb_free = Some 2\<rparr>,
        ps_update_cb := \<lparr>cb_fun = Some 1, cb_data = Some 5, cb_free = Some 2\<rparr>,
        ps_delete_cb := \<lparr>cb_fun = Some 1, cb_data = Some 6, cb_free = Some 3\<rparr>\<rparr>"


text \<open>Setting all three callbacks frees every old data pointer that is not the new one exactly
  once, never the new one, and all three hold the new one afterwards.\<close>

theorem set_callback_frees_old:
  assumes "all_freeable s" "\<not> ps_is_deleted s" "set_callback_freefn cb data fr s = (ok, t, es)"
  shows "ok \<and> (\<forall>d. times_freed d es = (if Some d \<in> callback_data s \<and> data \<noteq> Some d then 1 else 0)) \<and>
         callback_data t = {data}"
  using set_callback_releases [OF assms] by blast

theorem set_callback_frees_old_witness:
  "\<exists>ok t es. set_callback_freefn (Some 9) (Some 6) (Some 3) shared_callbacks = (ok, t, es) \<and>
     ok \<and> (\<forall>d. times_freed d es = (if Some d \<in> callback_data shared_callbacks \<and> Some 6 \<noteq> Some d then 1 else 0)) \<and>
     callback_data t = {Some 6}"
proof -
  obtain ok t es where *: "set_callback_freefn (Some 9) (Some 6) (Some 3) shared_callbacks = (ok, t, es)"
    by (cases "set_callback_freefn (Some 9) (Some 6) (Some 3) shared_callbacks")
  have "all_freeable shared_callbacks" "\<not> ps_is_deleted shared_callbacks"
    by (simp_all add: all_freeable_def shared_callbacks_def)
  then show ?thesis using * set_callback_frees_old [OF _ _ *] by blast
qed

text \<open>Giving a session a TMGI returns, keeps all reference counts right, and afterwards the
  session has this TMGI or one that compares as equal; when the session changed, it shares the
  SBI object of the TMGI and does not request one any more.\<close>

theorem set_tmgi_result:
  assumes "refs_ok E w" "w_sessions w a = Some s" "\<not> ps_is_deleted s" "w_tmgis w t = Some x"
    and "\<forall>o1. se_tmgi (ps_public s) = Some o1 \<longrightarrow> w_tmgis w o1 \<noteq> None"
  shows "\<exists>w' s' y. mbs_session_set_tmgi (Some a) (Some t) w = Some (True, w') \<and> refs_ok E w' \<and>
           w_sessions w' = (w_sessions w)(a \<mapsto> s') \<and> se_tmgi (ps_public s') = Some y \<and>
           (y = t \<or> tmgi_equal (Some t) (Some y) w = Some True) \<and>
           (s' \<noteq> s \<longrightarrow> y = t \<and> ps_sbi s' = tm_sbi x \<and> \<not> se_tmgi_req (ps_public s'))"
  using mbs_session_set_tmgi_result [OF assms] by blast

theorem set_tmgi_result_witness:
  "\<exists>w' s'. mbs_session_set_tmgi (Some 0) (Some 1) small_world = Some (True, w') \<and> refs_ok {#} w' \<and>
     w_sessions w' = (w_sessions small_world)(0 \<mapsto> s') \<and> se_tmgi (ps_public s') = Some 1 \<and>
     ps_sbi s' = Some 2 \<and> \<not> se_tmgi_req (ps_public s')"
proof -
  have no: "s' \<noteq> plain_session None" if "se_tmgi (ps_public s') = Some y" for s' y
    using that by auto
  show ?thesis
    using set_tmgi_result [of "{#}" small_world 0 "plain_session None" 1 "plain_tmgi (Some 2)"] no
    by (auto simp: example_refs_ok)
qed

section \<open>Sessions: subscriptions\<close>

text \<open>Adding a subscription that the MB-SMF does not know yet appends it to the new list of the
  session, attaches it to the session and marks it for creation; nothing else changes in the
  subscription or in the session except that the table of active subscriptions exists.\<close>

theorem add_new_subscription:
  assumes "w_sessions w a = Some s" "\<not> ps_is_deleted s" "w_subscs w b = Some u" "su_id u = None"
  shows "\<exists>w'. mbs_session_add_subscription (Some a) (Some b) w = Some (True, w') \<and>
           w_sessions w' = (w_sessions w)(a \<mapsto>
             s\<lparr>ps_new := ps_new s @ [b], ps_active := Some (case ps_active s of None \<Rightarrow> [] | Some h \<Rightarrow> h)\<rparr>) \<and>
           w_subscs w' = (w_subscs w)(b \<mapsto> u\<lparr>su_session := Some a, su_changed := True\<rparr>)"
  by (rule add_subscription_result [OF assms])

theorem add_new_subscription_witness:
  "\<exists>w'. mbs_session_add_subscription (Some 0) (Some 3) small_world = Some (True, w') \<and>
     w_sessions w' = (w_sessions small_world)(0 \<mapsto>
       (plain_session None)\<lparr>ps_new := ps_new (plain_session None) @ [3],
          ps_active := Some (case ps_active (plain_session None) of None \<Rightarrow> [] | Some h \<Rightarrow> h)\<rparr>) \<and>
     w_subscs w' = (w_subscs small_world)(3 \<mapsto> (plain_subscription None)\<lparr>su_session := Some 0, su_changed := True\<rparr>)"
  by (rule add_new_subscription) simp_all

text \<open>Removing a subscription that the MB-SMF knows takes it out of the active table, queues it
  for deletion and keeps the object until the request is sent.\<close>

theorem remove_known_subscription:
  assumes "w_sessions w a = Some s" "\<not> ps_is_deleted s" "w_subscs w b = Some u" "su_session u = Some a"
    and "su_id u = Some i"
  shows "\<exists>w' s'. mb_smf_sc_mbs_status_subscription_delete (Some b) w = Some w' \<and>
           w_sessions w' = (w_sessions w)(a \<mapsto> s') \<and> ps_deleted s' = ps_deleted s @ [b] \<and>
           (\<forall>h. ps_active s = Some h \<longrightarrow> ps_active s' = Some (AList.delete i h)) \<and>
           w_subscs w' = (w_subscs w)(b \<mapsto> u\<lparr>su_changed := True\<rparr>)"
  using remove_active_subscription [OF assms] assms(3-5)
  by (auto simp: mb_smf_sc_mbs_status_subscription_delete_def)

abbreviation subscribed_world :: world where
  "subscribed_world \<equiv>
     example_world ((plain_session (Some 2))\<lparr>ps_active := Some [(''i'', 3)]\<rparr>) (plain_subscription (Some ''i''))"

theorem remove_known_subscription_witness:
  "\<exists>w' s'. mb_smf_sc_mbs_status_subscription_delete (Some 3) subscribed_world = Some w' \<and>
     w_sessions w' = (w_sessions subscribed_world)(0 \<mapsto> s') \<and> ps_deleted s' = [3] \<and> ps_active s' = Some [] \<and>
     w_subscs w' = (w_subscs subscribed_world)(3 \<mapsto> (plain_subscription (Some ''i''))\<lparr>su_changed := True\<rparr>)"
  using remove_known_subscription [of subscribed_world 0
      "(plain_session (Some 2))\<lparr>ps_active := Some [(''i'', 3)]\<rparr>" 3 "plain_subscription (Some ''i'')" "''i''"]
  by auto

text \<open>Removing a subscription that still waits for its creation is undefined: the object is
  released and then written to.\<close>

theorem remove_waiting_undefined:
  assumes "w_sessions w a = Some s" "\<not> ps_is_deleted s" "w_subscs w b = Some u" "su_session u = Some a"
    and "su_id u = None" "b \<in> set (ps_new s)"
  shows "mb_smf_sc_mbs_status_subscription_delete (Some b) w = None"
  using remove_waiting_subscription [OF assms] assms(3,4)
  by (simp add: mb_smf_sc_mbs_status_subscription_delete_def)

theorem remove_waiting_undefined_witness:
  "mb_smf_sc_mbs_status_subscription_delete (Some 3)
     (example_world ((plain_session None)\<lparr>ps_new := [3]\<rparr>) (plain_subscription None)) = None"
  by (rule remove_waiting_undefined [where a = 0 and s = "(plain_session None)\<lparr>ps_new := [3]\<rparr>"
        and u = "plain_subscription None"]) simp_all

text \<open>Releasing a session that has an active subscription is undefined: the function that frees
  the subscriptions takes the session for the hash table.\<close>

theorem delete_with_active_undefined:
  assumes "w_sessions w a = Some s" "ps_active s = Some (k # h)"
  shows "mbs_session_delete (Some a) w = None"
  by (rule delete_with_active_subscription [OF assms])

theorem delete_with_active_undefined_witness: "mbs_session_delete (Some 0) subscribed_world = None"
  by (rule delete_with_active_undefined [where k = "(''i'', 3)" and h = "[]"
        and s = "(plain_session (Some 2))\<lparr>ps_active := Some [(''i'', 3)]\<rparr>"]) simp_all

end
