(* ===== verification/Sbi_Message.thy ===== *)
theory Sbi_Message
  imports Session_Push
begin

text \<open>
  What the handlers of the library are given: the parsed messages of Open5GS
  (\<open>ogs_sbi_message_t\<close> with the OpenAPI objects the handlers read), responses, transactions
  and the events of the application's event loop.  An OpenAPI pointer that may be \<open>NULL\<close> is
  an option; a list node without data is \<open>None\<close>; a \<open>NULL\<close> list is walked like an empty one.
\<close>

section \<open>OpenAPI objects\<close>

text \<open>\<open>OpenAPI_tunnel_address_t\<close>\<close>

record tunnel_address =
  ta_ipv4 :: "string option"
  ta_ipv6 :: "string option"
  ta_port :: int

text \<open>\<open>OpenAPI_mbs_session_event_report_t\<close>; the tunnels are those of \<open>ingress_tun_addr_info\<close>.\<close>

datatype report_type = Rt_tmgi_expiry | Rt_delivery_status | Rt_ingress_tunnel | Rt_other
datatype reported_delivery = Bds_started | Bds_terminated | Bds_other

record event_report =
  er_time_stamp :: string
  er_type :: report_type
  er_delivery :: reported_delivery
  er_tunnels :: "tunnel_address option list option"

text \<open>\<open>OpenAPI_mbs_session_event_report_list_t\<close>\<close>

record event_report_list =
  rl_correlation :: "string option"
  rl_reports :: "event_report option list option"

text \<open>An IP address of \<open>OpenAPI_ssm_t\<close>, and the members of \<open>OpenAPI_ext_mbs_session_t\<close> the
  response handler reads: a missing \<open>mbs_session_id\<close> is \<open>None\<close>, one without an SSM is
  \<open>Some None\<close>.\<close>

record api_ip_addr =
  ip_v4 :: "string option"
  ip_v6 :: "string option"

record api_session =
  as_tunnels :: "tunnel_address option list option"
  as_tmgi :: "api_tmgi option"
  as_expiration :: "string option"
  as_session_id :: "(api_ip_addr option \<times> api_ip_addr option) option option"

record create_rsp_data =
  cr_session :: "api_session option"
  cr_events :: "event_report_list option"

record tmgi_allocated_data =
  al_tmgis :: "api_tmgi option list option"
  al_expiration :: "string option"

section \<open>Messages, responses and transactions\<close>

text \<open>The result of \<open>ogs_sbi_parse_header\<close> or \<open>ogs_sbi_parse_response\<close>.\<close>

record sbi_message =
  ms_res_status :: int
  ms_service :: "string option"
  ms_resource0 :: "string option"
  ms_method :: "string option"
  ms_content_type :: "string option"
  ms_location :: "string option"
  ms_create_rsp :: "create_rsp_data option"
  ms_tmgi_allocated :: "tmgi_allocated_data option"
  ms_problem :: "string option"
  ms_search_result :: bool

text \<open>What the body of a response to a subscription request parses to; the object has the
  correlation id of the subscription and the list of reports that already happened.\<close>

datatype subscribe_body =
    Body_not_json
  | Body_not_subscription
  | Body_subscription "string option" "event_report option list option option"

text \<open>A response with the outcome of the two ways to parse it (whether the parser succeeded,
  and the message it leaves).\<close>

record sbi_response =
  rs_status :: int
  rs_full :: "bool \<times> sbi_message"
  rs_header :: "bool \<times> sbi_message"
  rs_subscribe :: subscribe_body

text \<open>The body of the TMGI allocation request that is kept in the transaction, and the
  \<open>tmgi-list\<close> parameter of a deallocation request.\<close>

datatype allocate_body =
    Alloc_not_json
  | Alloc_not_recognised
  | Alloc_request "api_tmgi option list"

datatype tmgi_list_param =
    Param_missing
  | Param_not_json
  | Param_array "api_tmgi option list"
  | Param_object "api_tmgi option"
  | Param_other

datatype xact_service = Sv_nmbsmf_tmgi | Sv_nmbsmf_mbs_session | Sv_other

text \<open>\<open>ogs_sbi_xact_t\<close> with its request; \<open>xa_instance\<close> says that discovery finds an NF instance
  for the transaction.\<close>

record sbi_xact =
  xa_sbi :: "addr option"
  xa_service :: xact_service
  xa_method :: "string option"
  xa_resource0 :: "string option"
  xa_resource1 :: "string option"
  xa_resource2 :: "string option"
  xa_allocate :: allocate_body
  xa_tmgi_list :: tmgi_list_param
  xa_instance :: bool

text \<open>A request that reaches a server of the process: the stream it came on, the server of that
  stream, its parsed header, the URI and the parsed body (\<open>None\<close> when it is not a
  \<open>StatusNotifyReqData\<close>; \<open>Some None\<close> when its \<open>event_list\<close> is missing).\<close>

record server_request =
  sr_stream :: "nat option"
  sr_server :: "addr option"
  sr_header :: "bool \<times> sbi_message"
  sr_uri :: "string option"
  sr_json :: bool
  sr_notify :: "event_report option list option option option"

datatype timer_id = Timer_sbi_client_wait | Timer_other

text \<open>\<open>ogs_event_t\<close>: a transaction is present when its id is in the range of the pool and names
  a live transaction.\<close>

datatype ogs_event =
    Sbi_server "server_request option"
  | Sbi_client "sbi_xact option" sbi_response
  | Sbi_timer timer_id "sbi_xact option"
  | Other_event

section \<open>Operations of Open5GS on transactions and streams\<close>

text \<open>\<open>ogs_sbi_xact_remove\<close> unlinks the transaction from the list in its SBI object, which has to
  be alive; so has the object of a request that is sent on to the discovered instance.\<close>

definition xact_remove :: "addr option \<Rightarrow> world \<Rightarrow> world option" where
  "xact_remove p w =
     (case p of
        None \<Rightarrow> None
      | Some r \<Rightarrow> (case w_refs w r of None \<Rightarrow> None | Some _ \<Rightarrow> Some (log_event (Ev_xact_remove r) w)))"

definition xact_forward :: "addr option \<Rightarrow> world \<Rightarrow> world option" where
  "xact_forward p w =
     (case p of
        None \<Rightarrow> None
      | Some r \<Rightarrow> (case w_refs w r of None \<Rightarrow> None | Some _ \<Rightarrow> Some (log_event (Ev_xact_forward r) w)))"

definition is_2xx :: "int \<Rightarrow> bool" where
  "is_2xx s \<longleftrightarrow> 200 \<le> s \<and> s < 300"

end
