(* ===== verification/Tmgi_Handle.thy ===== *)
theory Tmgi_Handle
  imports Sbi_Message
begin

text \<open>
  \<open>nmbsmf-tmgi-handle.c\<close> and \<open>nnrf-disc-handle.c\<close>: the responses of the MB-SMF to the
  allocation, refresh and deallocation of TMGIs, and the answer of the NRF to a discovery.
\<close>

definition tmgi_do_callback :: "result_code \<Rightarrow> string option \<Rightarrow> addr \<Rightarrow> world \<Rightarrow> world option" where
  "tmgi_do_callback result problem a w = do {
     t \<leftarrow> w_tmgis w a;
     (case tm_callback t of
        None \<Rightarrow> Some w
      | Some f \<Rightarrow> Some (log_event (Ev_tmgi_callback f a result problem (tm_cb_data t)) w))
   }"

section \<open>Allocation and refresh\<close>

text \<open>The three setters with what the response says of one TMGI; the country and network codes
  are read as 64-bit numbers and truncated.\<close>

definition tmgi_assign :: "ogs_api \<Rightarrow> int \<Rightarrow> api_tmgi \<Rightarrow> tmgi \<Rightarrow> tmgi" where
  "tmgi_assign api expiry m t =
     (case m of
        (sid, mcc, mnc) \<Rightarrow>
          tmgi_set_expiry_time expiry
            (tmgi_set_plmn api (ucast (uint64_from_string api mcc)) (ucast (uint64_from_string api mnc))
              (tmgi_set_mbs_service_id sid t)))"

fun tmgi_allocated_list ::
  "ogs_api \<Rightarrow> int \<Rightarrow> api_tmgi option list \<Rightarrow> world \<Rightarrow> (bool \<times> world) option" where
  "tmgi_allocated_list api expiry [] w = Some (True, w)"
| "tmgi_allocated_list api expiry (None # ms) w = Some (False, w)"
| "tmgi_allocated_list api expiry (Some m # ms) w = do {
     r \<leftarrow> tmgi_find_matching_openapi_type api (Some m) w;
     (case r of
        None \<Rightarrow> tmgi_allocated_list api expiry ms w
      | Some a \<Rightarrow> do {
          t \<leftarrow> w_tmgis w a;
          w \<leftarrow> tmgi_do_callback Ogs_ok None a (put_tmgi a (tmgi_assign api expiry m t) w);
          tmgi_allocated_list api expiry ms w
        })
   }"

fun tmgi_refresh_errors ::
  "ogs_api \<Rightarrow> string option \<Rightarrow> api_tmgi option list \<Rightarrow> world \<Rightarrow> world option" where
  "tmgi_refresh_errors api problem [] w = Some w"
| "tmgi_refresh_errors api problem (None # ms) w = tmgi_refresh_errors api problem ms w"
| "tmgi_refresh_errors api problem (Some m # ms) w = do {
     r \<leftarrow> tmgi_find_matching_openapi_type api (Some m) w;
     w \<leftarrow> (case r of None \<Rightarrow> Some w | Some a \<Rightarrow> tmgi_do_callback Ogs_error problem a w);
     tmgi_refresh_errors api problem ms w
   }"

text \<open>The expiry time of the response in seconds, 0 when it is missing or not understood.\<close>

definition allocated_expiry :: "ogs_api \<Rightarrow> string option \<Rightarrow> int" where
  "allocated_expiry api s =
     (case s of
        None \<Rightarrow> 0
      | Some e \<Rightarrow> (case time_from_string api e of None \<Rightarrow> 0 | Some t \<Rightarrow> time_sec api t))"

definition nmbsmf_tmgi_allocated ::
  "ogs_api \<Rightarrow> sbi_xact \<Rightarrow> sbi_message \<Rightarrow> world \<Rightarrow> (bool \<times> world) option" where
  "nmbsmf_tmgi_allocated api xact message w =
     (if is_2xx (ms_res_status message) then
        (case ms_tmgi_allocated message of
           None \<Rightarrow> Some (False, w)
         | Some d \<Rightarrow>
             (case al_tmgis d of
                None \<Rightarrow> Some (False, w)
              | Some [] \<Rightarrow> Some (False, w)
              | Some (m # ms) \<Rightarrow>
                  tmgi_allocated_list api (allocated_expiry api (al_expiration d)) (m # ms) w))
      else
        (case xa_allocate xact of
           Alloc_not_json \<Rightarrow> Some (False, w)
         | Alloc_not_recognised \<Rightarrow> Some (False, w)
         | Alloc_request ms \<Rightarrow>
             map_option (Pair True) (tmgi_refresh_errors api (ms_problem message) ms w)))"

section \<open>Deallocation\<close>

text \<open>The TMGI leaves the context list; it is not freed.\<close>

definition do_tmgi_remove :: "ogs_api \<Rightarrow> api_tmgi option \<Rightarrow> sbi_message \<Rightarrow> world \<Rightarrow> world option" where
  "do_tmgi_remove api m message w = do {
     r \<leftarrow> tmgi_find_matching_openapi_type api m w;
     (case r of
        None \<Rightarrow> Some w
      | Some a \<Rightarrow> do {
          w \<leftarrow> (if is_2xx (ms_res_status message) then tmgi_do_callback Ogs_done None a w
                else tmgi_do_callback Ogs_error (ms_problem message) a w);
          map_option snd (context_remove_tmgi (Some a) w)
        })
   }"

fun do_tmgi_remove_all :: "ogs_api \<Rightarrow> api_tmgi option list \<Rightarrow> sbi_message \<Rightarrow> world \<Rightarrow> world option" where
  "do_tmgi_remove_all api [] message w = Some w"
| "do_tmgi_remove_all api (m # ms) message w = do {
     w \<leftarrow> do_tmgi_remove api m message w;
     do_tmgi_remove_all api ms message w
   }"

definition nmbsmf_tmgi_deallocated :: "ogs_api \<Rightarrow> sbi_xact \<Rightarrow> sbi_message \<Rightarrow> world \<Rightarrow> world option" where
  "nmbsmf_tmgi_deallocated api xact message w =
     (case xa_tmgi_list xact of
        Param_missing \<Rightarrow> Some w
      | Param_not_json \<Rightarrow> Some w
      | Param_array ms \<Rightarrow> do_tmgi_remove_all api ms message w
      | Param_object m \<Rightarrow> do_tmgi_remove api m message w
      | Param_other \<Rightarrow> Some w)"

section \<open>Discovery\<close>

text \<open>A response without a search result is parsed once more in full.  \<open>True\<close> is \<open>OGS_OK\<close>: the
  transaction lives on as the request to the instance that was found.\<close>

definition nnrf_disc_handle ::
  "sbi_xact \<Rightarrow> sbi_message \<Rightarrow> sbi_response \<Rightarrow> world \<Rightarrow> (bool \<times> world) option" where
  "nnrf_disc_handle xact message response w =
     (if switch_string (ms_resource0 message) = ''nf-instances'' \<and>
         switch_string (ms_method message) = ''GET'' then
        (let found = (if ms_search_result message then True
                      else ms_search_result (snd (rs_full response)))
         in if \<not> found then Some (False, w)
            else if \<not> xa_instance xact then Some (False, w)
            else map_option (Pair True) (xact_forward (xa_sbi xact) w))
      else Some (False, w))"

end
