(* ===== verification/Session_Handle.thy ===== *)
theory Session_Handle
  imports Sbi_Message
begin

text \<open>
  \<open>nmbsmf-mbs-session-handle.c\<close>: the responses of the MB-SMF to the creation, change and
  removal of an MBS session and to a status subscription, and the delivery of event reports
  to the application.  A handler returns the value of the C function, where it has one, and
  the state; the effects it made before it found an error are part of that state.
\<close>

section \<open>Event reports\<close>

definition report_tunnel ::
  "ogs_api \<Rightarrow> tunnel_address option \<Rightarrow> (8 word list option \<times> 8 word list option \<times> 16 word) option" where
  "report_tunnel api p =
     (case p of
        None \<Rightarrow> None
      | Some t \<Rightarrow>
          Some (Option.bind (ta_ipv4 t) (inet_pton4 api), Option.bind (ta_ipv6 t) (inet_pton6 api),
                word_of_int (ta_port t)))"

fun report_tunnels ::
  "ogs_api \<Rightarrow> tunnel_address option list \<Rightarrow> (8 word list option \<times> 8 word list option \<times> 16 word) list option" where
  "report_tunnels api [] = Some []"
| "report_tunnels api (t # ts) = do {
     x \<leftarrow> report_tunnel api t;
     xs \<leftarrow> report_tunnels api ts;
     Some (x # xs)
   }"

text \<open>The result that is handed to the application for one report; the event type starts as
  \<open>MBS_SESSION_EVENT_OTHER\<close>, which is 0.\<close>

definition report_notification ::
  "ogs_api \<Rightarrow> subscription \<Rightarrow> int \<Rightarrow> event_report \<Rightarrow> notification option" where
  "report_notification api u time r =
     (let n = \<lparr>nf_event_type = 0, nf_type_name = None, nf_session = su_session u,
               nf_correlation = su_correlation u, nf_time = time, nf_delivery = Delivery_started,
               nf_tunnels = []\<rparr>
      in case er_type r of
           Rt_tmgi_expiry \<Rightarrow> Some (n\<lparr>nf_event_type := 1, nf_type_name := Some ''MBS_REL_TMGI_EXPIRY''\<rparr>)
         | Rt_delivery_status \<Rightarrow>
             (let n = n\<lparr>nf_event_type := 2, nf_type_name := Some ''BROADCAST_DELIVERY_STATUS''\<rparr>
              in case er_delivery r of
                   Bds_started \<Rightarrow> Some (n\<lparr>nf_delivery := Delivery_started\<rparr>)
                 | Bds_terminated \<Rightarrow> Some (n\<lparr>nf_delivery := Delivery_terminated\<rparr>)
                 | Bds_other \<Rightarrow> Some n)
         | Rt_ingress_tunnel \<Rightarrow>
             (let n = n\<lparr>nf_event_type := 4, nf_type_name := Some ''INGRESS_TUNNEL_ADD_CHANGE''\<rparr>
              in case er_tunnels r of
                   None \<Rightarrow> None
                 | Some ts \<Rightarrow> do {
                     l \<leftarrow> report_tunnels api ts;
                     Some (n\<lparr>nf_tunnels := l\<rparr>)
                   })
         | Rt_other \<Rightarrow> Some n)"

fun deliver_reports ::
  "ogs_api \<Rightarrow> nat \<Rightarrow> subscription \<Rightarrow> event_report option list \<Rightarrow> world \<Rightarrow> world option" where
  "deliver_reports api f u [] w = Some w"
| "deliver_reports api f u (None # rs) w = None"
| "deliver_reports api f u (Some r # rs) w =
     (case report_time api (er_time_stamp r) of
        None \<Rightarrow> deliver_reports api f u rs w
      | Some time \<Rightarrow> do {
          n \<leftarrow> report_notification api u time r;
          let w = (if and (su_flags u) (nf_event_type n) \<noteq> 0
                   then log_event (Ev_status_callback f n (su_cb_data u)) w else w);
          deliver_reports api f u rs w
        })"

definition subscription_report_list_handler ::
  "ogs_api \<Rightarrow> addr option \<Rightarrow> event_report option list option \<Rightarrow> world \<Rightarrow> (bool \<times> world) option" where
  "subscription_report_list_handler api p l w =
     (case p of
        None \<Rightarrow> Some (False, w)
      | Some a \<Rightarrow> do {
          u \<leftarrow> w_subscs w a;
          (case (su_callback u, l) of
             (Some f, Some rs) \<Rightarrow> map_option (Pair True) (deliver_reports api f u rs w)
           | _ \<Rightarrow> Some (False, w))
        })"

section \<open>The response to a creation\<close>

text \<open>The ingress tunnel of the response replaces the one of the session.\<close>

definition take_tunnel :: "ogs_api \<Rightarrow> tunnel_address option \<Rightarrow> (8 word list \<times> 16 word) list" where
  "take_tunnel api p =
     (case p of
        None \<Rightarrow> []
      | Some t \<Rightarrow>
          (case ta_ipv4 t of
             Some s \<Rightarrow> addrinfo4 api True s (word_of_int (ta_port t))
           | None \<Rightarrow>
               (case ta_ipv6 t of
                  Some s \<Rightarrow> addrinfo6 api True s (word_of_int (ta_port t))
                | None \<Rightarrow> [])))"

definition session_take_tunnels ::
  "ogs_api \<Rightarrow> api_session \<Rightarrow> mbs_session \<Rightarrow> bool \<times> mbs_session" where
  "session_take_tunnels api m s =
     (if se_tunnel_req s then
        (case as_tunnels m of
           None \<Rightarrow> (False, s)
         | Some ts \<Rightarrow> (True, s\<lparr>se_tunnel := concat (map (take_tunnel api) ts)\<rparr>))
      else (True, s))"

text \<open>The TMGI the MB-SMF allocated for the session becomes a new TMGI object.  After a bad
  time stamp that object has left the context list but is not freed.\<close>

definition session_take_tmgi :: "ogs_api \<Rightarrow> api_session \<Rightarrow> addr \<Rightarrow> world \<Rightarrow> (bool \<times> world) option" where
  "session_take_tmgi api m a w = do {
     s \<leftarrow> w_sessions w a;
     (if se_tmgi_req (ps_public s) then
        (case (as_tmgi m, as_expiration m) of
           (Some (sid, mcc, mnc), Some e) \<Rightarrow> do {
             (b, w) \<leftarrow> tmgi_create None None w;
             t \<leftarrow> w_tmgis w b;
             let t = tmgi_set_mbs_service_id sid t;
             let t = tmgi_set_plmn api (word_of_int (atoi mcc)) (word_of_int (atoi mnc)) t;
             (case time_from_string api e of
                None \<Rightarrow> do {
                  (ok, w) \<leftarrow> context_remove_tmgi (Some b) (put_tmgi b t w);
                  Some (False, w)
                }
              | Some x \<Rightarrow> do {
                  let t = tmgi_set_expiry_time (time_to_sec api x) t;
                  w \<leftarrow> tmgi_replace_sbi_object b (ps_sbi s) (put_tmgi b t w);
                  Some (True, put_session a (s\<lparr>ps_public := (ps_public s)\<lparr>se_tmgi := Some b\<rparr>\<rparr>) w)
                })
           }
         | _ \<Rightarrow> Some (False, w))
      else Some (True, w))
   }"

text \<open>\<open>ogs_getaddrinfo\<close> leaves a null pointer when it finds no address; the code reads the first
  entry without looking.\<close>

definition first_addr :: "(8 word list \<times> 16 word) list \<Rightarrow> 8 word list option" where
  "first_addr l = (case l of [] \<Rightarrow> None | (b, p) # _ \<Rightarrow> Some b)"

definition session_take_ssm :: "ogs_api \<Rightarrow> api_session \<Rightarrow> mbs_session \<Rightarrow> mbs_session option" where
  "session_take_ssm api m s =
     (case as_session_id m of
        None \<Rightarrow> None
      | Some None \<Rightarrow> Some s
      | Some (Some (src, dst)) \<Rightarrow>
          (case (src, dst) of
             (Some a, Some b) \<Rightarrow>
               (let ssm = (case se_ssm s of
                             None \<Rightarrow> \<lparr>ssm_family = Af_other 0, ssm_source = zero16, ssm_dest = zero16\<rparr>
                           | Some x \<Rightarrow> x)
                in case (ip_v4 a, ip_v4 b) of
                     (Some x, Some y) \<Rightarrow> do {
                       sb \<leftarrow> first_addr (addrinfo4 api False x 0);
                       db \<leftarrow> first_addr (addrinfo4 api False y 0);
                       Some (s\<lparr>se_ssm := Some \<lparr>ssm_family = Af_inet,
                                 ssm_source = overlay sb (ssm_source ssm),
                                 ssm_dest = overlay db (ssm_dest ssm)\<rparr>\<rparr>)
                     }
                   | _ \<Rightarrow>
                       (case (ip_v6 a, ip_v6 b) of
                          (Some x, Some y) \<Rightarrow> do {
                            sb \<leftarrow> first_addr (addrinfo6 api False x 0);
                            db \<leftarrow> first_addr (addrinfo6 api False y 0);
                            Some (s\<lparr>se_ssm := Some \<lparr>ssm_family = Af_inet6,
                                      ssm_source = overlay sb (ssm_source ssm),
                                      ssm_dest = overlay db (ssm_dest ssm)\<rparr>\<rparr>)
                          }
                        | _ \<Rightarrow> Some (s\<lparr>se_ssm := Some ssm\<rparr>)))
           | _ \<Rightarrow> Some s))"

text \<open>\<open>_mbs_session_public_copy (&sess->previous_session, &sess->session)\<close>\<close>

definition session_store_copy :: "addr \<Rightarrow> world \<Rightarrow> world option" where
  "session_store_copy a w = do {
     s \<leftarrow> w_sessions w a;
     (d, w) \<leftarrow> mbs_session_public_copy (ps_previous s) (Some (ps_public s)) w;
     s \<leftarrow> w_sessions w a;
     Some (put_session a (s\<lparr>ps_previous := d\<rparr>) w)
   }"

definition session_report_events :: "ogs_api \<Rightarrow> event_report_list option \<Rightarrow> addr \<Rightarrow> world \<Rightarrow> world option" where
  "session_report_events api l a w =
     (case l of
        None \<Rightarrow> Some w
      | Some e \<Rightarrow>
          (case rl_reports e of
             None \<Rightarrow> Some w
           | Some rs \<Rightarrow> do {
               p \<leftarrow> mbs_session_find_subscription (Some a) (rl_correlation e) w;
               map_option snd (subscription_report_list_handler api p (Some rs) w)
             }))"

text \<open>The members of the session the response carries, and the cached copy; the result says
  whether the handler goes on.\<close>

definition session_take_response :: "ogs_api \<Rightarrow> api_session \<Rightarrow> addr \<Rightarrow> world \<Rightarrow> (bool \<times> world) option" where
  "session_take_response api m a w = do {
     s \<leftarrow> w_sessions w a;
     (case session_take_tunnels api m (ps_public s) of
        (ok, p) \<Rightarrow>
          (let w = put_session a (s\<lparr>ps_public := p\<rparr>) w
           in if \<not> ok then Some (False, w)
              else do {
                (ok, w) \<leftarrow> session_take_tmgi api m a w;
                (if \<not> ok then Some (False, w)
                 else do {
                   s \<leftarrow> w_sessions w a;
                   p \<leftarrow> session_take_ssm api m (ps_public s);
                   w \<leftarrow> session_store_copy a (put_session a (s\<lparr>ps_public := p\<rparr>) w);
                   Some (True, w)
                 })
              }))
   }"

definition nmbsmf_mbs_session_parse ::
  "ogs_api \<Rightarrow> sbi_message \<Rightarrow> addr \<Rightarrow> world \<Rightarrow> (bool \<times> world) option" where
  "nmbsmf_mbs_session_parse api message a w = do {
     s \<leftarrow> w_sessions w a;
     (case Option.bind (ms_location message) (location_resource api) of
        Some (Some i) \<Rightarrow>
          (let w = put_session a (s\<lparr>ps_id := Some i\<rparr>) w
           in case ms_create_rsp message of
                None \<Rightarrow> Some (False, w)
              | Some d \<Rightarrow>
                  (case cr_session d of
                     None \<Rightarrow> Some (False, w)
                   | Some m \<Rightarrow> do {
                       (ok, w) \<leftarrow> session_take_response api m a w;
                       (if \<not> ok then Some (False, w)
                        else map_option (Pair True) (session_report_events api (cr_events d) a w))
                     }))
      | _ \<Rightarrow> Some (False, w))
   }"

section \<open>The responses to a removal and to a change\<close>

definition nmbsmf_mbs_session_delete_response :: "addr option \<Rightarrow> world \<Rightarrow> world option" where
  "nmbsmf_mbs_session_delete_response p w =
     (case p of
        None \<Rightarrow> Some w
      | Some a \<Rightarrow> do {
          w \<leftarrow> mbs_session_do_deleted_callback (Some a) w;
          map_option snd (context_remove_mbs_session (Some a) w)
        })"

definition session_revert :: "addr \<Rightarrow> world \<Rightarrow> world option" where
  "session_revert a w = do {
     s \<leftarrow> w_sessions w a;
     (case ps_previous s of
        None \<Rightarrow> Some w
      | Some prev \<Rightarrow> do {
          (d, w) \<leftarrow> mbs_session_public_copy (Some (ps_public s)) (Some prev) w;
          s \<leftarrow> w_sessions w a;
          Some (case d of None \<Rightarrow> w | Some p \<Rightarrow> put_session a (s\<lparr>ps_public := p\<rparr>) w)
        })
   }"

definition nmbsmf_mbs_session_patch_response :: "addr option \<Rightarrow> sbi_message \<Rightarrow> world \<Rightarrow> world option" where
  "nmbsmf_mbs_session_patch_response p message w =
     (case p of
        None \<Rightarrow> Some w
      | Some a \<Rightarrow> do {
          w \<leftarrow> (if 200 \<le> ms_res_status message \<and> ms_res_status message \<le> 299 then session_store_copy a w
                else if ms_res_status message \<le> 199 \<or>
                        (300 \<le> ms_res_status message \<and> ms_res_status message \<le> 399) then Some w
                else if 400 \<le> ms_res_status message then session_revert a w
                else Some w);
          mbs_session_do_updated_callback (Some a) w
        })"

section \<open>The response to a subscription\<close>

text \<open>The part of the \<open>Location\<close> header after its last slash, decoded.\<close>

definition after_last_slash :: "string \<Rightarrow> string" where
  "after_last_slash s = rev (takeWhile (\<lambda>c. c \<noteq> CHR ''/'') (rev s))"

text \<open>The id of a subscription that is already active is also the key of the hash table: freeing
  it leaves the table with a dangling key, which is undefined behaviour.\<close>

definition subscription_move_active :: "addr \<Rightarrow> addr \<Rightarrow> string \<Rightarrow> world \<Rightarrow> world option" where
  "subscription_move_active a b i w = do {
     s \<leftarrow> w_sessions w a;
     u \<leftarrow> w_subscs w b;
     (if su_id u \<noteq> None \<and> b \<in> set (active_addrs s) then None
      else (let w = put_subsc b (u\<lparr>su_id := Some i\<rparr>) w
            in if b \<in> set (ps_new s) then
                 (let h = (case ps_active s of None \<Rightarrow> [] | Some h \<Rightarrow> h)
                  in Some (put_session a
                       (s\<lparr>ps_new := remove1 b (ps_new s), ps_active := Some (AList.update i b h)\<rparr>) w))
               else Some w))
   }"

definition nmbsmf_mbs_session_subscription_response ::
  "ogs_api \<Rightarrow> addr option \<Rightarrow> sbi_message \<Rightarrow> sbi_response \<Rightarrow> world \<Rightarrow> world option" where
  "nmbsmf_mbs_session_subscription_response api p message response w =
     (case (p, rs_subscribe response) of
        (Some a, Body_subscription correlation events) \<Rightarrow>
          (if is_2xx (rs_status response) then do {
             q \<leftarrow> mbs_session_find_subscription (Some a) correlation w;
             (case q of
                None \<Rightarrow> Some w
              | Some b \<Rightarrow> do {
                  l \<leftarrow> ms_location message;
                  w \<leftarrow> subscription_move_active a b (url_decode api (after_last_slash l)) w;
                  rs \<leftarrow> events;
                  map_option snd (subscription_report_list_handler api (Some b) rs w)
                })
           }
           else Some w)
      | _ \<Rightarrow> Some w)"

end
