(* ===== verification/Process_Event.thy ===== *)
theory Process_Event
  imports Tmgi_Handle Session_Handle
begin

text \<open>
  The event handler of the library, \<open>mb_smf_sc_process_event\<close>
  (\<open>mb-smf-service-consumer.c\<close>): notifications that reach a server of the process, responses
  to the requests of the library, and request timeouts.  The result is the value of the C
  function: whether the event was one of the library's.
\<close>

section \<open>Notifications\<close>

definition notification_error :: "server_request \<Rightarrow> int \<Rightarrow> world \<Rightarrow> world" where
  "notification_error r status w =
     (case sr_stream r of None \<Rightarrow> w | Some s \<Rightarrow> log_event (Ev_server_response s status) w)"

definition handle_notification ::
  "ogs_api \<Rightarrow> server_request \<Rightarrow> addr \<Rightarrow> sbi_message \<Rightarrow> world \<Rightarrow> world option" where
  "handle_notification api r server message w =
     (if ms_content_type message \<noteq> Some ''application/json'' then Some (notification_error r 400 w)
      else if ms_method message \<noteq> Some ''POST'' then Some (notification_error r 405 w)
      else if \<not> sr_json r then Some (notification_error r 400 w)
      else (case sr_notify r of
        None \<Rightarrow> Some (notification_error r 400 w)
      | Some events \<Rightarrow> do {
          p \<leftarrow> context_find_subscription api server (sr_uri r) w;
          rs \<leftarrow> events;
          (ok, w) \<leftarrow> subscription_report_list_handler api p rs w;
          Some (notification_error r 200 w)
        }))"

definition handle_server_event :: "ogs_api \<Rightarrow> server_request option \<Rightarrow> world \<Rightarrow> (bool \<times> world) option" where
  "handle_server_event api p w =
     (case p of
        None \<Rightarrow> Some (False, w)
      | Some r \<Rightarrow>
          (case (sr_stream r, sr_server r) of
             (Some stream, Some server) \<Rightarrow> do {
               ours \<leftarrow> context_is_notification_server server w;
               (if \<not> ours then Some (False, w)
                else (case sr_header r of
                  (ok, message) \<Rightarrow>
                    if \<not> ok then Some (False, w)
                    else map_option (Pair True) (handle_notification api r server message w)))
             }
           | _ \<Rightarrow> Some (False, w)))"

section \<open>Responses\<close>

text \<open>A handler of a response says whether the transaction is still to be removed, and which
  SBI object it keeps alive until then.\<close>

type_synonym xact_outcome = "bool \<times> addr option"

definition disc_outcome ::
  "sbi_xact \<Rightarrow> sbi_message \<Rightarrow> sbi_response \<Rightarrow> world \<Rightarrow> (xact_outcome \<times> world) option" where
  "disc_outcome xact message response w = do {
     (ok, w) \<leftarrow> nnrf_disc_handle xact message response w;
     Some ((\<not> ok, None), w)
   }"

definition handle_tmgi_response ::
  "ogs_api \<Rightarrow> sbi_xact \<Rightarrow> sbi_response \<Rightarrow> addr option \<Rightarrow> world \<Rightarrow> (xact_outcome \<times> world) option" where
  "handle_tmgi_response api xact response tm w =
     (case rs_full response of
        (ok, message) \<Rightarrow>
          if \<not> ok then do {
            a \<leftarrow> tm;
            w \<leftarrow> tmgi_do_callback Ogs_error None a w;
            Some ((True, None), w)
          }
          else if switch_string (ms_service message) = ''nnrf-disc'' then
            disc_outcome xact message response w
          else if switch_string (ms_service message) = ''nmbsmf-tmgi'' then
            (if switch_string (ms_method message) = ''POST'' then do {
               (ok, w) \<leftarrow> nmbsmf_tmgi_allocated api xact message w;
               Some ((True, None), w)
             }
             else if switch_string (ms_method message) = ''DELETE'' then do {
               a \<leftarrow> tm;
               t \<leftarrow> w_tmgis w a;
               w \<leftarrow> ref_count_sbi_object_ref (tm_sbi t) w;
               w \<leftarrow> nmbsmf_tmgi_deallocated api xact message w;
               Some ((True, tm_sbi t), w)
             }
             else Some ((True, None), w))
          else Some ((True, None), w))"

definition handle_create_response ::
  "ogs_api \<Rightarrow> sbi_response \<Rightarrow> addr option \<Rightarrow> world \<Rightarrow> world option" where
  "handle_create_response api response sess w =
     (let message = snd (rs_full response)
      in if is_2xx (rs_status response) then do {
           a \<leftarrow> sess;
           (ok, w) \<leftarrow> nmbsmf_mbs_session_parse api message a w;
           (if ok then do {
              w \<leftarrow> mbs_session_do_created_callback sess w;
              map_option snd (mbs_session_push_changes api sess w)
            }
            else mbs_session_do_create_error_callback None sess w)
         }
         else mbs_session_do_create_error_callback (ms_problem message) sess w)"

text \<open>The request the response answers is told apart by its path and method.\<close>

definition handle_session_path ::
  "ogs_api \<Rightarrow> sbi_xact \<Rightarrow> sbi_message \<Rightarrow> sbi_response \<Rightarrow> addr option \<Rightarrow> world \<Rightarrow>
     (xact_outcome \<times> world) option" where
  "handle_session_path api xact message response sess w =
     (let r1 = switch_string (xa_resource1 xact); r2 = switch_string (xa_resource2 xact);
          mth = switch_string (xa_method xact)
      in if switch_string (xa_resource0 xact) \<noteq> ''mbs-sessions'' then Some ((True, None), w)
         else if r1 = ''OGS_SWITCH_NULL'' then
           (if mth = ''POST'' then map_option (Pair (True, None)) (handle_create_response api response sess w)
            else Some ((True, None), w))
         else if r1 = ''subscriptions'' then
           (if r2 = ''OGS_SWITCH_NULL'' \<and> mth = ''POST''
            then map_option (Pair (True, None))
                   (nmbsmf_mbs_session_subscription_response api sess message response w)
            else Some ((True, None), w))
         else if r2 \<noteq> ''OGS_SWITCH_NULL'' then Some ((True, None), w)
         else if mth = ''DELETE'' then do {
           a \<leftarrow> sess;
           s \<leftarrow> w_sessions w a;
           w \<leftarrow> ref_count_sbi_object_ref (ps_sbi s) w;
           w \<leftarrow> nmbsmf_mbs_session_delete_response (Some a) w;
           Some ((True, ps_sbi s), w)
         }
         else if mth = ''PATCH'' then
           map_option (Pair (True, None)) (nmbsmf_mbs_session_patch_response sess message w)
         else Some ((True, None), w))"

definition handle_session_response ::
  "ogs_api \<Rightarrow> sbi_xact \<Rightarrow> sbi_response \<Rightarrow> addr option \<Rightarrow> world \<Rightarrow> (xact_outcome \<times> world) option" where
  "handle_session_response api xact response sess w =
     (case rs_header response of
        (ok, message) \<Rightarrow>
          if \<not> ok then
            map_option (Pair (True, None)) (mbs_session_do_create_error_callback (ms_problem message) sess w)
          else if switch_string (ms_service message) = ''nnrf-disc'' then
            disc_outcome xact message response w
          else if switch_string (ms_service message) = ''nmbsmf-mbssession'' then
            handle_session_path api xact message response sess w
          else Some ((True, None), w))"

text \<open>The end of the event handler: the transaction goes first, then the reference.\<close>

definition finish_event :: "sbi_xact \<Rightarrow> xact_outcome \<Rightarrow> world \<Rightarrow> world option" where
  "finish_event xact out w = do {
     w \<leftarrow> (if fst out then xact_remove (xa_sbi xact) w else Some w);
     ref_count_sbi_object_unref (snd out) w
   }"

definition handle_client_event ::
  "ogs_api \<Rightarrow> sbi_xact option \<Rightarrow> sbi_response \<Rightarrow> world \<Rightarrow> (bool \<times> world) option" where
  "handle_client_event api p response w =
     (case p of
        None \<Rightarrow> Some (False, w)
      | Some xact \<Rightarrow> do {
          sess \<leftarrow> context_sbi_object_to_session (xa_sbi xact) w;
          tm \<leftarrow> context_sbi_object_to_tmgi (xa_sbi xact) w;
          (if sess = None \<and> tm = None then Some (False, w)
           else do {
             (out, w) \<leftarrow> (case xa_service xact of
                            Sv_nmbsmf_tmgi \<Rightarrow> handle_tmgi_response api xact response tm w
                          | Sv_nmbsmf_mbs_session \<Rightarrow> handle_session_response api xact response sess w
                          | Sv_other \<Rightarrow> Some ((True, None), w));
             map_option (Pair True) (finish_event xact out w)
           })
        })"

section \<open>Timeouts\<close>

definition handle_timeout :: "sbi_xact \<Rightarrow> addr \<Rightarrow> addr option \<Rightarrow> world \<Rightarrow> world option" where
  "handle_timeout xact sess tm w =
     (let post = (switch_string (xa_resource1 xact) = ''OGS_SWITCH_NULL'' \<and>
                  switch_string (xa_method xact) = ''POST'')
      in case xa_service xact of
           Sv_nmbsmf_tmgi \<Rightarrow>
             (if switch_string (xa_resource0 xact) = ''tmgi'' \<and> post
              then Option.bind tm (\<lambda>a. tmgi_do_callback Ogs_etimedout None a w)
              else Some w)
         | Sv_nmbsmf_mbs_session \<Rightarrow>
             (if switch_string (xa_resource0 xact) = ''mbs-sessions'' \<and> post
              then mbs_session_do_create_timeout_callback (Some sess) w
              else Some w)
         | Sv_other \<Rightarrow> Some w)"

definition handle_timer_event :: "timer_id \<Rightarrow> sbi_xact option \<Rightarrow> world \<Rightarrow> (bool \<times> world) option" where
  "handle_timer_event timer p w =
     (case (timer, p) of
        (Timer_sbi_client_wait, Some xact) \<Rightarrow> do {
          sess \<leftarrow> context_sbi_object_to_session (xa_sbi xact) w;
          tm \<leftarrow> context_sbi_object_to_tmgi (xa_sbi xact) w;
          (case sess of
             None \<Rightarrow> Some (False, w)
           | Some a \<Rightarrow> do {
               w \<leftarrow> handle_timeout xact a tm w;
               map_option (Pair True) (finish_event xact (True, None) w)
             })
        }
      | _ \<Rightarrow> Some (False, w))"

section \<open>The event handler\<close>

definition mb_smf_sc_process_event :: "ogs_api \<Rightarrow> ogs_event option \<Rightarrow> world \<Rightarrow> (bool \<times> world) option" where
  "mb_smf_sc_process_event api e w =
     (case e of
        None \<Rightarrow> Some (False, w)
      | Some (Sbi_server r) \<Rightarrow> handle_server_event api r w
      | Some (Sbi_client xact response) \<Rightarrow> handle_client_event api xact response w
      | Some (Sbi_timer timer xact) \<Rightarrow> handle_timer_event timer xact w
      | Some Other_event \<Rightarrow> Some (False, w))"

end
