(* ===== verification/Sc_Invariant.thy ===== *)
theory Sc_Invariant
  imports Process_Event Push_Props
begin

text \<open>
  The invariant of the library: every reference count is the number of pointers to the
  object (\<open>refs_ok\<close>), the lists of the context hold each live object at most once and no
  other address, and the text cached in a TMGI is its current text.  Each operation that
  returns keeps it, whatever its arguments; the lemmas are collected in \<open>keeps\<close>.
\<close>

named_theorems keeps \<open>operations keep the invariant\<close>

section \<open>The invariant\<close>

definition ctx_ok :: "world \<Rightarrow> bool" where
  "ctx_ok w \<longleftrightarrow>
     (\<forall>c. w_ctx w = Some c \<longrightarrow>
        distinct (ctx_sessions c) \<and> distinct (ctx_tmgis c) \<and>
        (\<forall>a\<in>set (ctx_sessions c). w_sessions w a \<noteq> None) \<and>
        (\<forall>a\<in>set (ctx_tmgis c). w_tmgis w a \<noteq> None))"

definition lib_inv :: "ogs_api \<Rightarrow> addr multiset \<Rightarrow> world \<Rightarrow> bool" where
  "lib_inv api E w \<longleftrightarrow> refs_ok E w \<and> ctx_ok w \<and> tmgi_caches_ok api w"

lemma lib_inv_refs: "lib_inv api E w \<Longrightarrow> refs_ok E w"
  by (simp add: lib_inv_def)

lemma lib_inv_cong:
  assumes "w_sessions w' = w_sessions w" "w_tmgis w' = w_tmgis w" "w_subscs w' = w_subscs w"
    "w_refs w' = w_refs w" "w_ctx w' = w_ctx w" "w_next w' = w_next w"
  shows "lib_inv api E w' = lib_inv api E w"
  using assms
  by (simp add: lib_inv_def refs_ok_def counts_ok_def objects_below_def ctx_ok_def tmgi_caches_ok_def
      held_refs_def session_sbi_def tmgi_sbi_def)

lemma lib_inv_log [simp]: "lib_inv api E (log_event e w) = lib_inv api E w"
  by (rule lib_inv_cong) simp_all

lemma lib_inv_fold_log [simp]: "lib_inv api E (fold log_event es w) = lib_inv api E w"
  by (induction es arbitrary: w) simp_all

lemma lib_inv_words [simp]: "lib_inv api E (w\<lparr>w_words := f\<rparr>) = lib_inv api E w"
  by (rule lib_inv_cong) simp_all

lemma lib_inv_fixed [simp]: "lib_inv api E (w\<lparr>w_fixed := f\<rparr>) = lib_inv api E w"
  by (rule lib_inv_cong) simp_all

text \<open>An update of references that leaves the objects and the context lists alone.\<close>

lemma lib_inv_refs_only:
  assumes "lib_inv api E w" "refs_ok E' w'"
    and "w_sessions w' = w_sessions w" "w_tmgis w' = w_tmgis w" "w_ctx w' = w_ctx w"
  shows "lib_inv api E' w'"
  using assms by (simp add: lib_inv_def ctx_ok_def tmgi_caches_ok_def)

section \<open>References\<close>

lemma keeps_unref:
  assumes "ref_count_sbi_object_unref p w = Some w'" "lib_inv api (E + opt_ref p) w"
  shows "lib_inv api E w'"
  using assms(1) refs_unref [OF lib_inv_refs [OF assms(2)]] unref_sel [OF assms(1)]
  by (intro lib_inv_refs_only [OF assms(2)]) auto

lemma refs_alive_held:
  assumes "refs_ok E w" "w_refs w r \<noteq> None"
  shows "r \<in># held_refs w + E"
  using assms by (auto simp: refs_ok_def counts_ok_def count_eq_zero_iff)

lemma keeps_ref:
  assumes "ref_count_sbi_object_ref p w = Some w'" "lib_inv api E w"
  shows "lib_inv api (E + opt_ref p) w'"
proof -
  have "w_refs w r \<noteq> None" if "p = Some r" for r
    using assms(1) that by (auto simp: ref_count_sbi_object_ref_def split: bind_splits)
  then have "\<forall>r. p = Some r \<longrightarrow> r \<in># held_refs w + E"
    using refs_alive_held [OF lib_inv_refs [OF assms(2)]] by blast
  from refs_ref [OF lib_inv_refs [OF assms(2)] this] have "refs_ok (E + opt_ref p) w'"
    using assms(1) by simp
  then show ?thesis
    using ref_sel [OF assms(1)] by (intro lib_inv_refs_only [OF assms(2)]) simp_all
qed

lemma keeps_new:
  assumes "ref_count_sbi_object_new w = (r, w')" "lib_inv api E w"
  shows "lib_inv api (add_mset r E) w'"
  using refs_new [OF lib_inv_refs [OF assms(2)] assms(1)]
  by (intro lib_inv_refs_only [OF assms(2)]) auto

lemma keeps_next: "lib_inv api E w \<Longrightarrow> lib_inv api E (w\<lparr>w_next := w_next w + 1\<rparr>)"
  using refs_next [of E w] by (auto intro: lib_inv_refs_only simp: lib_inv_refs)

lemma lib_inv_next_Suc: "lib_inv api E w \<Longrightarrow> lib_inv api E (w\<lparr>w_next := Suc (w_next w)\<rparr>)"
  using keeps_next by fastforce

section \<open>Writing objects\<close>

lemma keeps_put_session:
  assumes "lib_inv api E w" "w_sessions w a = Some s" "ps_sbi s' = ps_sbi s"
  shows "lib_inv api E (put_session a s' w)"
  using assms refs_put_session_same [OF _ assms(2,3)]
  by (auto simp: lib_inv_def ctx_ok_def tmgi_caches_ok_def)

lemma keeps_put_tmgi:
  assumes "lib_inv api E w" "w_tmgis w a = Some t" "tm_sbi t' = tm_sbi t"
    "tmgi_cache_ok api a t \<Longrightarrow> tmgi_cache_ok api a t'"
  shows "lib_inv api E (put_tmgi a t' w)"
  using assms refs_put_tmgi_same [OF _ assms(2,3)]
  by (auto simp: lib_inv_def ctx_ok_def tmgi_caches_ok_def)

lemma keeps_put_subsc:
  assumes "lib_inv api E w" "w_subscs w a = Some u"
  shows "lib_inv api E (put_subsc a u' w)"
  using assms refs_put_subsc [OF _ assms(2)]
  by (auto simp: lib_inv_def ctx_ok_def tmgi_caches_ok_def)

lemma keeps_del_subsc: "lib_inv api E w \<Longrightarrow> lib_inv api E (w\<lparr>w_subscs := (w_subscs w)(b := None)\<rparr>)"
  using refs_del_subsc [of E w b] by (auto simp: lib_inv_def ctx_ok_def tmgi_caches_ok_def)

lemma keeps_put_sbi:
  assumes "lib_inv api (E + opt_ref (ps_sbi s')) w" "w_sessions w a = Some s"
  shows "lib_inv api (E + opt_ref (ps_sbi s)) (put_session a s' w)"
proof -
  have "a < w_next w" using refs_ok_dom(2) [OF lib_inv_refs [OF assms(1)] assms(2)] .
  then have "refs_ok (E + opt_ref (ps_sbi s)) (put_session a s' w)"
    using refs_put_session [OF lib_inv_refs [OF assms(1)], of a] assms(2) by (simp add: session_sbi_def)
  then show ?thesis using assms by (auto simp: lib_inv_def ctx_ok_def tmgi_caches_ok_def)
qed

lemma keeps_put_tmgi_sbi:
  assumes "lib_inv api (E + opt_ref (tm_sbi t')) w" "w_tmgis w a = Some t"
    "tmgi_cache_ok api a t \<Longrightarrow> tmgi_cache_ok api a t'"
  shows "lib_inv api (E + opt_ref (tm_sbi t)) (put_tmgi a t' w)"
proof -
  have "a < w_next w" using refs_ok_dom(1) [OF lib_inv_refs [OF assms(1)] assms(2)] .
  then have "refs_ok (E + opt_ref (tm_sbi t)) (put_tmgi a t' w)"
    using refs_put_tmgi [OF lib_inv_refs [OF assms(1)], of a] assms(2) by (simp add: tmgi_sbi_def)
  then show ?thesis using assms by (auto simp: lib_inv_def ctx_ok_def tmgi_caches_ok_def)
qed

text \<open>Replacing the SBI object of a TMGI or of a session.\<close>

lemma keeps_tmgi_swap:
  assumes "ref_count_sbi_object_unref (tm_sbi t) w = Some w1" "ref_count_sbi_object_ref p w1 = Some w2"
    and inv: "lib_inv api E w" and t: "w_tmgis w a = Some t" and t': "tm_sbi t' = p"
    and cache: "tmgi_cache_ok api a t \<Longrightarrow> tmgi_cache_ok api a t'"
  shows "lib_inv api E (put_tmgi a t' w2)"
proof -
  let ?n = "t\<lparr>tm_sbi := None, tm_repr := None\<rparr>"
  have c: "tmgi_cache_ok api a t'" using inv t cache by (simp add: lib_inv_def tmgi_caches_ok_def)
  have "lib_inv api (E + opt_ref (tm_sbi t)) (put_tmgi a ?n w)"
    by (rule keeps_put_tmgi_sbi) (use inv t in simp_all)
  moreover have "ref_count_sbi_object_unref (tm_sbi t) (put_tmgi a ?n w) = Some (put_tmgi a ?n w1)"
    using assms(1) by (simp add: unref_put_tmgi)
  ultimately have "lib_inv api E (put_tmgi a ?n w1)" using keeps_unref by blast
  moreover have "ref_count_sbi_object_ref p (put_tmgi a ?n w1) = Some (put_tmgi a ?n w2)"
    using assms(2) by (simp add: ref_put_tmgi)
  ultimately have "lib_inv api (E + opt_ref (tm_sbi t')) (put_tmgi a ?n w2)"
    unfolding t' using keeps_ref by blast
  from keeps_put_tmgi_sbi [OF this, of a ?n] show ?thesis using c by simp
qed

lemma keeps_session_swap:
  assumes "ref_count_sbi_object_ref p w = Some w1" "ref_count_sbi_object_unref (ps_sbi s) w1 = Some w2"
    and inv: "lib_inv api E w" and s: "w_sessions w a = Some s" and s': "ps_sbi s' = p"
  shows "lib_inv api E (put_session a s' w2)"
proof -
  have "lib_inv api (E + opt_ref (ps_sbi s')) w1" unfolding s' by (rule keeps_ref [OF assms(1) inv])
  moreover have "w_sessions w1 a = Some s" using s ref_sel [OF assms(1)] by simp
  ultimately have "lib_inv api (E + opt_ref (ps_sbi s)) (put_session a s' w1)" by (rule keeps_put_sbi)
  moreover have "ref_count_sbi_object_unref (ps_sbi s) (put_session a s' w1) = Some (put_session a s' w2)"
    using assms(2) by (simp add: unref_put_session)
  ultimately show ?thesis using keeps_unref by blast
qed

section \<open>The context\<close>

lemma keeps_context_remove_tmgi [keeps]:
  "context_remove_tmgi p w = Some (ok, w') \<Longrightarrow> lib_inv api E w \<Longrightarrow> lib_inv api E w'"
  by (auto simp: context_remove_tmgi_def lib_inv_def ctx_ok_def tmgi_caches_ok_def
      split: option.splits if_splits dest: set_remove1_subset [THEN subsetD])

lemma context_remove_tmgi_gone:
  assumes "context_remove_tmgi (Some a) w = Some (ok, w')" "lib_inv api E w"
  shows "\<forall>c. w_ctx w' = Some c \<longrightarrow> a \<notin> set (ctx_tmgis c)" "w_tmgis w' = w_tmgis w"
  using assms by (auto simp: context_remove_tmgi_def lib_inv_def ctx_ok_def split: option.splits if_splits)

lemma keeps_tmgi_create [keeps]:
  assumes "tmgi_create f d w = Some (a, w')" "lib_inv api E w"
  shows "lib_inv api E w'"
proof -
  obtain c where c: "w_ctx w = Some c"
    using assms(1) by (auto simp: tmgi_create_def context_add_tmgi_def Let_def split: option.splits)
  obtain v where v: "tmgi_create f d w = Some (w_next w, v)" "refs_ok E v" "w_sessions v = w_sessions w"
      "w_ctx v = Some (c\<lparr>ctx_tmgis := ctx_tmgis c @ [w_next w]\<rparr>)"
      "w_tmgis v = (w_tmgis w)(w_next w \<mapsto>
         \<lparr>tm_service_id = None, tm_plmn = 0, tm_expiry = 0, tm_callback = f, tm_cb_data = d,
          tm_sbi = None, tm_repr = None, tm_allocated = False\<rparr>)"
    using tmgi_create_refs [OF lib_inv_refs [OF assms(2)] c, of f d] by blast
  have "w_tmgis w (w_next w) = None" using refs_ok_fresh [OF lib_inv_refs [OF assms(2)]] by simp
  then have "ctx_ok v" using assms(2) c v(3-5) by (auto simp: lib_inv_def ctx_ok_def)
  moreover have "tmgi_caches_ok api v" using assms(2) v(5) by (simp add: lib_inv_def tmgi_caches_ok_def)
  ultimately show ?thesis using v(1,2) assms(1) by (simp add: lib_inv_def)
qed

lemma keeps_tmgi_free [keeps]:
  assumes "tmgi_free p w = Some w'" "lib_inv api E w"
  shows "lib_inv api E w'"
proof (cases p)
  case (Some a)
  obtain t c where t: "w_tmgis w a = Some t" "w_ctx w = Some c" "a \<in> set (ctx_tmgis c)"
    using assms(1) Some
    by (auto simp: tmgi_free_def context_remove_tmgi_def split: option.splits bind_splits if_splits)
  obtain v where v: "tmgi_free (Some a) w = Some v" "refs_ok E v" "w_sessions v = w_sessions w"
      "w_ctx v = Some (c\<lparr>ctx_tmgis := remove1 a (ctx_tmgis c)\<rparr>)" "w_tmgis v = (w_tmgis w)(a := None)"
    using tmgi_free_refs [OF lib_inv_refs [OF assms(2)] t] by blast
  have "distinct (ctx_tmgis c)" using assms(2) t(2) by (simp add: lib_inv_def ctx_ok_def)
  then have "ctx_ok v" using assms(2) t(2) v(3-5) by (auto simp: lib_inv_def ctx_ok_def)
  moreover have "tmgi_caches_ok api v" using assms(2) v(5) by (simp add: lib_inv_def tmgi_caches_ok_def)
  ultimately show ?thesis using v(1,2) assms(1) Some by (simp add: lib_inv_def)
qed (use assms in \<open>simp add: tmgi_free_def\<close>)

section \<open>TMGI operations\<close>

lemma tmgi_cache_written [simp]:
  "tmgi_cache_ok api a (t\<lparr>tm_sbi := p\<rparr>) \<longleftrightarrow> tmgi_cache_ok api a t"
  "tmgi_cache_ok api a (t\<lparr>tm_repr := Some (tmgi_repr_text api a t)\<rparr>)"
  by (simp_all add: tmgi_cache_ok_def tmgi_repr_text_def)

lemma keeps_send_request [keeps]:
  "send_request p rq w = Some w' \<Longrightarrow> lib_inv api E w \<Longrightarrow> lib_inv api E w'"
  by (auto simp: send_request_def split: option.splits)

lemma keeps_tmgi_repr [keeps]:
  assumes "tmgi_repr api p w = Some (r, w')" "lib_inv api E w"
  shows "lib_inv api E w'"
  using assms
  by (auto simp: tmgi_repr_def Let_def split: option.splits bind_splits intro!: keeps_put_tmgi)

lemma keeps_tmgi_list_repr_from [keeps]:
  "tmgi_list_repr_from api acc sep as w = Some (r, w') \<Longrightarrow> lib_inv api E w \<Longrightarrow> lib_inv api E w'"
  by (induction as arbitrary: acc sep w) (auto split: bind_splits dest: keeps)

lemma keeps_tmgi_list_repr [keeps]:
  "tmgi_list_repr api l w = Some (r, w') \<Longrightarrow> lib_inv api E w \<Longrightarrow> lib_inv api E w'"
  by (auto simp: tmgi_list_repr_def split: option.splits dest: keeps)

lemma keeps_tmgi_replace [keeps]:
  assumes "tmgi_replace_sbi_object a p w = Some w'" "lib_inv api E w"
  shows "lib_inv api E w'"
proof -
  obtain t w1 w2 where t: "w_tmgis w a = Some t" "ref_count_sbi_object_unref (tm_sbi t) w = Some w1"
      "ref_count_sbi_object_ref p w1 = Some w2" "w' = put_tmgi a (t\<lparr>tm_sbi := p\<rparr>) w2"
    using assms(1) by (auto simp: tmgi_replace_sbi_object_def split: bind_splits)
  show ?thesis unfolding t(4) by (rule keeps_tmgi_swap [OF t(2,3) assms(2) t(1)]) simp_all
qed

lemma keeps_tmgi_copy [keeps]:
  assumes "tmgi_copy dest src w = Some (r, w')" "lib_inv api E w"
  shows "lib_inv api E w'"
proof (cases "dest = src \<or> src = None")
  case True
  then show ?thesis using assms by (auto simp: tmgi_copy_def split: bind_splits if_splits dest: keeps)
next
  case False
  then obtain sa where sa: "src = Some sa" "dest \<noteq> src" by auto
  obtain s where s: "w_tmgis w sa = Some s"
    using assms(1) sa by (auto simp: tmgi_copy_def split: bind_splits)
  obtain da v where v: "(case dest of Some d \<Rightarrow> Some (d, w)
      | None \<Rightarrow> tmgi_create (tm_callback s) (tm_cb_data s) w) = Some (da, v)"
    using assms(1) sa s by (auto simp: tmgi_copy_def split: bind_splits)
  have inv: "lib_inv api E v" using v assms(2) by (auto split: option.splits dest: keeps)
  show ?thesis
    using assms(1) sa s v inv
    by (auto simp: tmgi_copy_def Let_def split: bind_splits option.splits)
      (rule keeps_tmgi_swap, assumption+, simp add: tmgi_clear_repr_def, simp)+
qed

lemma keeps_assign_sbi [keeps]:
  "assign_sbi r as w = Some w' \<Longrightarrow> lib_inv api E w \<Longrightarrow> lib_inv api E w'"
proof (induction as arbitrary: w)
  case (Cons a as)
  then obtain t w1 w2 where t: "w_tmgis w a = Some t" "ref_count_sbi_object_unref (tm_sbi t) w = Some w1"
      "ref_count_sbi_object_ref (Some r) w1 = Some w2"
      "assign_sbi r as (put_tmgi a (t\<lparr>tm_sbi := Some r\<rparr>) w2) = Some w'"
    by (auto split: bind_splits)
  have "lib_inv api E (put_tmgi a (t\<lparr>tm_sbi := Some r\<rparr>) w2)"
    by (rule keeps_tmgi_swap [OF t(2,3) Cons.prems(2) t(1)]) simp_all
  then show ?case by (rule Cons.IH [OF t(4)])
qed simp

lemma keeps_tmgi_list_send_allocate [keeps]:
  assumes "tmgi_list_send_allocate api new refresh w = Some w'" "lib_inv api E w"
  shows "lib_inv api E w'"
proof (cases "new = None \<and> refresh = None")
  case False
  then obtain s1 w1 s2 w2 where w: "tmgi_list_repr api new w = Some (s1, w1)"
      "tmgi_list_repr api refresh w1 = Some (s2, w2)"
    using assms(1) by (auto simp: tmgi_list_send_allocate_def split: bind_splits)
  then have inv: "lib_inv api E w2" using assms(2) by (blast dest: keeps)
  show ?thesis
  proof (cases new)
    case None
    then show ?thesis
      using assms(1) False w inv
      by (auto simp: tmgi_list_send_allocate_def split: bind_splits list.splits dest: keeps)
  next
    case (Some as)
    obtain r w3 where new: "ref_count_sbi_object_new w2 = (r, w3)" by (cases "ref_count_sbi_object_new w2")
    then obtain w4 w5 where s: "assign_sbi r as w3 = Some w4" "ref_count_sbi_object_unref (Some r) w4 = Some w5"
        "send_request (Some r) (Rq_tmgi_allocate new refresh) w5 = Some w'"
      using assms(1) False w Some by (auto simp: tmgi_list_send_allocate_def split: bind_splits)
    have "lib_inv api (E + opt_ref (Some r)) w4"
      using keeps_new [OF new inv] s(1) by (auto dest: keeps)
    then show ?thesis using s(2,3) by (blast dest: keeps_unref keeps)
  qed
qed (use assms in \<open>simp add: tmgi_list_send_allocate_def\<close>)

lemma keeps_tmgi_list_send_deallocate [keeps]:
  assumes "tmgi_list_send_deallocate api l w = Some w'" "lib_inv api E w"
  shows "lib_inv api E w'"
proof (cases "l = None \<or> l = Some []")
  case False
  then obtain a as where l: "l = Some (a # as)" by (metis list.exhaust option.exhaust)
  then obtain s w1 t where w: "tmgi_list_repr api l w = Some (s, w1)" "w_tmgis w1 a = Some t"
    using assms(1) by (auto simp: tmgi_list_send_deallocate_def split: bind_splits)
  have inv: "lib_inv api E w1" using w(1) assms(2) by (blast dest: keeps)
  show ?thesis
  proof (cases "tm_sbi t")
    case None
    obtain r w2 where new: "ref_count_sbi_object_new w1 = (r, w2)" by (cases "ref_count_sbi_object_new w1")
    let ?t = "t\<lparr>tm_sbi := Some r\<rparr>"
    have "lib_inv api (E + opt_ref (tm_sbi t)) (put_tmgi a ?t w2)"
      using keeps_new [OF new inv] w(2) refs_new(4) [OF lib_inv_refs [OF inv] new]
      by (intro keeps_put_tmgi_sbi) auto
    then show ?thesis
      using assms(1) l w None new by (auto simp: tmgi_list_send_deallocate_def dest: keeps)
  qed (use assms(1) l w inv in \<open>auto simp: tmgi_list_send_deallocate_def dest: keeps\<close>)
qed (use assms in \<open>auto simp: tmgi_list_send_deallocate_def\<close>)

lemma keeps_tmgi_sends [keeps]:
  "tmgi_send_allocate api p w = Some w' \<Longrightarrow> lib_inv api E w \<Longrightarrow> lib_inv api E w'"
  "tmgi_send_refresh api p w = Some w' \<Longrightarrow> lib_inv api E w \<Longrightarrow> lib_inv api E w'"
  "tmgi_send_deallocate api p w = Some w' \<Longrightarrow> lib_inv api E w \<Longrightarrow> lib_inv api E w'"
  "tmgi_send_allocate_all api w = Some w' \<Longrightarrow> lib_inv api E w \<Longrightarrow> lib_inv api E w'"
  "tmgi_send_refresh_all api now w = Some w' \<Longrightarrow> lib_inv api E w \<Longrightarrow> lib_inv api E w'"
  "tmgi_send_allocate_and_refresh_all api now w = Some w' \<Longrightarrow> lib_inv api E w \<Longrightarrow> lib_inv api E w'"
  by (auto simp: tmgi_send_allocate_def tmgi_send_refresh_def tmgi_send_deallocate_def
      tmgi_send_allocate_all_def tmgi_send_refresh_all_def tmgi_send_allocate_and_refresh_all_def
      split: option.splits bind_splits dest: keeps)

lemma keeps_mb_smf_sc_tmgi_create [keeps]:
  "mb_smf_sc_tmgi_create api f d w = Some (a, w') \<Longrightarrow> lib_inv api E w \<Longrightarrow> lib_inv api E w'"
  by (auto 4 8 simp: mb_smf_sc_tmgi_create_def split: bind_splits dest: keeps)

section \<open>Session data\<close>

lemma keeps_free_word [keeps]:
  "free_word p w = Some w' \<Longrightarrow> lib_inv api E w \<Longrightarrow> lib_inv api E w'"
  by (auto simp: free_word_def split: option.splits)

lemma keeps_public_clear [keeps]:
  assumes "mbs_session_public_clear s w = Some (d, w')" "lib_inv api E w"
  shows "lib_inv api E w'"
proof -
  obtain w1 w2 w3 where "w1 = w \<or> tmgi_free (se_tmgi s) w = Some w1"
    "free_word (se_area_session_id s) w1 = Some w2" "free_word (se_start_time s) w2 = Some w3"
    "free_word (se_termination_time s) w3 = Some w'"
    using assms(1) by (auto simp: mbs_session_public_clear_def Let_def split: bind_splits if_splits)
  then show ?thesis using assms(2) by (blast dest: keeps)
qed

lemma keeps_public_free [keeps]:
  "mbs_session_public_free p w = Some w' \<Longrightarrow> lib_inv api E w \<Longrightarrow> lib_inv api E w'"
  by (auto simp: mbs_session_public_free_def split: option.splits dest: keeps)

lemma keeps_copy_values [keeps]:
  assumes "mbs_session_copy_values d s w = Some (r, w')" "lib_inv api E w"
  shows "lib_inv api E w'"
proof -
  obtain t where "(if se_tmgi_req s then tmgi_copy (se_tmgi d) (se_tmgi s) w else Some (se_tmgi s, w)) = Some (t, w')"
    using assms(1) by (auto simp: mbs_session_copy_values_def Let_def split: bind_splits if_splits)
  then show ?thesis using assms(2) by (auto split: if_splits dest: keeps)
qed

lemma keeps_public_copy [keeps]:
  "mbs_session_public_copy d s w = Some (r, w') \<Longrightarrow> lib_inv api E w \<Longrightarrow> lib_inv api E w'"
  by (auto simp: mbs_session_public_copy_def Let_def split: option.splits bind_splits dest: keeps)

section \<open>Sessions and subscriptions\<close>

lemma keeps_fresh_session:
  assumes "lib_inv api E w" "ps_sbi s = None"
  shows "lib_inv api E (put_session (w_next w) s (w\<lparr>w_next := w_next w + 1\<rparr>))"
proof -
  let ?w = "w\<lparr>w_next := w_next w + 1\<rparr>"
  have inv: "lib_inv api E ?w" by (rule keeps_next [OF assms(1)])
  have "session_sbi ?w (w_next w) = None"
    using refs_ok_fresh [OF lib_inv_refs [OF assms(1)]] by (simp add: session_sbi_def)
  then have "refs_ok E (put_session (w_next w) s ?w)"
    using refs_put_session [of E s ?w "w_next w"] lib_inv_refs [OF inv] assms(2) by simp
  then show ?thesis using inv by (auto simp: lib_inv_def ctx_ok_def tmgi_caches_ok_def)
qed

lemma keeps_session_new [keeps]:
  "mbs_session_new w = (a, w') \<Longrightarrow> lib_inv api E w \<Longrightarrow> lib_inv api E w'"
  using keeps_fresh_session [of api E w] by (auto simp: mbs_session_new_def Let_def)

lemma keeps_session_new_addr [keeps]:
  assumes "mbs_session_new_addr fam src dst w = Some (a, w')" "lib_inv api E w"
  shows "lib_inv api E w'"
proof -
  have fresh: "w_sessions w (w_next w) = None" using refs_ok_fresh [OF lib_inv_refs [OF assms(2)]] by simp
  obtain s where s: "ps_sbi s = None"
      "w' = snd (context_add_mbs_session (Some (w_next w))
              (put_session (w_next w) s (w\<lparr>w_next := w_next w + 1\<rparr>)))"
    using assms(1)
    by (auto simp: mbs_session_new_addr_def mbs_session_new_def Let_def split: bind_splits prod.splits)
      (metis session.select_convs(11) session.update_convs(1) snd_conv)
  let ?v = "put_session (w_next w) s (w\<lparr>w_next := w_next w + 1\<rparr>)"
  have inv: "lib_inv api E ?v" by (rule keeps_fresh_session [OF assms(2) s(1)])
  have "w_next w \<notin> set (ctx_sessions c)" if "w_ctx w = Some c" for c
    using that fresh assms(2) unfolding lib_inv_def ctx_ok_def by metis
  then have "ctx_ok (snd (context_add_mbs_session (Some (w_next w)) ?v))"
    using inv
    by (auto simp: lib_inv_def ctx_ok_def context_add_mbs_session_def split: option.split)
  moreover have "refs_ok E (snd (context_add_mbs_session (Some (w_next w)) ?v))"
    "tmgi_caches_ok api (snd (context_add_mbs_session (Some (w_next w)) ?v))"
    using inv by (auto simp: lib_inv_def context_add_mbs_session_def tmgi_caches_ok_def split: option.split)
  ultimately show ?thesis using s(2) by (simp add: lib_inv_def)
qed

lemma keeps_mark_deleted [keeps]:
  "mbs_session_mark_deleted p w = Some w' \<Longrightarrow> lib_inv api E w \<Longrightarrow> lib_inv api E w'"
  by (auto simp: mbs_session_mark_deleted_def split: option.splits bind_splits intro!: keeps_put_session)

lemma release_sbi [simp]:
  "ps_sbi (fst (release_create_callback_data s)) = ps_sbi s"
  "ps_sbi (fst (release_update_callback_data s)) = ps_sbi s"
  "ps_sbi (fst (release_delete_callback_data s)) = ps_sbi s"
  by (simp_all add: release_create_callback_data_def release_update_callback_data_def
      release_delete_callback_data_def split: prod.split)

lemma set_slot_sbi [simp]:
  "ps_sbi (fst (set_create_callback_freefn cb d f s)) = ps_sbi s"
  "ps_sbi (fst (set_update_callback_freefn cb d f s)) = ps_sbi s"
  "ps_sbi (fst (set_delete_callback_freefn cb d f s)) = ps_sbi s"
  by (simp_all add: set_create_callback_freefn_def set_update_callback_freefn_def
      set_delete_callback_freefn_def case_prod_beta)

lemma set_callback_sbi: "ps_sbi (fst (snd (set_callback_freefn cb d f s))) = ps_sbi s"
  using set_slot_sbi by (simp add: set_callback_freefn_def case_prod_beta Let_def)

lemma keeps_set_callback [keeps]:
  assumes "mbs_session_set_callback p cb d f w = Some (ok, w')" "lib_inv api E w"
  shows "lib_inv api E w'"
proof (cases p)
  case (Some a)
  then obtain s where s: "w_sessions w a = Some s"
      "w' = (case set_callback_freefn cb d f s of (ok, s, es) \<Rightarrow> fold log_event es (put_session a s w))"
    using assms(1) by (auto simp: mbs_session_set_callback_def split: bind_splits prod.splits)
  then show ?thesis
    using keeps_put_session [OF assms(2) s(1) set_callback_sbi] by (simp add: case_prod_beta)
qed (use assms in \<open>simp add: mbs_session_set_callback_def\<close>)

lemma keeps_do_callback [keeps]:
  "mbs_session_do_callback slot res pr p w = Some w' \<Longrightarrow> lib_inv api E w \<Longrightarrow> lib_inv api E w'"
  by (auto simp: mbs_session_do_callback_def split: option.splits bind_splits)

lemmas session_callback_defs = mbs_session_do_created_callback_def mbs_session_do_create_error_callback_def
  mbs_session_do_create_timeout_callback_def mbs_session_do_updated_callback_def
  mbs_session_do_deleted_callback_def

lemma keeps_set_tmgi [keeps]:
  assumes "mbs_session_set_tmgi p q w = Some (ok, w')" "lib_inv api E w"
  shows "lib_inv api E w'"
  using assms
  by (auto simp: mbs_session_set_tmgi_def Let_def split: option.splits bind_splits if_splits)
    ((rule keeps_session_swap, assumption+, simp | rule keeps_put_session, assumption+, simp)+)

lemma keeps_subscription_new [keeps]:
  assumes "mbs_status_subscription_new i f c e cb d w = (a, w')" "lib_inv api E w"
  shows "lib_inv api E w'"
proof -
  let ?w = "w\<lparr>w_next := w_next w + 1\<rparr>"
  have inv: "lib_inv api E ?w" by (rule keeps_next [OF assms(2)])
  then have "refs_ok E (put_subsc (w_next w) u ?w)" for u
    using counts_ok_put(3) [of _ ?w "w_next w" u] by (simp add: lib_inv_def refs_ok_def)
  then have "lib_inv api E (put_subsc (w_next w) u ?w)" for u
    using inv by (simp add: lib_inv_def ctx_ok_def tmgi_caches_ok_def)
  then show ?thesis using assms(1) by (auto simp: mbs_status_subscription_new_def Let_def)
qed

lemma keeps_on_subscription [keeps]:
  "on_subscription g p w = Some w' \<Longrightarrow> lib_inv api E w \<Longrightarrow> lib_inv api E w'"
  by (auto simp: on_subscription_def split: option.splits bind_splits intro: keeps_put_subsc)

lemma keeps_subscription_as_string [keeps]:
  "mbs_status_subscription_as_string api' p w = Some (r, w') \<Longrightarrow> lib_inv api E w \<Longrightarrow> lib_inv api E w'"
  by (auto simp: mbs_status_subscription_as_string_def Let_def split: option.splits bind_splits
      intro: keeps_put_subsc)

lemma keeps_subscription_delete [keeps]:
  "mbs_status_subscription_delete a w = Some w' \<Longrightarrow> lib_inv api E w \<Longrightarrow> lib_inv api E w'"
  using keeps_del_subsc [of api E w a] keeps_del_subsc [of api E "log_event e w" a for e]
  by (auto simp: mbs_status_subscription_delete_def notification_server_free_def Let_def
      split: option.splits bind_splits if_splits intro: keeps_del_subsc)

end
