(* ===== verification/Sc_Inv_Push.thy ===== *)
theory Sc_Inv_Push
  imports Sc_Invariant
begin

text \<open>
  The invariant of \<open>Sc_Invariant\<close> for the requests, the subscription lists, the pushing of
  changes and the deletion of sessions.
\<close>

section \<open>Requests about sessions and subscriptions\<close>

lemma keeps_allocate_server [keeps]:
  assumes "allocate_notification_server api' a w = Some w'" "lib_inv api E w"
  shows "lib_inv api E w'"
proof -
  obtain u where u: "w_subscs w a = Some u"
    using assms(1) by (auto simp: allocate_notification_server_def split: bind_splits)
  have put: "lib_inv api E (put_subsc a x v)" if "lib_inv api E v" "w_subscs v = w_subscs w" for x v
    using keeps_put_subsc [of api E v a u] that u by simp
  have nxt: "lib_inv api E (v\<lparr>w_next := Suc (w_next v)\<rparr>)" if "lib_inv api E v" for v
    by (rule lib_inv_next_Suc [OF that])
  have two: "lib_inv api E (w\<lparr>w_fixed := f, w_next := Suc (Suc (w_next w))\<rparr>)" for f
    using nxt [OF nxt, of "w\<lparr>w_fixed := f\<rparr>"] assms(2) by simp
  show ?thesis
    using assms u
    by (auto simp: allocate_notification_server_def new_sbi_server_def Let_def
        split: if_splits option.splits
        intro!: put two nxt)
qed

lemma keeps_build_create [keeps]:
  "session_build_create api' a w = Some w' \<Longrightarrow> lib_inv api E w \<Longrightarrow> lib_inv api E w'"
  by (auto simp: session_build_create_def split: bind_splits option.splits if_splits dest: keeps)

lemma keeps_send_create [keeps]:
  assumes "mbs_session_send_create api' a w = Some w'" "lib_inv api E w"
  shows "lib_inv api E w'"
proof -
  obtain s where s: "w_sessions w a = Some s"
    using assms(1) by (auto simp: mbs_session_send_create_def split: bind_splits)
  obtain r x where new: "ref_count_sbi_object_new w = (r, x)" by (cases "ref_count_sbi_object_new w")
  let ?v = "case ps_sbi s of Some r \<Rightarrow> w
      | None \<Rightarrow> (case ref_count_sbi_object_new w of (r, w) \<Rightarrow> put_session a (s\<lparr>ps_sbi := Some r\<rparr>) w)"
  have "lib_inv api (E + opt_ref (ps_sbi s)) (put_session a (s\<lparr>ps_sbi := Some r\<rparr>) x)"
    if "ps_sbi s = None"
    using keeps_new [OF new assms(2)] s refs_new(3) [OF lib_inv_refs [OF assms(2)] new]
    by (intro keeps_put_sbi) simp_all
  then have v: "lib_inv api E ?v" using assms(2) new by (auto split: option.split)
  obtain y z rq where y: "session_build_create api' a ?v = Some y" "send_request z rq y = Some w'"
    using assms(1) s by (auto simp: mbs_session_send_create_def Let_def split: bind_splits)
  show ?thesis by (rule keeps_send_request [OF y(2) keeps_build_create [OF y(1) v]])
qed

lemma keeps_session_sends [keeps]:
  "mbs_session_send_update api' a w = Some w' \<Longrightarrow> lib_inv api E w \<Longrightarrow> lib_inv api E w'"
  "mbs_session_send_remove a w = Some w' \<Longrightarrow> lib_inv api E w \<Longrightarrow> lib_inv api E w'"
  "mbs_status_subscription_send_create a w = Some w' \<Longrightarrow> lib_inv api E w \<Longrightarrow> lib_inv api E w'"
  "mbs_status_subscription_send_update api' a w = Some w' \<Longrightarrow> lib_inv api E w \<Longrightarrow> lib_inv api E w'"
  "mbs_status_subscription_send_delete a w = Some w' \<Longrightarrow> lib_inv api E w \<Longrightarrow> lib_inv api E w'"
  by (auto simp: mbs_session_send_update_def mbs_session_send_remove_def
      mbs_status_subscription_send_create_def mbs_status_subscription_send_update_def
      mbs_status_subscription_send_delete_def split: bind_splits option.splits dest: keeps)

section \<open>The subscription lists\<close>

lemma keeps_clear_changed [keeps]:
  "clear_changed a w = Some w' \<Longrightarrow> lib_inv api E w \<Longrightarrow> lib_inv api E w'"
  by (auto simp: clear_changed_def split: bind_splits intro: keeps_put_subsc)

lemma keeps_create_new_subscriptions [keeps]:
  "create_new_subscriptions as w = Some w' \<Longrightarrow> lib_inv api E w \<Longrightarrow> lib_inv api E w'"
  by (induction as arbitrary: w) (auto 4 8 split: bind_splits if_splits dest: keeps)

lemma keeps_update_active_subscriptions [keeps]:
  "update_active_subscriptions api' as w = Some w' \<Longrightarrow> lib_inv api E w \<Longrightarrow> lib_inv api E w'"
  by (induction as arbitrary: w) (auto 4 8 split: bind_splits if_splits dest: keeps)

lemma keeps_delete_old_subscriptions [keeps]:
  "delete_old_subscriptions s as w = Some w' \<Longrightarrow> lib_inv api E w \<Longrightarrow> lib_inv api E w'"
proof (induction as arbitrary: w)
  case (Cons a as)
  then obtain w1 w2 x w3 where w: "mbs_status_subscription_send_delete a w = Some w1"
      "clear_changed a w1 = Some w2" "w_sessions w2 s = Some x"
      "mbs_status_subscription_delete a (put_session s (x\<lparr>ps_deleted := remove1 a (ps_deleted x)\<rparr>) w2) = Some w3"
      "delete_old_subscriptions s as w3 = Some w'"
    by (auto simp: Let_def split: bind_splits)
  have "lib_inv api E w2" using w(1,2) Cons.prems(2) by (blast dest: keeps)
  then have "lib_inv api E (put_session s (x\<lparr>ps_deleted := remove1 a (ps_deleted x)\<rparr>) w2)"
    by (rule keeps_put_session [OF _ w(3)]) simp
  then have "lib_inv api E w3" using w(4) by (blast dest: keeps)
  then show ?case by (rule Cons.IH [OF w(5)])
qed simp

lemma keeps_subscriptions_update [keeps]:
  "mbs_session_subscriptions_update api' a w = Some w' \<Longrightarrow> lib_inv api E w \<Longrightarrow> lib_inv api E w'"
  by (auto 4 8 simp: mbs_session_subscriptions_update_def split: bind_splits dest: keeps)

lemma keeps_push_changes [keeps]:
  "mbs_session_push_changes api' p w = Some (ok, w') \<Longrightarrow> lib_inv api E w \<Longrightarrow> lib_inv api E w'"
  by (auto 4 8 simp: mbs_session_push_changes_def split: option.splits bind_splits if_splits dest: keeps)

lemma keeps_push_sessions [keeps]:
  "push_sessions api' as w = Some (ok, w') \<Longrightarrow> lib_inv api E w \<Longrightarrow> lib_inv api E w'"
  by (induction as arbitrary: w ok) (auto 4 8 split: bind_splits dest: keeps)

lemma keeps_push_all_changes [keeps]:
  "mbs_session_push_all_changes api' w = Some (ok, w') \<Longrightarrow> lib_inv api E w \<Longrightarrow> lib_inv api E w'"
  by (auto simp: mbs_session_push_all_changes_def split: bind_splits dest: keeps)

lemma keeps_add_subscription [keeps]:
  assumes "mbs_session_add_subscription p q w = Some (ok, w')" "lib_inv api E w"
  shows "lib_inv api E w'"
proof (cases "\<exists>a b s. p = Some a \<and> q = Some b \<and> w_sessions w a = Some s \<and> \<not> ps_is_deleted s")
  case True
  then obtain a b s where p: "p = Some a" "q = Some b" "w_sessions w a = Some s" "\<not> ps_is_deleted s" by blast
  let ?v = "case ps_active s of None \<Rightarrow> put_session a (s\<lparr>ps_active := Some []\<rparr>) w | Some _ \<Rightarrow> w"
  have v: "lib_inv api E ?v" using p assms(2) by (auto split: option.split intro: keeps_put_session)
  obtain u y where u: "w_subscs ?v b = Some u"
      "(case su_id u of None \<Rightarrow> Some ?v
        | Some i \<Rightarrow> do {
            o1 \<leftarrow> su_session u; x \<leftarrow> w_sessions ?v o1; h \<leftarrow> ps_active x;
            let w = put_session o1 (x\<lparr>ps_active := Some (AList.delete i h)\<rparr>) ?v;
            w \<leftarrow> mbs_status_subscription_send_delete b w;
            Some (put_subsc b (u\<lparr>su_id := None\<rparr>) w) }) = Some y"
    using assms(1) p by (auto simp: mbs_session_add_subscription_def Let_def split: bind_splits)
  have y: "lib_inv api E y"
  proof (cases "su_id u")
    case (Some i)
    then obtain o1 x h z where z: "w_sessions ?v o1 = Some x"
        "mbs_status_subscription_send_delete b (put_session o1 (x\<lparr>ps_active := Some (AList.delete i h)\<rparr>) ?v) = Some z"
        "y = put_subsc b (u\<lparr>su_id := None\<rparr>) z"
      using u(2) by (auto simp: Let_def split: bind_splits)
    have "lib_inv api E (put_session o1 (x\<lparr>ps_active := Some (AList.delete i h)\<rparr>) ?v)"
      by (rule keeps_put_session [OF v z(1)]) simp
    then have "lib_inv api E z" using z(2) by (blast dest: keeps)
    moreover have "w_subscs z b = Some u"
      using z(2) u(1) by (auto simp: mbs_status_subscription_send_delete_def send_request_def
          split: bind_splits option.splits)
    ultimately show ?thesis using z(3) keeps_put_subsc by simp
  qed (use u(2) v in simp)
  obtain s' u' where s': "w_sessions y a = Some s'" "w_subscs y b = Some u'"
      "w' = put_subsc b (u'\<lparr>su_session := Some a, su_changed := True\<rparr>) (put_session a (s'\<lparr>ps_new := ps_new s' @ [b]\<rparr>) y)"
    using assms(1) p u by (auto simp: mbs_session_add_subscription_def Let_def split: bind_splits)
  have "lib_inv api E (put_session a (s'\<lparr>ps_new := ps_new s' @ [b]\<rparr>) y)"
    by (rule keeps_put_session [OF y s'(1)]) simp
  then show ?thesis unfolding s'(3) by (rule keeps_put_subsc) (use s'(2) in simp)
qed (use assms in \<open>auto simp: mbs_session_add_subscription_def split: option.splits bind_splits if_splits\<close>)

lemma keeps_remove_subscription [keeps]:
  assumes "mbs_session_remove_subscription p q w = Some (ok, w')" "lib_inv api E w"
  shows "lib_inv api E w'"
proof -
  have del: "lib_inv api E (put_subsc b u' v)"
    if "mbs_status_subscription_delete b (put_session a s' w) = Some v" "w_sessions w a = Some s"
      "ps_sbi s' = ps_sbi s" "w_subscs v b = Some u" for a b s s' u u' v
  proof -
    have "lib_inv api E (put_session a s' w)" by (rule keeps_put_session [OF assms(2) that(2,3)])
    then have "lib_inv api E v" using that(1) by (blast dest: keeps)
    then show ?thesis by (rule keeps_put_subsc [OF _ that(4)])
  qed
  show ?thesis
    using assms
    by (auto simp: mbs_session_remove_subscription_def Let_def
        split: option.splits bind_splits if_splits intro: del
        intro!: keeps_put_subsc [OF keeps_put_session [OF assms(2)]])
qed

lemma keeps_status_subscription_delete [keeps]:
  "mb_smf_sc_mbs_status_subscription_delete q w = Some w' \<Longrightarrow> lib_inv api E w \<Longrightarrow> lib_inv api E w'"
  by (auto simp: mb_smf_sc_mbs_status_subscription_delete_def split: option.splits bind_splits if_splits
      dest: keeps)

section \<open>Deletion of a session\<close>

lemma keeps_delete_subscriptions [keeps]:
  "delete_subscriptions as w = Some w' \<Longrightarrow> lib_inv api E w \<Longrightarrow> lib_inv api E w'"
  by (induction as arbitrary: w) (auto split: bind_splits dest: keeps)

text \<open>The steps of a deletion leave the session objects and their list alone.\<close>

definition sessions_kept :: "world \<Rightarrow> world \<Rightarrow> bool" where
  "sessions_kept w w' \<longleftrightarrow>
     w_sessions w' = w_sessions w \<and> context_mbs_sessions w' = context_mbs_sessions w"

lemma sessions_kept_refl [simp]: "sessions_kept w w"
  by (simp add: sessions_kept_def)

lemma sessions_kept_trans: "sessions_kept u v \<Longrightarrow> sessions_kept v w \<Longrightarrow> sessions_kept u w"
  by (simp add: sessions_kept_def)

lemma unref_kept: "ref_count_sbi_object_unref p w = Some w' \<Longrightarrow> sessions_kept w w'"
  using unref_sel [of p w w'] by (simp add: sessions_kept_def context_mbs_sessions_def)

lemma tmgi_free_kept:
  assumes "tmgi_free p w = Some w'"
  shows "sessions_kept w w'"
proof (cases p)
  case (Some a)
  then obtain t c where t: "w_tmgis w a = Some t" "w_ctx w = Some c" "a \<in> set (ctx_tmgis c)"
    using assms
    by (auto simp: tmgi_free_def context_remove_tmgi_def split: option.splits bind_splits if_splits)
  then obtain v where v:
      "ref_count_sbi_object_unref (tm_sbi t) (w\<lparr>w_ctx := Some (c\<lparr>ctx_tmgis := remove1 a (ctx_tmgis c)\<rparr>)\<rparr>) = Some v"
      "w' = v\<lparr>w_tmgis := (w_tmgis v)(a := None)\<rparr>"
    using assms Some by (auto simp: tmgi_free_def context_remove_tmgi_def split: bind_splits)
  then show ?thesis
    using unref_kept [OF v(1)] t(2) by (simp add: sessions_kept_def context_mbs_sessions_def)
qed (use assms in \<open>simp add: tmgi_free_def\<close>)

lemma free_word_kept: "free_word p w = Some w' \<Longrightarrow> sessions_kept w w'"
  by (auto simp: free_word_def sessions_kept_def context_mbs_sessions_def split: option.splits)

lemma public_clear_kept:
  assumes "mbs_session_public_clear s w = Some (d, w')"
  shows "sessions_kept w w'"
proof -
  obtain w1 w2 w3 where "w1 = w \<or> tmgi_free (se_tmgi s) w = Some w1"
    "free_word (se_area_session_id s) w1 = Some w2" "free_word (se_start_time s) w2 = Some w3"
    "free_word (se_termination_time s) w3 = Some w'"
    using assms by (auto simp: mbs_session_public_clear_def Let_def split: bind_splits if_splits)
  then show ?thesis
    using tmgi_free_kept free_word_kept sessions_kept_trans sessions_kept_refl by metis
qed

lemma public_free_kept: "mbs_session_public_free p w = Some w' \<Longrightarrow> sessions_kept w w'"
  by (auto simp: mbs_session_public_free_def split: option.splits dest: public_clear_kept)

lemma delete_subscriptions_kept: "delete_subscriptions as w = Some w' \<Longrightarrow> sessions_kept w w'"
proof (induction as arbitrary: w)
  case (Cons a as)
  then obtain v where v: "mbs_status_subscription_delete a w = Some v" "delete_subscriptions as v = Some w'"
    by (auto split: bind_splits)
  have "sessions_kept w v"
    using v(1) by (auto simp: mbs_status_subscription_delete_def notification_server_free_def sessions_kept_def
        context_mbs_sessions_def Let_def split: bind_splits option.splits if_splits)
  then show ?case using Cons.IH [OF v(2)] sessions_kept_trans by blast
qed simp

lemma fold_log_kept: "sessions_kept w (fold log_event es w)"
  by (induction es arbitrary: w) (auto simp: sessions_kept_def context_mbs_sessions_def)

text \<open>Those steps do the same when the session object is gone already.\<close>

lemma unref_sessions:
  "ref_count_sbi_object_unref p (w\<lparr>w_sessions := f\<rparr>) =
     map_option (\<lambda>w. w\<lparr>w_sessions := f\<rparr>) (ref_count_sbi_object_unref p w)"
  by (auto simp: ref_count_sbi_object_unref_def log_event_def Let_def split: option.split bind_split)

lemma tmgi_free_sessions:
  "tmgi_free p (w\<lparr>w_sessions := f\<rparr>) = map_option (\<lambda>w. w\<lparr>w_sessions := f\<rparr>) (tmgi_free p w)"
proof -
  have "ref_count_sbi_object_unref q (w\<lparr>w_sessions := f, w_ctx := c\<rparr>) =
      map_option (\<lambda>w. w\<lparr>w_sessions := f\<rparr>) (ref_count_sbi_object_unref q (w\<lparr>w_ctx := c\<rparr>))" for q c
  proof -
    have "w\<lparr>w_sessions := f, w_ctx := c\<rparr> = w\<lparr>w_ctx := c, w_sessions := f\<rparr>" by simp
    then show ?thesis by (simp only: unref_sessions)
  qed
  then show ?thesis
    by (auto simp: tmgi_free_def context_remove_tmgi_def split: option.split bind_split)
qed

lemma free_word_sessions:
  "free_word p (w\<lparr>w_sessions := f\<rparr>) = map_option (\<lambda>w. w\<lparr>w_sessions := f\<rparr>) (free_word p w)"
  by (auto simp: free_word_def split: option.split)

lemma public_clear_sessions:
  "mbs_session_public_clear s (w\<lparr>w_sessions := f\<rparr>) =
     map_option (\<lambda>(d, w). (d, w\<lparr>w_sessions := f\<rparr>)) (mbs_session_public_clear s w)"
  by (auto simp: mbs_session_public_clear_def Let_def tmgi_free_sessions free_word_sessions
      split: bind_split option.split)

lemma keeps_del_session:
  assumes "lib_inv api E w" "w_sessions w a = Some s" "a \<notin> set (the (context_mbs_sessions w))"
  shows "lib_inv api (E + opt_ref (ps_sbi s)) (w\<lparr>w_sessions := (w_sessions w)(a := None)\<rparr>)"
proof -
  let ?n = "s\<lparr>ps_sbi := None\<rparr>" and ?w = "w\<lparr>w_sessions := (w_sessions w)(a := None)\<rparr>"
  have put: "lib_inv api (E + opt_ref (ps_sbi s)) (put_session a ?n w)"
    by (rule keeps_put_sbi) (use assms in simp_all)
  have "held_refs ?w = held_refs (put_session a ?n w)"
    by (simp add: held_refs_def session_sbi_def tmgi_sbi_def put_session_def) (rule sum.cong, auto)
  then have "refs_ok (E + opt_ref (ps_sbi s)) ?w"
    using lib_inv_refs [OF put] by (auto simp: refs_ok_def counts_ok_def objects_below_def)
  moreover have "ctx_ok ?w"
    using assms by (auto simp: lib_inv_def ctx_ok_def context_mbs_sessions_def)
  ultimately show ?thesis using assms(1) by (simp add: lib_inv_def tmgi_caches_ok_def)
qed

lemma release_all_sbi: "ps_sbi (fst (release_callback_data s)) = ps_sbi s"
proof -
  obtain s1 e1 s2 e2 s3 e3 where r: "release_create_callback_data s = (s1, e1)"
      "release_update_callback_data s1 = (s2, e2)" "release_delete_callback_data s2 = (s3, e3)"
    by (metis surj_pair)
  then have "ps_sbi s1 = ps_sbi s" "ps_sbi s2 = ps_sbi s1" "ps_sbi s3 = ps_sbi s2"
    using release_sbi(1) [of s] release_sbi(2) [of s1] release_sbi(3) [of s2] by simp_all
  then show ?thesis by (simp add: release_callback_data_def r)
qed

lemma keeps_session_delete:
  assumes "mbs_session_delete (Some a) w = Some w'" "lib_inv api E w"
    and out: "a \<notin> set (the (context_mbs_sessions w))"
  shows "lib_inv api E w'"
proof -
  obtain s0 w1 where s0: "w_sessions w a = Some s0" "mbs_session_public_free (ps_previous s0) w = Some w1"
    using assms(1) by (auto simp: mbs_session_delete_def split: bind_splits)
  obtain s es where s: "release_callback_data (s0\<lparr>ps_previous := None\<rparr>) = (s, es)" by fastforce
  let ?w2 = "fold log_event es (put_session a s w1)"
  obtain w3 w4 where w: "delete_subscriptions (ps_new s) ?w2 = Some w3"
      "ps_active s = None \<or> ps_active s = Some []" "delete_subscriptions (ps_deleted s) w3 = Some w4"
    using assms(1) s0 s by (auto simp: mbs_session_delete_def Let_def split: bind_splits option.splits list.splits)
  obtain w5 d w6 where w5: "ref_count_sbi_object_unref (ps_sbi s) w4 = Some w5"
      "mbs_session_public_clear (ps_public s) w5 = Some (d, w6)"
      "w' = w6\<lparr>w_sessions := (w_sessions w6)(a := None)\<rparr>"
    using assms(1) s0 s w by (auto simp: mbs_session_delete_def Let_def split: bind_splits option.splits list.splits)
  have k1: "sessions_kept w w1" by (rule public_free_kept [OF s0(2)])
  have k2: "w_sessions ?w2 = (w_sessions w)(a \<mapsto> s)" "context_mbs_sessions ?w2 = context_mbs_sessions w"
    using k1 fold_log_kept [of "put_session a s w1" es] by (simp_all add: sessions_kept_def context_mbs_sessions_def)
  have k4: "sessions_kept ?w2 w4"
    using delete_subscriptions_kept [OF w(1)] delete_subscriptions_kept [OF w(3)] sessions_kept_trans by blast
  then have sa: "w_sessions w4 a = Some s" "a \<notin> set (the (context_mbs_sessions w4))"
    using k2 out by (simp_all add: sessions_kept_def)
  have "ps_sbi s = ps_sbi s0"
    using release_all_sbi [of "s0\<lparr>ps_previous := None\<rparr>"] s by simp
  moreover have "lib_inv api E w1" using s0(2) assms(2) by (blast dest: keeps)
  ultimately have "lib_inv api E ?w2"
    using keeps_put_session [of api E w1 a s0 s] s0(1) k1 by (simp add: sessions_kept_def)
  then have "lib_inv api E w4" using w(1,3) by (blast dest: keeps)
  from keeps_del_session [OF this sa]
  have "lib_inv api (E + opt_ref (ps_sbi s)) (w4\<lparr>w_sessions := (w_sessions w4)(a := None)\<rparr>)" .
  moreover have "ref_count_sbi_object_unref (ps_sbi s) (w4\<lparr>w_sessions := (w_sessions w4)(a := None)\<rparr>) =
      Some (w5\<lparr>w_sessions := (w_sessions w4)(a := None)\<rparr>)"
    using w5(1) by (simp add: unref_sessions)
  ultimately have "lib_inv api E (w5\<lparr>w_sessions := (w_sessions w4)(a := None)\<rparr>)" by (rule keeps_unref [rotated])
  moreover have "mbs_session_public_clear (ps_public s) (w5\<lparr>w_sessions := (w_sessions w4)(a := None)\<rparr>) =
      Some (d, w6\<lparr>w_sessions := (w_sessions w4)(a := None)\<rparr>)"
    using w5(2) by (simp add: public_clear_sessions)
  ultimately have "lib_inv api E (w6\<lparr>w_sessions := (w_sessions w4)(a := None)\<rparr>)" by (blast dest: keeps)
  moreover have "w_sessions w6 = w_sessions w4"
    using unref_kept [OF w5(1)] public_clear_kept [OF w5(2)] by (simp add: sessions_kept_def)
  ultimately show ?thesis using w5(3) by simp
qed

lemma keeps_context_remove_session [keeps]:
  assumes "context_remove_mbs_session p w = Some (ok, w')" "lib_inv api E w"
  shows "lib_inv api E w'"
proof (cases "\<exists>a c. p = Some a \<and> w_ctx w = Some c")
  case True
  then obtain a c where p: "p = Some a" "w_ctx w = Some c" by blast
  let ?v = "w\<lparr>w_ctx := Some (c\<lparr>ctx_sessions := remove1 a (ctx_sessions c)\<rparr>)\<rparr>"
  have d: "mbs_session_delete (Some a) ?v = Some w'"
    using assms(1) p by (auto simp: context_remove_mbs_session_def split: if_splits bind_splits)
  have "distinct (ctx_sessions c)" using assms(2) p(2) by (simp add: lib_inv_def ctx_ok_def)
  then have "a \<notin> set (the (context_mbs_sessions ?v))" by (simp add: context_mbs_sessions_def)
  moreover have "lib_inv api E ?v"
    using assms(2) p(2) by (auto simp: lib_inv_def ctx_ok_def tmgi_caches_ok_def
        dest: set_remove1_subset [THEN subsetD])
  ultimately show ?thesis using keeps_session_delete [OF d] by blast
qed (use assms in \<open>auto simp: context_remove_mbs_session_def split: option.splits\<close>)

lemma keeps_remove_all [keeps]:
  "remove_sessions as w = Some w' \<Longrightarrow> lib_inv api E w \<Longrightarrow> lib_inv api E w'"
  "remove_tmgis as w = Some w' \<Longrightarrow> lib_inv api E w \<Longrightarrow> lib_inv api E w'"
  by (induction as arbitrary: w) (auto split: bind_splits dest: keeps)

lemma lib_inv_no_ctx: "lib_inv api E w \<Longrightarrow> lib_inv api E (w\<lparr>w_ctx := None\<rparr>)"
  by (simp add: lib_inv_def ctx_ok_def tmgi_caches_ok_def)

lemma keeps_context_new [keeps]: "context_new w = w' \<Longrightarrow> lib_inv api E w \<Longrightarrow> lib_inv api E w'"
  by (auto simp: context_new_def lib_inv_def ctx_ok_def tmgi_caches_ok_def)

lemma keeps_context_destroy [keeps]:
  assumes "context_destroy w = Some w'" "lib_inv api E w"
  shows "lib_inv api E w'"
proof (cases "w_ctx w")
  case (Some c)
  then obtain v ts y where "remove_sessions (ctx_sessions c) w = Some v" "remove_tmgis ts v = Some y"
      "w' = y\<lparr>w_ctx := None\<rparr>"
    using assms(1) by (auto simp: context_destroy_def split: bind_splits)
  then show ?thesis using assms(2) lib_inv_no_ctx by (blast dest: keeps)
qed (use assms in \<open>simp add: context_destroy_def\<close>)

lemma keeps_terminate [keeps]:
  "mb_smf_sc_terminate w = Some w' \<Longrightarrow> lib_inv api E w \<Longrightarrow> lib_inv api E w'"
  by (auto simp: mb_smf_sc_terminate_def tidy_fixed_notification_server_def split: option.splits
      dest!: keeps_context_destroy [where E = E and api = api])

end
