(* ===== verification/Sc_Inv_Events.thy ===== *)
theory Sc_Inv_Events
  imports Sc_Inv_Push
begin

text \<open>
  The invariant of \<open>Sc_Invariant\<close> for the handlers of responses and notifications, up to the
  event handler of the library.
\<close>

section \<open>Responses about TMGIs\<close>

lemma keeps_tmgi_do_callback [keeps]:
  "tmgi_do_callback res pr a w = Some w' \<Longrightarrow> lib_inv api E w \<Longrightarrow> lib_inv api E w'"
  by (auto simp: tmgi_do_callback_def split: bind_splits option.splits)

lemma tmgi_assign_keeps:
  "tm_sbi (tmgi_assign api e m t) = tm_sbi t"
  "tmgi_cache_ok api a t \<Longrightarrow> tmgi_cache_ok api a (tmgi_assign api e m t)"
  by (cases m; simp add: tmgi_assign_def)
    (cases m; simp add: tmgi_assign_def tmgi_cache_setters)

lemma keeps_tmgi_assign:
  "lib_inv api E w \<Longrightarrow> w_tmgis w a = Some t \<Longrightarrow> lib_inv api E (put_tmgi a (tmgi_assign api e m t) w)"
  by (rule keeps_put_tmgi, assumption+) (simp_all add: tmgi_assign_keeps)

lemma keeps_tmgi_allocated_list [keeps]:
  "tmgi_allocated_list api e ms w = Some (ok, w') \<Longrightarrow> lib_inv api E w \<Longrightarrow> lib_inv api E w'"
proof (induction api e ms w rule: tmgi_allocated_list.induct)
  case (3 api e m ms w)
  then obtain r where r: "tmgi_find_matching_openapi_type api (Some m) w = Some r"
    by (auto split: bind_splits)
  show ?case
  proof (cases r)
    case None
    then show ?thesis using 3 r by simp
  next
    case (Some a)
    then obtain t v where t: "w_tmgis w a = Some t"
        "tmgi_do_callback Ogs_ok None a (put_tmgi a (tmgi_assign api e m t) w) = Some v"
        "tmgi_allocated_list api e ms v = Some (ok, w')"
      using 3(3) r by (auto split: bind_splits)
    have "lib_inv api E v" using t(1,2) 3(4) by (blast dest: keeps intro: keeps_tmgi_assign)
    then show ?thesis using 3(2) [OF r Some t(1,2,3)] by blast
  qed
qed auto

lemma keeps_tmgi_refresh_errors [keeps]:
  "tmgi_refresh_errors api' pr ms w = Some w' \<Longrightarrow> lib_inv api E w \<Longrightarrow> lib_inv api E w'"
proof (induction ms arbitrary: w)
  case (Cons m ms)
  show ?case
  proof (cases m)
    case (Some x)
    then show ?thesis using Cons by (auto 4 8 split: bind_splits option.splits dest: keeps)
  qed (use Cons in simp)
qed simp

lemma keeps_tmgi_allocated [keeps]:
  "nmbsmf_tmgi_allocated api x m w = Some (ok, w') \<Longrightarrow> lib_inv api E w \<Longrightarrow> lib_inv api E w'"
  by (auto simp: nmbsmf_tmgi_allocated_def
      split: if_splits option.splits list.splits allocate_body.splits dest: keeps)

lemma keeps_do_tmgi_remove [keeps]:
  "do_tmgi_remove api' m msg w = Some w' \<Longrightarrow> lib_inv api E w \<Longrightarrow> lib_inv api E w'"
  by (auto 4 8 simp: do_tmgi_remove_def split: bind_splits option.splits if_splits dest: keeps)

lemma keeps_do_tmgi_remove_all [keeps]:
  "do_tmgi_remove_all api' ms msg w = Some w' \<Longrightarrow> lib_inv api E w \<Longrightarrow> lib_inv api E w'"
  by (induction ms arbitrary: w) (auto split: bind_splits dest: keeps)

lemma keeps_tmgi_deallocated [keeps]:
  "nmbsmf_tmgi_deallocated api' x msg w = Some w' \<Longrightarrow> lib_inv api E w \<Longrightarrow> lib_inv api E w'"
  by (auto simp: nmbsmf_tmgi_deallocated_def split: tmgi_list_param.splits dest: keeps)

lemma keeps_xact [keeps]:
  "xact_remove p w = Some w' \<Longrightarrow> lib_inv api E w \<Longrightarrow> lib_inv api E w'"
  "xact_forward p w = Some w' \<Longrightarrow> lib_inv api E w \<Longrightarrow> lib_inv api E w'"
  by (auto simp: xact_remove_def xact_forward_def split: option.splits)

lemma keeps_nnrf_disc_handle [keeps]:
  "nnrf_disc_handle x m rs w = Some (ok, w') \<Longrightarrow> lib_inv api E w \<Longrightarrow> lib_inv api E w'"
  by (auto simp: nnrf_disc_handle_def Let_def split: if_splits dest: keeps)

section \<open>Responses about sessions\<close>

lemma keeps_deliver_reports [keeps]:
  "deliver_reports api' f u rs w = Some w' \<Longrightarrow> lib_inv api E w \<Longrightarrow> lib_inv api E w'"
proof (induction api' f u rs w rule: deliver_reports.induct)
  case (3 api' f u r rs w)
  then show ?case by (auto simp: Let_def split: option.splits bind_splits if_splits)
qed simp_all

lemma keeps_report_list_handler [keeps]:
  "subscription_report_list_handler api' p l w = Some (ok, w') \<Longrightarrow> lib_inv api E w \<Longrightarrow> lib_inv api E w'"
  by (auto simp: subscription_report_list_handler_def split: option.splits bind_splits dest: keeps)

lemma tmgi_replace_sessions:
  assumes "tmgi_replace_sbi_object a p w = Some w'"
  shows "w_sessions w' = w_sessions w"
proof -
  obtain t w1 w2 where t: "ref_count_sbi_object_unref (tm_sbi t) w = Some w1"
      "ref_count_sbi_object_ref p w1 = Some w2" "w' = put_tmgi a (t\<lparr>tm_sbi := p\<rparr>) w2"
    using assms by (auto simp: tmgi_replace_sbi_object_def split: bind_splits)
  then show ?thesis using unref_sel [OF t(1)] ref_sel [OF t(2)] by simp
qed

lemma keeps_session_take_tmgi [keeps]:
  assumes "session_take_tmgi api m a w = Some (ok, w')" "lib_inv api E w"
  shows "lib_inv api E w'"
proof -
  obtain s where s: "w_sessions w a = Some s"
    using assms(1) by (auto simp: session_take_tmgi_def split: bind_splits)
  show ?thesis
  proof (cases "se_tmgi_req (ps_public s) \<and> as_tmgi m \<noteq> None \<and> as_expiration m \<noteq> None")
    case True
    then obtain sid mcc mnc e where m: "as_tmgi m = Some (sid, mcc, mnc)" "as_expiration m = Some e" by auto
    obtain b v where b: "tmgi_create None None w = Some (b, v)"
      using assms(1) s True m by (auto simp: session_take_tmgi_def split: bind_splits)
    have v: "lib_inv api E v" using b assms(2) by (blast dest: keeps)
    have v_s: "w_sessions v = w_sessions w"
      using b by (auto simp: tmgi_create_def context_add_tmgi_def Let_def split: option.splits)
    obtain t where t: "w_tmgis v b = Some t"
      using assms(1) s True m b by (auto simp: session_take_tmgi_def split: bind_splits)
    let ?t = "tmgi_set_plmn api (word_of_int (atoi mcc)) (word_of_int (atoi mnc)) (tmgi_set_mbs_service_id sid t)"
    have put: "lib_inv api E (put_tmgi b ?t v)"
        "lib_inv api E (put_tmgi b (tmgi_set_expiry_time x ?t) v)" for x
      by (rule keeps_put_tmgi [OF v t]; simp add: tmgi_cache_setters)+
    show ?thesis
    proof (cases "time_from_string api e")
      case None
      then show ?thesis
        using assms(1) s True m b t put(1)
        by (auto simp: session_take_tmgi_def split: bind_splits dest: keeps)
    next
      case (Some x)
      then obtain y where y: "tmgi_replace_sbi_object b (ps_sbi s)
            (put_tmgi b (tmgi_set_expiry_time (time_to_sec api x) ?t) v) = Some y"
          "w' = put_session a (s\<lparr>ps_public := (ps_public s)\<lparr>se_tmgi := Some b\<rparr>\<rparr>) y"
        using assms(1) s True m b t by (auto simp: session_take_tmgi_def split: bind_splits)
      have "lib_inv api E y" using y(1) put(2) by (blast dest: keeps)
      moreover have "w_sessions y = w_sessions v"
        using tmgi_replace_sessions [OF y(1)] by simp
      ultimately show ?thesis unfolding y(2) using s v_s by (intro keeps_put_session) simp_all
    qed
  qed (use assms s in \<open>auto simp: session_take_tmgi_def split: if_splits option.splits prod.splits\<close>)
qed

text \<open>Copying the public part leaves every session object alone.\<close>

lemma tmgi_copy_sessions:
  assumes "tmgi_copy p q v = Some (r, v')"
  shows "w_sessions v' = w_sessions v"
proof (cases "p = q \<or> q = None")
  case True
  then show ?thesis
    using assms tmgi_free_kept [of p v v']
    by (auto simp: tmgi_copy_def sessions_kept_def split: bind_splits if_splits)
next
  case False
  then obtain qa x where q: "q = Some qa" "w_tmgis v qa = Some x"
    using assms by (auto simp: tmgi_copy_def split: bind_splits)
  then obtain da y where y: "(case p of Some d \<Rightarrow> Some (d, v)
      | None \<Rightarrow> tmgi_create (tm_callback x) (tm_cb_data x) v) = Some (da, y)"
    using assms False by (auto simp: tmgi_copy_def split: bind_splits)
  then have "w_sessions y = w_sessions v"
    by (auto simp: tmgi_create_def context_add_tmgi_def Let_def split: option.splits)
  moreover obtain z y1 y2 where "ref_count_sbi_object_unref z y = Some y1"
      "ref_count_sbi_object_ref (tm_sbi x) y1 = Some y2" "w_sessions v' = w_sessions y2"
    using assms False q y
    by (auto simp: tmgi_copy_def Let_def split: bind_splits option.splits)
  ultimately show ?thesis using unref_sel(1) ref_sel(1) by metis
qed

lemma public_copy_sessions:
  assumes "mbs_session_public_copy d (Some s) w = Some (r, w')"
  shows "w_sessions w' = w_sessions w"
  using assms
  by (auto simp: mbs_session_public_copy_def mbs_session_copy_values_def Let_def
      split: bind_splits if_splits dest: tmgi_copy_sessions)

lemma keeps_store_copy [keeps]:
  assumes "session_store_copy a w = Some w'" "lib_inv api E w"
  shows "lib_inv api E w'"
proof -
  obtain s d v where s: "w_sessions w a = Some s"
      "mbs_session_public_copy (ps_previous s) (Some (ps_public s)) w = Some (d, v)"
    using assms(1) by (auto simp: session_store_copy_def split: bind_splits)
  note same = public_copy_sessions [OF s(2)]
  have "lib_inv api E v" using s(2) assms(2) by (blast dest: keeps)
  then have "lib_inv api E (put_session a (s\<lparr>ps_previous := d\<rparr>) v)"
    by (rule keeps_put_session) (use s(1) same in simp_all)
  then show ?thesis using assms(1) s same by (simp add: session_store_copy_def)
qed

lemma keeps_session_revert [keeps]:
  assumes "session_revert a w = Some w'" "lib_inv api E w"
  shows "lib_inv api E w'"
proof -
  obtain s where s: "w_sessions w a = Some s" using assms(1) by (auto simp: session_revert_def split: bind_splits)
  show ?thesis
  proof (cases "ps_previous s")
    case (Some prev)
    then obtain d v where d: "mbs_session_public_copy (Some (ps_public s)) (Some prev) w = Some (d, v)"
      using assms(1) s by (auto simp: session_revert_def split: bind_splits)
    note same = public_copy_sessions [OF d]
    have "lib_inv api E v" using d assms(2) by (blast dest: keeps)
    then have "lib_inv api E (put_session a (s\<lparr>ps_public := p\<rparr>) v)" for p
      by (rule keeps_put_session) (use s(1) same in simp_all)
    then show ?thesis
      using assms(1) s Some d same \<open>lib_inv api E v\<close> by (auto simp: session_revert_def split: option.splits)
  qed (use assms s in \<open>auto simp: session_revert_def\<close>)
qed

lemma keeps_report_events [keeps]:
  "session_report_events api' l a w = Some w' \<Longrightarrow> lib_inv api E w \<Longrightarrow> lib_inv api E w'"
  by (auto simp: session_report_events_def split: option.splits bind_splits dest: keeps)

lemma keeps_take_response [keeps]:
  assumes "session_take_response api m a w = Some (ok, w')" "lib_inv api E w"
  shows "lib_inv api E w'"
proof -
  obtain s ok1 p where s: "w_sessions w a = Some s" "session_take_tunnels api m (ps_public s) = (ok1, p)"
    using assms(1) by (auto simp: session_take_response_def split: bind_splits prod.splits)
  let ?w = "put_session a (s\<lparr>ps_public := p\<rparr>) w"
  have w: "lib_inv api E ?w" by (rule keeps_put_session [OF assms(2) s(1)]) simp
  show ?thesis
  proof (cases ok1)
    case True
    then obtain ok2 v where v: "session_take_tmgi api m a ?w = Some (ok2, v)"
      using assms(1) s by (auto simp: session_take_response_def Let_def split: bind_splits)
    then have inv: "lib_inv api E v" using w by (blast dest: keeps)
    show ?thesis
    proof (cases ok2)
      case ok2: True
      then obtain x q where x: "w_sessions v a = Some x" "session_take_ssm api m (ps_public x) = Some q"
          "session_store_copy a (put_session a (x\<lparr>ps_public := q\<rparr>) v) = Some w'"
        using assms(1) s True v by (auto simp: session_take_response_def Let_def split: bind_splits)
      have "lib_inv api E (put_session a (x\<lparr>ps_public := q\<rparr>) v)"
        by (rule keeps_put_session [OF inv x(1)]) simp
      then show ?thesis using x(3) by (blast dest: keeps)
    qed (use assms(1) s True v inv in \<open>auto simp: session_take_response_def Let_def\<close>)
  qed (use assms(1) s w in \<open>auto simp: session_take_response_def Let_def\<close>)
qed

lemma keeps_session_parse [keeps]:
  assumes "nmbsmf_mbs_session_parse api msg a w = Some (ok, w')" "lib_inv api E w"
  shows "lib_inv api E w'"
proof -
  obtain s where s: "w_sessions w a = Some s"
    using assms(1) by (auto simp: nmbsmf_mbs_session_parse_def split: bind_splits)
  have put: "lib_inv api E (put_session a (s\<lparr>ps_id := Some i\<rparr>) w)" for i
    by (rule keeps_put_session [OF assms(2) s]) simp
  show ?thesis
    using assms s put
    by (auto simp: nmbsmf_mbs_session_parse_def Let_def split: option.splits bind_splits if_splits)
      (blast dest: keeps)+
qed

lemma keeps_named_callbacks [keeps]:
  "mbs_session_do_created_callback p w = Some w' \<Longrightarrow> lib_inv api E w \<Longrightarrow> lib_inv api E w'"
  "mbs_session_do_create_error_callback pr p w = Some w' \<Longrightarrow> lib_inv api E w \<Longrightarrow> lib_inv api E w'"
  "mbs_session_do_create_timeout_callback p w = Some w' \<Longrightarrow> lib_inv api E w \<Longrightarrow> lib_inv api E w'"
  "mbs_session_do_updated_callback p w = Some w' \<Longrightarrow> lib_inv api E w \<Longrightarrow> lib_inv api E w'"
  "mbs_session_do_deleted_callback p w = Some w' \<Longrightarrow> lib_inv api E w \<Longrightarrow> lib_inv api E w'"
  unfolding session_callback_defs by (blast dest: keeps)+

lemma keeps_delete_response [keeps]:
  "nmbsmf_mbs_session_delete_response p w = Some w' \<Longrightarrow> lib_inv api E w \<Longrightarrow> lib_inv api E w'"
  by (auto 4 8 simp: nmbsmf_mbs_session_delete_response_def split: option.splits bind_splits dest: keeps)

lemma keeps_patch_response [keeps]:
  assumes "nmbsmf_mbs_session_patch_response p msg w = Some w'" "lib_inv api E w"
  shows "lib_inv api E w'"
proof (cases p)
  case (Some a)
  then obtain v where "session_store_copy a w = Some v \<or> session_revert a w = Some v \<or> v = w"
      "mbs_session_do_updated_callback (Some a) v = Some w'"
    using assms(1) by (auto simp: nmbsmf_mbs_session_patch_response_def split: bind_splits if_splits)
  then show ?thesis using assms(2) by (blast dest: keeps)
qed (use assms in \<open>simp add: nmbsmf_mbs_session_patch_response_def\<close>)

lemma keeps_move_active [keeps]:
  assumes "subscription_move_active a b i w = Some w'" "lib_inv api E w"
  shows "lib_inv api E w'"
proof -
  obtain s u where s: "w_sessions w a = Some s" "w_subscs w b = Some u"
    using assms(1) by (auto simp: subscription_move_active_def split: bind_splits)
  have "lib_inv api E (put_subsc b (u\<lparr>su_id := Some i\<rparr>) w)" by (rule keeps_put_subsc [OF assms(2) s(2)])
  then show ?thesis
    using assms(1) s
    by (auto simp: subscription_move_active_def Let_def split: if_splits intro!: keeps_put_session)
qed

lemma keeps_subscription_response [keeps]:
  assumes "nmbsmf_mbs_session_subscription_response api' p msg rs w = Some w'" "lib_inv api E w"
  shows "lib_inv api E w'"
proof -
  have "lib_inv api E w'"
    if "subscription_move_active a b i w = Some v" "subscription_report_list_handler api' (Some b) l v = Some (ok, w')"
    for a b i l v ok
    using that assms(2) by (blast dest: keeps)
  then show ?thesis
    using assms
    by (auto simp: nmbsmf_mbs_session_subscription_response_def
        split: option.splits subscribe_body.splits bind_splits if_splits)
qed

section \<open>The event handler\<close>

lemma keeps_disc_outcome:
  "disc_outcome x m rs w = Some ((b, held), w') \<Longrightarrow> lib_inv api E w \<Longrightarrow>
     held = None \<and> lib_inv api E w'"
  by (auto simp: disc_outcome_def split: bind_splits dest: keeps)

lemma keeps_tmgi_response:
  assumes "handle_tmgi_response api x rs tm w = Some ((b, held), w')" "lib_inv api E w"
  shows "lib_inv api (E + opt_ref held) w'"
proof -
  obtain ok msg where rs: "rs_full rs = (ok, msg)" by (cases "rs_full rs")
  have del: "lib_inv api (E + opt_ref q) v2"
    if "ref_count_sbi_object_ref q w = Some v1" "nmbsmf_tmgi_deallocated api x msg v1 = Some v2" for q v1 v2
    using keeps_ref [OF that(1) assms(2)] that(2) by (blast dest: keeps)
  show ?thesis
  proof (cases "ok \<and> switch_string (ms_service msg) = ''nnrf-disc''")
    case True
    then show ?thesis
      using assms rs by (auto simp: handle_tmgi_response_def dest: keeps_disc_outcome)
  next
    case False
    then show ?thesis
      using assms rs
      by (auto simp: handle_tmgi_response_def split: if_splits bind_splits dest: keeps intro: del)
  qed
qed

lemma keeps_create_response [keeps]:
  assumes "handle_create_response api rs sess w = Some w'" "lib_inv api E w"
  shows "lib_inv api E w'"
  using assms
  by (auto simp: handle_create_response_def Let_def split: if_splits bind_splits) (blast dest: keeps)+

lemma keeps_session_path:
  assumes "handle_session_path api x msg rs sess w = Some ((b, held), w')" "lib_inv api E w"
  shows "lib_inv api (E + opt_ref held) w'"
proof -
  have del: "lib_inv api (E + opt_ref q) v2"
    if "ref_count_sbi_object_ref q w = Some v1" "nmbsmf_mbs_session_delete_response p v1 = Some v2" for p q v1 v2
    using keeps_ref [OF that(1) assms(2)] that(2) by (blast dest: keeps)
  show ?thesis
    using assms
    by (auto simp: handle_session_path_def Let_def split: if_splits bind_splits dest: keeps intro: del)
qed

lemma keeps_session_response:
  assumes "handle_session_response api x rs sess w = Some ((b, held), w')" "lib_inv api E w"
  shows "lib_inv api (E + opt_ref held) w'"
proof -
  obtain ok msg where rs: "rs_header rs = (ok, msg)" by (cases "rs_header rs")
  show ?thesis
  proof (cases "ok \<and> switch_string (ms_service msg) = ''nnrf-disc''")
    case True
    then show ?thesis
      using assms rs by (auto simp: handle_session_response_def dest: keeps_disc_outcome)
  next
    case False
    then show ?thesis
      using assms rs
      by (auto simp: handle_session_response_def split: if_splits dest: keeps keeps_session_path)
  qed
qed

lemma keeps_finish_event:
  assumes "finish_event x out w = Some w'" "lib_inv api (E + opt_ref (snd out)) w"
  shows "lib_inv api E w'"
proof -
  obtain v where v: "v = w \<or> xact_remove (xa_sbi x) w = Some v" "ref_count_sbi_object_unref (snd out) v = Some w'"
    using assms(1) by (auto simp: finish_event_def split: bind_splits if_splits)
  then have "lib_inv api (E + opt_ref (snd out)) v" using assms(2) by (blast dest: keeps)
  then show ?thesis by (rule keeps_unref [OF v(2)])
qed

lemma keeps_client_event [keeps]:
  assumes "handle_client_event api p rs w = Some (ok, w')" "lib_inv api E w"
  shows "lib_inv api E w'"
proof (cases p)
  case (Some x)
  then obtain sess tm where st: "context_sbi_object_to_session (xa_sbi x) w = Some sess"
      "context_sbi_object_to_tmgi (xa_sbi x) w = Some tm"
    using assms(1) by (auto simp: handle_client_event_def split: bind_splits)
  show ?thesis
  proof (cases "sess = None \<and> tm = None")
    case False
    then obtain b held v where o: "(case xa_service x of
          Sv_nmbsmf_tmgi \<Rightarrow> handle_tmgi_response api x rs tm w
        | Sv_nmbsmf_mbs_session \<Rightarrow> handle_session_response api x rs sess w
        | Sv_other \<Rightarrow> Some ((True, None), w)) = Some ((b, held), v)" "finish_event x (b, held) v = Some w'"
      using assms(1) Some st by (auto simp: handle_client_event_def split: bind_splits)
    then have "lib_inv api (E + opt_ref held) v"
      using assms(2) by (auto split: xact_service.splits dest: keeps_tmgi_response keeps_session_response)
    then show ?thesis using keeps_finish_event [OF o(2)] by simp
  qed (use assms Some st in \<open>simp add: handle_client_event_def\<close>)
qed (use assms in \<open>simp add: handle_client_event_def\<close>)

lemma keeps_timeout [keeps]:
  "handle_timeout x s tm w = Some w' \<Longrightarrow> lib_inv api E w \<Longrightarrow> lib_inv api E w'"
  by (auto simp: handle_timeout_def Let_def split: xact_service.splits if_splits bind_splits dest: keeps)

lemma keeps_timer_event [keeps]:
  assumes "handle_timer_event t p w = Some (ok, w')" "lib_inv api E w"
  shows "lib_inv api E w'"
proof -
  have "lib_inv api E w'" if "handle_timeout x a tm w = Some v" "finish_event x (True, None) v = Some w'" for x a tm v
  proof -
    have "lib_inv api E v" using that(1) assms(2) by (blast dest: keeps)
    then show ?thesis using keeps_finish_event [OF that(2)] by simp
  qed
  then show ?thesis
    using assms by (auto simp: handle_timer_event_def split: timer_id.splits option.splits bind_splits)
qed

lemma keeps_server_event [keeps]:
  assumes "handle_server_event api' p w = Some (ok, w')" "lib_inv api E w"
  shows "lib_inv api E w'"
proof -
  have err: "lib_inv api E (notification_error r st v) = lib_inv api E v" for r st v
    by (simp add: notification_error_def split: option.split)
  have "lib_inv api E w'" if "handle_notification api' r srv msg w = Some w'" for r srv msg
    using that assms(2)
    by (auto simp: handle_notification_def err split: if_splits option.splits bind_splits dest: keeps)
  then show ?thesis
    using assms by (auto simp: handle_server_event_def split: option.splits bind_splits if_splits prod.splits)
qed

lemma keeps_process_event [keeps]:
  "mb_smf_sc_process_event api e w = Some (ok, w') \<Longrightarrow> lib_inv api E w \<Longrightarrow> lib_inv api E w'"
  by (auto simp: mb_smf_sc_process_event_def split: option.splits ogs_event.splits dest: keeps)

end
