(* ===== verification/Machine.thy ===== *)
theory Machine
  imports Sc_Prelude
begin

text \<open>
  Runs of a library as a machine: a label is one call of the application or one event, and a
  step that is undefined behaviour has no successor.  The locale states what an invariant of
  such a machine has to satisfy; the libraries interpret it on their own step functions.
\<close>

section \<open>Runs\<close>

fun run :: "('l \<Rightarrow> 's \<Rightarrow> 's option) \<Rightarrow> 'l list \<Rightarrow> 's \<Rightarrow> 's option" where
  "run step [] s = Some s"
| "run step (l # ls) s = Option.bind (step l s) (run step ls)"

inductive reachable :: "('l \<Rightarrow> 's \<Rightarrow> 's option) \<Rightarrow> 's \<Rightarrow> 's \<Rightarrow> bool" for step s0 where
  reachable_start: "reachable step s0 s0"
| reachable_step: "reachable step s0 s \<Longrightarrow> step l s = Some s' \<Longrightarrow> reachable step s0 s'"

inductive_cases reachable_cases: "reachable step s0 s"

lemma run_append: "run step (ls @ ms) s = Option.bind (run step ls s) (run step ms)"
  by (induction ls arbitrary: s) (auto split: bind_splits)

lemma reachable_run: "reachable step s0 s \<longleftrightarrow> (\<exists>ls. run step ls s0 = Some s)"
proof
  show "\<exists>ls. run step ls s0 = Some s" if "reachable step s0 s"
    using that
  proof induction
    case reachable_start
    show ?case by (intro exI [of _ "[]"]) simp
  next
    case (reachable_step s l s')
    then obtain ls where "run step ls s0 = Some s" by blast
    then show ?case using reachable_step.hyps(2) by (intro exI [of _ "ls @ [l]"]) (simp add: run_append)
  qed
  have "reachable step s0 s" if "run step ls t = Some s" "reachable step s0 t" for ls t
    using that
    by (induction ls arbitrary: t) (auto split: bind_splits intro: reachable_step)
  then show "reachable step s0 s" if "\<exists>ls. run step ls s0 = Some s"
    using that reachable_start by metis
qed

section \<open>Invariants\<close>

locale invariant_machine =
  fixes step :: "'l \<Rightarrow> 's \<Rightarrow> 's option" and inv :: "'s \<Rightarrow> bool"
  assumes step_inv: "step l s = Some s' \<Longrightarrow> inv s \<Longrightarrow> inv s'"
begin

lemma reachable_inv: "reachable step s0 s \<Longrightarrow> inv s0 \<Longrightarrow> inv s"
  by (induction rule: reachable.induct) (auto intro: step_inv)

lemma run_inv: "run step ls s0 = Some s \<Longrightarrow> inv s0 \<Longrightarrow> inv s"
  using reachable_inv reachable_run by metis

lemma first_violation:
  assumes "run step ls s0 = Some s" "inv s0" "\<And>t. inv t \<Longrightarrow> good t"
  shows "good s"
  using run_inv [OF assms(1,2)] assms(3) by blast

end

end
