(* ===== verification/Yaml.thy ===== *)
theory Yaml
  imports Sc_Utils
begin

text \<open>
  Configuration documents as the libraries read them with the iterators of Open5GS
  (\<open>ogs_yaml_iter_*\<close>): a scalar may be null, a mapping has its pairs in the order of the
  file.  A node of another kind than the iterator expects has no result (Open5GS asserts).
\<close>

datatype yaml =
    Y_scalar "string option"
  | Y_seq "yaml list"
  | Y_map "(string \<times> yaml) list"

definition yaml_pairs :: "yaml \<Rightarrow> (string \<times> yaml) list option" where
  "yaml_pairs y = (case y of Y_map ps \<Rightarrow> Some ps | _ \<Rightarrow> None)"

definition yaml_value :: "yaml \<Rightarrow> string option option" where
  "yaml_value y = (case y of Y_scalar v \<Rightarrow> Some v | _ \<Rightarrow> None)"

lemma yaml_simps [simp]:
  "yaml_pairs (Y_map ps) = Some ps" "yaml_pairs (Y_scalar v) = None" "yaml_pairs (Y_seq ys) = None"
  "yaml_value (Y_scalar v) = Some v" "yaml_value (Y_map ps) = None" "yaml_value (Y_seq ys) = None"
  by (simp_all add: yaml_pairs_def yaml_value_def)

text \<open>A loop over nodes with a step that may abort.\<close>

fun fold_option :: "('a \<Rightarrow> 's \<Rightarrow> 's option) \<Rightarrow> 'a list \<Rightarrow> 's \<Rightarrow> 's option" where
  "fold_option f [] s = Some s"
| "fold_option f (x # xs) s = Option.bind (f x s) (fold_option f xs)"

lemma fold_option_append:
  "fold_option f (xs @ ys) s = Option.bind (fold_option f xs s) (fold_option f ys)"
  by (induction xs arbitrary: s) (auto split: bind_splits)

lemma fold_option_inv:
  assumes "fold_option f xs s = Some t" "P s"
    and "\<And>x u v. x \<in> set xs \<Longrightarrow> P u \<Longrightarrow> f x u = Some v \<Longrightarrow> P v"
  shows "P t"
  using assms
proof (induction xs arbitrary: s)
  case (Cons x xs)
  then obtain u where u: "f x s = Some u" "fold_option f xs u = Some t"
    by (auto split: bind_splits)
  show ?case
  proof (rule Cons.IH [OF u(2)])
    show "P u" using Cons.prems(3) [OF _ Cons.prems(2) u(1)] by simp
    show "P w" if "y \<in> set xs" "P v" "f y v = Some w" for y v w
      using Cons.prems(3) [of y v w] that by simp
  qed
qed simp

end
