(* ===== verification/Sc_Config.thy ===== *)
theory Sc_Config
  imports Sc_State Yaml
begin

text \<open>
  \<open>_context_parse_config\<close> (\<open>context.c\<close>): the address and port of the notification listener, read
  from \<open>notifications.mbsmf\<close> in the section of the application.  \<open>ogs_getaddrinfo\<close> is a
  parameter: family and port of the first address of a host, or an error.  \<open>ogs_strdup\<close> of no
  text is no text.
\<close>

section \<open>The section\<close>

type_synonym resolver = "string \<Rightarrow> 16 word \<Rightarrow> (addr_family \<times> 16 word) option"

definition mbsmf_key ::
  "string \<times> yaml \<Rightarrow> string option \<times> string option \<Rightarrow> (string option \<times> string option) option" where
  "mbsmf_key ky ap =
     (case (ky, ap) of ((key, y), (addr, port)) \<Rightarrow>
        if key = ''address'' then map_option (\<lambda>v. (v, port)) (yaml_value y)
        else if key = ''port'' then
          map_option (\<lambda>v. (addr, case v of None \<Rightarrow> None | Some _ \<Rightarrow> addr)) (yaml_value y)
        else Some (addr, port))"

definition port_number :: "string option \<Rightarrow> 16 word option" where
  "port_number port =
     (case port of
        None \<Rightarrow> Some 0
      | Some t \<Rightarrow> (case strtoul t of (num, rest) \<Rightarrow> if rest \<noteq> [] \<or> num \<ge> 65536 then None else Some (ucast num)))"

definition set_notif :: "(addr_family \<times> 16 word) option \<Rightarrow> world \<Rightarrow> world" where
  "set_notif n w = (case w_ctx w of None \<Rightarrow> w | Some c \<Rightarrow> w\<lparr>w_ctx := Some (c\<lparr>ctx_notif := n\<rparr>)\<rparr>)"

text \<open>A loop over the entries of a mapping that may return early: \<open>Inl\<close> is the return from
  the function.\<close>

type_synonym parse_state = "world + world"

definition mbsmf_section :: "resolver \<Rightarrow> (string \<times> yaml) list \<Rightarrow> world \<Rightarrow> parse_state option" where
  "mbsmf_section gai ps w = do {
     (addr, port) \<leftarrow> fold_option mbsmf_key ps (None, None);
     (if addr = None \<and> port = None then Some (Inr w)
      else case port_number port of
        None \<Rightarrow> Some (Inl w)
      | Some n \<Rightarrow>
          (case addr of
             Some a \<Rightarrow> (case gai a n of
                          None \<Rightarrow> Some (Inl (set_notif None w))
                        | Some s \<Rightarrow> Some (Inr (set_notif (Some s) w)))
           | None \<Rightarrow> Some (Inr (set_notif (Some (Af_inet, n)) w))))
   }"

definition at_key ::
  "string \<Rightarrow> ((string \<times> yaml) list \<Rightarrow> world \<Rightarrow> parse_state option) \<Rightarrow> string \<times> yaml \<Rightarrow> parse_state \<Rightarrow> parse_state option"
  where
  "at_key name f ky st =
     (case st of
        Inl w \<Rightarrow> Some (Inl w)
      | Inr w \<Rightarrow> (case ky of (key, y) \<Rightarrow>
                    if key = name then Option.bind (yaml_pairs y) (\<lambda>ps. f ps w) else Some (Inr w)))"

definition entries_at ::
  "string \<Rightarrow> ((string \<times> yaml) list \<Rightarrow> world \<Rightarrow> parse_state option) \<Rightarrow> (string \<times> yaml) list \<Rightarrow> world \<Rightarrow> parse_state option"
  where
  "entries_at name f ps w = fold_option (at_key name f) ps (Inr w)"

definition context_parse_config ::
  "resolver \<Rightarrow> string \<Rightarrow> yaml \<Rightarrow> world \<Rightarrow> (result_code \<times> world) option" where
  "context_parse_config gai local doc w = do {
     let w = (if w_ctx w = None then context_new w else w);
     ps \<leftarrow> yaml_pairs doc;
     st \<leftarrow> entries_at local (entries_at ''notifications'' (entries_at ''mbsmf'' (mbsmf_section gai))) ps w;
     Some (case st of Inl w \<Rightarrow> (Ogs_error, w) | Inr w \<Rightarrow> (Ogs_ok, w))
   }"

definition mb_smf_sc_parse_config :: "resolver \<Rightarrow> string \<Rightarrow> yaml \<Rightarrow> world \<Rightarrow> (bool \<times> world) option" where
  "mb_smf_sc_parse_config gai local doc w =
     map_option (\<lambda>(r, w). (False, w)) (context_parse_config gai local doc (context_new w))"

section \<open>What a configuration does\<close>

lemma set_notif_ctx:
  "w_ctx w = Some c \<Longrightarrow> set_notif n w = w\<lparr>w_ctx := Some (c\<lparr>ctx_notif := n\<rparr>)\<rparr>"
  by (simp add: set_notif_def)

text \<open>Whatever the document says, only the notification address of the context changes.\<close>

definition notif_only :: "world \<Rightarrow> world \<Rightarrow> bool" where
  "notif_only w0 w \<longleftrightarrow> (\<exists>n. w = set_notif n w0)"

lemma set_notif_set [simp]: "set_notif n (set_notif m w) = set_notif n w"
  by (simp add: set_notif_def split: option.split)

lemma notif_only_set: "notif_only w0 w \<Longrightarrow> notif_only w0 (set_notif n w)"
  by (auto simp: notif_only_def)

abbreviation result_world :: "parse_state \<Rightarrow> world" where
  "result_world st \<equiv> (case st of Inl w \<Rightarrow> w | Inr w \<Rightarrow> w)"

lemma mbsmf_section_notif:
  "notif_only w0 w \<Longrightarrow> mbsmf_section gai ps w = Some st \<Longrightarrow> notif_only w0 (result_world st)"
  by (auto simp: mbsmf_section_def notif_only_set split: bind_splits if_splits option.splits)

lemma at_key_notif:
  assumes "at_key name f ky st = Some st'" "notif_only w0 (result_world st)"
    and f: "\<And>ps w st. notif_only w0 w \<Longrightarrow> f ps w = Some st \<Longrightarrow> notif_only w0 (result_world st)"
  shows "notif_only w0 (result_world st')"
proof (cases st)
  case (Inr w)
  obtain key y where ky: "ky = (key, y)" by (cases ky)
  show ?thesis
  proof (cases "key = name")
    case True
    then obtain ps where "f ps w = Some st'"
      using assms(1) Inr ky by (auto simp: at_key_def split: bind_splits)
    then show ?thesis using f [of w ps st'] assms(2) Inr by simp
  qed (use assms Inr ky in \<open>simp add: at_key_def\<close>)
qed (use assms in \<open>simp add: at_key_def\<close>)

lemma entries_at_notif:
  assumes "notif_only w0 w" "entries_at name f ps w = Some st"
    and f: "\<And>ps w st. notif_only w0 w \<Longrightarrow> f ps w = Some st \<Longrightarrow> notif_only w0 (result_world st)"
  shows "notif_only w0 (result_world st)"
proof (rule fold_option_inv [where P = "\<lambda>st. notif_only w0 (result_world st)"])
  show "fold_option (at_key name f) ps (Inr w) = Some st" using assms(2) by (simp add: entries_at_def)
  show "notif_only w0 (result_world (Inr w :: parse_state))" using assms(1) by simp
  show "notif_only w0 (result_world v)" if "notif_only w0 (result_world u)" "at_key name f x u = Some v" for x u v
    by (rule at_key_notif [OF that(2,1) f])
qed

lemma context_parse_config_notif:
  assumes "mb_smf_sc_parse_config gai local doc w = Some (r, w')"
  shows "\<not> r \<and> notif_only (context_new w) w'"
proof -
  have n: "notif_only (context_new w) (context_new w)"
    unfolding notif_only_def by (rule exI [of _ None]) (simp add: set_notif_def context_new_def)
  obtain ps st where st: "entries_at local (entries_at ''notifications'' (entries_at ''mbsmf'' (mbsmf_section gai)))
      ps (context_new w) = Some st" "w' = result_world st" "\<not> r"
    using assms
    by (auto simp: mb_smf_sc_parse_config_def context_parse_config_def Let_def context_new_def
        split: bind_splits sum.splits)
  have "notif_only (context_new w) (result_world st)"
    by (rule entries_at_notif [OF n st(1)], rule entries_at_notif, assumption, assumption,
        rule entries_at_notif, assumption, assumption, rule mbsmf_section_notif)
  then show ?thesis using st(2,3) by simp
qed

section \<open>The port of the configuration\<close>

definition other_port :: "(string \<Rightarrow> string) \<Rightarrow> string \<times> yaml \<Rightarrow> string \<times> yaml" where
  "other_port g ky =
     (case ky of (key, y) \<Rightarrow>
        if key = ''port'' then (key, case y of Y_scalar v \<Rightarrow> Y_scalar (map_option g v) | _ \<Rightarrow> y) else (key, y))"

lemma mbsmf_key_other_port [simp]: "mbsmf_key (other_port g ky) = mbsmf_key ky"
  by (auto simp: mbsmf_key_def other_port_def fun_eq_iff yaml_value_def
      split: prod.splits yaml.splits option.splits)

lemma fold_option_map: "fold_option f (map g xs) s = fold_option (f \<circ> g) xs s"
  by (induction xs arbitrary: s) (simp_all split: bind_splits)

lemma mbsmf_section_other_port: "mbsmf_section gai (map (other_port g) ps) = mbsmf_section gai ps"
  by (simp add: mbsmf_section_def fun_eq_iff fold_option_map comp_def)

end
