(* ===== verification/Sc_Machine.thy ===== *)
theory Sc_Machine
  imports Sc_Inv_Events Machine Sc_Config
begin

text \<open>
  The MB-SMF library as a machine: the calls an application makes (\<open>mb_smf_sc_*\<close>), the events
  it passes on, and what it writes into the public session structure and its own memory.
\<close>

section \<open>Calls\<close>

datatype tmgi_setter =
    Set_service_id "string option"
  | Set_plmn "16 word" "16 word"
  | Set_expiry int
  | Set_tmgi_callback "nat option" "nat option"

datatype subscription_setter =
    Set_area_session_id "16 word"
  | Set_event_flags "32 word"
  | Set_correlation "string option"
  | Set_subscription_expiry int
  | Set_notification_callback "nat option" "nat option"

datatype callback_kind = Cb_create | Cb_update | Cb_delete

datatype api_call =
    Call_parse_config resolver string yaml
  | Call_terminate
  | Call_event "ogs_event option"
  | Call_tmgi_create "nat option" "nat option"
  | Call_tmgi_new
  | Call_tmgi_free "addr option"
  | Call_tmgi_set addr tmgi_setter
  | Call_tmgi_repr "addr option"
  | Call_tmgi_allocate "addr option"
  | Call_tmgi_deallocate "addr option"
  | Call_session_new addr_family "8 word list option" "8 word list option"
  | Call_session_delete "addr option"
  | Call_session_set_tmgi "addr option" "addr option"
  | Call_session_add_subscription "addr option" "addr option"
  | Call_session_remove_subscription "addr option" "addr option"
  | Call_session_set_callback "addr option" "nat option" "nat option" "nat option"
  | Call_session_set_one_callback addr callback_kind "nat option" "nat option" "nat option"
  | Call_session_push "addr option"
  | Call_push_all
  | Call_session_write addr mbs_session
  | Call_subscription_new "16 word" "32 word" "string option" int "nat option" "nat option"
  | Call_subscription_delete "addr option"
  | Call_subscription_set "addr option" subscription_setter
  | Call_subscription_string "addr option"
  | Call_write_words "addr \<Rightarrow> int option"

definition apply_tmgi_setter :: "ogs_api \<Rightarrow> tmgi_setter \<Rightarrow> tmgi \<Rightarrow> tmgi" where
  "apply_tmgi_setter api x t =
     (case x of
        Set_service_id i \<Rightarrow> tmgi_set_mbs_service_id i t
      | Set_plmn c n \<Rightarrow> tmgi_set_plmn api c n t
      | Set_expiry e \<Rightarrow> tmgi_set_expiry_time e t
      | Set_tmgi_callback f d \<Rightarrow> tmgi_set_callback f d t)"

definition apply_subscription_setter :: "subscription_setter \<Rightarrow> subscription \<Rightarrow> subscription" where
  "apply_subscription_setter x u =
     (case x of
        Set_area_session_id i \<Rightarrow> subscription_set_area_session_id i u
      | Set_event_flags f \<Rightarrow> subscription_set_event_type_flags f u
      | Set_correlation c \<Rightarrow> subscription_set_correlation_id c u
      | Set_subscription_expiry e \<Rightarrow> subscription_set_expiry_time e u
      | Set_notification_callback f d \<Rightarrow> subscription_set_notification_callback f d u)"

definition set_one_callback ::
  "callback_kind \<Rightarrow> nat option \<Rightarrow> nat option \<Rightarrow> nat option \<Rightarrow> session \<Rightarrow> session \<times> event list" where
  "set_one_callback k f d fr s =
     (case k of
        Cb_create \<Rightarrow> set_create_callback_freefn f d fr s
      | Cb_update \<Rightarrow> set_update_callback_freefn f d fr s
      | Cb_delete \<Rightarrow> set_delete_callback_freefn f d fr s)"

section \<open>The step function\<close>

fun api_step :: "ogs_api \<Rightarrow> api_call \<Rightarrow> world \<Rightarrow> world option" where
  "api_step api (Call_parse_config gai local doc) w = map_option snd (mb_smf_sc_parse_config gai local doc w)"
| "api_step api Call_terminate w = mb_smf_sc_terminate w"
| "api_step api (Call_event e) w = map_option snd (mb_smf_sc_process_event api e w)"
| "api_step api (Call_tmgi_create f d) w = map_option snd (mb_smf_sc_tmgi_create api f d w)"
| "api_step api Call_tmgi_new w = map_option snd (tmgi_create None None w)"
| "api_step api (Call_tmgi_free p) w = tmgi_free p w"
| "api_step api (Call_tmgi_set a x) w =
     map_option (\<lambda>t. put_tmgi a (apply_tmgi_setter api x t) w) (w_tmgis w a)"
| "api_step api (Call_tmgi_repr p) w = map_option snd (tmgi_repr api p w)"
| "api_step api (Call_tmgi_allocate p) w = tmgi_send_allocate api p w"
| "api_step api (Call_tmgi_deallocate p) w = tmgi_send_deallocate api p w"
| "api_step api (Call_session_new fam s d) w = map_option snd (mbs_session_new_addr fam s d w)"
| "api_step api (Call_session_delete p) w = mbs_session_mark_deleted p w"
| "api_step api (Call_session_set_tmgi p q) w = map_option snd (mbs_session_set_tmgi p q w)"
| "api_step api (Call_session_add_subscription p q) w = map_option snd (mbs_session_add_subscription p q w)"
| "api_step api (Call_session_remove_subscription p q) w =
     map_option snd (mbs_session_remove_subscription p q w)"
| "api_step api (Call_session_set_callback p f d fr) w =
     map_option snd (mbs_session_set_callback p f d fr w)"
| "api_step api (Call_session_set_one_callback a k f d fr) w =
     map_option (\<lambda>s. case set_one_callback k f d fr s of (s, es) \<Rightarrow> fold log_event es (put_session a s w))
       (w_sessions w a)"
| "api_step api (Call_session_push p) w = map_option snd (mbs_session_push_changes api p w)"
| "api_step api Call_push_all w = map_option snd (mbs_session_push_all_changes api w)"
| "api_step api (Call_session_write a m) w =
     map_option (\<lambda>s. put_session a (s\<lparr>ps_public := m\<rparr>) w) (w_sessions w a)"
| "api_step api (Call_subscription_new i f c e cb d) w =
     Some (snd (mbs_status_subscription_new i f c e cb d w))"
| "api_step api (Call_subscription_delete p) w = mb_smf_sc_mbs_status_subscription_delete p w"
| "api_step api (Call_subscription_set p x) w = on_subscription (apply_subscription_setter x) p w"
| "api_step api (Call_subscription_string p) w =
     map_option snd (mbs_status_subscription_as_string api p w)"
| "api_step api (Call_write_words f) w = Some (w\<lparr>w_words := f\<rparr>)"

definition initial_world :: world where
  "initial_world =
     \<lparr>w_sessions = (\<lambda>_. None), w_subscs = (\<lambda>_. None), w_tmgis = (\<lambda>_. None), w_refs = (\<lambda>_. None),
      w_words = (\<lambda>_. None), w_ctx = None, w_fixed = None, w_next = 0, w_log = []\<rparr>"

section \<open>The invariant\<close>

lemma initial_inv: "lib_inv api {#} initial_world"
  by (simp add: lib_inv_def refs_ok_def counts_ok_def objects_below_def ctx_ok_def tmgi_caches_ok_def
      initial_world_def held_refs_def)

lemma keeps_parse_config:
  assumes "lib_inv api E w" "mb_smf_sc_parse_config gai local doc w = Some (r, w')"
  shows "lib_inv api E w'"
proof -
  obtain n where "w' = set_notif n (context_new w)"
    using context_parse_config_notif [OF assms(2)] by (auto simp: notif_only_def)
  then show ?thesis
    using assms(1)
    by (simp add: set_notif_def context_new_def lib_inv_def ctx_ok_def tmgi_caches_ok_def)
qed

lemma keeps_tmgi_set:
  assumes "lib_inv api E w" "w_tmgis w a = Some t"
  shows "lib_inv api E (put_tmgi a (apply_tmgi_setter api x t) w)"
proof (rule keeps_put_tmgi [OF assms])
  show "tm_sbi (apply_tmgi_setter api x t) = tm_sbi t"
    by (cases x) (simp_all add: apply_tmgi_setter_def tmgi_set_callback_def)
  show "tmgi_cache_ok api a (apply_tmgi_setter api x t)" if "tmgi_cache_ok api a t"
    using tmgi_cache_setters [OF that] by (cases x) (simp_all add: apply_tmgi_setter_def)
qed

lemma keeps_set_one_callback:
  assumes "lib_inv api E w" "w_sessions w a = Some s"
  shows "lib_inv api E (case set_one_callback k f d fr s of (s, es) \<Rightarrow> fold log_event es (put_session a s w))"
proof -
  have "ps_sbi (fst (set_one_callback k f d fr s)) = ps_sbi s"
    by (cases k) (simp_all add: set_one_callback_def)
  then show ?thesis using keeps_put_session [OF assms] by (simp add: case_prod_beta)
qed

lemma api_step_inv:
  assumes "api_step api c w = Some w'" "lib_inv api E w"
  shows "lib_inv api E w'"
  using assms
  by (cases c)
    (auto intro: keeps_parse_config keeps_tmgi_set keeps_set_one_callback keeps_put_session
      keeps_subscription_new [OF surjective_pairing] dest: keeps)

interpretation sc: invariant_machine "api_step api" "lib_inv api {#}" for api
  by unfold_locales (rule api_step_inv)

end
