(* ===== verification/Event_Spec.thy ===== *)
theory Event_Spec
  imports Sc_Machine State_Spec
begin

text \<open>
  The properties of the event side of the MB-SMF library: the invariant of every reachable
  state, which events the library claims, what it does on a response, a notification or a
  timeout, and how long it keeps an SBI object alive.
\<close>

section \<open>The owner of a transaction\<close>

lemma sbi_object_to_session_found:
  assumes "context_sbi_object_to_session q w = Some (Some a)" "w_ctx w = Some c"
  shows "\<exists>r s. q = Some r \<and> a \<in> set (ctx_sessions c) \<and> w_sessions w a = Some s \<and> ps_sbi s = Some r \<and>
           session_sbi w a = Some r"
proof -
  obtain r where r: "q = Some r"
      "first_with_sbi (\<lambda>a. map_option ps_sbi (w_sessions w a)) r (ctx_sessions c) = Some (Some a)"
    using assms by (auto simp: context_sbi_object_to_session_def split: option.splits)
  then show ?thesis using first_with_sbi_Some [OF r(2)] by (auto simp: session_sbi_def)
qed

lemma sbi_object_to_tmgi_found:
  assumes "context_sbi_object_to_tmgi q w = Some (Some a)" "w_ctx w = Some c"
  shows "\<exists>r t. q = Some r \<and> a \<in> set (ctx_tmgis c) \<and> w_tmgis w a = Some t \<and> tm_sbi t = Some r \<and>
           tmgi_sbi w a = Some r"
proof -
  obtain r where r: "q = Some r"
      "first_with_sbi (\<lambda>a. map_option tm_sbi (w_tmgis w a)) r (ctx_tmgis c) = Some (Some a)"
    using assms by (auto simp: context_sbi_object_to_tmgi_def split: option.splits)
  then show ?thesis using first_with_sbi_Some [OF r(2)] by (auto simp: tmgi_sbi_def)
qed

lemma sbi_object_lookups_defined:
  assumes "lib_inv api E w"
  shows "context_sbi_object_to_session q w \<noteq> None" "context_sbi_object_to_tmgi q w \<noteq> None"
proof -
  have "first_with_sbi (\<lambda>a. map_option ps_sbi (w_sessions w a)) r (ctx_sessions c) \<noteq> None"
    "first_with_sbi (\<lambda>a. map_option tm_sbi (w_tmgis w a)) r (ctx_tmgis c) \<noteq> None"
    if "w_ctx w = Some c" for r c
    using that assms by (auto intro!: first_with_sbi_total simp: lib_inv_def ctx_ok_def simp del: not_None_eq)
  then show "context_sbi_object_to_session q w \<noteq> None" "context_sbi_object_to_tmgi q w \<noteq> None"
    by (auto simp: context_sbi_object_to_session_def context_sbi_object_to_tmgi_def split: option.splits)
qed

section \<open>Reachable states\<close>

text \<open>C2: In every state the library reaches from its start by any sequence of defined calls and events
  (whatever their arguments, and whatever the application writes into the public structures),
  the count of every SBI object is the number of pointers to it and every pointer is to a live
  object, the context lists hold each live object at most once and nothing else, and every
  cached TMGI text is the current one.\<close>

theorem reachable_states_sound:
  assumes "reachable (api_step api) initial_world w"
  shows "lib_inv api {#} w \<and>
         (\<forall>a s r. w_sessions w a = Some s \<longrightarrow> ps_sbi s = Some r \<longrightarrow> w_refs w r \<noteq> None) \<and>
         (\<forall>a t r. w_tmgis w a = Some t \<longrightarrow> tm_sbi t = Some r \<longrightarrow> w_refs w r \<noteq> None)"
proof -
  have inv: "lib_inv api {#} w" by (rule sc.reachable_inv [OF assms initial_inv])
  note ok = lib_inv_refs [OF inv]
  have alive: "w_refs w r \<noteq> None" if "r \<in># held_refs w" for r
    using refs_ok_alive [OF ok, of r] that by auto
  have "r \<in># held_refs w" if "w_sessions w a = Some s" "ps_sbi s = Some r" for a s r
    using that refs_ok_dom(2) [OF ok that(1)] by (auto simp: held_refs_iff session_sbi_def)
  then show ?thesis using inv alive held_by_tmgi [OF ok] by blast
qed

text \<open>A session and a TMGI are made and both are requested; the SBI objects are 1 and 3.\<close>

definition example_run :: "api_call list" where
  "example_run =
     [Call_parse_config (\<lambda>_ _. None) ''app'' (Y_map []), Call_session_new Af_inet None None, Call_session_push (Some 0),
      Call_tmgi_create (Some 5) None, Call_session_delete (Some 0)]"

lemma example_run_result:
  "\<exists>w. run (api_step example_api) example_run initial_world = Some w \<and>
     (\<exists>s. w_sessions w 0 = Some s \<and> ps_sbi s = Some 1 \<and> ps_is_deleted s) \<and>
     (\<exists>t. w_tmgis w 2 = Some t \<and> tm_sbi t = Some 3)"
  by (simp add: example_run_def mb_smf_sc_parse_config_def context_parse_config_def entries_at_def context_new_def initial_world_def
      mbs_session_new_addr_def mbs_session_new_def session_ssm_def context_add_mbs_session_def
      mbs_session_push_changes_def mbs_session_send_create_def session_build_create_def
      first_subscription_def send_request_def ref_count_sbi_object_new_def mbs_session_calloc_def
      mb_smf_sc_tmgi_create_def tmgi_create_def context_add_tmgi_def tmgi_send_allocate_def
      tmgi_list_send_allocate_def tmgi_list_repr_def tmgi_repr_def ref_count_sbi_object_unref_def
      ref_count_sbi_object_ref_def mbs_session_mark_deleted_def Let_def)

theorem reachable_states_sound_witness:
  "\<exists>w. run (api_step example_api) example_run initial_world = Some w \<and> lib_inv example_api {#} w \<and>
     w_refs w 1 \<noteq> None \<and> w_refs w 3 \<noteq> None"
proof -
  obtain w s t where w: "run (api_step example_api) example_run initial_world = Some w"
      "w_sessions w 0 = Some s" "ps_sbi s = Some 1" "w_tmgis w 2 = Some t" "tm_sbi t = Some 3"
    using example_run_result by blast
  have "reachable (api_step example_api) initial_world w" using w(1) reachable_run by metis
  from reachable_states_sound [OF this] show ?thesis using w by blast
qed

section \<open>Which events are the library's\<close>

text \<open>An event the library does not claim (it returns \<open>false\<close>) leaves its whole state as it was; a
  response or a timeout is claimed only when a session or, for a response, a TMGI in the
  context lists holds the SBI object of the transaction.\<close>

theorem unclaimed_event_unchanged:
  assumes "mb_smf_sc_process_event api e w = Some (ok, w')" "w_ctx w = Some c"
  shows "(\<not> ok \<longrightarrow> w' = w) \<and>
         (\<forall>p rs. e = Some (Sbi_client p rs) \<longrightarrow> ok \<longrightarrow>
            (\<exists>x r. p = Some x \<and> xa_sbi x = Some r \<and>
               ((\<exists>a\<in>set (ctx_sessions c). session_sbi w a = Some r) \<or>
                (\<exists>a\<in>set (ctx_tmgis c). tmgi_sbi w a = Some r)))) \<and>
         (\<forall>t p. e = Some (Sbi_timer t p) \<longrightarrow> ok \<longrightarrow>
            (\<exists>x r. p = Some x \<and> xa_sbi x = Some r \<and>
               (\<exists>a\<in>set (ctx_sessions c). session_sbi w a = Some r)))"
proof (intro conjI)
  have sess: "\<exists>r. q = Some r \<and> (\<exists>a\<in>set (ctx_sessions c). session_sbi w a = Some r)"
    if "context_sbi_object_to_session q w = Some (Some s)" for q s
    using sbi_object_to_session_found [OF that assms(2)] by auto
  have tmgi: "\<exists>r. q = Some r \<and> (\<exists>a\<in>set (ctx_tmgis c). tmgi_sbi w a = Some r)"
    if "context_sbi_object_to_tmgi q w = Some (Some t)" for q t
    using sbi_object_to_tmgi_found [OF that assms(2)] by auto
  show "\<not> ok \<longrightarrow> w' = w"
    using assms(1)
    by (auto simp: mb_smf_sc_process_event_def handle_server_event_def handle_client_event_def
        handle_timer_event_def split: option.splits ogs_event.splits bind_splits if_splits prod.splits timer_id.splits)
  show "\<forall>p rs. e = Some (Sbi_client p rs) \<longrightarrow> ok \<longrightarrow>
            (\<exists>x r. p = Some x \<and> xa_sbi x = Some r \<and>
               ((\<exists>a\<in>set (ctx_sessions c). session_sbi w a = Some r) \<or>
                (\<exists>a\<in>set (ctx_tmgis c). tmgi_sbi w a = Some r)))"
    using assms(1) sess tmgi
    by (fastforce simp: mb_smf_sc_process_event_def handle_client_event_def
        split: option.splits bind_splits if_splits)
  show "\<forall>t p. e = Some (Sbi_timer t p) \<longrightarrow> ok \<longrightarrow>
            (\<exists>x r. p = Some x \<and> xa_sbi x = Some r \<and>
               (\<exists>a\<in>set (ctx_sessions c). session_sbi w a = Some r))"
    using assms(1) sess
    by (fastforce simp: mb_smf_sc_process_event_def handle_timer_event_def
        split: option.splits bind_splits timer_id.splits)
qed

text \<open>A transaction about the TMGI of the example state, or about nothing.\<close>

definition example_xact :: "addr \<Rightarrow> xact_service \<Rightarrow> string list \<Rightarrow> string \<Rightarrow> sbi_xact" where
  "example_xact r sv path mth =
     \<lparr>xa_sbi = Some r, xa_service = sv, xa_method = Some mth,
      xa_resource0 = (if length path > 0 then Some (path ! 0) else None),
      xa_resource1 = (if length path > 1 then Some (path ! 1) else None),
      xa_resource2 = (if length path > 2 then Some (path ! 2) else None),
      xa_allocate = Alloc_not_json, xa_tmgi_list = Param_missing, xa_instance = False\<rparr>"

definition empty_message :: sbi_message where
  "empty_message =
     \<lparr>ms_res_status = 0, ms_service = None, ms_resource0 = None, ms_method = None, ms_content_type = None,
      ms_location = None, ms_create_rsp = None, ms_tmgi_allocated = None, ms_problem = None,
      ms_search_result = False\<rparr>"

definition example_response :: "int \<Rightarrow> sbi_message \<Rightarrow> sbi_response" where
  "example_response status m =
     \<lparr>rs_status = status, rs_full = (True, m), rs_header = (True, m), rs_subscribe = Body_not_json\<rparr>"

theorem unclaimed_event_unchanged_witness:
  "\<exists>x. xa_sbi (example_xact 2 Sv_other [] ''GET'') = Some x \<and> tmgi_sbi small_world 1 = Some x \<and>
     mb_smf_sc_process_event example_api
       (Some (Sbi_timer Timer_sbi_client_wait (Some (example_xact 2 Sv_other [] ''GET'')))) small_world =
     Some (False, small_world)"
proof -
  let ?e = "Some (Sbi_timer Timer_sbi_client_wait (Some (example_xact 2 Sv_other [] ''GET'')))"
  have found: "context_sbi_object_to_session (Some 2) small_world = Some None"
    "context_sbi_object_to_tmgi (Some 2) small_world = Some (Some 1)"
    by (simp_all add: context_sbi_object_to_session_def context_sbi_object_to_tmgi_def)
  then have e: "\<exists>w'. mb_smf_sc_process_event example_api ?e small_world = Some (False, w')"
    by (simp add: mb_smf_sc_process_event_def handle_timer_event_def example_xact_def)
  then obtain w' where w': "mb_smf_sc_process_event example_api ?e small_world = Some (False, w')" by blast
  have "w_ctx small_world = Some \<lparr>ctx_sessions = [0], ctx_tmgis = [1], ctx_notif = None\<rparr>" by simp
  from unclaimed_event_unchanged [OF w' this] have "w' = small_world" by blast
  then show ?thesis using w' by (simp add: example_xact_def tmgi_sbi_def)
qed

text \<open>C34: The timeout of a request about TMGIs alone is not handled: when no session holds the SBI object,
  the library does not claim the event, calls no callback and leaves the transaction, although
  the code has a branch that reports the timeout to the owner of the TMGI.\<close>

theorem tmgi_timeout_ignored:
  assumes "w_ctx w = Some c" "lib_inv api {#} w" "\<forall>a\<in>set (ctx_sessions c). session_sbi w a \<noteq> xa_sbi x"
  shows "mb_smf_sc_process_event api (Some (Sbi_timer Timer_sbi_client_wait (Some x))) w = Some (False, w)"
proof -
  have "context_sbi_object_to_session (xa_sbi x) w \<noteq> Some (Some a)" for a
    using sbi_object_to_session_found [of "xa_sbi x" w a c] assms(1,3) by auto
  then have "context_sbi_object_to_session (xa_sbi x) w = Some None"
    using sbi_object_lookups_defined(1) [OF assms(2), of "xa_sbi x"] by (metis not_None_eq)
  then show ?thesis
    using sbi_object_lookups_defined(2) [OF assms(2), of "xa_sbi x"]
    by (auto simp: mb_smf_sc_process_event_def handle_timer_event_def)
qed

lemma small_world_inv: "lib_inv api {#} small_world"
  using example_refs_ok [of "plain_session None"]
  by (simp add: lib_inv_def ctx_ok_def tmgi_caches_ok_def plain_tmgi_def)

theorem tmgi_timeout_ignored_witness:
  "mb_smf_sc_process_event example_api
     (Some (Sbi_timer Timer_sbi_client_wait (Some (example_xact 2 Sv_nmbsmf_tmgi [''tmgi''] ''POST'')))) small_world =
   Some (False, small_world)"
  by (rule tmgi_timeout_ignored [OF _ small_world_inv])
    (simp_all add: session_sbi_def example_xact_def)

section \<open>The configured port\<close>

text \<open>A document with the keys \<open>ps\<close> for the MB-SMF notifications; every level may have other keys.\<close>

definition config_document ::
  "string \<Rightarrow> (string \<times> yaml) list \<Rightarrow> (string \<times> yaml) list \<Rightarrow> (string \<times> yaml) list \<Rightarrow> (string \<times> yaml) list \<Rightarrow> yaml" where
  "config_document local before section notif ps =
     Y_map (before @ [(local, Y_map (section @ [(''notifications'', Y_map (notif @ [(''mbsmf'', Y_map ps)]))]))])"

lemma entries_at_cong:
  assumes "\<And>w. f xs w = f ys w"
  shows "entries_at name f (zs @ [(name, Y_map xs)]) w = entries_at name f (zs @ [(name, Y_map ys)]) w"
  using assms by (simp add: entries_at_def fold_option_append at_key_def split: sum.split bind_split)

text \<open>C37: The port that is configured for notifications has no effect: replacing its text by any other
  leaves the result of reading the configuration as it was.  The example of the comment in the code,
  an address and a port, is refused, because the number is read from the text of the address.\<close>

theorem configured_port_ignored:
  "mb_smf_sc_parse_config gai local (config_document local before section notif (map (other_port g) ps)) w =
     mb_smf_sc_parse_config gai local (config_document local before section notif ps) w \<and>
   context_parse_config gai ''app'' (config_document ''app'' [] [] []
       [(''address'', Y_scalar (Some ''127.0.0.1'')), (''port'', Y_scalar (Some ''12345''))]) (context_new w) =
     Some (Ogs_error, context_new w)"
proof
  have "entries_at ''mbsmf'' (mbsmf_section gai) (notif @ [(''mbsmf'', Y_map (map (other_port g) ps))]) w =
      entries_at ''mbsmf'' (mbsmf_section gai) (notif @ [(''mbsmf'', Y_map ps)]) w" for w
    by (rule entries_at_cong) (simp add: mbsmf_section_other_port)
  then have "entries_at ''notifications'' (entries_at ''mbsmf'' (mbsmf_section gai))
        (section @ [(''notifications'', Y_map (notif @ [(''mbsmf'', Y_map (map (other_port g) ps))]))]) w =
      entries_at ''notifications'' (entries_at ''mbsmf'' (mbsmf_section gai))
        (section @ [(''notifications'', Y_map (notif @ [(''mbsmf'', Y_map ps)]))]) w" for w
    by (rule entries_at_cong)
  then have "entries_at local (entries_at ''notifications'' (entries_at ''mbsmf'' (mbsmf_section gai)))
        (before @ [(local, Y_map (section @ [(''notifications'', Y_map (notif @ [(''mbsmf'', Y_map (map (other_port g) ps))]))]))]) w =
      entries_at local (entries_at ''notifications'' (entries_at ''mbsmf'' (mbsmf_section gai)))
        (before @ [(local, Y_map (section @ [(''notifications'', Y_map (notif @ [(''mbsmf'', Y_map ps)]))]))]) w" for w
    by (rule entries_at_cong)
  then show "mb_smf_sc_parse_config gai local (config_document local before section notif (map (other_port g) ps)) w =
     mb_smf_sc_parse_config gai local (config_document local before section notif ps) w"
    by (simp add: mb_smf_sc_parse_config_def context_parse_config_def config_document_def)
  have p: "port_number (Some ''127.0.0.1'') = None"
    by (simp add: port_number_def strtoul_def is_space_def read_magnitude_def starts_digit_def digit_value_def
        is_digit_def to_lower_def)
  show "context_parse_config gai ''app'' (config_document ''app'' [] [] []
       [(''address'', Y_scalar (Some ''127.0.0.1'')), (''port'', Y_scalar (Some ''12345''))]) (context_new w) =
     Some (Ogs_error, context_new w)"
    by (simp add: context_parse_config_def config_document_def entries_at_def at_key_def mbsmf_section_def
        mbsmf_key_def p context_new_def)
qed

end
