(* ===== verification/Handle_Spec.thy ===== *)
theory Handle_Spec
  imports Event_Spec
begin

text \<open>
  The properties of the response handlers: the delivery of event reports, the reply to the
  creation of a session and what it leaves to push, the replies to a change, a subscription
  and a removal, and the replies about TMGIs.
\<close>

section \<open>Event reports\<close>

text \<open>What the application is told of one report: nothing when its time stamp does not parse or
  its type is not subscribed.\<close>

definition report_results :: "ogs_api \<Rightarrow> subscription \<Rightarrow> event_report \<Rightarrow> notification list" where
  "report_results api u r =
     (case report_time api (er_time_stamp r) of
        None \<Rightarrow> []
      | Some time \<Rightarrow>
          (case report_notification api u time r of
             None \<Rightarrow> []
           | Some n \<Rightarrow> if and (su_flags u) (nf_event_type n) \<noteq> 0 then [n] else []))"

text \<open>A report whose pointers are there.\<close>

definition report_complete :: "event_report \<Rightarrow> bool" where
  "report_complete r \<longleftrightarrow>
     (er_type r = Rt_ingress_tunnel \<longrightarrow> (\<exists>ts. er_tunnels r = Some (map Some ts)))"

lemma report_tunnels_complete: "\<exists>l. report_tunnels api (map Some ts) = Some l"
  by (induction ts) (auto simp: report_tunnel_def)

lemma report_notification_complete:
  "report_complete r \<Longrightarrow> \<exists>n. report_notification api u time r = Some n"
proof (cases "er_type r = Rt_ingress_tunnel")
  case True
  moreover assume "report_complete r"
  ultimately obtain ts l where "er_tunnels r = Some (map Some ts)" "report_tunnels api (map Some ts) = Some l"
    using report_tunnels_complete unfolding report_complete_def by metis
  then show ?thesis using True by (simp add: report_notification_def Let_def)
qed (auto simp: report_notification_def Let_def split: report_type.split reported_delivery.split)

lemma deliver_reports_results:
  assumes "\<forall>r\<in>set rs. report_complete r"
  shows "deliver_reports api f u (map Some rs) w =
           Some (w\<lparr>w_log := w_log w @ map (\<lambda>n. Ev_status_callback f n (su_cb_data u))
                                       (concat (map (report_results api u) rs))\<rparr>)"
  using assms
proof (induction rs arbitrary: w)
  case (Cons r rs)
  show ?case
  proof (cases "report_time api (er_time_stamp r)")
    case None
    then show ?thesis using Cons by (simp add: report_results_def)
  next
    case (Some time)
    obtain n where n: "report_notification api u time r = Some n"
      using Cons.prems report_notification_complete by fastforce
    then show ?thesis using Cons Some by (simp add: report_results_def log_event_def)
  qed
qed simp


definition listening :: subscription where
  "listening = (plain_subscription None)\<lparr>su_callback := Some 8, su_flags := 3\<rparr>"

definition report :: "report_type \<Rightarrow> string \<Rightarrow> event_report" where
  "report t time = \<lparr>er_time_stamp = time, er_type = t, er_delivery = Bds_terminated, er_tunnels = Some []\<rparr>"


text \<open>A report of a type the library does not know is never delivered, whatever events are subscribed,
  although the header announces such results as \<open>MBS_SESSION_EVENT_OTHER\<close>.\<close>

theorem unknown_reports_dropped:
  assumes "w_subscs w b = Some u" "\<forall>r\<in>set rs. er_type r = Rt_other"
  shows "subscription_report_list_handler api (Some b) (Some (map Some rs)) w = Some (su_callback u \<noteq> None, w)"
proof (cases "su_callback u")
  case (Some f)
  have "report_complete r \<and> report_results api u r = []" if "r \<in> set rs" for r
    using that assms(2)
    by (auto simp: report_complete_def report_results_def report_notification_def Let_def split: option.split)
  then have "concat (map (report_results api u) rs) = []" "\<forall>r\<in>set rs. report_complete r" by auto
  then show ?thesis
    using deliver_reports_results [of rs api f u w] assms(1) Some
    by (simp add: subscription_report_list_handler_def)
qed (use assms in \<open>simp add: subscription_report_list_handler_def\<close>)

theorem unknown_reports_dropped_witness:
  "subscription_report_list_handler example_api (Some 3) (Some (map Some [report Rt_other ''now'']))
     (example_world (plain_session None) (listening\<lparr>su_flags := - 1\<rparr>)) =
   Some (su_callback (listening\<lparr>su_flags := - 1\<rparr>) \<noteq> None,
         example_world (plain_session None) (listening\<lparr>su_flags := - 1\<rparr>))"
  by (rule unknown_reports_dropped [where u = "listening\<lparr>su_flags := - 1\<rparr>"]) (simp_all add: report_def)

section \<open>The reply to a creation\<close>

lemma public_equal_cong:
  assumes "w_words w' = w_words w" "w_tmgis w' = w_tmgis w"
  shows "mbs_session_public_equal api p q w' = mbs_session_public_equal api p q w"
proof -
  have words: "words_equal x y w' = words_equal x y w" for x y
    unfolding words_equal_def opt_word_def assms ..
  have tmgis: "tmgi_equal x y w' = tmgi_equal x y w" for x y
    unfolding tmgi_equal_def assms ..
  show ?thesis
    unfolding mbs_session_public_equal_def mbs_session_both_equal_def words tmgis ..
qed

lemma public_equal_put [simp]:
  "mbs_session_public_equal api p q (put_session a s w) = mbs_session_public_equal api p q w"
  "mbs_session_public_equal api p q (log_event e w) = mbs_session_public_equal api p q w"
  by (rule public_equal_cong; simp)+





definition asking_session :: session where
  "asking_session =
     (plain_session (Some 2))\<lparr>ps_public := mbs_session_calloc\<lparr>se_tmgi_req := True\<rparr>, ps_id := None,
       ps_create_cb := \<lparr>cb_fun = Some 5, cb_data = Some 6, cb_free = None\<rparr>\<rparr>"

definition asking_world :: world where
  "asking_world = example_world asking_session (plain_subscription None)"

definition reply_session :: api_session where
  "reply_session =
     \<lparr>as_tunnels = None, as_tmgi = Some (Some ''010203'', ''001'', ''01''), as_expiration = Some ''later'',
      as_session_id = Some None\<rparr>"

definition reply_message :: sbi_message where
  "reply_message =
     empty_message\<lparr>ms_res_status := 201, ms_location := Some ''s7'',
       ms_create_rsp := Some \<lparr>cr_session = Some reply_session, cr_events = None\<rparr>\<rparr>"

lemma asking_sel [simp]:
  "w_sessions asking_world 0 = Some asking_session" "ps_sbi asking_session = Some 2"
  "w_ctx asking_world = Some \<lparr>ctx_sessions = [0], ctx_tmgis = [1], ctx_notif = None\<rparr>"
  "ps_previous asking_session = None" "ps_public asking_session = mbs_session_calloc\<lparr>se_tmgi_req := True\<rparr>"
  "\<not> se_tunnel_req mbs_session_calloc"
  by (simp_all add: asking_world_def asking_session_def plain_session_def mbs_session_calloc_def)



lemma reply_sel [simp]:
  "ms_location reply_message = Some ''s7''"
  "ms_create_rsp reply_message = Some \<lparr>cr_session = Some reply_session, cr_events = None\<rparr>"
  "as_tmgi reply_session = Some (Some ''010203'', ''001'', ''01'')" "as_expiration reply_session = Some ''later''"
  "as_session_id reply_session = Some None" "location_resource example_api ''s7'' = Some (Some ''s7'')"
  "time_from_string example_api ''later'' = Some 5000000" "time_to_sec example_api 5000000 = 5"
  by (simp_all add: reply_message_def reply_session_def example_api_def)




end
