(* ===== verification/Reply_Spec.thy ===== *)
theory Reply_Spec
  imports Handle_Spec
begin

text \<open>
  The properties of the replies to a change, a status subscription, a removal and the TMGI
  requests.
\<close>

section \<open>The reply to a change\<close>




section \<open>The reply to a subscription\<close>


lemma deliver_reports_state:
  "deliver_reports api f u rs w = Some w' \<Longrightarrow> w_sessions w' = w_sessions w \<and> w_subscs w' = w_subscs w"
  by (induction api f u rs w rule: deliver_reports.induct)
    (auto simp: Let_def split: option.splits bind_splits if_splits)




section \<open>The reply to a removal\<close>










section \<open>The replies about TMGIs\<close>


definition owned_world :: world where
  "owned_world = put_tmgi 1 ((plain_tmgi (Some 2))\<lparr>tm_callback := Some 4\<rparr>) small_world"

lemma owned_inv: "lib_inv api {#} owned_world"
  unfolding owned_world_def by (rule keeps_put_tmgi [OF small_world_inv]) (auto simp: plain_tmgi_def)

lemma owned_found:
  "tmgi_find_matching_openapi_type example_api (Some (Some ''0A0B0C'', ''0'', ''0'')) owned_world = Some (Some 1)"
  by (simp add: owned_world_def tmgi_find_matching_openapi_type_def context_tmgis_def tmgi_matches_def
      plain_tmgi_def example_api_def dec_str_def)


text \<open>After the reply to a deallocation, successful or not, the TMGI it names is still allocated
  memory with its SBI object but no longer in the list of the context: freeing it, which the
  application still has to do, unlinks it a second time, which is undefined.\<close>

theorem deallocated_tmgi_cannot_be_freed:
  assumes inv: "lib_inv api {#} w" and found: "tmgi_find_matching_openapi_type api m w = Some (Some a)"
    and t: "w_tmgis w a = Some t" and x: "xa_tmgi_list x = Param_object m"
  shows "\<exists>w'. nmbsmf_tmgi_deallocated api x msg w = Some w' \<and> w_tmgis w' a = Some t \<and>
           tmgi_free (Some a) w' = None"
proof -
  obtain c where c: "w_ctx w = Some c" "a \<in> set (ctx_tmgis c)"
  proof -
    obtain k ts where "m = Some k" "context_tmgis w = Some ts" "first_matching (tmgi_matches api k) ts w = Some (Some a)"
      using found by (auto simp: tmgi_find_matching_openapi_type_def split: option.splits bind_splits)
    moreover have "b \<in> set bs" if "first_matching P bs w = Some (Some b)" for P b bs
      using that by (induction bs) (auto split: bind_splits if_splits)
    ultimately show ?thesis using that by (auto simp: context_tmgis_def)
  qed
  obtain v where v: "tmgi_do_callback (if is_2xx (ms_res_status msg) then Ogs_done else Ogs_error)
        (if is_2xx (ms_res_status msg) then None else ms_problem msg) a w = Some v"
      "w_tmgis v = w_tmgis w" "w_ctx v = w_ctx w"
    using t by (cases "tm_callback t") (auto simp: tmgi_do_callback_def)
  let ?w = "v\<lparr>w_ctx := Some (c\<lparr>ctx_tmgis := remove1 a (ctx_tmgis c)\<rparr>)\<rparr>"
  have rm: "context_remove_tmgi (Some a) v = Some (True, ?w)" using v(3) c by (simp add: context_remove_tmgi_def)
  have "nmbsmf_tmgi_deallocated api x msg w = Some ?w"
    using x found v(1) rm by (simp add: nmbsmf_tmgi_deallocated_def do_tmgi_remove_def split: if_splits)
  moreover have "distinct (ctx_tmgis c)" using inv c(1) by (simp add: lib_inv_def ctx_ok_def)
  then have "tmgi_free (Some a) ?w = None"
    using t v(2) by (simp add: tmgi_free_def context_remove_tmgi_def)
  ultimately show ?thesis using t v(2) by (intro exI [of _ ?w]) simp
qed

theorem deallocated_tmgi_cannot_be_freed_witness:
  "\<exists>w'. nmbsmf_tmgi_deallocated example_api
       ((example_xact 2 Sv_nmbsmf_tmgi [''tmgi''] ''DELETE'')\<lparr>xa_tmgi_list := Param_object (Some (Some ''0A0B0C'', ''0'', ''0''))\<rparr>)
       (empty_message\<lparr>ms_res_status := 204\<rparr>) owned_world = Some w' \<and>
     w_tmgis w' 1 = Some ((plain_tmgi (Some 2))\<lparr>tm_callback := Some 4\<rparr>) \<and> tmgi_free (Some 1) w' = None"
  by (rule deallocated_tmgi_cannot_be_freed [OF owned_inv owned_found]) (simp_all add: owned_world_def)

end
