(* ===== verification/Sc_Build.thy ===== *)
theory Sc_Build
  imports Process_Event
begin

text \<open>
  The requests that the MB-SMF library hands to Open5GS (\<open>nmbsmf-mbs-session-build.c\<close>,
  \<open>nmbsmf-tmgi-build.c\<close>): method, path and the OpenAPI object that is printed as the body.  The
  arguments of an \<open>OpenAPI_x_create\<close> call are the members of a record; members for which every
  call passes \<open>NULL\<close> are left out.  A flag that is passed twice, as \<open>is_x\<close> and as its value, is
  an optional value.
\<close>

section \<open>OpenAPI objects\<close>

text \<open>\<open>OpenAPI_ssm_t\<close> by its two addresses, and \<open>OpenAPI_mbs_session_id_t\<close>\<close>

type_synonym api_ssm = "api_ip_addr option \<times> api_ip_addr option"

record api_session_id =
  si_tmgi :: "api_tmgi option"
  si_ssm :: "api_ssm option"

record api_subscription =
  xu_session_id :: "api_session_id option"
  xu_area_session :: "16 word option"
  xu_events :: "string list option"
  xu_notify_uri :: "string option"
  xu_correlation :: "string option"
  xu_expiry :: "string option"
  xu_instance :: "string option"

record ext_mbs_session =
  xs_session_id :: "api_session_id option"
  xs_tmgi_alloc_req :: "bool option"
  xs_service_type :: service_type
  xs_location_dependent :: "bool option"
  xs_ingress_req :: "bool option"
  xs_ssm :: "api_ssm option"
  xs_service_area :: "api_service_area option"
  xs_ext_service_area :: "api_ext_service_area option"
  xs_dnn :: "string option"
  xs_snssai :: "(8 word \<times> string option) option"
  xs_start_time :: "string option"
  xs_termination_time :: "string option"
  xs_service_info :: "api_service_info option"
  xs_subscription :: "api_subscription option"
  xs_activity :: activity_status
  xs_any_ue_ind :: "bool option"
  xs_fsa_ids :: "string list option"
  xs_contact_pcf_ind :: "bool option"

text \<open>\<open>inet_ntop\<close> for the two families, \<open>OpenAPI_ssm_copy\<close>, the text of a slice differentiator and
  the id of this NF instance.\<close>

record build_api =
  bu_ntop4 :: "8 word list \<Rightarrow> string option"
  bu_ntop6 :: "8 word list \<Rightarrow> string option"
  bu_copy_ssm :: "api_ssm option \<Rightarrow> api_ssm option"
  bu_sd_text :: "24 word \<Rightarrow> string option"
  bu_instance :: "string option"

section \<open>The session id\<close>

definition ip_addr_from_inaddr :: "build_api \<Rightarrow> 8 word list \<Rightarrow> api_ip_addr option" where
  "ip_addr_from_inaddr be b = map_option (\<lambda>s. \<lparr>ip_v4 = Some s, ip_v6 = None\<rparr>) (bu_ntop4 be (take 4 b))"

definition ip_addr_from_in6addr :: "build_api \<Rightarrow> 8 word list \<Rightarrow> api_ip_addr option" where
  "ip_addr_from_in6addr be b = map_option (\<lambda>s. \<lparr>ip_v4 = None, ip_v6 = Some s\<rparr>) (bu_ntop6 be b)"

definition ssm_to_openapi :: "build_api \<Rightarrow> ssm_addr \<Rightarrow> api_ssm" where
  "ssm_to_openapi be a =
     (if ssm_family a = Af_inet
      then (ip_addr_from_inaddr be (ssm_source a), ip_addr_from_inaddr be (ssm_dest a))
      else (ip_addr_from_in6addr be (ssm_source a), ip_addr_from_in6addr be (ssm_dest a)))"

definition tmgi_to_openapi_type :: "ogs_api \<Rightarrow> tmgi \<Rightarrow> api_tmgi" where
  "tmgi_to_openapi_type api t = (tm_service_id t, plmn_mcc_string api (tm_plmn t), plmn_mnc_string api (tm_plmn t))"

definition mbs_session_create_mbs_session_id ::
  "ogs_api \<Rightarrow> build_api \<Rightarrow> mbs_session \<Rightarrow> world \<Rightarrow> api_session_id option option" where
  "mbs_session_create_mbs_session_id api be s w = do {
     tm \<leftarrow> (case se_tmgi s of
              None \<Rightarrow> Some None
            | Some t \<Rightarrow> map_option (\<lambda>x. Some (tmgi_to_openapi_type api x)) (w_tmgis w t));
     Some (if se_ssm s = None \<and> se_tmgi s = None then None
           else Some \<lparr>si_tmgi = tm, si_ssm = map_option (ssm_to_openapi be) (se_ssm s)\<rparr>)
   }"

definition mb_smf_sc_mbs_session_create_mbs_session_id ::
  "ogs_api \<Rightarrow> build_api \<Rightarrow> addr option \<Rightarrow> world \<Rightarrow> api_session_id option option" where
  "mb_smf_sc_mbs_session_create_mbs_session_id api be p w =
     (case p of
        None \<Rightarrow> Some None
      | Some a \<Rightarrow> do { s \<leftarrow> w_sessions w a; mbs_session_create_mbs_session_id api be (ps_public s) w })"

text \<open>The session id, and the copy of its SSM.\<close>

definition make_mbs_session_id ::
  "ogs_api \<Rightarrow> build_api \<Rightarrow> mbs_session \<Rightarrow> world \<Rightarrow> (api_session_id option \<times> api_ssm option) option" where
  "make_mbs_session_id api be s w = do {
     i \<leftarrow> mbs_session_create_mbs_session_id api be s w;
     Some (i, case i of None \<Rightarrow> None | Some x \<Rightarrow> bu_copy_ssm be (si_ssm x))
   }"

section \<open>The session\<close>

definition flag_if :: "bool \<Rightarrow> bool option" where
  "flag_if b = (if b then Some True else None)"

text \<open>The text of a time that is given by a pointer.\<close>

definition time_text :: "ogs_api \<Rightarrow> addr option \<Rightarrow> world \<Rightarrow> string option option" where
  "time_text api p w =
     (case p of None \<Rightarrow> Some None | Some a \<Rightarrow> map_option (\<lambda>t. Some (gmtime_string api t)) (w_words w a))"

definition make_ext_mbs_session ::
  "ogs_api \<Rightarrow> build_api \<Rightarrow> bool \<Rightarrow> mbs_session \<Rightarrow> world \<Rightarrow> ext_mbs_session option" where
  "make_ext_mbs_session api be for_update s w = do {
     (i, ssm) \<leftarrow> make_mbs_session_id api be s w;
     start \<leftarrow> time_text api (se_start_time s) w;
     term \<leftarrow> time_text api (se_termination_time s) w;
     Some \<lparr>xs_session_id = i, xs_tmgi_alloc_req = flag_if (se_tmgi_req s),
       xs_service_type = (if ssm \<noteq> None then Multicast else Broadcast),
       xs_location_dependent = flag_if (se_location_dependent s), xs_ingress_req = flag_if (se_tunnel_req s),
       xs_ssm = ssm,
       xs_service_area =
         (case se_service_area s of
            None \<Rightarrow> None
          | Some a \<Rightarrow> if length (sa_ncgi_tais a) + length (sa_tais a) > 0
                      then Some (mbs_service_area_to_openapi api a) else None),
       xs_ext_service_area =
         (case se_ext_service_area s of
            None \<Rightarrow> None
          | Some a \<Rightarrow> if length (esa_areas a) + length (esa_addresses a) > 0
                      then Some (ext_mbs_service_area_to_openapi a) else None),
       xs_dnn = se_dnn s,
       xs_snssai = map_option (\<lambda>x. (fst x, bu_sd_text be (snd x))) (se_snssai s),
       xs_start_time = start, xs_termination_time = term,
       xs_service_info = map_option (mbs_service_info_to_openapi api) (se_service_info s),
       xs_subscription = None, xs_activity = se_activity s, xs_any_ue_ind = flag_if (se_any_ue_ind s),
       xs_fsa_ids = (if se_fsa_ids s = [] then None else Some (map mbs_fsa_id_to_openapi (se_fsa_ids s))),
       xs_contact_pcf_ind = flag_if (for_update \<and> se_contact_pcf_ind s)\<rparr>
   }"

section \<open>Messages\<close>

datatype request_body =
    Body_create ext_mbs_session
  | Body_patches "json_patch list"
  | Body_subscribe api_subscription
  | Body_allocate "nat option" "api_tmgi list option"
  | Body_tmgi_list "api_tmgi list option"
  | Body_none

text \<open>\<open>ogs_sbi_message_t\<close> as it is filled in; a component may be \<open>NULL\<close>.\<close>

record built_request =
  rb_method :: string
  rb_service :: string
  rb_components :: "string option list"
  rb_body :: request_body

definition session_message :: "string \<Rightarrow> string option list \<Rightarrow> request_body \<Rightarrow> built_request" where
  "session_message m cs b =
     \<lparr>rb_method = m, rb_service = ''nmbsmf-mbssession'', rb_components = Some ''mbs-sessions'' # cs, rb_body = b\<rparr>"

definition tmgi_message :: "string \<Rightarrow> request_body \<Rightarrow> built_request" where
  "tmgi_message m b = \<lparr>rb_method = m, rb_service = ''nmbsmf-tmgi'', rb_components = [Some ''tmgi''], rb_body = b\<rparr>"

text \<open>The list of events is only made when there is one.\<close>

definition event_list :: "subscription \<Rightarrow> string list option" where
  "event_list u = (if flag_events (su_flags u) = [] then None else Some (flag_events (su_flags u)))"

definition nmbsmf_mbs_session_build_create ::
  "ogs_api \<Rightarrow> build_api \<Rightarrow> addr \<Rightarrow> world \<Rightarrow> (built_request \<times> world) option" where
  "nmbsmf_mbs_session_build_create api be a w = do {
     s \<leftarrow> w_sessions w a;
     x \<leftarrow> make_ext_mbs_session api be False (ps_public s) w;
     (x, w) \<leftarrow>
       (case first_subscription s of
          None \<Rightarrow> Some (x, w)
        | Some b \<Rightarrow> do {
            u \<leftarrow> w_subscs w b;
            (case event_list u of
               None \<Rightarrow> Some (x, w)
             | Some es \<Rightarrow> do {
                 w \<leftarrow> allocate_notification_server api b w;
                 v \<leftarrow> w_subscs w b;
                 Some (x\<lparr>xs_subscription := Some
                   \<lparr>xu_session_id = None, xu_area_session = None, xu_events = Some es, xu_notify_uri = su_url v,
                    xu_correlation = su_correlation u, xu_expiry = None, xu_instance = bu_instance be\<rparr>\<rparr>, w)
               })
          });
     Some (session_message ''POST'' [] (Body_create x), w)
   }"

definition nmbsmf_mbs_session_build_update :: "ogs_api \<Rightarrow> addr \<Rightarrow> world \<Rightarrow> built_request option" where
  "nmbsmf_mbs_session_build_update api a w = do {
     s \<leftarrow> w_sessions w a;
     ps \<leftarrow> mbs_session_patch_list api a w;
     Some (session_message ''PATCH'' [ps_id s] (Body_patches ps))
   }"

definition nmbsmf_mbs_session_build_remove :: "addr \<Rightarrow> world \<Rightarrow> built_request option" where
  "nmbsmf_mbs_session_build_remove a w =
     map_option (\<lambda>s. session_message ''DELETE'' [ps_id s] Body_none) (w_sessions w a)"

definition nmbsmf_mbs_session_build_status_subscription_create ::
  "ogs_api \<Rightarrow> build_api \<Rightarrow> addr \<Rightarrow> addr \<Rightarrow> world \<Rightarrow> built_request option" where
  "nmbsmf_mbs_session_build_status_subscription_create api be a b w = do {
     s \<leftarrow> w_sessions w a;
     u \<leftarrow> w_subscs w b;
     i \<leftarrow> mbs_session_create_mbs_session_id api be (ps_public s) w;
     Some (session_message ''POST'' [Some ''subscriptions''] (Body_subscribe
       \<lparr>xu_session_id = i, xu_area_session = (if su_area_session u \<noteq> 0 then Some (su_area_session u) else None),
        xu_events = event_list u, xu_notify_uri = su_url u, xu_correlation = su_correlation u,
        xu_expiry = (if su_expiry u \<noteq> 0 then Some (gmtime_string api (su_expiry u)) else None),
        xu_instance = bu_instance be\<rparr>))
   }"

definition nmbsmf_mbs_session_build_status_subscription_update ::
  "ogs_api \<Rightarrow> addr \<Rightarrow> addr \<Rightarrow> world \<Rightarrow> built_request option" where
  "nmbsmf_mbs_session_build_status_subscription_update api a b w = do {
     u \<leftarrow> w_subscs w b;
     ps \<leftarrow> mbs_session_patch_list api a w;
     Some (session_message ''PATCH'' [Some ''subscriptions'', su_id u] (Body_patches ps))
   }"

definition nmbsmf_mbs_session_build_status_subscription_delete :: "addr \<Rightarrow> world \<Rightarrow> built_request option" where
  "nmbsmf_mbs_session_build_status_subscription_delete b w =
     map_option (\<lambda>u. session_message ''DELETE'' [Some ''subscriptions'', su_id u] Body_none) (w_subscs w b)"

fun tmgis_to_openapi :: "ogs_api \<Rightarrow> addr list \<Rightarrow> world \<Rightarrow> api_tmgi list option" where
  "tmgis_to_openapi api [] w = Some []"
| "tmgis_to_openapi api (a # as) w = do {
     t \<leftarrow> w_tmgis w a;
     ts \<leftarrow> tmgis_to_openapi api as w;
     Some (tmgi_to_openapi_type api t # ts)
   }"

text \<open>A list of TMGIs is only made when there is one.\<close>

definition tmgi_list_or_null :: "api_tmgi list \<Rightarrow> api_tmgi list option" where
  "tmgi_list_or_null ts = (if ts = [] then None else Some ts)"

definition nmbsmf_tmgi_build_create ::
  "ogs_api \<Rightarrow> addr list option \<Rightarrow> addr list option \<Rightarrow> world \<Rightarrow> built_request option option" where
  "nmbsmf_tmgi_build_create api new_tmgis refresh_tmgis w =
     (if new_tmgis = None \<and> refresh_tmgis = None then Some None
      else do {
        let n = (case new_tmgis of None \<Rightarrow> 0 | Some as \<Rightarrow> length as);
        ts \<leftarrow> (case refresh_tmgis of None \<Rightarrow> Some [] | Some as \<Rightarrow> tmgis_to_openapi api as w);
        Some (Some (tmgi_message ''POST''
          (Body_allocate (if n \<noteq> 0 then Some n else None) (tmgi_list_or_null ts))))
      })"

definition nmbsmf_tmgi_build_remove :: "ogs_api \<Rightarrow> addr list option \<Rightarrow> world \<Rightarrow> built_request option option" where
  "nmbsmf_tmgi_build_remove api tmgis w =
     (case tmgis of
        None \<Rightarrow> Some None
      | Some as \<Rightarrow> do {
          ts \<leftarrow> tmgis_to_openapi api as w;
          Some (Some (tmgi_message ''DELETE'' (Body_tmgi_list (tmgi_list_or_null ts))))
        })"

text \<open>The builder that goes with a request of the log.\<close>

definition request_message :: "ogs_api \<Rightarrow> build_api \<Rightarrow> request \<Rightarrow> world \<Rightarrow> built_request option" where
  "request_message api be rq w =
     (case rq of
        Rq_session_create a \<Rightarrow> map_option fst (nmbsmf_mbs_session_build_create api be a w)
      | Rq_session_update a ps \<Rightarrow> nmbsmf_mbs_session_build_update api a w
      | Rq_session_remove a \<Rightarrow> nmbsmf_mbs_session_build_remove a w
      | Rq_subscription_create a b \<Rightarrow> nmbsmf_mbs_session_build_status_subscription_create api be a b w
      | Rq_subscription_update a b ps \<Rightarrow> nmbsmf_mbs_session_build_status_subscription_update api a b w
      | Rq_subscription_delete a b \<Rightarrow> nmbsmf_mbs_session_build_status_subscription_delete b w
      | Rq_tmgi_allocate new refresh \<Rightarrow> Option.bind (nmbsmf_tmgi_build_create api new refresh w) (\<lambda>r. r)
      | Rq_tmgi_deallocate as \<Rightarrow> Option.bind (nmbsmf_tmgi_build_remove api (Some as) w) (\<lambda>r. r))"

end
