(* ===== verification/Public_Api.thy ===== *)
theory Public_Api
  imports Sc_Build Sc_Machine
begin

text \<open>
  The entry points of the MB-SMF library that hand their arguments on: a pointer that may be
  \<open>NULL\<close> is an option.  Functions that only free a value without pointers into the state
  (\<open>mb_smf_sc_tai_free\<close> and its like) have no counterpart: a value that is not used any more is
  simply not there.
\<close>

section \<open>Tracking area identities\<close>

definition mb_smf_sc_tai_new_copy :: "tai option \<Rightarrow> tai option" where
  "mb_smf_sc_tai_new_copy other = tai_copy None other"

text \<open>The destination and the source are two different objects.\<close>

definition mb_smf_sc_tai_copy :: "tai option \<Rightarrow> tai option \<Rightarrow> tai option" where
  "mb_smf_sc_tai_copy dst src = tai_copy dst src"

definition mb_smf_sc_tai_set_tac :: "tai option \<Rightarrow> 32 word \<Rightarrow> tai option" where
  "mb_smf_sc_tai_set_tac t tac = tai_set_tac t tac"

definition mb_smf_sc_tai_set_network_id :: "tai option \<Rightarrow> 64 word \<Rightarrow> tai option" where
  "mb_smf_sc_tai_set_network_id t nid = tai_set_network_id t (Some nid)"

definition mb_smf_sc_tai_unset_network_id :: "tai option \<Rightarrow> tai option" where
  "mb_smf_sc_tai_unset_network_id t = tai_set_network_id t None"

section \<open>TMGIs\<close>

definition mb_smf_sc_tmgi_new :: "world \<Rightarrow> (addr \<times> world) option" where
  "mb_smf_sc_tmgi_new w = tmgi_create None None w"

definition mb_smf_sc_tmgi_free :: "addr option \<Rightarrow> world \<Rightarrow> world option" where
  "mb_smf_sc_tmgi_free p w = tmgi_free p w"

definition mb_smf_sc_tmgi_equal :: "addr option \<Rightarrow> addr option \<Rightarrow> world \<Rightarrow> bool option" where
  "mb_smf_sc_tmgi_equal a b w = tmgi_equal a b w"

definition mb_smf_sc_tmgi_repr :: "ogs_api \<Rightarrow> addr option \<Rightarrow> world \<Rightarrow> (string option \<times> world) option" where
  "mb_smf_sc_tmgi_repr api p w = tmgi_repr api p w"

definition mb_smf_sc_tmgi_send_allocate :: "ogs_api \<Rightarrow> addr option \<Rightarrow> world \<Rightarrow> world option" where
  "mb_smf_sc_tmgi_send_allocate api p w = tmgi_send_allocate api p w"

definition mb_smf_sc_tmgi_send_deallocate :: "ogs_api \<Rightarrow> addr option \<Rightarrow> world \<Rightarrow> world option" where
  "mb_smf_sc_tmgi_send_deallocate api p w = tmgi_send_deallocate api p w"

section \<open>Sessions\<close>

definition mb_smf_sc_mbs_session_set_tmgi :: "addr option \<Rightarrow> addr option \<Rightarrow> world \<Rightarrow> (bool \<times> world) option" where
  "mb_smf_sc_mbs_session_set_tmgi p q w = mbs_session_set_tmgi p q w"

definition mb_smf_sc_mbs_session_find_subscription ::
  "addr option \<Rightarrow> string option \<Rightarrow> world \<Rightarrow> addr option option" where
  "mb_smf_sc_mbs_session_find_subscription p i w = mbs_session_find_active_subscription p i w"

definition mb_smf_sc_mbs_session_find_subscription_by_correlation ::
  "addr option \<Rightarrow> string option \<Rightarrow> world \<Rightarrow> addr option option" where
  "mb_smf_sc_mbs_session_find_subscription_by_correlation p c w = mbs_session_find_subscription p c w"

definition mb_smf_sc_mbs_session_set_callback ::
  "addr option \<Rightarrow> nat option \<Rightarrow> nat option \<Rightarrow> world \<Rightarrow> (bool \<times> world) option" where
  "mb_smf_sc_mbs_session_set_callback p f d w = mbs_session_set_callback p f d None w"

text \<open>The setters of a single callback do not test the session for \<open>NULL\<close>.\<close>

definition on_session_callback ::
  "(session \<Rightarrow> session \<times> event list) \<Rightarrow> addr option \<Rightarrow> world \<Rightarrow> (bool \<times> world) option" where
  "on_session_callback g p w = do {
     a \<leftarrow> p;
     s \<leftarrow> w_sessions w a;
     Some (True, case g s of (s, es) \<Rightarrow> fold log_event es (put_session a s w))
   }"

definition mb_smf_sc_mbs_session_set_create_callback ::
  "addr option \<Rightarrow> nat option \<Rightarrow> nat option \<Rightarrow> world \<Rightarrow> (bool \<times> world) option" where
  "mb_smf_sc_mbs_session_set_create_callback p f d w = on_session_callback (set_create_callback_freefn f d None) p w"

definition mb_smf_sc_mbs_session_set_update_callback ::
  "addr option \<Rightarrow> nat option \<Rightarrow> nat option \<Rightarrow> world \<Rightarrow> (bool \<times> world) option" where
  "mb_smf_sc_mbs_session_set_update_callback p f d w = on_session_callback (set_update_callback_freefn f d None) p w"

definition mb_smf_sc_mbs_session_set_delete_callback ::
  "addr option \<Rightarrow> nat option \<Rightarrow> nat option \<Rightarrow> world \<Rightarrow> (bool \<times> world) option" where
  "mb_smf_sc_mbs_session_set_delete_callback p f d w = on_session_callback (set_delete_callback_freefn f d None) p w"

definition mb_smf_sc_mbs_session_get_resource_id :: "addr option \<Rightarrow> world \<Rightarrow> string option option" where
  "mb_smf_sc_mbs_session_get_resource_id p w =
     (case p of None \<Rightarrow> Some None | Some a \<Rightarrow> map_option ps_id (w_sessions w a))"

definition mb_smf_sc_mbs_session_push_changes :: "ogs_api \<Rightarrow> addr option \<Rightarrow> world \<Rightarrow> (bool \<times> world) option" where
  "mb_smf_sc_mbs_session_push_changes api p w =
     (case p of None \<Rightarrow> Some (False, w) | Some a \<Rightarrow> mbs_session_push_changes api (Some a) w)"

section \<open>Status subscriptions\<close>

definition of_subscription :: "'a \<Rightarrow> (subscription \<Rightarrow> 'a) \<Rightarrow> addr option \<Rightarrow> world \<Rightarrow> 'a option" where
  "of_subscription d f p w = (case p of None \<Rightarrow> Some d | Some a \<Rightarrow> map_option f (w_subscs w a))"

definition mb_smf_sc_mbs_status_subscription_get_id :: "addr option \<Rightarrow> world \<Rightarrow> string option option" where
  "mb_smf_sc_mbs_status_subscription_get_id p w = of_subscription None su_id p w"

definition mb_smf_sc_mbs_status_subscription_get_area_session_id :: "addr option \<Rightarrow> world \<Rightarrow> 16 word option" where
  "mb_smf_sc_mbs_status_subscription_get_area_session_id p w = of_subscription 0 su_area_session p w"

definition mb_smf_sc_mbs_status_subscription_get_event_type_flags :: "addr option \<Rightarrow> world \<Rightarrow> 32 word option" where
  "mb_smf_sc_mbs_status_subscription_get_event_type_flags p w = of_subscription 0 su_flags p w"

definition mb_smf_sc_mbs_status_subscription_get_correlation_id :: "addr option \<Rightarrow> world \<Rightarrow> string option option" where
  "mb_smf_sc_mbs_status_subscription_get_correlation_id p w = of_subscription None su_correlation p w"

definition mb_smf_sc_mbs_status_subscription_get_expiry_time :: "addr option \<Rightarrow> world \<Rightarrow> int option" where
  "mb_smf_sc_mbs_status_subscription_get_expiry_time p w = of_subscription 0 su_expiry p w"

definition mb_smf_sc_mbs_status_subscription_get_notif_url :: "addr option \<Rightarrow> world \<Rightarrow> string option option" where
  "mb_smf_sc_mbs_status_subscription_get_notif_url p w = of_subscription None su_url p w"

definition mb_smf_sc_mbs_status_subscription_mbs_session :: "addr option \<Rightarrow> world \<Rightarrow> addr option option" where
  "mb_smf_sc_mbs_status_subscription_mbs_session p w = of_subscription None su_session p w"

section \<open>Entry points as calls of the machine\<close>

text \<open>The entry points that change the state are calls of the machine, so its invariant covers them.\<close>

lemma entry_points_step:
  "map_option snd (mb_smf_sc_tmgi_new w) = api_step api Call_tmgi_new w"
  "mb_smf_sc_tmgi_free p w = api_step api (Call_tmgi_free p) w"
  "map_option snd (mb_smf_sc_tmgi_repr api p w) = api_step api (Call_tmgi_repr p) w"
  "mb_smf_sc_tmgi_send_allocate api p w = api_step api (Call_tmgi_allocate p) w"
  "mb_smf_sc_tmgi_send_deallocate api p w = api_step api (Call_tmgi_deallocate p) w"
  "map_option snd (mb_smf_sc_mbs_session_set_tmgi p q w) = api_step api (Call_session_set_tmgi p q) w"
  "map_option snd (mb_smf_sc_mbs_session_set_callback p f d w) = api_step api (Call_session_set_callback p f d None) w"
  "map_option snd (mb_smf_sc_mbs_session_push_changes api p w) = api_step api (Call_session_push p) w"
  by (simp_all add: mb_smf_sc_tmgi_new_def mb_smf_sc_tmgi_free_def mb_smf_sc_tmgi_repr_def
      mb_smf_sc_tmgi_send_allocate_def mb_smf_sc_tmgi_send_deallocate_def mb_smf_sc_mbs_session_set_tmgi_def
      mb_smf_sc_mbs_session_set_callback_def mb_smf_sc_mbs_session_push_changes_def mbs_session_push_changes_def
      split: option.split)

lemma entry_point_callbacks_step:
  "map_option snd (mb_smf_sc_mbs_session_set_create_callback (Some a) f d w) =
     api_step api (Call_session_set_one_callback a Cb_create f d None) w"
  "map_option snd (mb_smf_sc_mbs_session_set_update_callback (Some a) f d w) =
     api_step api (Call_session_set_one_callback a Cb_update f d None) w"
  "map_option snd (mb_smf_sc_mbs_session_set_delete_callback (Some a) f d w) =
     api_step api (Call_session_set_one_callback a Cb_delete f d None) w"
  by (auto simp: mb_smf_sc_mbs_session_set_create_callback_def mb_smf_sc_mbs_session_set_update_callback_def
      mb_smf_sc_mbs_session_set_delete_callback_def on_session_callback_def set_one_callback_def
      split: bind_splits option.splits)

end
