(* ===== verification/Geo_Coords.thy ===== *)
theory Geo_Coords
  imports Geo_Area
begin

text \<open>
  The rest of \<open>geographic-coordinate.c\<close>: new coordinates, and lists of coordinates with their
  JSON and patch list.  Comparing two coordinates runs the normalisation loops, so the patch list
  has no value when one of them does not end.  Two lists given to the patch list are different
  objects, as are their elements; of an empty list and none the code makes the same.
\<close>

definition geographic_coordinate_clear :: "coord \<Rightarrow> coord" where
  "geographic_coordinate_clear c = c\<lparr>coord_lon := 0, coord_lat := 0\<rparr>"

definition mb_smf_sc_geographic_coordinate_new_values :: "ogs_api \<Rightarrow> real \<Rightarrow> real \<Rightarrow> coord option" where
  "mb_smf_sc_geographic_coordinate_new_values api longitude latitude = do {
     l \<leftarrow> rationalise_longitude api longitude;
     Some (geographic_coordinate_new\<lparr>coord_lon := l, coord_lat := trim_latitude latitude\<rparr>)
   }"

definition geographic_coordinates_to_json :: "coord list \<Rightarrow> json" where
  "geographic_coordinates_to_json cs = array_json geographic_coordinate_to_json cs"

fun coordinate_entries_patch_list :: "ogs_api \<Rightarrow> nat \<Rightarrow> coord list \<Rightarrow> coord list \<Rightarrow> json_patch list option" where
  "coordinate_entries_patch_list api idx [] [] = Some []"
| "coordinate_entries_patch_list api idx [] (b # bs) =
     map_option ((#) (json_patch_new Op_add ''/-'' (Some (geographic_coordinate_to_json b))))
       (coordinate_entries_patch_list api (idx + 1) [] bs)"
| "coordinate_entries_patch_list api idx (a # as) [] =
     map_option ((#) (json_patch_new Op_remove (idx_path idx) None)) (coordinate_entries_patch_list api idx as [])"
| "coordinate_entries_patch_list api idx (a # as) (b # bs) = do {
     same \<leftarrow> geographic_coordinate_equal api a b;
     ps \<leftarrow> coordinate_entries_patch_list api (idx + 1) as bs;
     Some (if same then ps
           else json_patch_new Op_replace (idx_path idx) (Some (geographic_coordinate_to_json b)) # ps)
   }"

definition geographic_coordinates_patch_list :: "ogs_api \<Rightarrow> coord list \<Rightarrow> coord list \<Rightarrow> json_patch list option" where
  "geographic_coordinates_patch_list api a b =
     (if a = [] \<and> b = [] then Some []
      else if a = [] then Some [json_patch_new Op_add ''/'' (Some (geographic_coordinates_to_json b))]
      else if b = [] then Some [json_patch_new Op_remove ''/'' None]
      else coordinate_entries_patch_list api 0 a b)"

text \<open>A coordinate that normalisation leaves alone, as the library makes them.\<close>

definition coord_normal :: "ogs_api \<Rightarrow> coord \<Rightarrow> bool" where
  "coord_normal api c \<longleftrightarrow>
     rationalise_longitude api (coord_lon c) = Some (coord_lon c) \<and> trim_latitude (coord_lat c) = coord_lat c"

lemma lon_up_range: "-180 < lon \<Longrightarrow> lon_up r lon = Some lon"
  by (simp add: lon_up.simps)

lemma lon_down_range: "lon \<le> 180 \<Longrightarrow> lon_down r lon = Some lon"
  by (simp add: lon_down.simps)

lemma coord_normal_range:
  "-180 < coord_lon c \<Longrightarrow> coord_lon c \<le> 180 \<Longrightarrow> -90 \<le> coord_lat c \<Longrightarrow> coord_lat c \<le> 90 \<Longrightarrow> coord_normal api c"
  by (simp add: coord_normal_def rationalise_longitude_def lon_up_range lon_down_range trim_latitude_def)

lemma coordinate_equal_normal:
  "coord_normal api a \<Longrightarrow> coord_normal api b \<Longrightarrow> geographic_coordinate_equal api a b = Some (a = b)"
  by (cases a; cases b) (auto simp: geographic_coordinate_equal_def coord_normal_def)

interpretation coord_array: array_diff "(=)" geographic_coordinate_to_json "\<lambda>_. ''/-''" "\<lambda>_. True"
  by unfold_locales auto

lemma coordinate_entries_normal:
  "\<forall>c\<in>set as. coord_normal api c \<Longrightarrow> \<forall>c\<in>set bs. coord_normal api c \<Longrightarrow>
     coordinate_entries_patch_list api idx as bs =
       Some (array_entries_patch_list (=) geographic_coordinate_to_json (\<lambda>_. ''/-'') idx as bs)"
  by (induction api idx as bs rule: coordinate_entries_patch_list.induct)
    (simp_all add: coordinate_equal_normal)

text \<open>The patch list turns the JSON of the first list into that of the second.\<close>

lemma coordinates_patch_list_correct:
  assumes "\<forall>c\<in>set a. coord_normal api c" "\<forall>c\<in>set b. coord_normal api c"
  shows "\<exists>ps. geographic_coordinates_patch_list api a b = Some ps \<and>
    apply_patches ps (array_member geographic_coordinate_to_json a) =
      Some (array_member geographic_coordinate_to_json b)"
proof -
  have "geographic_coordinates_patch_list api a b =
      Some (array_patch_list_plain (=) geographic_coordinate_to_json (\<lambda>_. ''/-'') a b)"
    using coordinate_entries_normal [OF assms, of 0]
    by (simp add: geographic_coordinates_patch_list_def array_patch_list_plain_def geographic_coordinates_to_json_def)
  then show ?thesis using coord_array.plain_correct [of a b] by simp
qed

end
