(* ===== verification/Build_Spec.thy ===== *)
theory Build_Spec
  imports Sc_Build State_Spec Public_Api Geo_Coords
begin

text \<open>
  Properties of the requests of the MB-SMF library: what the creation of a session says, what a
  later subscription says, and that the identities in a request are the ones the handlers of
  responses find again.
\<close>

section \<open>The creation of a session\<close>












section \<open>Subscriptions that are added later\<close>


section \<open>The SSM in the session id\<close>

text \<open>A numeric address is resolved to itself: \<open>ogs_getaddrinfo\<close> of what \<open>inet_ntop\<close> prints.\<close>

definition numeric_laws :: "ogs_api \<Rightarrow> build_api \<Rightarrow> bool" where
  "numeric_laws api be \<longleftrightarrow>
     (\<forall>b. length b = 4 \<longrightarrow> (\<exists>t p ps. bu_ntop4 be b = Some t \<and> addrinfo4 api False t 0 = (b, p) # ps)) \<and>
     (\<forall>b. length b = 16 \<longrightarrow> (\<exists>t p ps. bu_ntop6 be b = Some t \<and> addrinfo6 api False t 0 = (b, p) # ps))"

lemma overlay_same: "length b = length m \<Longrightarrow> overlay b m = b"
  by (simp add: overlay_def)

lemma overlay_take: "n \<le> length m \<Longrightarrow> overlay (take n m) m = m"
  by (simp add: overlay_def min_def)

text \<open>C16: An MB-SMF that echoes the session id of a creation leaves the SSM of the session as it was: the
  addresses are printed by the builder and read back by the handler of the response, for both
  address families.\<close>

theorem echoed_session_id_keeps_ssm:
  assumes "numeric_laws api be" "se_ssm s = Some m" "ssm_wf m" "length (ssm_source m) = 16" "length (ssm_dest m) = 16"
    and "mbs_session_create_mbs_session_id api be s w = Some i" "as_session_id r = map_option si_ssm i"
  shows "session_take_ssm api r s = Some s"
proof -
  have i: "as_session_id r = Some (Some (ssm_to_openapi be m))"
    using assms(2,6,7) by (auto simp: mbs_session_create_mbs_session_id_def split: bind_splits)
  have s: "s\<lparr>se_ssm := Some m\<rparr> = s" using assms(2) by simp
  show ?thesis
  proof (cases "ssm_family m = Af_inet")
    case True
    have l: "length (take 4 (ssm_source m)) = 4" "length (take 4 (ssm_dest m)) = 4" using assms(4,5) by simp_all
    obtain x p ps y q qs where
        "bu_ntop4 be (take 4 (ssm_source m)) = Some x" "addrinfo4 api False x 0 = (take 4 (ssm_source m), p) # ps"
        "bu_ntop4 be (take 4 (ssm_dest m)) = Some y" "addrinfo4 api False y 0 = (take 4 (ssm_dest m), q) # qs"
      using assms(1) l unfolding numeric_laws_def by blast
    moreover have "m = \<lparr>ssm_family = Af_inet, ssm_source = ssm_source m, ssm_dest = ssm_dest m\<rparr>" using True by simp
    ultimately show ?thesis
      using i s True assms(2,4,5)
      by (simp add: session_take_ssm_def ssm_to_openapi_def ip_addr_from_inaddr_def first_addr_def overlay_take)
  next
    case False
    then have f: "ssm_family m = Af_inet6" using assms(3) by (simp add: ssm_wf_def)
    obtain x p ps y q qs where
        "bu_ntop6 be (ssm_source m) = Some x" "addrinfo6 api False x 0 = (ssm_source m, p) # ps"
        "bu_ntop6 be (ssm_dest m) = Some y" "addrinfo6 api False y 0 = (ssm_dest m, q) # qs"
      using assms(1,4,5) unfolding numeric_laws_def by blast
    moreover have "m = \<lparr>ssm_family = Af_inet6, ssm_source = ssm_source m, ssm_dest = ssm_dest m\<rparr>" using f by simp
    ultimately show ?thesis
      using i s f assms(2,4,5)
      by (simp add: session_take_ssm_def ssm_to_openapi_def ip_addr_from_in6addr_def first_addr_def overlay_same)
  qed
qed

section \<open>TMGIs in requests\<close>

lemma tmgis_to_openapi_eq:
  "list_all (\<lambda>a. w_tmgis w a \<noteq> None) as \<Longrightarrow>
     tmgis_to_openapi api as w = Some (map (\<lambda>a. tmgi_to_openapi_type api (the (w_tmgis w a))) as)"
  by (induction as) auto

lemma first_matching_unique:
  "a \<in> set ts \<Longrightarrow> (\<And>b. b \<in> set ts \<Longrightarrow> \<exists>u. w_tmgis w b = Some u \<and> (P u \<longleftrightarrow> b = a)) \<Longrightarrow>
     first_matching P ts w = Some (Some a)"
proof (induction ts)
  case (Cons b ts)
  obtain u where "w_tmgis w b = Some u" "P u \<longleftrightarrow> b = a" using Cons.prems(2) [of b] by auto
  then show ?case using Cons by (cases "b = a") auto
qed simp

text \<open>C17: The identities that a request for refreshing and one for deallocating TMGIs carry are those by
  which the handlers of the answers search: when every TMGI of the context is allocated and no two
  have the same identity, each is found as the TMGI it was made from, in the order of the request.
  A request for new TMGIs carries only their number.\<close>

theorem tmgi_requests_find_back:
  assumes "context_tmgis w = Some ts" "as \<noteq> []" "set as \<subseteq> set ts"
    and "\<forall>b\<in>set ts. \<exists>u. w_tmgis w b = Some u \<and> tm_allocated u"
    and "inj_on (\<lambda>b. map_option (tmgi_to_openapi_type api) (w_tmgis w b)) (set ts)"
  shows "\<exists>ms. nmbsmf_tmgi_build_remove api (Some as) w = Some (Some (tmgi_message ''DELETE'' (Body_tmgi_list (Some ms)))) \<and>
    nmbsmf_tmgi_build_create api (Some bs) (Some as) w =
      Some (Some (tmgi_message ''POST'' (Body_allocate (if bs = [] then None else Some (length bs)) (Some ms)))) \<and>
    map (\<lambda>m. tmgi_find_matching_openapi_type api (Some m) w) ms = map (\<lambda>a. Some (Some a)) as"
proof -
  let ?m = "\<lambda>a. tmgi_to_openapi_type api (the (w_tmgis w a))"
  have all: "list_all (\<lambda>a. w_tmgis w a \<noteq> None) as" using assms(3,4) by (fastforce simp: list_all_iff)
  have found: "tmgi_find_matching_openapi_type api (Some (?m a)) w = Some (Some a)" if a: "a \<in> set as" for a
  proof -
    obtain t where t: "w_tmgis w a = Some t" "tm_allocated t" "a \<in> set ts" using a assms(3,4) by blast
    have "\<exists>u. w_tmgis w b = Some u \<and> (tmgi_matches api (?m a) u \<longleftrightarrow> b = a)" if b: "b \<in> set ts" for b
    proof -
      obtain u where u: "w_tmgis w b = Some u" "tm_allocated u" using b assms(4) by blast
      have "tmgi_matches api (?m a) u \<longleftrightarrow> tmgi_to_openapi_type api t = tmgi_to_openapi_type api u"
        using t u by (auto simp: tmgi_matches_def tmgi_to_openapi_type_def split: option.splits)
      also have "\<dots> \<longleftrightarrow> b = a" using inj_onD [OF assms(5), of a b] t u b by auto
      finally show ?thesis using u by blast
    qed
    then show ?thesis
      using first_matching_unique [OF t(3)] assms(1) by (simp add: tmgi_find_matching_openapi_type_def)
  qed
  show ?thesis
    using assms(2) found tmgis_to_openapi_eq [OF all, of api]
    by (intro exI [of _ "map ?m as"])
      (simp add: nmbsmf_tmgi_build_remove_def nmbsmf_tmgi_build_create_def tmgi_list_or_null_def)
qed

section \<open>Instances\<close>

definition example_build :: build_api where
  "example_build =
     \<lparr>bu_ntop4 = (\<lambda>b. Some (map (\<lambda>x. char_of (unat x)) b)), bu_ntop6 = (\<lambda>b. Some (map (\<lambda>x. char_of (unat x)) b)),
      bu_copy_ssm = (\<lambda>x. x), bu_sd_text = (\<lambda>x. None), bu_instance = Some ''nf''\<rparr>"

lemma bytes_of_chars: "bytes_of (map (\<lambda>x. char_of (unat x)) b) = b"
proof -
  have "(of_char (char_of (unat x)) :: 8 word) = x" for x :: "8 word"
  proof -
    have "unat x < 2 ^ LENGTH(8)" by (rule unsigned_less)
    then have "unat x < 256" by simp
    then have c: "of_char (char_of (unat x)) = unat x" by simp
    have "(of_char (char_of (unat x)) :: 8 word) = of_nat (of_char (char_of (unat x)))" by (simp only: of_nat_of_char)
    then show ?thesis by (simp only: c of_nat_unat ucast_id)
  qed
  then show ?thesis by (simp add: bytes_of_def comp_def)
qed

lemma example_numeric_laws: "numeric_laws example_api example_build"
  by (simp add: numeric_laws_def example_build_def example_api_def bytes_of_chars)

definition example_ssm :: ssm_addr where
  "example_ssm = \<lparr>ssm_family = Af_inet, ssm_source = [10, 0, 0, 1] @ replicate 12 0, ssm_dest = [232, 0, 0, 1] @ replicate 12 0\<rparr>"

definition ssm_session :: session where
  "ssm_session = (plain_session (Some 2))\<lparr>ps_public := mbs_session_calloc\<lparr>se_ssm := Some example_ssm\<rparr>, ps_new := [3]\<rparr>"


lemma ssm_session_sel [simp]:
  "ps_public ssm_session = mbs_session_calloc\<lparr>se_ssm := Some example_ssm\<rparr>" "ps_new ssm_session = [3]"
  "ps_sbi ssm_session = Some 2" "ps_active ssm_session = None" "ps_is_deleted ssm_session = False"
  by (simp_all add: ssm_session_def plain_session_def)





definition echo :: api_session where
  "echo = \<lparr>as_tunnels = None, as_tmgi = None, as_expiration = None,
           as_session_id = Some (Some (ssm_to_openapi example_build example_ssm))\<rparr>"

theorem echoed_session_id_keeps_ssm_witness:
  "session_take_ssm example_api echo (mbs_session_calloc\<lparr>se_ssm := Some example_ssm\<rparr>) =
     Some (mbs_session_calloc\<lparr>se_ssm := Some example_ssm\<rparr>)"
  by (rule echoed_session_id_keeps_ssm [OF example_numeric_laws, where m = example_ssm and w = small_world
        and i = "Some \<lparr>si_tmgi = None, si_ssm = Some (ssm_to_openapi example_build example_ssm)\<rparr>"])
    (simp_all add: example_ssm_def ssm_wf_def mbs_session_create_mbs_session_id_def mbs_session_calloc_def echo_def)

theorem tmgi_requests_find_back_witness:
  "\<exists>ms. nmbsmf_tmgi_build_remove example_api (Some [1]) small_world =
       Some (Some (tmgi_message ''DELETE'' (Body_tmgi_list (Some ms)))) \<and>
     map (\<lambda>m. tmgi_find_matching_openapi_type example_api (Some m) small_world) ms = [Some (Some 1)]"
  using tmgi_requests_find_back [of small_world "[1]" "[1]" example_api "[]"]
  by (auto simp: context_tmgis_def plain_tmgi_def)

end
