(* ===== verification/Bsf_Cache.thy ===== *)
theory Bsf_Cache
  imports Sc_Utils Fsa_Ssm
begin

text \<open>
  \<open>lib/bsf-service-consumer/pcf-bindings-cache.c\<close>: the cache of PCF bindings by the address of
  the UE.  \<open>ogs_hash_set\<close> keeps the pointer to the key that an entry is first stored under, so
  an entry has the address of the memory block of its key beside the bytes it had; \<open>blocks\<close>
  says which blocks are allocated and what they hold.  Reading a key whose block was freed is
  undefined (\<open>None\<close>).  Bindings are opaque values.
\<close>

section \<open>The cache\<close>

text \<open>An \<open>ogs_sockaddr_t\<close> without host name and successor: family, address bytes, port.\<close>

record sockaddr =
  sa_family :: addr_family
  sa_addr :: "8 word list"
  sa_port :: "16 word"

type_synonym blocks = "nat \<Rightarrow> sockaddr option"
type_synonym pcf_binding = nat

record cache_entry =
  ce_block :: nat
  ce_key :: sockaddr
  ce_binding :: pcf_binding
  ce_expires :: int

type_synonym pcf_cache = "cache_entry list"

definition pcf_bindings_cache_init :: pcf_cache where
  "pcf_bindings_cache_init = []"

text \<open>\<open>ogs_hash_get\<close>: the entry whose key has the same bytes; keys with other bytes are told apart
  by their hash.\<close>

fun hash_get :: "blocks \<Rightarrow> sockaddr \<Rightarrow> pcf_cache \<Rightarrow> cache_entry option option" where
  "hash_get blocks k [] = Some None"
| "hash_get blocks k (e # es) =
     (if ce_key e \<noteq> k then hash_get blocks k es
      else (case blocks (ce_block e) of None \<Rightarrow> None | Some _ \<Rightarrow> Some (Some e)))"

definition pcf_bindings_cache_find ::
  "blocks \<Rightarrow> int \<Rightarrow> sockaddr \<Rightarrow> pcf_cache \<Rightarrow> (pcf_binding option \<times> pcf_cache) option" where
  "pcf_bindings_cache_find blocks now k cache = do {
     value \<leftarrow> hash_get blocks k cache;
     Some (case value of
             None \<Rightarrow> (None, cache)
           | Some e \<Rightarrow> if ce_expires e < now then (None, remove1 e cache) else (Some (ce_binding e), cache))
   }"

definition pcf_bindings_cache_add ::
  "blocks \<Rightarrow> nat \<Rightarrow> pcf_binding \<Rightarrow> int \<Rightarrow> pcf_cache \<Rightarrow> pcf_cache option" where
  "pcf_bindings_cache_add blocks p b expires cache = do {
     k \<leftarrow> blocks p;
     value \<leftarrow> hash_get blocks k cache;
     Some (case value of
             Some e \<Rightarrow> map (\<lambda>x. if x = e then e\<lparr>ce_binding := b, ce_expires := expires\<rparr> else x) cache
           | None \<Rightarrow> cache @ [\<lparr>ce_block = p, ce_key = k, ce_binding = b, ce_expires = expires\<rparr>])
   }"

text \<open>Printing and clearing read the key of every entry.\<close>

definition keys_readable :: "blocks \<Rightarrow> pcf_cache \<Rightarrow> bool" where
  "keys_readable blocks cache \<longleftrightarrow> (\<forall>e\<in>set cache. blocks (ce_block e) \<noteq> None)"

definition pcf_bindings_cache_log_debug :: "blocks \<Rightarrow> pcf_cache \<Rightarrow> unit option" where
  "pcf_bindings_cache_log_debug blocks cache = (if keys_readable blocks cache then Some () else None)"

fun pcf_bindings_cache_clear :: "blocks \<Rightarrow> pcf_cache \<Rightarrow> pcf_cache option" where
  "pcf_bindings_cache_clear blocks [] = Some []"
| "pcf_bindings_cache_clear blocks (e # es) =
     (case blocks (ce_block e) of None \<Rightarrow> None | Some _ \<Rightarrow> pcf_bindings_cache_clear blocks es)"

section \<open>What a cache with expiry promises\<close>

text \<open>The value of an entry at a time.\<close>

definition fresh_value :: "int \<Rightarrow> ('v \<times> int) option \<Rightarrow> 'v option" where
  "fresh_value now p = (case p of None \<Rightarrow> None | Some (v, e) \<Rightarrow> if e < now then None else Some v)"

text \<open>A sequence of operations, stores (\<open>Inl\<close>) and searches (\<open>Inr\<close>), and whether the value of a key
  that expires at \<open>e\<close> survives it: no store for the key, and no search for it after \<open>e\<close>.\<close>

fun survives :: "('p \<Rightarrow> 'k option) \<Rightarrow> ('p \<times> 'v \<times> int + int \<times> 'k) list \<Rightarrow> 'k \<Rightarrow> int \<Rightarrow> bool" where
  "survives deref [] k e = True"
| "survives deref (Inl (p, v, e') # ops) k e = (deref p \<noteq> None \<and> deref p \<noteq> Some k \<and> survives deref ops k e)"
| "survives deref (Inr (now, k') # ops) k e = ((k' = k \<longrightarrow> now \<le> e) \<and> survives deref ops k e)"

fun perform :: "('p \<Rightarrow> 'v \<Rightarrow> int \<Rightarrow> 'c \<Rightarrow> 'c option) \<Rightarrow> (int \<Rightarrow> 'k \<Rightarrow> 'c \<Rightarrow> ('v option \<times> 'c) option) \<Rightarrow>
    ('p \<times> 'v \<times> int + int \<times> 'k) list \<Rightarrow> 'c \<Rightarrow> 'c option" where
  "perform store search [] c = Some c"
| "perform store search (Inl (p, v, e) # ops) c = Option.bind (store p v e c) (perform store search ops)"
| "perform store search (Inr (now, k) # ops) c =
     Option.bind (search now k c) (\<lambda>(r, c). perform store search ops c)"

text \<open>The client sees a map from keys to values with an expiry time.  Keys are stored through a
  pointer, which must be valid while the entry is there.\<close>

locale expiring_map =
  fixes deref :: "'p \<Rightarrow> 'k option"
    and find :: "int \<Rightarrow> 'k \<Rightarrow> 'c \<Rightarrow> ('v option \<times> 'c) option"
    and add :: "'p \<Rightarrow> 'v \<Rightarrow> int \<Rightarrow> 'c \<Rightarrow> 'c option"
    and view :: "'c \<Rightarrow> 'k \<Rightarrow> ('v \<times> int) option"
    and ok :: "'c \<Rightarrow> bool"
  assumes find_spec: "ok c \<Longrightarrow> \<exists>c'. find now k c = Some (fresh_value now (view c k), c') \<and> ok c' \<and>
      view c' = (if fresh_value now (view c k) = None then (view c)(k := None) else view c)"
    and add_spec: "ok c \<Longrightarrow> deref p = Some k \<Longrightarrow>
      \<exists>c'. add p v e c = Some c' \<and> ok c' \<and> view c' = (view c)(k \<mapsto> (v, e))"
begin

lemma find_added:
  assumes "ok c" "deref p = Some k"
  shows "\<exists>c1 c2. add p v e c = Some c1 \<and> find now k c1 = Some (if e < now then None else Some v, c2) \<and> ok c2"
proof -
  obtain c1 where c1: "add p v e c = Some c1" "ok c1" "view c1 = (view c)(k \<mapsto> (v, e))"
    using add_spec [OF assms] by blast
  then show ?thesis
    using find_spec [OF c1(2), of now k] by (auto simp: fresh_value_def)
qed

lemma perform_view:
  assumes "ok c" "view c k = Some (v, e)" "survives deref ops k e"
  shows "\<exists>c'. perform add find ops c = Some c' \<and> ok c' \<and> view c' k = Some (v, e)"
  using assms
proof (induction ops arbitrary: c)
  case (Cons op ops)
  show ?case
  proof (cases op)
    case (Inl a)
    then obtain p v' e' k' where p: "op = Inl (p, v', e')" "deref p = Some k'" "k' \<noteq> k"
      using Cons.prems(3) by (cases a) auto
    obtain c1 where "add p v' e' c = Some c1" "ok c1" "view c1 = (view c)(k' \<mapsto> (v', e'))"
      using add_spec [OF Cons.prems(1) p(2)] by blast
    then show ?thesis using Cons.IH [of c1] Cons.prems p by simp
  next
    case (Inr b)
    then obtain now k' where q: "op = Inr (now, k')" "k' = k \<longrightarrow> now \<le> e"
      using Cons.prems(3) by (cases b) auto
    obtain c1 where c1: "find now k' c = Some (fresh_value now (view c k'), c1)" "ok c1"
        "view c1 = (if fresh_value now (view c k') = None then (view c)(k' := None) else view c)"
      using find_spec [OF Cons.prems(1), of now k'] by blast
    have "view c1 k = Some (v, e)"
      using c1(3) Cons.prems(2) q(2) by (auto simp: fresh_value_def)
    then show ?thesis using Cons.IH [OF c1(2)] Cons.prems(3) q c1(1) by simp
  qed
qed auto

lemma find_after:
  assumes "ok c" "deref p = Some k" "survives deref ops k e" "now \<le> e"
  shows "\<exists>c1 c2 c3. add p v e c = Some c1 \<and> perform add find ops c1 = Some c2 \<and> find now k c2 = Some (Some v, c3)"
proof -
  obtain c1 where c1: "add p v e c = Some c1" "ok c1" "view c1 = (view c)(k \<mapsto> (v, e))"
    using add_spec [OF assms(1,2)] by blast
  then obtain c2 where c2: "perform add find ops c1 = Some c2" "ok c2" "view c2 k = Some (v, e)"
    using perform_view [OF c1(2), of k v e ops] assms(3) by auto
  then show ?thesis using c1(1) find_spec [OF c2(2), of now k] assms(4) by (auto simp: fresh_value_def)
qed

end

section \<open>The cache of the library keeps that promise\<close>

definition cache_view :: "pcf_cache \<Rightarrow> sockaddr \<Rightarrow> (pcf_binding \<times> int) option" where
  "cache_view cache k = map_of (map (\<lambda>e. (ce_key e, (ce_binding e, ce_expires e))) cache) k"

definition cache_ok :: "blocks \<Rightarrow> pcf_cache \<Rightarrow> bool" where
  "cache_ok blocks cache \<longleftrightarrow> distinct (map ce_key cache) \<and> keys_readable blocks cache"

lemma hash_get_readable:
  "keys_readable blocks cache \<Longrightarrow>
     hash_get blocks k cache = Some (List.find (\<lambda>e. ce_key e = k) cache)"
  by (induction cache) (auto simp: keys_readable_def)

lemma cache_view_find:
  "cache_view cache k =
     map_option (\<lambda>e. (ce_binding e, ce_expires e)) (List.find (\<lambda>e. ce_key e = k) cache)"
  by (induction cache) (auto simp: cache_view_def)

lemma cache_view_Cons [simp]:
  "cache_view (e # es) = (cache_view es)(ce_key e \<mapsto> (ce_binding e, ce_expires e))"
  by (simp add: cache_view_def fun_eq_iff)

lemma cache_view_Nil [simp]: "cache_view [] = Map.empty"
  by (simp add: cache_view_def fun_eq_iff)

lemma cache_view_absent: "k \<notin> set (map ce_key es) \<Longrightarrow> cache_view es k = None"
  by (induction es) auto

lemma cache_view_remove:
  assumes "distinct (map ce_key cache)" "e \<in> set cache"
  shows "cache_view (remove1 e cache) = (cache_view cache)(ce_key e := None)"
  using assms
proof (induction cache)
  case (Cons x xs)
  show ?case
  proof (cases "x = e")
    case True
    then have "cache_view xs (ce_key e) = None" using Cons.prems by (intro cache_view_absent) simp
    then show ?thesis using True by (auto simp: fun_eq_iff)
  next
    case False
    then have "ce_key x \<noteq> ce_key e" using Cons.prems by force
    then show ?thesis using Cons False by (auto simp: fun_eq_iff)
  qed
qed simp

lemma cache_view_update:
  assumes "distinct (map ce_key cache)" "e \<in> set cache"
  shows "cache_view (map (\<lambda>x. if x = e then e\<lparr>ce_binding := b, ce_expires := t\<rparr> else x) cache) =
           (cache_view cache)(ce_key e \<mapsto> (b, t))"
  using assms
proof (induction cache)
  case (Cons x xs)
  show ?case
  proof (cases "x = e")
    case True
    then have "e \<notin> set xs" using Cons.prems by force
    then have "map (\<lambda>x. if x = e then e\<lparr>ce_binding := b, ce_expires := t\<rparr> else x) xs = xs"
      by (auto intro: map_idI)
    then show ?thesis using True by (auto simp: fun_eq_iff)
  next
    case False
    then have "ce_key x \<noteq> ce_key e" using Cons.prems by force
    then show ?thesis using Cons False by (auto simp: fun_eq_iff)
  qed
qed simp

lemma find_Some_in: "List.find P xs = Some x \<Longrightarrow> x \<in> set xs \<and> P x"
  by (induction xs) (auto split: if_splits)

interpretation bsf_cache: expiring_map blocks "pcf_bindings_cache_find blocks"
    "pcf_bindings_cache_add blocks" cache_view "cache_ok blocks" for blocks
proof unfold_locales
  fix cache now k
  assume ok: "cache_ok blocks cache"
  then have r: "keys_readable blocks cache" "distinct (map ce_key cache)" by (simp_all add: cache_ok_def)
  show "\<exists>c'. pcf_bindings_cache_find blocks now k cache = Some (fresh_value now (cache_view cache k), c') \<and>
      cache_ok blocks c' \<and>
      cache_view c' = (if fresh_value now (cache_view cache k) = None then (cache_view cache)(k := None) else cache_view cache)"
  proof (cases "List.find (\<lambda>e. ce_key e = k) cache")
    case None
    then show ?thesis
      using ok r by (auto simp: pcf_bindings_cache_find_def hash_get_readable cache_view_find fresh_value_def fun_upd_idem)
  next
    case (Some e)
    then have e: "e \<in> set cache" "ce_key e = k" using find_Some_in by fastforce+
    have "cache_ok blocks (remove1 e cache)"
      using r notin_set_remove1 [of _ cache e]
      by (auto simp: cache_ok_def keys_readable_def distinct_map inj_on_def dest: set_remove1_subset [THEN subsetD])
    then show ?thesis
      using ok r Some cache_view_remove [OF r(2) e(1)] e(2)
      by (auto simp: pcf_bindings_cache_find_def hash_get_readable cache_view_find fresh_value_def)
  qed
next
  fix cache p k v e
  assume ok: "cache_ok blocks cache" and p: "blocks p = Some k"
  then have r: "keys_readable blocks cache" "distinct (map ce_key cache)" by (simp_all add: cache_ok_def)
  show "\<exists>c'. pcf_bindings_cache_add blocks p v e cache = Some c' \<and> cache_ok blocks c' \<and>
      cache_view c' = (cache_view cache)(k \<mapsto> (v, e))"
  proof (cases "List.find (\<lambda>e. ce_key e = k) cache")
    case None
    then have none: "k \<notin> set (map ce_key cache)" by (auto simp: find_None_iff)
    then have "cache_view (cache @ [\<lparr>ce_block = p, ce_key = k, ce_binding = v, ce_expires = e\<rparr>]) =
        (cache_view cache)(k \<mapsto> (v, e))"
      by (induction cache) (auto simp: cache_view_def fun_eq_iff)
    then show ?thesis
      using None p r none
      by (simp add: pcf_bindings_cache_add_def hash_get_readable cache_ok_def keys_readable_def)
  next
    case (Some x)
    then have x: "x \<in> set cache" "ce_key x = k" using find_Some_in by fastforce+
    let ?c = "map (\<lambda>y. if y = x then x\<lparr>ce_binding := v, ce_expires := e\<rparr> else y) cache"
    have "map ce_key ?c = map ce_key cache" by simp
    moreover have "keys_readable blocks ?c"
      using r(1) x(1) by (auto simp: keys_readable_def)
    ultimately have "cache_ok blocks ?c"
      using r(2) by (simp add: cache_ok_def del: map_map)
    then show ?thesis
      using Some p r cache_view_update [OF r(2) x(1), where b = v and t = e] x(2)
      by (simp add: pcf_bindings_cache_add_def hash_get_readable)
  qed
qed

end
