(* ===== verification/Bsf_Config.thy ===== *)
theory Bsf_Config
  imports Bsf_Cache Yaml
begin

text \<open>
  \<open>lib/bsf-service-consumer/bsf-configuration.c\<close>: the addresses of the notification listeners
  and of the BSF servers.  The two lists hold the addresses of nodes; \<open>cf_nodes\<close> says which
  nodes are allocated, so a list may be left with a node that was freed.
\<close>

section \<open>The configuration\<close>

record connection_addr =
  ca_addr :: "string option"
  ca_port :: int

text \<open>The members of \<open>ogs_sbi_nf_instance_t\<close> that are read: each address is a chain.\<close>

record nf_instance =
  ni_ipv4 :: "sockaddr list list"
  ni_ipv6 :: "sockaddr list list"

record bsf_configuration =
  cf_listeners :: "nat list"
  cf_servers :: "nat list"
  cf_discover_flag :: int
  cf_discovered :: "nf_instance option"
  cf_nodes :: "nat \<Rightarrow> connection_addr option"
  cf_next :: nat

definition bsf_configuration_init :: bsf_configuration where
  "bsf_configuration_init =
     \<lparr>cf_listeners = [], cf_servers = [], cf_discover_flag = 0, cf_discovered = None,
      cf_nodes = (\<lambda>_. None), cf_next = 0\<rparr>"

definition connection_addr_new ::
  "string option \<Rightarrow> int \<Rightarrow> bsf_configuration \<Rightarrow> nat \<times> bsf_configuration" where
  "connection_addr_new host port c =
     (cf_next c, c\<lparr>cf_nodes := (cf_nodes c)(cf_next c \<mapsto> \<lparr>ca_addr = host, ca_port = port\<rparr>), cf_next := cf_next c + 1\<rparr>)"

definition connection_addr_free :: "nat \<Rightarrow> bsf_configuration \<Rightarrow> bsf_configuration option" where
  "connection_addr_free n c =
     (case cf_nodes c n of None \<Rightarrow> None | Some _ \<Rightarrow> Some (c\<lparr>cf_nodes := (cf_nodes c)(n := None)\<rparr>))"

fun clear_listeners :: "nat list \<Rightarrow> bsf_configuration \<Rightarrow> bsf_configuration option" where
  "clear_listeners [] c = Some c"
| "clear_listeners (n # ns) c =
     Option.bind (connection_addr_free n (c\<lparr>cf_listeners := ns\<rparr>)) (clear_listeners ns)"

text \<open>The second loop of \<open>_bsf_configuration_clear\<close> names the list of listeners when it unlinks a
  server: its head becomes the next server, and the list of servers keeps its nodes.\<close>

fun clear_servers :: "nat list \<Rightarrow> bsf_configuration \<Rightarrow> bsf_configuration option" where
  "clear_servers [] c = Some c"
| "clear_servers (n # ns) c =
     Option.bind (connection_addr_free n (c\<lparr>cf_listeners := ns\<rparr>)) (clear_servers ns)"

definition bsf_configuration_clear :: "bsf_configuration \<Rightarrow> bsf_configuration option" where
  "bsf_configuration_clear c = do {
     c \<leftarrow> clear_listeners (cf_listeners c) c;
     c \<leftarrow> clear_servers (cf_servers c) c;
     Some (c\<lparr>cf_discovered := None\<rparr>)
   }"

definition bsf_configuration_log_debug :: "bsf_configuration \<Rightarrow> unit option" where
  "bsf_configuration_log_debug c =
     (if list_all (\<lambda>n. cf_nodes c n \<noteq> None) (cf_listeners c @ cf_servers c) then Some () else None)"

definition bsf_configuration_set_discover_flag :: "int \<Rightarrow> bsf_configuration \<Rightarrow> bsf_configuration" where
  "bsf_configuration_set_discover_flag flag c = c\<lparr>cf_discover_flag := flag\<rparr>"

definition bsf_configuration_get_discover_flag :: "bsf_configuration \<Rightarrow> int" where
  "bsf_configuration_get_discover_flag c = cf_discover_flag c"

definition bsf_configuration_notification_listeners_exist :: "bsf_configuration \<Rightarrow> bool" where
  "bsf_configuration_notification_listeners_exist c = (cf_listeners c \<noteq> [])"

definition bsf_configuration_notification_listeners_add ::
  "string option \<Rightarrow> int \<Rightarrow> bsf_configuration \<Rightarrow> bsf_configuration" where
  "bsf_configuration_notification_listeners_add host port c =
     (case connection_addr_new host port c of (n, c) \<Rightarrow> c\<lparr>cf_listeners := cf_listeners c @ [n]\<rparr>)"

definition bsf_configuration_server_add ::
  "string option \<Rightarrow> int \<Rightarrow> bsf_configuration \<Rightarrow> bsf_configuration" where
  "bsf_configuration_server_add host port c =
     (case connection_addr_new host port c of (n, c) \<Rightarrow> c\<lparr>cf_servers := cf_servers c @ [n]\<rparr>)"

definition bsf_configuration_servers_exist :: "bsf_configuration \<Rightarrow> bool" where
  "bsf_configuration_servers_exist c = (cf_servers c \<noteq> [])"

text \<open>\<open>ogs_addaddrinfo\<close> is a parameter: the chain of addresses of a host, or an error, which is
  asserted away.  The result of \<open>ogs_copyaddrinfo\<close> is the same chain.\<close>

definition bsf_configuration_get_bsf_address ::
  "(string option \<Rightarrow> int \<Rightarrow> sockaddr list option) \<Rightarrow> bsf_configuration \<Rightarrow> sockaddr list option" where
  "bsf_configuration_get_bsf_address addaddrinfo c =
     (case cf_servers c of
        n # _ \<Rightarrow> do { a \<leftarrow> cf_nodes c n; addaddrinfo (ca_addr a) (ca_port a) }
      | [] \<Rightarrow> (case cf_discovered c of
                 None \<Rightarrow> Some []
               | Some i \<Rightarrow> (case ni_ipv6 i of
                     a # _ \<Rightarrow> Some a
                   | [] \<Rightarrow> (case ni_ipv4 i of a # _ \<Rightarrow> Some a | [] \<Rightarrow> Some []))))"

section \<open>A configuration whose nodes are alive\<close>

definition config_ok :: "bsf_configuration \<Rightarrow> bool" where
  "config_ok c \<longleftrightarrow> distinct (cf_listeners c @ cf_servers c) \<and>
     (\<forall>n\<in>set (cf_listeners c @ cf_servers c). cf_nodes c n \<noteq> None) \<and>
     (\<forall>n. cf_nodes c n \<noteq> None \<longrightarrow> n < cf_next c)"

definition server_list :: "bsf_configuration \<Rightarrow> connection_addr list" where
  "server_list c = map (the \<circ> cf_nodes c) (cf_servers c)"

definition listener_list :: "bsf_configuration \<Rightarrow> connection_addr list" where
  "listener_list c = map (the \<circ> cf_nodes c) (cf_listeners c)"

lemma config_ok_init [simp]: "config_ok bsf_configuration_init"
  by (simp add: config_ok_def bsf_configuration_init_def)

lemma config_ok_fresh: "config_ok c \<Longrightarrow> cf_next c \<notin> set (cf_listeners c @ cf_servers c)"
  unfolding config_ok_def by (metis less_irrefl)

lemma config_ok_server_add [simp]:
  assumes "config_ok c" shows "config_ok (bsf_configuration_server_add h p c)"
  using assms config_ok_fresh [OF assms]
  by (auto simp: config_ok_def bsf_configuration_server_add_def connection_addr_new_def less_Suc_eq)

lemma config_ok_listener_add [simp]:
  assumes "config_ok c" shows "config_ok (bsf_configuration_notification_listeners_add h p c)"
  using assms config_ok_fresh [OF assms]
  by (auto simp: config_ok_def bsf_configuration_notification_listeners_add_def connection_addr_new_def less_Suc_eq)

lemma config_ok_flag [simp]: "config_ok (bsf_configuration_set_discover_flag f c) = config_ok c"
  by (simp add: config_ok_def bsf_configuration_set_discover_flag_def)

lemma cf_discovered_simps [simp]:
  "cf_discovered (bsf_configuration_server_add h p c) = cf_discovered c"
  "cf_discovered (bsf_configuration_notification_listeners_add h p c) = cf_discovered c"
  "cf_discovered (bsf_configuration_set_discover_flag f c) = cf_discovered c"
  "cf_discovered bsf_configuration_init = None"
  by (simp_all add: bsf_configuration_server_add_def bsf_configuration_notification_listeners_add_def
      connection_addr_new_def bsf_configuration_set_discover_flag_def bsf_configuration_init_def)

lemma server_list_server_add [simp]:
  assumes "config_ok c"
  shows "server_list (bsf_configuration_server_add h p c) = server_list c @ [\<lparr>ca_addr = h, ca_port = p\<rparr>]"
  using config_ok_fresh [OF assms]
  by (auto simp: server_list_def bsf_configuration_server_add_def connection_addr_new_def)

lemma server_list_listener_add [simp]:
  assumes "config_ok c"
  shows "server_list (bsf_configuration_notification_listeners_add h p c) = server_list c"
  using config_ok_fresh [OF assms]
  by (auto simp: server_list_def bsf_configuration_notification_listeners_add_def connection_addr_new_def)

lemma listener_list_listener_add [simp]:
  assumes "config_ok c"
  shows "listener_list (bsf_configuration_notification_listeners_add h p c) =
           listener_list c @ [\<lparr>ca_addr = h, ca_port = p\<rparr>]"
  using config_ok_fresh [OF assms]
  by (auto simp: listener_list_def bsf_configuration_notification_listeners_add_def connection_addr_new_def)

lemma listener_list_server_add [simp]:
  assumes "config_ok c"
  shows "listener_list (bsf_configuration_server_add h p c) = listener_list c"
  using config_ok_fresh [OF assms]
  by (auto simp: listener_list_def bsf_configuration_server_add_def connection_addr_new_def)

lemma bsf_configuration_get_bsf_address_eq:
  assumes "config_ok c"
  shows "bsf_configuration_get_bsf_address ai c =
    (case server_list c of
       s # _ \<Rightarrow> ai (ca_addr s) (ca_port s)
     | [] \<Rightarrow> Some (case cf_discovered c of None \<Rightarrow> []
               | Some i \<Rightarrow> (case ni_ipv6 i @ ni_ipv4 i of a # _ \<Rightarrow> a | [] \<Rightarrow> [])))"
  using assms
  by (auto simp: bsf_configuration_get_bsf_address_def server_list_def config_ok_def
      split: list.split option.split)

subsection \<open>Clearing\<close>

lemma free_nodes:
  assumes "distinct ns" "\<forall>n\<in>set ns. cf_nodes c n \<noteq> None" "loop \<in> {clear_listeners, clear_servers}"
  shows "\<exists>c'. loop ns c = Some c' \<and> cf_servers c' = cf_servers c \<and> cf_discover_flag c' = cf_discover_flag c \<and>
           cf_listeners c' = (if ns = [] then cf_listeners c else []) \<and>
           cf_nodes c' = (\<lambda>n. if n \<in> set ns then None else cf_nodes c n)"
  using assms(1,2)
proof (induction ns arbitrary: c)
  case Nil
  then show ?case using assms(3) by auto
next
  case (Cons n ns)
  obtain a where a: "cf_nodes c n = Some a" using Cons.prems(2) by auto
  let ?c = "c\<lparr>cf_listeners := ns, cf_nodes := (cf_nodes c)(n := None)\<rparr>"
  have "\<forall>m\<in>set ns. cf_nodes ?c m \<noteq> None" using Cons.prems by auto
  then obtain c' where "loop ns ?c = Some c'" "cf_servers c' = cf_servers c"
      "cf_discover_flag c' = cf_discover_flag c" "cf_listeners c' = (if ns = [] then ns else [])"
      "cf_nodes c' = (\<lambda>m. if m \<in> set ns then None else cf_nodes ?c m)"
    using Cons.IH [of ?c] Cons.prems(1) by auto
  moreover have "loop (n # ns) c = loop ns ?c"
    using assms(3) a by (auto simp: connection_addr_free_def)
  ultimately show ?case by (auto simp: fun_eq_iff)
qed

lemma bsf_configuration_clear_eq:
  assumes "config_ok c"
  shows "\<exists>c'. bsf_configuration_clear c = Some c' \<and> cf_listeners c' = [] \<and> cf_servers c' = cf_servers c \<and>
           (\<forall>n\<in>set (cf_servers c). cf_nodes c' n = None)"
proof -
  have d: "distinct (cf_listeners c)" "\<forall>n\<in>set (cf_listeners c). cf_nodes c n \<noteq> None"
    using assms by (auto simp: config_ok_def)
  obtain c1 where c1: "clear_listeners (cf_listeners c) c = Some c1" "cf_servers c1 = cf_servers c"
      "cf_listeners c1 = []" "cf_nodes c1 = (\<lambda>n. if n \<in> set (cf_listeners c) then None else cf_nodes c n)"
    using free_nodes [OF d, of clear_listeners] by (auto split: if_splits)
  have s: "distinct (cf_servers c)" "\<forall>n\<in>set (cf_servers c). cf_nodes c1 n \<noteq> None"
    using assms c1(4) by (auto simp: config_ok_def)
  obtain c2 where "clear_servers (cf_servers c) c1 = Some c2" "cf_servers c2 = cf_servers c"
      "cf_listeners c2 = []" "cf_nodes c2 = (\<lambda>n. if n \<in> set (cf_servers c) then None else cf_nodes c1 n)"
    using free_nodes [OF s, of clear_servers] c1(2,3) by (auto split: if_splits)
  then show ?thesis using c1(1,2) by (auto simp: bsf_configuration_clear_def)
qed

end
