(* ===== verification/Bsf_Context.thy ===== *)
theory Bsf_Context
  imports Bsf_Config
begin

text \<open>
  The run-time state of \<open>lib/bsf-service-consumer\<close>: the context with its configuration, cache
  and list of active sessions (\<open>context.c\<close>), the sessions (\<open>bsf-client-sess.c\<close>), the blocks that
  hold UE addresses, and the transactions of Open5GS with the address of their SBI object.
  Sessions, blocks and transactions take their addresses from one counter.  The log keeps what
  leaves the library.  A callback must not call the library again.
\<close>

section \<open>State\<close>

text \<open>\<open>bsf_client_sess_t\<close>\<close>

record bsf_sess =
  bs_ue_address :: "nat option"
  bs_ipv4addr :: "string option"
  bs_ipv6prefix :: "string option"
  bs_callback :: "nat option"
  bs_user_data :: "nat option"

text \<open>\<open>bsf_client_context_t\<close>; the list of active sessions holds their addresses.\<close>

record bsf_context =
  cx_config :: bsf_configuration
  cx_cache :: pcf_cache
  cx_active :: "nat list"

text \<open>The request of \<open>_nbsf_management_pcf_binding_build\<close>.\<close>

record bsf_request =
  br_method :: string
  br_service :: string
  br_version :: string
  br_resource :: string
  br_ipv4addr :: "string option"
  br_ipv6prefix :: "string option"

datatype bsf_action =
    Bsf_callback nat nat "pcf_binding option" "nat option"
  | Bsf_cached_callback nat pcf_binding "nat option"
  | Bsf_queued nat
  | Bsf_request nat bsf_request
  | Bsf_forward nat
  | Bsf_xact_remove nat
  | Bsf_binding_free pcf_binding
  | Bsf_discover_only nat
  | Bsf_server_start sockaddr bool "sockaddr list"

record bsf_world =
  b_ctx :: "bsf_context option"
  b_sess :: "nat \<Rightarrow> bsf_sess option"
  b_blocks :: blocks
  b_xacts :: "nat \<Rightarrow> nat option"
  b_next :: nat
  b_log :: "bsf_action list"

text \<open>What the library uses of Open5GS and of the application: the text of an address, and the
  result of a callback.\<close>

record bsf_env =
  ev_ogs :: ogs_api
  ev_ipstr :: "sockaddr \<Rightarrow> string"
  ev_callback :: "nat \<Rightarrow> pcf_binding option \<Rightarrow> nat option \<Rightarrow> bool"
  ev_addaddrinfo :: "int \<Rightarrow> string option \<Rightarrow> 16 word \<Rightarrow> sockaddr list option"
  ev_probe :: "string \<Rightarrow> 16 word \<Rightarrow> (sockaddr list \<times> sockaddr list) option"
  ev_sockopt_ok :: "yaml \<Rightarrow> bool"
  ev_http_port :: "16 word"
  ev_max_hostnames :: nat

definition bsf_log :: "bsf_action \<Rightarrow> bsf_world \<Rightarrow> bsf_world" where
  "bsf_log a w = w\<lparr>b_log := b_log w @ [a]\<rparr>"

definition put_sess :: "nat \<Rightarrow> bsf_sess \<Rightarrow> bsf_world \<Rightarrow> bsf_world" where
  "put_sess p s w = w\<lparr>b_sess := (b_sess w)(p \<mapsto> s)\<rparr>"

definition on_context :: "(bsf_context \<Rightarrow> bsf_context) \<Rightarrow> bsf_world \<Rightarrow> bsf_world" where
  "on_context f w = w\<lparr>b_ctx := map_option f (b_ctx w)\<rparr>"

section \<open>The list of active sessions\<close>

definition bsf_client_context_active_sessions_add :: "nat \<Rightarrow> bsf_world \<Rightarrow> bool \<times> bsf_world" where
  "bsf_client_context_active_sessions_add p w =
     (b_ctx w \<noteq> None, on_context (\<lambda>c. c\<lparr>cx_active := cx_active c @ [p]\<rparr>) w)"

definition bsf_client_context_active_sessions_exists :: "nat \<Rightarrow> bsf_world \<Rightarrow> bool" where
  "bsf_client_context_active_sessions_exists p w =
     (case b_ctx w of None \<Rightarrow> False | Some c \<Rightarrow> p \<in> set (cx_active c))"

definition bsf_client_context_active_sessions_remove :: "nat \<Rightarrow> bsf_world \<Rightarrow> bool \<times> bsf_world" where
  "bsf_client_context_active_sessions_remove p w =
     (bsf_client_context_active_sessions_exists p w, on_context (\<lambda>c. c\<lparr>cx_active := remove1 p (cx_active c)\<rparr>) w)"

section \<open>Sessions\<close>

definition empty_sess :: bsf_sess where
  "empty_sess = \<lparr>bs_ue_address = None, bs_ipv4addr = None, bs_ipv6prefix = None, bs_callback = None,
     bs_user_data = None\<rparr>"

definition bsf_client_sess_new :: "bsf_world \<Rightarrow> nat \<times> bsf_world" where
  "bsf_client_sess_new w =
     (let p = b_next w; w = put_sess p empty_sess w\<lparr>b_next := p + 1\<rparr>
      in (p, snd (bsf_client_context_active_sessions_add p w)))"

definition free_block :: "nat \<Rightarrow> bsf_world \<Rightarrow> bsf_world option" where
  "free_block q w =
     (case b_blocks w q of None \<Rightarrow> None | Some _ \<Rightarrow> Some (w\<lparr>b_blocks := (b_blocks w)(q := None)\<rparr>))"

definition free_ue_address :: "nat \<Rightarrow> bsf_world \<Rightarrow> bsf_world option" where
  "free_ue_address p w = do {
     s \<leftarrow> b_sess w p;
     (case bs_ue_address s of None \<Rightarrow> Some w
      | Some q \<Rightarrow> map_option (put_sess p (s\<lparr>bs_ue_address := None\<rparr>)) (free_block q w))
   }"

definition bsf_client_sess_free :: "nat \<Rightarrow> bsf_world \<Rightarrow> bsf_world option" where
  "bsf_client_sess_free p w = do {
     s \<leftarrow> b_sess w p;
     w \<leftarrow> free_ue_address p (snd (bsf_client_context_active_sessions_remove p w));
     Some (w\<lparr>b_sess := (b_sess w)(p := None)\<rparr>)
   }"

text \<open>\<open>ogs_copyaddrinfo\<close> into a new block, after the old address is freed.\<close>

definition bsf_client_sess_ue_address_set :: "nat \<Rightarrow> sockaddr option \<Rightarrow> bsf_world \<Rightarrow> bsf_world option" where
  "bsf_client_sess_ue_address_set p ue_address w = do {
     w \<leftarrow> free_ue_address p w;
     s \<leftarrow> b_sess w p;
     Some (case ue_address of None \<Rightarrow> w
       | Some a \<Rightarrow> put_sess p (s\<lparr>bs_ue_address := Some (b_next w)\<rparr>)
                     (w\<lparr>b_blocks := (b_blocks w)(b_next w \<mapsto> a), b_next := b_next w + 1\<rparr>))
   }"

definition bsf_client_sess_ipv4addr_set_from_sockaddr ::
  "bsf_env \<Rightarrow> sockaddr option \<Rightarrow> bsf_sess \<Rightarrow> bool \<times> bsf_sess" where
  "bsf_client_sess_ipv4addr_set_from_sockaddr env addr s =
     (case addr of None \<Rightarrow> (False, s)
      | Some a \<Rightarrow> if sa_family a \<noteq> Af_inet then (False, s)
                 else (True, s\<lparr>bs_ipv4addr := Some (ev_ipstr env a)\<rparr>))"

definition bsf_client_sess_ipv6prefix_set_from_sockaddr ::
  "bsf_env \<Rightarrow> sockaddr option \<Rightarrow> bsf_sess \<Rightarrow> bool \<times> bsf_sess" where
  "bsf_client_sess_ipv6prefix_set_from_sockaddr env addr s =
     (case addr of None \<Rightarrow> (False, s)
      | Some a \<Rightarrow> if sa_family a \<noteq> Af_inet6 then (False, s)
                 else (True, s\<lparr>bs_ipv6prefix := Some (ev_ipstr env a @ ''/128'')\<rparr>))"

definition bsf_client_sess_retrieve_callback_set :: "nat option \<Rightarrow> nat option \<Rightarrow> bsf_sess \<Rightarrow> bsf_sess" where
  "bsf_client_sess_retrieve_callback_set cb d s = s\<lparr>bs_callback := cb, bs_user_data := d\<rparr>"

text \<open>The callback gets a copy of the binding, which is freed again when the callback fails
  (\<open>OpenAPI_pcf_binding_free\<close> ignores a null pointer).\<close>

definition bsf_client_sess_retrieve_callback_call ::
  "bsf_env \<Rightarrow> nat \<Rightarrow> pcf_binding option \<Rightarrow> bsf_world \<Rightarrow> (bool \<times> bsf_world) option" where
  "bsf_client_sess_retrieve_callback_call env p binding w = do {
     s \<leftarrow> b_sess w p;
     Some (case bs_callback s of
         None \<Rightarrow> (False, w)
       | Some f \<Rightarrow>
           (let ret = ev_callback env f binding (bs_user_data s);
                w = bsf_log (Bsf_callback p f binding (bs_user_data s)) w
            in (ret, if ret then w else (case binding of None \<Rightarrow> w | Some b \<Rightarrow> bsf_log (Bsf_binding_free b) w))))
   }"

text \<open>Printing a session reads its address; \<open>ogs_ipstrdup\<close> asserts that there is one.\<close>

definition sess_address :: "nat \<Rightarrow> bsf_world \<Rightarrow> sockaddr option" where
  "sess_address p w = do { s \<leftarrow> b_sess w p; q \<leftarrow> bs_ue_address s; b_blocks w q }"

definition bsf_client_sess_log_debug :: "nat \<Rightarrow> bsf_world \<Rightarrow> unit option" where
  "bsf_client_sess_log_debug p w = map_option (\<lambda>a. ()) (sess_address p w)"

definition active_sessions_log_debug :: "nat list \<Rightarrow> bsf_world \<Rightarrow> unit option" where
  "active_sessions_log_debug ps w =
     (if list_all (\<lambda>p. bsf_client_sess_log_debug p w \<noteq> None) ps then Some () else None)"

definition bsf_client_context_log_debug :: "bsf_world \<Rightarrow> unit option" where
  "bsf_client_context_log_debug w =
     (case b_ctx w of
        None \<Rightarrow> Some ()
      | Some c \<Rightarrow> do {
          _ \<leftarrow> bsf_configuration_log_debug (cx_config c);
          _ \<leftarrow> pcf_bindings_cache_log_debug (b_blocks w) (cx_cache c);
          active_sessions_log_debug (cx_active c) w
        })"

section \<open>Transactions\<close>

text \<open>The request is built when the transaction is made.\<close>

definition nbsf_management_pcf_binding_build :: "bsf_sess \<Rightarrow> bsf_request" where
  "nbsf_management_pcf_binding_build s =
     \<lparr>br_method = ''GET'', br_service = ''nbsf-management'', br_version = ''v1'',
      br_resource = ''pcf-bindings'', br_ipv4addr = bs_ipv4addr s, br_ipv6prefix = bs_ipv6prefix s\<rparr>"

text \<open>\<open>ogs_sbi_xact_remove\<close> unlinks the transaction from its object if that is a session.  Objects
  of other users of Open5GS are not tracked.\<close>

definition bsf_xact_remove :: "nat \<Rightarrow> bsf_world \<Rightarrow> bsf_world option" where
  "bsf_xact_remove x w = do {
     p \<leftarrow> b_xacts w x;
     s \<leftarrow> b_sess w p;
     Some (bsf_log (Bsf_xact_remove x) (w\<lparr>b_xacts := (b_xacts w)(x := None)\<rparr>))
   }"

definition bsf_xact_add :: "nat \<Rightarrow> bsf_world \<Rightarrow> nat \<times> bsf_world" where
  "bsf_xact_add p w = (b_next w, w\<lparr>b_xacts := (b_xacts w)(b_next w \<mapsto> p), b_next := b_next w + 1\<rparr>)"

text \<open>What Open5GS makes of a request: no transaction, one that cannot be sent, or one that is
  sent to the BSF, or to the NRF first.\<close>

datatype send_outcome = Xact_add_fails | Discover_fails | Discover_sends

definition bsf_client_sess_discover_and_send :: "send_outcome \<Rightarrow> nat \<Rightarrow> bsf_world \<Rightarrow> (bool \<times> bsf_world) option" where
  "bsf_client_sess_discover_and_send oc p w = do {
     s \<leftarrow> b_sess w p;
     (if oc = Xact_add_fails then Some (False, w)
      else (case bsf_xact_add p w of
        (x, w) \<Rightarrow>
          if oc = Discover_fails then map_option (Pair False) (bsf_xact_remove x w)
          else Some (True, bsf_log (Bsf_request x (nbsf_management_pcf_binding_build s)) w)))
   }"

section \<open>Local events\<close>

text \<open>The result of \<open>ogs_queue_push\<close> is an argument.\<close>

definition bsf_client_local_discover_and_send :: "bool \<Rightarrow> nat \<Rightarrow> bsf_world \<Rightarrow> bool \<times> bsf_world" where
  "bsf_client_local_discover_and_send pushed p w = (pushed, if pushed then bsf_log (Bsf_queued p) w else w)"

datatype local_event = Local_null | Local_discover_and_send | Local_max

definition bsf_client_local_process_event ::
  "send_outcome \<Rightarrow> nat \<Rightarrow> local_event \<Rightarrow> bsf_world \<Rightarrow> (bool \<times> bsf_world) option" where
  "bsf_client_local_process_event oc p ev w =
     (if bsf_client_context_active_sessions_exists p w then
        (case ev of
           Local_discover_and_send \<Rightarrow> map_option (\<lambda>(r, w). (True, w)) (bsf_client_sess_discover_and_send oc p w)
         | _ \<Rightarrow> Some (True, w))
      else Some (False, w))"

section \<open>Context\<close>

definition bsf_client_context_init :: "bsf_world \<Rightarrow> bsf_world" where
  "bsf_client_context_init w =
     w\<lparr>b_ctx := Some \<lparr>cx_config = bsf_configuration_init, cx_cache = pcf_bindings_cache_init, cx_active = []\<rparr>\<rparr>"

definition bsf_client_context_final :: "bsf_world \<Rightarrow> bsf_world option" where
  "bsf_client_context_final w =
     (case b_ctx w of
        None \<Rightarrow> Some w
      | Some c \<Rightarrow> do {
          _ \<leftarrow> bsf_configuration_clear (cx_config c);
          _ \<leftarrow> pcf_bindings_cache_clear (b_blocks w) (cx_cache c);
          w \<leftarrow> fold_option bsf_client_sess_free (cx_active c) w;
          Some (w\<lparr>b_ctx := None\<rparr>)
        })"

definition bsf_client_context_get_bsf_address :: "bsf_env \<Rightarrow> bsf_world \<Rightarrow> sockaddr list option" where
  "bsf_client_context_get_bsf_address env w =
     (case b_ctx w of None \<Rightarrow> Some []
      | Some c \<Rightarrow> bsf_configuration_get_bsf_address (\<lambda>h p. ev_addaddrinfo env 0 h (word_of_int p)) (cx_config c))"

definition bsf_client_pcf_bindings_from_cache ::
  "int \<Rightarrow> sockaddr \<Rightarrow> bsf_world \<Rightarrow> (pcf_binding option \<times> bsf_world) option" where
  "bsf_client_pcf_bindings_from_cache now ue_address w =
     (case b_ctx w of None \<Rightarrow> Some (None, w)
      | Some c \<Rightarrow> map_option (\<lambda>(b, cache). (b, on_context (\<lambda>c. c\<lparr>cx_cache := cache\<rparr>) w))
          (pcf_bindings_cache_find (b_blocks w) now ue_address (cx_cache c)))"

definition bsf_client_context_add_pcf_binding ::
  "nat option \<Rightarrow> pcf_binding option \<Rightarrow> int \<Rightarrow> bsf_world \<Rightarrow> (bool \<times> bsf_world) option" where
  "bsf_client_context_add_pcf_binding ue_address binding expires w =
     (case b_ctx w of None \<Rightarrow> Some (False, w)
      | Some c \<Rightarrow> do {
          q \<leftarrow> ue_address;
          b \<leftarrow> binding;
          cache \<leftarrow> pcf_bindings_cache_add (b_blocks w) q b expires (cx_cache c);
          Some (True, on_context (\<lambda>c. c\<lparr>cx_cache := cache\<rparr>) w)
        })"

end
