(* ===== verification/Bsf_Parse.thy ===== *)
theory Bsf_Parse
  imports Bsf_Context
begin

text \<open>
  \<open>_bsf_parse_config\<close> (\<open>context.c\<close>): the section of the configuration document that the
  application names.  A block that describes a server is read into a record first
  (the local variables of \<open>__parse_server_config\<close>), then its addresses are added.
\<close>

section \<open>A server block\<close>

record server_block =
  sb_family :: int
  sb_hosts :: "string option list"
  sb_advertise :: "string option list"
  sb_port :: "16 word"
  sb_dev :: "string option"
  sb_option :: bool

definition empty_block :: "bsf_env \<Rightarrow> server_block" where
  "empty_block env =
     \<lparr>sb_family = 0, sb_hosts = [], sb_advertise = [], sb_port = ev_http_port env, sb_dev = None, sb_option = False\<rparr>"

text \<open>\<open>AF_UNSPEC\<close>, \<open>AF_INET\<close> and \<open>AF_INET6\<close> are 0, 2 and 10.\<close>

definition parse_family :: "int \<Rightarrow> string option \<Rightarrow> int" where
  "parse_family old v =
     (let family = (case v of None \<Rightarrow> old | Some t \<Rightarrow> atoi t)
      in if family \<noteq> 0 \<and> family \<noteq> 2 \<and> family \<noteq> 10 then 0 else family)"

text \<open>A list of host names is a scalar or a sequence of scalars; the arrays are bounded.\<close>

fun host_values :: "yaml list \<Rightarrow> string option list option" where
  "host_values [] = Some []"
| "host_values (y # ys) = do { v \<leftarrow> yaml_value y; vs \<leftarrow> host_values ys; Some (v # vs) }"

definition add_hosts :: "bsf_env \<Rightarrow> yaml \<Rightarrow> string option list \<Rightarrow> string option list option" where
  "add_hosts env y old = do {
     vs \<leftarrow> (case y of Y_map _ \<Rightarrow> None | Y_scalar v \<Rightarrow> Some [v] | Y_seq ys \<Rightarrow> host_values ys);
     (if length old + length vs \<le> max (length old) (ev_max_hostnames env) then Some (old @ vs) else None)
   }"

datatype 'a parse_result = Parsed 'a | Bad_option

definition parse_server_key ::
  "bsf_env \<Rightarrow> string \<times> yaml \<Rightarrow> server_block \<Rightarrow> server_block parse_result option" where
  "parse_server_key env ky b =
     (case ky of (key, y) \<Rightarrow>
        if key = ''family'' then
          map_option (\<lambda>v. Parsed (b\<lparr>sb_family := parse_family (sb_family b) v\<rparr>)) (yaml_value y)
        else if key = ''addr'' \<or> key = ''name'' then
          map_option (\<lambda>hs. Parsed (b\<lparr>sb_hosts := hs\<rparr>)) (add_hosts env y (sb_hosts b))
        else if key = ''advertise'' then
          map_option (\<lambda>hs. Parsed (b\<lparr>sb_advertise := hs\<rparr>)) (add_hosts env y (sb_advertise b))
        else if key = ''port'' then
          map_option (\<lambda>v. Parsed (case v of None \<Rightarrow> b | Some t \<Rightarrow> b\<lparr>sb_port := word_of_int (atoi t)\<rparr>)) (yaml_value y)
        else if key = ''dev'' then
          map_option (\<lambda>v. Parsed (b\<lparr>sb_dev := v\<rparr>)) (yaml_value y)
        else if key = ''option'' then
          Some (if ev_sockopt_ok env y then Parsed (b\<lparr>sb_option := True\<rparr>) else Bad_option)
        else Some (Parsed b))"

fun parse_server_keys ::
  "bsf_env \<Rightarrow> (string \<times> yaml) list \<Rightarrow> server_block \<Rightarrow> server_block parse_result option" where
  "parse_server_keys env [] b = Some (Parsed b)"
| "parse_server_keys env (ky # kys) b = do {
     r \<leftarrow> parse_server_key env ky b;
     (case r of Bad_option \<Rightarrow> Some Bad_option | Parsed b \<Rightarrow> parse_server_keys env kys b)
   }"

section \<open>Adding the addresses of a block\<close>

definition server_add :: "string option \<Rightarrow> 16 word \<Rightarrow> bsf_world \<Rightarrow> bsf_world" where
  "server_add host port w =
     on_context (\<lambda>c. c\<lparr>cx_config := bsf_configuration_server_add host (uint port) (cx_config c)\<rparr>) w"

definition notification_listener_add :: "string option \<Rightarrow> 16 word \<Rightarrow> bsf_world \<Rightarrow> bsf_world" where
  "notification_listener_add host port w =
     on_context (\<lambda>c. c\<lparr>cx_config :=
       bsf_configuration_notification_listeners_add host (uint port) (cx_config c)\<rparr>) w"

text \<open>The chain of addresses of all hosts; each must resolve.\<close>

fun resolve_hosts :: "bsf_env \<Rightarrow> int \<Rightarrow> 16 word \<Rightarrow> string option list \<Rightarrow> sockaddr list option" where
  "resolve_hosts env family port [] = Some []"
| "resolve_hosts env family port (h # hs) = do {
     a \<leftarrow> ev_addaddrinfo env family h port;
     rest \<leftarrow> resolve_hosts env family port hs;
     Some (a @ rest)
   }"

text \<open>The servers are started on the first IPv4 and the first IPv6 address.\<close>

definition start_server :: "sockaddr list \<Rightarrow> bool \<Rightarrow> sockaddr list \<Rightarrow> bsf_world \<Rightarrow> bsf_world" where
  "start_server listen opt advertise w =
     (case listen of [] \<Rightarrow> w | a # _ \<Rightarrow> bsf_log (Bsf_server_start a opt advertise) w)"

definition notification_listener_start ::
  "sockaddr list \<Rightarrow> sockaddr list \<Rightarrow> sockaddr list \<Rightarrow> bool \<Rightarrow> bsf_world \<Rightarrow> bsf_world" where
  "notification_listener_start ipv4_listen ipv6_listen addr opt w =
     start_server ipv6_listen opt addr (start_server ipv4_listen opt addr w)"

definition listen_addresses ::
  "bsf_env \<Rightarrow> server_block \<Rightarrow> sockaddr list \<Rightarrow> (sockaddr list \<times> sockaddr list) option" where
  "listen_addresses env b addr =
     (let v4 = (case addr of a # _ \<Rightarrow> if sa_family a = Af_inet then [a] else [] | [] \<Rightarrow> []);
          v6 = (case addr of a # _ \<Rightarrow> if sa_family a = Af_inet6 then [a] else [] | [] \<Rightarrow> [])
      in case sb_dev b of None \<Rightarrow> Some (v4, v6)
         | Some dev \<Rightarrow> map_option (\<lambda>(p4, p6). (v4 @ p4, v6 @ p6)) (ev_probe env dev (sb_port b)))"

datatype server_role = Role_server | Role_listener

definition finish_block :: "bsf_env \<Rightarrow> server_role \<Rightarrow> server_block \<Rightarrow> bsf_world \<Rightarrow> bsf_world option" where
  "finish_block env role b w = do {
     addr \<leftarrow> resolve_hosts env (sb_family b) (sb_port b) (sb_hosts b);
     (case role of
        Role_server \<Rightarrow> Some (fold (\<lambda>h. server_add h (sb_port b)) (sb_hosts b) w)
      | Role_listener \<Rightarrow> do {
          (v4, v6) \<leftarrow> listen_addresses env b addr;
          adv \<leftarrow> resolve_hosts env (sb_family b) (sb_port b) (sb_advertise b);
          Some (notification_listener_start v4 v6 adv (sb_option b)
                 (fold (\<lambda>h. notification_listener_add h (sb_port b)) (sb_hosts b) w))
        })
   }"

text \<open>A block with a bad socket option ends the whole section.\<close>

fun parse_server_blocks :: "bsf_env \<Rightarrow> server_role \<Rightarrow> yaml list \<Rightarrow> bsf_world \<Rightarrow> bsf_world option" where
  "parse_server_blocks env role [] w = Some w"
| "parse_server_blocks env role (y # ys) w = do {
     kys \<leftarrow> yaml_pairs y;
     r \<leftarrow> parse_server_keys env kys (empty_block env);
     (case r of
        Bad_option \<Rightarrow> Some w
      | Parsed b \<Rightarrow> Option.bind (finish_block env role b w) (parse_server_blocks env role ys))
   }"

definition parse_server_config :: "bsf_env \<Rightarrow> server_role \<Rightarrow> yaml \<Rightarrow> bsf_world \<Rightarrow> bsf_world option" where
  "parse_server_config env role y w =
     (case y of
        Y_map _ \<Rightarrow> parse_server_blocks env role [y] w
      | Y_seq ys \<Rightarrow> parse_server_blocks env role ys w
      | Y_scalar _ \<Rightarrow> Some w)"

section \<open>The section of the library\<close>

definition parse_bsf_key :: "bsf_env \<Rightarrow> string \<times> yaml \<Rightarrow> bsf_world \<Rightarrow> bsf_world option" where
  "parse_bsf_key env ky w =
     (case ky of (key, y) \<Rightarrow>
        if key = ''sbi'' then parse_server_config env Role_server y w
        else if key = ''notificationListener'' then parse_server_config env Role_listener y w
        else if key = ''discovery'' then
          Some (on_context (\<lambda>c. c\<lparr>cx_config := bsf_configuration_set_discover_flag 1 (cx_config c)\<rparr>) w)
        else Some w)"

definition parse_root_key :: "bsf_env \<Rightarrow> string \<Rightarrow> string \<times> yaml \<Rightarrow> bsf_world \<Rightarrow> bsf_world option" where
  "parse_root_key env local ky w =
     (case ky of (key, y) \<Rightarrow>
        if key = local then Option.bind (yaml_pairs y) (\<lambda>kys. fold_option (parse_bsf_key env) kys w) else Some w)"

text \<open>The C function returns \<open>OGS_OK\<close>, which is 0, or \<open>OGS_ERROR\<close>, which is -1.\<close>

definition ogs_ok :: int where "ogs_ok = 0"
definition ogs_error :: int where "ogs_error = -1"

definition bsf_client_context_validation :: "send_outcome \<Rightarrow> bsf_world \<Rightarrow> (int \<times> bsf_world) option" where
  "bsf_client_context_validation oc w = do {
     c \<leftarrow> b_ctx w;
     (if \<not> bsf_configuration_notification_listeners_exist (cx_config c) then Some (ogs_error, w)
      else if \<not> bsf_configuration_servers_exist (cx_config c) \<and>
              bsf_configuration_get_discover_flag (cx_config c) \<noteq> 0 then
        (case bsf_client_sess_new w of
           (p, w) \<Rightarrow>
             if oc = Xact_add_fails then Some (ogs_error, w)
             else (case bsf_xact_add p w of
               (x, w) \<Rightarrow> let w = bsf_log (Bsf_discover_only x) w
                          in Some (if oc = Discover_fails then ogs_error else ogs_ok, w)))
      else Some (ogs_ok, w))
   }"

text \<open>The result is converted to the \<open>bool\<close> that \<open>_bsf_parse_config\<close> returns.\<close>

definition bool_of_int :: "int \<Rightarrow> bool" where "bool_of_int i = (i \<noteq> 0)"

definition bsf_parse_config ::
  "bsf_env \<Rightarrow> send_outcome \<Rightarrow> string \<Rightarrow> yaml \<Rightarrow> bsf_world \<Rightarrow> (bool \<times> bsf_world) option" where
  "bsf_parse_config env oc local document w = do {
     kys \<leftarrow> yaml_pairs document;
     w \<leftarrow> fold_option (parse_root_key env local) kys (if b_ctx w = None then bsf_client_context_init w else w);
     (rv, w) \<leftarrow> bsf_client_context_validation oc w;
     Some (bool_of_int rv, w)
   }"

section \<open>What parsing keeps\<close>

text \<open>Parsing adds to the configuration and starts servers; all else is as before.\<close>

definition same_but_config :: "bsf_world \<Rightarrow> bsf_world \<Rightarrow> bool" where
  "same_but_config w w' \<longleftrightarrow>
     b_sess w' = b_sess w \<and> b_blocks w' = b_blocks w \<and> b_xacts w' = b_xacts w \<and> b_next w' = b_next w \<and>
     (\<exists>as. b_log w' = b_log w @ as \<and> (\<forall>a\<in>set as. \<exists>s opt adv. a = Bsf_server_start s opt adv)) \<and>
     (case (b_ctx w, b_ctx w') of
        (Some c, Some c') \<Rightarrow> cx_cache c' = cx_cache c \<and> cx_active c' = cx_active c \<and>
          cf_discovered (cx_config c') = cf_discovered (cx_config c) \<and>
          (config_ok (cx_config c) \<longrightarrow> config_ok (cx_config c'))
      | (None, None) \<Rightarrow> True
      | _ \<Rightarrow> False)"

lemma same_but_config_refl [simp]: "same_but_config w w"
  by (auto simp: same_but_config_def split: option.split)

lemma same_but_config_trans: "same_but_config u v \<Longrightarrow> same_but_config v w \<Longrightarrow> same_but_config u w"
  unfolding same_but_config_def
  by (cases "b_ctx u"; cases "b_ctx v"; cases "b_ctx w"; simp; elim conjE exE)
    (metis append.assoc set_append Un_iff)+

lemma same_but_config_on_config:
  assumes "\<And>c. config_ok c \<Longrightarrow> config_ok (f c)" "\<And>c. cf_discovered (f c) = cf_discovered c"
  shows "same_but_config w (on_context (\<lambda>c. c\<lparr>cx_config := f (cx_config c)\<rparr>) w)"
  using assms by (cases "b_ctx w") (auto simp: same_but_config_def on_context_def)

lemma same_but_config_start:
  "same_but_config w (bsf_log (Bsf_server_start a opt adv) w)"
  by (auto simp: same_but_config_def bsf_log_def split: option.split)

lemma same_but_config_fold:
  assumes "\<And>x w. same_but_config w (f x w)"
  shows "same_but_config w (fold f xs w)"
  by (induction xs arbitrary: w) (auto intro: same_but_config_trans assms)

lemma same_but_config_listener_start:
  "same_but_config w (notification_listener_start v4 v6 adv opt w)"
  unfolding notification_listener_start_def start_server_def
  by (auto intro: same_but_config_trans same_but_config_start split: list.split)

lemma same_but_config_finish_block:
  "finish_block env role b w = Some w' \<Longrightarrow> same_but_config w w'"
  by (auto simp: finish_block_def server_add_def notification_listener_add_def
      split: bind_splits server_role.splits
      intro!: same_but_config_trans [OF same_but_config_fold same_but_config_listener_start]
        same_but_config_fold same_but_config_on_config)

lemma same_but_config_blocks:
  "parse_server_blocks env role ys w = Some w' \<Longrightarrow> same_but_config w w'"
proof (induction ys arbitrary: w)
  case (Cons y ys)
  then obtain kys r where r: "yaml_pairs y = Some kys" "parse_server_keys env kys (empty_block env) = Some r"
    by (auto split: bind_splits)
  show ?case
  proof (cases r)
    case (Parsed b)
    then obtain u where "finish_block env role b w = Some u" "parse_server_blocks env role ys u = Some w'"
      using Cons.prems r by (auto split: bind_splits)
    then show ?thesis using Cons.IH same_but_config_finish_block same_but_config_trans by blast
  qed (use Cons.prems r in simp)
qed simp

lemma same_but_config_key:
  "parse_bsf_key env ky w = Some w' \<Longrightarrow> same_but_config w w'"
  by (auto simp: parse_bsf_key_def parse_server_config_def same_but_config_on_config
      split: prod.splits if_splits yaml.splits dest: same_but_config_blocks simp del: parse_server_blocks.simps)

lemma same_but_config_fold_option:
  assumes "\<And>x u v. f x u = Some v \<Longrightarrow> same_but_config u v"
  shows "fold_option f xs w = Some w' \<Longrightarrow> same_but_config w w'"
  by (erule fold_option_inv [where P = "same_but_config w"])
    (auto intro: same_but_config_trans assms)

lemma same_but_config_section:
  "fold_option (parse_bsf_key env) kys w = Some w' \<Longrightarrow> same_but_config w w'"
  by (rule same_but_config_fold_option [of "parse_bsf_key env"]) (rule same_but_config_key)

lemma same_but_config_root:
  "parse_root_key env local ky w = Some w' \<Longrightarrow> same_but_config w w'"
  by (cases ky) (auto simp: parse_root_key_def split: if_splits bind_splits intro: same_but_config_section)

lemma same_but_config_roots:
  "fold_option (parse_root_key env local) kys w = Some w' \<Longrightarrow> same_but_config w w'"
  by (rule same_but_config_fold_option [of "parse_root_key env local"]) (rule same_but_config_root)

end
