(* ===== verification/Bsf_Process.thy ===== *)
theory Bsf_Process
  imports Bsf_Parse
begin

text \<open>
  The retrieval of a PCF binding (\<open>pcf-bind.c\<close>) and the event handler of the BSF library
  (\<open>nbsf-process.c\<close>).  An event names a transaction by its id, and carries what Open5GS makes
  of the response; \<open>now\<close> is the time the clock shows.
\<close>

section \<open>Events\<close>

record bsf_message =
  bm_service :: "string option"
  bm_resource0 :: "string option"
  bm_method :: "string option"

text \<open>A response: the outcome of parsing its header and of parsing all of it, the binding it
  holds, its HTTP headers, and whether an NF instance is known once its search result is
  handled.\<close>

record bsf_response =
  bp_status :: int
  bp_header :: "bool \<times> bsf_message"
  bp_full :: bool
  bp_binding :: "pcf_binding option"
  bp_headers :: "(string \<times> string) list"
  bp_instance :: bool

datatype bsf_event =
    Bsf_client nat "bsf_response option"
  | Bsf_timer bool nat
  | Bsf_local nat local_event send_outcome
  | Bsf_other

section \<open>Retrieval\<close>

text \<open>The session keeps the address that is asked for, as a key and as text; an address of another
  family aborts.\<close>

definition fill_sess :: "bsf_env \<Rightarrow> sockaddr \<Rightarrow> nat option \<Rightarrow> nat option \<Rightarrow> bsf_sess \<Rightarrow> bsf_sess option" where
  "fill_sess env ue_address callback user_data s =
     map_option (bsf_client_sess_retrieve_callback_set callback user_data)
       (if sa_family ue_address = Af_inet then
          Some (snd (bsf_client_sess_ipv4addr_set_from_sockaddr env (Some ue_address) s))
        else if sa_family ue_address = Af_inet6 then
          Some (snd (bsf_client_sess_ipv6prefix_set_from_sockaddr env (Some ue_address) s))
        else None)"

definition answer_from_cache ::
  "bsf_env \<Rightarrow> nat option \<Rightarrow> nat option \<Rightarrow> pcf_binding \<Rightarrow> bsf_world \<Rightarrow> (bool \<times> bsf_world) option" where
  "answer_from_cache env callback user_data b w = do {
     f \<leftarrow> callback;
     (let w = bsf_log (Bsf_cached_callback f b user_data) w
      in Some (True, if ev_callback env f (Some b) user_data then w else bsf_log (Bsf_binding_free b) w))
   }"

definition bsf_retrieve_pcf_binding_for_pdu_session ::
  "bsf_env \<Rightarrow> int \<Rightarrow> bool \<Rightarrow> sockaddr \<Rightarrow> nat option \<Rightarrow> nat option \<Rightarrow> bsf_world \<Rightarrow> (bool \<times> bsf_world) option" where
  "bsf_retrieve_pcf_binding_for_pdu_session env now pushed ue_address callback user_data w = do {
     (binding, w) \<leftarrow> bsf_client_pcf_bindings_from_cache now ue_address w;
     (case binding of
        Some b \<Rightarrow> answer_from_cache env callback user_data b w
      | None \<Rightarrow>
          (case bsf_client_sess_new w of
             (p, w) \<Rightarrow> do {
               w \<leftarrow> bsf_client_sess_ue_address_set p (Some ue_address) w;
               s \<leftarrow> b_sess w p;
               s \<leftarrow> fill_sess env ue_address callback user_data s;
               _ \<leftarrow> bsf_client_context_log_debug (put_sess p s w);
               Some (True, snd (bsf_client_local_discover_and_send pushed p (put_sess p s w)))
             }))
   }"

section \<open>Responses\<close>

definition end_sess :: "nat \<Rightarrow> nat \<Rightarrow> bsf_world \<Rightarrow> (bool \<times> bsf_world) option" where
  "end_sess x p w = do {
     w \<leftarrow> bsf_xact_remove x w;
     w \<leftarrow> bsf_client_sess_free p w;
     Some (True, w)
   }"

text \<open>A search result is handled, and the request goes to the instance that is found; Open5GS
  asserts that there is one.\<close>

definition handle_nf_instances ::
  "bsf_message \<Rightarrow> bsf_response \<Rightarrow> nat \<Rightarrow> bsf_world \<Rightarrow> (bool \<times> bsf_world) option" where
  "handle_nf_instances message response x w = do {
     _ \<leftarrow> bsf_client_context_log_debug w;
     (if switch_string (bm_method message) = ''GET'' \<and> bp_status response = 200 \<and> bp_full response then
        (if bp_instance response then Some (True, bsf_log (Bsf_forward x) w) else None)
      else Some (True, w))
   }"

text \<open>No binding: the application is told so.\<close>

definition answer_nothing :: "bsf_env \<Rightarrow> nat \<Rightarrow> nat \<Rightarrow> bsf_world \<Rightarrow> (bool \<times> bsf_world) option" where
  "answer_nothing env x p w = do {
     ip \<leftarrow> sess_address p w;
     (r, w) \<leftarrow> bsf_client_sess_retrieve_callback_call env p None w;
     end_sess x p w
   }"

definition handle_pcf_bindings ::
  "bsf_env \<Rightarrow> int \<Rightarrow> bsf_response \<Rightarrow> nat \<Rightarrow> nat \<Rightarrow> bsf_world \<Rightarrow> (bool \<times> bsf_world) option" where
  "handle_pcf_bindings env now response x p w = do {
     _ \<leftarrow> bsf_client_context_log_debug w;
     (if bp_status response \<noteq> 200 then answer_nothing env x p w
      else if \<not> bp_full response then Some (False, w)
      else do {
        s \<leftarrow> b_sess w p;
        (r, w) \<leftarrow> bsf_client_context_add_pcf_binding (bs_ue_address s) (bp_binding response)
                    (response_to_expiry_time (ev_ogs env) now (bp_headers response)) w;
        (r, w) \<leftarrow> bsf_client_sess_retrieve_callback_call env p (bp_binding response) w;
        end_sess x p w
      })
   }"

definition handle_bsf_response ::
  "bsf_env \<Rightarrow> int \<Rightarrow> bsf_response \<Rightarrow> nat \<Rightarrow> nat \<Rightarrow> bsf_world \<Rightarrow> (bool \<times> bsf_world) option" where
  "handle_bsf_response env now response x p w =
     (case bp_header response of
        (ok, message) \<Rightarrow>
          if \<not> ok then Some (False, w)
          else if switch_string (bm_service message) = ''nnrf-disc'' then
            (if switch_string (bm_resource0 message) = ''nf-instances''
             then handle_nf_instances message response x w else Some (False, w))
          else if switch_string (bm_service message) = ''nbsf-management'' then
            (if switch_string (bm_resource0 message) = ''pcf-bindings''
             then handle_pcf_bindings env now response x p w else Some (False, w))
          else Some (False, w))"

section \<open>The event handler\<close>

text \<open>The session of a transaction that is one of the library's.\<close>

definition our_sess :: "nat \<Rightarrow> bsf_world \<Rightarrow> nat option" where
  "our_sess x w =
     (case b_xacts w x of None \<Rightarrow> None
      | Some p \<Rightarrow> if bsf_client_context_active_sessions_exists p w then Some p else None)"

definition bsf_process_event :: "bsf_env \<Rightarrow> int \<Rightarrow> bsf_event \<Rightarrow> bsf_world \<Rightarrow> (bool \<times> bsf_world) option" where
  "bsf_process_event env now e w =
     (if b_ctx w = None then Some (False, w)
      else (case e of
        Bsf_client x response \<Rightarrow>
          (case our_sess x w of
             None \<Rightarrow> Some (False, w)
           | Some p \<Rightarrow> Option.bind response (\<lambda>r. handle_bsf_response env now r x p w))
      | Bsf_timer client_wait x \<Rightarrow>
          (if client_wait then
             (case our_sess x w of None \<Rightarrow> Some (False, w) | Some p \<Rightarrow> answer_nothing env x p w)
           else Some (False, w))
      | Bsf_local p ev oc \<Rightarrow> bsf_client_local_process_event oc p ev w
      | Bsf_other \<Rightarrow> Some (False, w)))"

end
