(* ===== verification/Bsf_Machine.thy ===== *)
theory Bsf_Machine
  imports Bsf_Process Machine
begin

text \<open>
  The BSF library as a machine, and its invariant: every address in use is below the counter,
  the active sessions are alive and own their address, the nodes of the configuration are
  alive, and a session that is alive has not been answered yet; no session is answered twice.
  The invariant is stated up to a set of sessions that were just answered and are about to be
  freed.
\<close>

section \<open>Calls\<close>

datatype bsf_call =
    Bsf_parse send_outcome string yaml
  | Bsf_retrieve bool sockaddr "nat option" "nat option"
  | Bsf_event bsf_event
  | Bsf_terminate
  | Foreign_xact
  | Foreign_remove nat

text \<open>Other users of Open5GS add and remove transactions of their own objects.\<close>

definition foreign_xact :: "bsf_world \<Rightarrow> bsf_world" where
  "foreign_xact w =
     w\<lparr>b_xacts := (b_xacts w)(b_next w + 1 \<mapsto> b_next w), b_next := b_next w + 2\<rparr>"

definition foreign_remove :: "nat \<Rightarrow> bsf_world \<Rightarrow> bsf_world" where
  "foreign_remove x w =
     (case b_xacts w x of None \<Rightarrow> w
      | Some p \<Rightarrow> if b_sess w p = None then w\<lparr>b_xacts := (b_xacts w)(x := None)\<rparr> else w)"

fun bsf_step :: "bsf_env \<Rightarrow> int \<times> bsf_call \<Rightarrow> bsf_world \<Rightarrow> bsf_world option" where
  "bsf_step env (now, Bsf_parse oc local doc) w = map_option snd (bsf_parse_config env oc local doc w)"
| "bsf_step env (now, Bsf_retrieve pushed a cb d) w =
     map_option snd (bsf_retrieve_pcf_binding_for_pdu_session env now pushed a cb d w)"
| "bsf_step env (now, Bsf_event e) w = map_option snd (bsf_process_event env now e w)"
| "bsf_step env (now, Bsf_terminate) w = bsf_client_context_final w"
| "bsf_step env (now, Foreign_xact) w = Some (foreign_xact w)"
| "bsf_step env (now, Foreign_remove x) w = Some (foreign_remove x w)"

definition initial_bsf :: bsf_world where
  "initial_bsf = \<lparr>b_ctx = None, b_sess = (\<lambda>_. None), b_blocks = (\<lambda>_. None), b_xacts = (\<lambda>_. None),
     b_next = 0, b_log = []\<rparr>"

section \<open>The invariant\<close>

fun answers :: "nat \<Rightarrow> bsf_action \<Rightarrow> bool" where
  "answers p (Bsf_callback q f b d) = (q = p)"
| "answers p _ = False"

definition answer_count :: "nat \<Rightarrow> bsf_action list \<Rightarrow> nat" where
  "answer_count p as = length (filter (answers p) as)"

lemma answer_count_simps [simp]:
  "answer_count p [] = 0"
  "answer_count p (as @ bs) = answer_count p as + answer_count p bs"
  "answer_count p (a # as) = (if answers p a then 1 else 0) + answer_count p as"
  by (simp_all add: answer_count_def)

definition below_next :: "bsf_world \<Rightarrow> bool" where
  "below_next w \<longleftrightarrow>
     (\<forall>p. b_next w \<le> p \<longrightarrow> b_sess w p = None \<and> b_blocks w p = None \<and> b_xacts w p = None \<and>
        answer_count p (b_log w) = 0)"

definition owned_block :: "bsf_world \<Rightarrow> nat \<Rightarrow> nat option" where
  "owned_block w p = Option.bind (b_sess w p) bs_ue_address"

definition sessions_own :: "bsf_world \<Rightarrow> bool" where
  "sessions_own w \<longleftrightarrow>
     (\<forall>p q. owned_block w p = Some q \<longrightarrow> b_blocks w q \<noteq> None) \<and> inj_on (owned_block w) (dom (owned_block w))"

definition bsf_context_ok :: "bsf_world \<Rightarrow> bool" where
  "bsf_context_ok w \<longleftrightarrow>
     (\<forall>c. b_ctx w = Some c \<longrightarrow> config_ok (cx_config c) \<and> distinct (cx_active c) \<and>
        (\<forall>p\<in>set (cx_active c). b_sess w p \<noteq> None))"

definition answered_once :: "nat set \<Rightarrow> bsf_world \<Rightarrow> bool" where
  "answered_once E w \<longleftrightarrow>
     (\<forall>p. answer_count p (b_log w) \<le> 1 \<and> (b_sess w p \<noteq> None \<longrightarrow> p \<notin> E \<longrightarrow> answer_count p (b_log w) = 0))"

definition bsf_inv :: "nat set \<Rightarrow> bsf_world \<Rightarrow> bool" where
  "bsf_inv E w \<longleftrightarrow> below_next w \<and> sessions_own w \<and> bsf_context_ok w \<and> answered_once E w"

lemmas bsf_inv_defs = bsf_inv_def below_next_def sessions_own_def bsf_context_ok_def answered_once_def

lemma initial_bsf_inv: "bsf_inv {} initial_bsf"
  by (simp add: bsf_inv_defs initial_bsf_def owned_block_def dom_def)

named_theorems bsf_keeps

lemma inv_below: "bsf_inv E w \<Longrightarrow> b_next w \<le> p \<Longrightarrow>
    b_sess w p = None \<and> b_blocks w p = None \<and> b_xacts w p = None \<and> answer_count p (b_log w) = 0"
  by (simp add: bsf_inv_def below_next_def)

lemma sessions_own_cong:
  "b_sess w' = b_sess w \<Longrightarrow> b_blocks w' = b_blocks w \<Longrightarrow> sessions_own w' = sessions_own w"
  unfolding sessions_own_def owned_block_def by metis

lemma inv_log [bsf_keeps]:
  "bsf_inv E w \<Longrightarrow> (\<And>p. \<not> answers p a) \<Longrightarrow> bsf_inv E (bsf_log a w)"
  using sessions_own_cong [of "bsf_log a w" w]
  by (simp add: bsf_inv_def below_next_def bsf_context_ok_def answered_once_def bsf_log_def)

lemma inv_cache [bsf_keeps]:
  "bsf_inv E w \<Longrightarrow> bsf_inv E (on_context (\<lambda>c. c\<lparr>cx_cache := cache\<rparr>) w)"
  using sessions_own_cong [of "on_context (\<lambda>c. c\<lparr>cx_cache := cache\<rparr>) w" w]
  by (cases "b_ctx w")
    (simp_all add: bsf_inv_def below_next_def bsf_context_ok_def answered_once_def on_context_def)

lemma inv_xacts:
  assumes "bsf_inv E w" "b_next w \<le> n" "\<And>p. n \<le> p \<Longrightarrow> m p = None"
  shows "bsf_inv E (w\<lparr>b_xacts := m, b_next := n\<rparr>)"
  using assms sessions_own_cong [of "w\<lparr>b_xacts := m, b_next := n\<rparr>" w]
  by (simp add: bsf_inv_def below_next_def bsf_context_ok_def answered_once_def)

section \<open>Sessions\<close>

lemma sess_new_simps [simp]:
  "fst (bsf_client_sess_new w) = b_next w"
  "b_sess (snd (bsf_client_sess_new w)) = (b_sess w)(b_next w \<mapsto> empty_sess)"
  "b_next (snd (bsf_client_sess_new w)) = b_next w + 1"
  "b_blocks (snd (bsf_client_sess_new w)) = b_blocks w"
  "b_xacts (snd (bsf_client_sess_new w)) = b_xacts w"
  "b_log (snd (bsf_client_sess_new w)) = b_log w"
  "b_ctx (snd (bsf_client_sess_new w)) = map_option (\<lambda>c. c\<lparr>cx_active := cx_active c @ [b_next w]\<rparr>) (b_ctx w)"
  by (simp_all add: bsf_client_sess_new_def bsf_client_context_active_sessions_add_def put_sess_def
      on_context_def Let_def)

lemma inv_sess_new [bsf_keeps]:
  assumes "bsf_inv E w" shows "bsf_inv E (snd (bsf_client_sess_new w))"
proof -
  let ?w = "snd (bsf_client_sess_new w)"
  have fresh: "b_sess w (b_next w) = None" "answer_count (b_next w) (b_log w) = 0"
    using inv_below [OF assms] by auto
  have "owned_block ?w = owned_block w"
    using fresh(1) by (auto simp: owned_block_def empty_sess_def fun_eq_iff)
  then have "sessions_own ?w" using assms by (simp add: bsf_inv_def sessions_own_def)
  moreover have "bsf_context_ok ?w"
    using assms fresh(1) by (cases "b_ctx w") (auto simp: bsf_inv_def bsf_context_ok_def)
  moreover have "below_next ?w" "answered_once E ?w"
    using assms fresh(2) by (auto simp: bsf_inv_def below_next_def answered_once_def)
  ultimately show ?thesis by (simp add: bsf_inv_def)
qed

lemma free_ue_address_cases:
  assumes "free_ue_address p w = Some w'"
  obtains s where "b_sess w p = Some s" "bs_ue_address s = None" "w' = w"
  | s q where "b_sess w p = Some s" "bs_ue_address s = Some q"
      "w' = put_sess p (s\<lparr>bs_ue_address := None\<rparr>) (w\<lparr>b_blocks := (b_blocks w)(q := None)\<rparr>)"
  using assms by (auto simp: free_ue_address_def free_block_def split: bind_splits option.splits)

lemma inv_free_ue_address [bsf_keeps]:
  assumes "bsf_inv E w" "free_ue_address p w = Some w'"
  shows "bsf_inv E w'"
  using assms(2)
proof (cases rule: free_ue_address_cases)
  case (2 s q)
  have own: "owned_block w p = Some q" "owned_block w' = (owned_block w)(p := None)"
    using 2 by (auto simp: owned_block_def put_sess_def fun_eq_iff)
  have i: "\<forall>p q. owned_block w p = Some q \<longrightarrow> b_blocks w q \<noteq> None"
    "inj_on (owned_block w) (dom (owned_block w))"
    using assms(1) by (simp_all add: bsf_inv_def sessions_own_def)
  have other: "p' = p" if "owned_block w p' = Some q" for p'
    using inj_onD [OF i(2), of p' p] own(1) that by auto
  have "sessions_own w'"
    unfolding sessions_own_def own(2)
  proof
    show "\<forall>p' q'. ((owned_block w)(p := None)) p' = Some q' \<longrightarrow> b_blocks w' q' \<noteq> None"
      using i(1) other 2(3) by (auto simp: put_sess_def)
    show "inj_on ((owned_block w)(p := None)) (dom ((owned_block w)(p := None)))"
      using i(2) unfolding inj_on_def by (auto simp: dom_def)
  qed
  moreover have "below_next w'"
    using assms(1) 2 by (auto simp: bsf_inv_def below_next_def put_sess_def)
  moreover have "bsf_context_ok w'"
    using assms(1) 2 by (auto simp: bsf_inv_def bsf_context_ok_def put_sess_def split: option.splits)
  moreover have "answered_once E w'"
    using assms(1) 2 by (auto simp: bsf_inv_def answered_once_def put_sess_def)
  ultimately show ?thesis by (simp add: bsf_inv_def)
qed (use assms in simp)

lemma inv_active_remove:
  assumes "bsf_inv E w"
  shows "bsf_inv E (snd (bsf_client_context_active_sessions_remove p w))"
proof -
  let ?w = "snd (bsf_client_context_active_sessions_remove p w)"
  have "sessions_own ?w \<longleftrightarrow> sessions_own w"
    by (rule sessions_own_cong) (simp_all add: bsf_client_context_active_sessions_remove_def on_context_def)
  moreover have "bsf_context_ok ?w"
    using assms
    by (cases "b_ctx w")
      (auto simp: bsf_inv_def bsf_context_ok_def bsf_client_context_active_sessions_remove_def on_context_def
        dest: notin_set_remove1)
  ultimately show ?thesis
    using assms
    by (simp add: bsf_inv_def below_next_def answered_once_def bsf_client_context_active_sessions_remove_def
        on_context_def)
qed

lemma inv_sess_free:
  assumes "bsf_inv (insert p E) w" "bsf_client_sess_free p w = Some w'"
  shows "bsf_inv E w'"
proof -
  let ?w1 = "snd (bsf_client_context_active_sessions_remove p w)"
  obtain w2 where w2: "free_ue_address p ?w1 = Some w2" "w' = w2\<lparr>b_sess := (b_sess w2)(p := None)\<rparr>"
    using assms(2) by (auto simp: bsf_client_sess_free_def split: bind_splits)
  have i: "bsf_inv (insert p E) w2"
    using inv_free_ue_address [OF inv_active_remove [OF assms(1)] w2(1)] .
  obtain s where s: "b_sess w2 p = Some s" "bs_ue_address s = None" "b_ctx w2 = b_ctx ?w1"
    using w2(1) by (cases rule: free_ue_address_cases) (auto simp: put_sess_def)
  have "p \<notin> set (cx_active c)" if "b_ctx w2 = Some c" for c
    using assms(1) that s(3)
    by (auto simp: bsf_inv_def bsf_context_ok_def bsf_client_context_active_sessions_remove_def on_context_def)
  then have "bsf_context_ok w'" using i w2(2) by (auto simp: bsf_inv_def bsf_context_ok_def)
  moreover have "owned_block w' = owned_block w2"
    using s by (auto simp: owned_block_def w2(2) fun_eq_iff)
  then have "sessions_own w'" using i by (simp add: bsf_inv_def sessions_own_def w2(2))
  moreover have "below_next w'" "answered_once E w'"
    using i by (auto simp: bsf_inv_def below_next_def answered_once_def w2(2))
  ultimately show ?thesis by (simp add: bsf_inv_def)
qed

lemma bsf_inv_mono: "bsf_inv E w \<Longrightarrow> bsf_inv (insert p E) w"
  by (auto simp: bsf_inv_def answered_once_def)

lemma inv_sess_free' [bsf_keeps]: "bsf_inv E w \<Longrightarrow> bsf_client_sess_free p w = Some w' \<Longrightarrow> bsf_inv E w'"
  using bsf_inv_mono inv_sess_free by blast

lemma inv_put_sess:
  assumes "bsf_inv E w" "b_sess w p = Some s0" "bs_ue_address s = bs_ue_address s0"
  shows "bsf_inv E (put_sess p s w)"
proof -
  have "owned_block (put_sess p s w) = owned_block w"
    using assms(2,3) by (auto simp: owned_block_def put_sess_def fun_eq_iff)
  then have "sessions_own (put_sess p s w)"
    using assms(1) by (simp add: bsf_inv_def sessions_own_def put_sess_def)
  then show ?thesis
    using assms(1,2) by (auto simp: bsf_inv_def below_next_def bsf_context_ok_def answered_once_def put_sess_def)
qed

lemma inv_ue_address_set [bsf_keeps]:
  assumes "bsf_inv E w" "bsf_client_sess_ue_address_set p a w = Some w'"
  shows "bsf_inv E w'"
proof -
  obtain w1 s where w1: "free_ue_address p w = Some w1" "b_sess w1 p = Some s"
      "w' = (case a of None \<Rightarrow> w1 | Some a \<Rightarrow> put_sess p (s\<lparr>bs_ue_address := Some (b_next w1)\<rparr>)
                 (w1\<lparr>b_blocks := (b_blocks w1)(b_next w1 \<mapsto> a), b_next := b_next w1 + 1\<rparr>))"
    using assms(2) by (auto simp: bsf_client_sess_ue_address_set_def split: bind_splits)
  have i: "bsf_inv E w1" by (rule inv_free_ue_address [OF assms(1) w1(1)])
  show ?thesis
  proof (cases a)
    case None
    then show ?thesis using i w1(3) by simp
  next
    case (Some x)
    have fresh: "b_blocks w1 (b_next w1) = None" "b_sess w1 (b_next w1) = None"
      using inv_below [OF i] by auto
    have old: "\<forall>p q. owned_block w1 p = Some q \<longrightarrow> b_blocks w1 q \<noteq> None"
      "inj_on (owned_block w1) (dom (owned_block w1))"
      using i by (simp_all add: bsf_inv_def sessions_own_def)
    have o: "owned_block w' = (owned_block w1)(p \<mapsto> b_next w1)"
      by (auto simp: w1(3) Some owned_block_def put_sess_def fun_eq_iff)
    have nb: "owned_block w1 p' \<noteq> Some (b_next w1)" for p' using old(1) fresh(1) by metis
    have "sessions_own w'"
      unfolding sessions_own_def o
    proof
      show "\<forall>p' q. ((owned_block w1)(p \<mapsto> b_next w1)) p' = Some q \<longrightarrow> b_blocks w' q \<noteq> None"
        using old(1) by (auto simp: w1(3) Some put_sess_def)
      show "inj_on ((owned_block w1)(p \<mapsto> b_next w1)) (dom ((owned_block w1)(p \<mapsto> b_next w1)))"
        using old(2) nb unfolding inj_on_def dom_def by (auto; metis)
    qed
    moreover have "below_next w'" "bsf_context_ok w'" "answered_once E w'"
      using i w1(2) by (auto simp: bsf_inv_def below_next_def bsf_context_ok_def answered_once_def w1(3) Some put_sess_def)
    ultimately show ?thesis by (simp add: bsf_inv_def)
  qed
qed

lemma inv_callback_call:
  assumes "bsf_inv E w" "p \<notin> E" "bsf_client_sess_retrieve_callback_call env p b w = Some (r, w')"
  shows "bsf_inv (insert p E) w'"
proof -
  obtain s where s: "b_sess w p = Some s"
    using assms(3) by (auto simp: bsf_client_sess_retrieve_callback_call_def split: bind_splits)
  then have zero: "answer_count p (b_log w) = 0" "p < b_next w"
    using assms(1,2) inv_below [OF assms(1), of p] by (auto simp: bsf_inv_def answered_once_def not_less [symmetric])
  show ?thesis
  proof (cases "bs_callback s")
    case None
    then show ?thesis
      using assms s bsf_inv_mono by (auto simp: bsf_client_sess_retrieve_callback_call_def)
  next
    case (Some f)
    let ?w = "bsf_log (Bsf_callback p f b (bs_user_data s)) w"
    have "sessions_own ?w" using assms(1) sessions_own_cong [of ?w w] by (simp add: bsf_inv_def bsf_log_def)
    then have "bsf_inv (insert p E) ?w"
      using assms(1) zero
      by (auto simp: bsf_inv_def below_next_def bsf_context_ok_def answered_once_def bsf_log_def)
    then show ?thesis
      using assms(3) s Some
      by (auto simp: bsf_client_sess_retrieve_callback_call_def Let_def split: if_splits option.splits intro: inv_log)
  qed
qed

section \<open>Transactions\<close>

lemma inv_xact_remove [bsf_keeps]:
  "bsf_inv E w \<Longrightarrow> bsf_xact_remove x w = Some w' \<Longrightarrow> bsf_inv E w'"
  using inv_xacts [of E w "b_next w" "(b_xacts w)(x := None)"]
  by (auto simp: bsf_xact_remove_def inv_below split: bind_splits intro!: inv_log)

lemma inv_xact_add [bsf_keeps]:
  "bsf_inv E w \<Longrightarrow> bsf_inv E (snd (bsf_xact_add p w))"
  using inv_xacts [of E w "b_next w + 1" "(b_xacts w)(b_next w \<mapsto> p)"]
  by (simp add: bsf_xact_add_def inv_below)

lemma inv_discover_and_send [bsf_keeps]:
  assumes "bsf_inv E w" "bsf_client_sess_discover_and_send oc p w = Some (r, w')"
  shows "bsf_inv E w'"
  using assms inv_xact_add [OF assms(1), of p]
  by (auto simp: bsf_client_sess_discover_and_send_def split: bind_splits if_splits prod.splits
      intro!: inv_log dest: inv_xact_remove)

section \<open>Calls and events\<close>

lemma inv_local [bsf_keeps]:
  "bsf_inv E w \<Longrightarrow> bsf_client_local_process_event oc p ev w = Some (r, w') \<Longrightarrow> bsf_inv E w'"
  by (auto simp: bsf_client_local_process_event_def split: if_splits local_event.splits dest: inv_discover_and_send)

lemma inv_from_cache [bsf_keeps]:
  "bsf_inv E w \<Longrightarrow> bsf_client_pcf_bindings_from_cache now a w = Some (b, w') \<Longrightarrow> bsf_inv E w'"
  by (auto simp: bsf_client_pcf_bindings_from_cache_def split: option.splits intro: inv_cache)

lemma inv_add_binding [bsf_keeps]:
  "bsf_inv E w \<Longrightarrow> bsf_client_context_add_pcf_binding q b t w = Some (r, w') \<Longrightarrow> bsf_inv E w'"
  by (auto simp: bsf_client_context_add_pcf_binding_def split: option.splits bind_splits intro: inv_cache)

lemma inv_answer_from_cache [bsf_keeps]:
  "bsf_inv E w \<Longrightarrow> answer_from_cache env f d b w = Some (r, w') \<Longrightarrow> bsf_inv E w'"
  by (auto simp: answer_from_cache_def Let_def split: bind_splits if_splits intro!: inv_log)

lemma fill_sess_address: "fill_sess env a f d s = Some s' \<Longrightarrow> bs_ue_address s' = bs_ue_address s"
  by (auto simp: fill_sess_def bsf_client_sess_retrieve_callback_set_def
      bsf_client_sess_ipv4addr_set_from_sockaddr_def bsf_client_sess_ipv6prefix_set_from_sockaddr_def split: if_splits)

lemma inv_retrieve [bsf_keeps]:
  assumes "bsf_inv E w" "bsf_retrieve_pcf_binding_for_pdu_session env now pushed a f d w = Some (r, w')"
  shows "bsf_inv E w'"
proof -
  obtain b w1 where w1: "bsf_client_pcf_bindings_from_cache now a w = Some (b, w1)"
    using assms(2) by (auto simp: bsf_retrieve_pcf_binding_for_pdu_session_def split: bind_splits)
  then have i1: "bsf_inv E w1" using assms(1) by (rule inv_from_cache [rotated])
  show ?thesis
  proof (cases b)
    case (Some x)
    then show ?thesis
      using assms(2) w1 i1 by (auto simp: bsf_retrieve_pcf_binding_for_pdu_session_def dest: inv_answer_from_cache)
  next
    case None
    obtain p w2 where w2: "bsf_client_sess_new w1 = (p, w2)" by (cases "bsf_client_sess_new w1")
    then obtain w3 s s' where w3: "bsf_client_sess_ue_address_set p (Some a) w2 = Some w3" "b_sess w3 p = Some s"
        "fill_sess env a f d s = Some s'"
        "w' = snd (bsf_client_local_discover_and_send pushed p (put_sess p s' w3))"
      using assms(2) w1 None
      by (auto simp: bsf_retrieve_pcf_binding_for_pdu_session_def split: bind_splits)
    have "bsf_inv E w3"
      using inv_ue_address_set [OF _ w3(1)] inv_sess_new [OF i1] w2 by simp
    then have "bsf_inv E (put_sess p s' w3)"
      using inv_put_sess w3(2) fill_sess_address [OF w3(3)] by blast
    then show ?thesis
      by (auto simp: w3(4) bsf_client_local_discover_and_send_def intro: inv_log)
  qed
qed

lemma inv_end_sess:
  "bsf_inv (insert p E) w \<Longrightarrow> end_sess x p w = Some (r, w') \<Longrightarrow> bsf_inv E w'"
  by (auto simp: end_sess_def split: bind_splits dest: inv_xact_remove inv_sess_free)

lemma inv_answer_nothing [bsf_keeps]:
  "bsf_inv {} w \<Longrightarrow> answer_nothing env x p w = Some (r, w') \<Longrightarrow> bsf_inv {} w'"
  by (auto simp: answer_nothing_def split: bind_splits dest: inv_end_sess [OF inv_callback_call, rotated 2])

lemma inv_nf_instances [bsf_keeps]:
  "bsf_inv E w \<Longrightarrow> handle_nf_instances m resp x w = Some (r, w') \<Longrightarrow> bsf_inv E w'"
  by (auto simp: handle_nf_instances_def split: bind_splits if_splits intro!: inv_log)

lemma inv_pcf_bindings [bsf_keeps]:
  assumes "bsf_inv {} w" "handle_pcf_bindings env now resp x p w = Some (r, w')"
  shows "bsf_inv {} w'"
proof (cases "bp_status resp = 200 \<and> bp_full resp")
  case True
  then obtain q r1 w1 r2 w2 where w2:
      "bsf_client_context_add_pcf_binding q (bp_binding resp)
         (response_to_expiry_time (ev_ogs env) now (bp_headers resp)) w = Some (r1, w1)"
      "bsf_client_sess_retrieve_callback_call env p (bp_binding resp) w1 = Some (r2, w2)"
      "end_sess x p w2 = Some (r, w')"
    using assms(2) by (auto simp: handle_pcf_bindings_def split: bind_splits)
  have "bsf_inv {} w1" by (rule inv_add_binding [OF assms(1) w2(1)])
  then have "bsf_inv {p} w2" using inv_callback_call w2(2) by blast
  then show ?thesis using inv_end_sess w2(3) by blast
qed (use assms in \<open>auto simp: handle_pcf_bindings_def split: bind_splits if_splits dest: inv_answer_nothing\<close>)

lemma inv_process_event [bsf_keeps]:
  assumes "bsf_inv {} w" "bsf_process_event env now e w = Some (r, w')"
  shows "bsf_inv {} w'"
  using assms
  by (auto simp: bsf_process_event_def handle_bsf_response_def split: if_splits bsf_event.splits option.splits
      bind_splits prod.splits dest: inv_pcf_bindings inv_nf_instances inv_answer_nothing inv_local)

lemma inv_same_but_config [bsf_keeps]:
  assumes "bsf_inv E w" "same_but_config w w'"
  shows "bsf_inv E w'"
proof -
  have same: "b_sess w' = b_sess w" "b_blocks w' = b_blocks w" "b_xacts w' = b_xacts w" "b_next w' = b_next w"
    using assms(2) by (simp_all add: same_but_config_def)
  obtain as where as: "b_log w' = b_log w @ as" "\<forall>a\<in>set as. \<exists>s opt adv. a = Bsf_server_start s opt adv"
    using assms(2) by (auto simp: same_but_config_def)
  have "answer_count p as = 0" for p
    using as(2) by (auto simp: answer_count_def filter_empty_conv)
  then have count: "answer_count p (b_log w') = answer_count p (b_log w)" for p using as(1) by simp
  have "sessions_own w'" using sessions_own_cong [OF same(1,2)] assms(1) by (simp add: bsf_inv_def)
  moreover have "bsf_context_ok w'"
    using assms same(1) by (auto simp: bsf_inv_def bsf_context_ok_def same_but_config_def split: option.splits)
  ultimately show ?thesis
    using assms(1) by (simp add: bsf_inv_def below_next_def answered_once_def same count)
qed

lemma inv_context_init:
  "bsf_inv E w \<Longrightarrow> bsf_inv E (bsf_client_context_init w)"
  using sessions_own_cong [of "bsf_client_context_init w" w]
  by (simp add: bsf_inv_def below_next_def bsf_context_ok_def answered_once_def bsf_client_context_init_def)

lemma inv_validation [bsf_keeps]:
  assumes "bsf_inv E w" "bsf_client_context_validation oc w = Some (r, w')"
  shows "bsf_inv E w'"
proof -
  obtain p w1 where w1: "bsf_client_sess_new w = (p, w1)" by (cases "bsf_client_sess_new w")
  then have "bsf_inv E w1" using inv_sess_new [OF assms(1)] by simp
  then have "bsf_inv E w1" "bsf_inv E (snd (bsf_xact_add p w1))" using inv_xact_add by auto
  then show ?thesis
    using assms w1
    by (auto simp: bsf_client_context_validation_def Let_def split: bind_splits if_splits prod.splits intro!: inv_log)
qed

lemma inv_parse [bsf_keeps]:
  assumes "bsf_inv E w" "bsf_parse_config env oc local doc w = Some (r, w')"
  shows "bsf_inv E w'"
proof -
  let ?w = "if b_ctx w = None then bsf_client_context_init w else w"
  obtain kys w1 rv where w1: "fold_option (parse_root_key env local) kys ?w = Some w1"
      "bsf_client_context_validation oc w1 = Some (rv, w')"
    using assms(2) by (auto simp: bsf_parse_config_def split: bind_splits)
  have "bsf_inv E ?w" using assms(1) inv_context_init by simp
  then have "bsf_inv E w1" using same_but_config_roots [OF w1(1)] inv_same_but_config by blast
  then show ?thesis using w1(2) by (rule inv_validation)
qed

lemma inv_final [bsf_keeps]:
  assumes "bsf_inv E w" "bsf_client_context_final w = Some w'"
  shows "bsf_inv E w'"
proof (cases "b_ctx w")
  case (Some c)
  then obtain w1 where w1: "fold_option bsf_client_sess_free (cx_active c) w = Some w1" "w' = w1\<lparr>b_ctx := None\<rparr>"
    using assms(2) by (auto simp: bsf_client_context_final_def split: bind_splits)
  have "bsf_inv E w1"
    by (rule fold_option_inv [OF w1(1), of "bsf_inv E"]) (use assms(1) inv_sess_free' in blast)+
  then show ?thesis
    using sessions_own_cong [of w' w1]
    by (simp add: w1(2) bsf_inv_def below_next_def bsf_context_ok_def answered_once_def)
qed (use assms in \<open>simp add: bsf_client_context_final_def\<close>)

lemma inv_foreign [bsf_keeps]:
  assumes "bsf_inv E w"
  shows "bsf_inv E (foreign_xact w)" "bsf_inv E (foreign_remove x w)"
  using assms inv_xacts [OF assms, of "b_next w + 2" "(b_xacts w)(b_next w + 1 \<mapsto> b_next w)"]
    inv_xacts [OF assms, of "b_next w" "(b_xacts w)(x := None)"]
  by (auto simp: foreign_xact_def foreign_remove_def inv_below split: option.split)

lemma bsf_step_inv:
  assumes "bsf_step env l w = Some w'" "bsf_inv {} w"
  shows "bsf_inv {} w'"
proof -
  obtain now c where l: "l = (now, c)" by (cases l)
  show ?thesis
    using assms unfolding l by (cases c) (auto dest: bsf_keeps intro: inv_foreign)
qed

interpretation bsf: invariant_machine "bsf_step env" "bsf_inv {}" for env
  by unfold_locales (rule bsf_step_inv)

end
