(* ===== verification/Bsf_Cache_Dead.thy ===== *)
theory Bsf_Cache_Dead
  imports Bsf_Machine
begin

text \<open>
  What becomes of the keys of the cache: a session that stores a binding is freed right after,
  and its address, which is the key, with it.  So between two steps of the library the key of
  every entry is a block that was freed, and is never allocated again.
\<close>

definition cache_entries :: "bsf_world \<Rightarrow> cache_entry set" where
  "cache_entries w = (case b_ctx w of None \<Rightarrow> {} | Some c \<Rightarrow> set (cx_cache c))"

definition keys_dead :: "bsf_world \<Rightarrow> bool" where
  "keys_dead w \<longleftrightarrow> (\<forall>e\<in>cache_entries w. b_blocks w (ce_block e) = None \<and> ce_block e < b_next w)"

text \<open>A change that allocates only new blocks and adds no entry.\<close>

definition dead_stays :: "bsf_world \<Rightarrow> bsf_world \<Rightarrow> bool" where
  "dead_stays w w' \<longleftrightarrow> b_next w \<le> b_next w' \<and> cache_entries w' \<subseteq> cache_entries w \<and>
     (\<forall>q<b_next w. b_blocks w q = None \<longrightarrow> b_blocks w' q = None)"

named_theorems dead

lemma dead_stays_keys: "dead_stays w w' \<Longrightarrow> keys_dead w \<Longrightarrow> keys_dead w'"
  unfolding dead_stays_def keys_dead_def by fastforce

lemma dead_stays_refl [simp]: "dead_stays w w"
  by (simp add: dead_stays_def)

lemma dead_stays_trans: "dead_stays u v \<Longrightarrow> dead_stays v w \<Longrightarrow> dead_stays u w"
  unfolding dead_stays_def by fastforce

lemma dead_stays_same:
  "b_blocks w' = b_blocks w \<Longrightarrow> b_next w \<le> b_next w' \<Longrightarrow> cache_entries w' \<subseteq> cache_entries w \<Longrightarrow> dead_stays w w'"
  by (simp add: dead_stays_def)

lemma dead_log [simp]: "dead_stays w (bsf_log a w)"
  by (rule dead_stays_same) (simp_all add: bsf_log_def cache_entries_def)

lemma dead_log_trans [dead]: "dead_stays w u \<Longrightarrow> dead_stays w (bsf_log a u)"
  using dead_log dead_stays_trans by blast

lemma cache_entries_active [simp]:
  "cache_entries (snd (bsf_client_context_active_sessions_remove p w)) = cache_entries w"
  "cache_entries (snd (bsf_client_sess_new w)) = cache_entries w"
  by (simp_all add: cache_entries_def bsf_client_context_active_sessions_remove_def on_context_def split: option.split)

lemma dead_sess_new [simp]: "dead_stays w (snd (bsf_client_sess_new w))"
  by (rule dead_stays_same) simp_all

lemma dead_free_ue_address: "free_ue_address p w = Some w' \<Longrightarrow> dead_stays w w'"
  by (elim free_ue_address_cases) (auto simp: dead_stays_def put_sess_def cache_entries_def)

lemma dead_sess_free [dead]:
  assumes "bsf_client_sess_free p w = Some w'"
  shows "dead_stays w w'"
proof -
  let ?w1 = "snd (bsf_client_context_active_sessions_remove p w)"
  obtain w2 where "free_ue_address p ?w1 = Some w2" "w' = w2\<lparr>b_sess := (b_sess w2)(p := None)\<rparr>"
    using assms by (auto simp: bsf_client_sess_free_def split: bind_splits)
  then have "dead_stays ?w1 w2" "dead_stays w2 w'"
    by (auto intro: dead_free_ue_address dead_stays_same simp: cache_entries_def)
  moreover have "dead_stays w ?w1"
  proof (rule dead_stays_same)
    show "cache_entries ?w1 \<subseteq> cache_entries w" by simp
  qed (simp_all add: bsf_client_context_active_sessions_remove_def on_context_def)
  ultimately show ?thesis using dead_stays_trans by blast
qed

lemma dead_put_sess: "dead_stays w (put_sess p s w)"
  by (rule dead_stays_same) (simp_all add: put_sess_def cache_entries_def)

lemma dead_ue_address_set:
  assumes "bsf_client_sess_ue_address_set p a w = Some w'"
  shows "dead_stays w w'"
proof -
  obtain w1 where w1: "free_ue_address p w = Some w1" "dead_stays w1 w'"
    using assms
    by (auto simp: bsf_client_sess_ue_address_set_def dead_stays_def put_sess_def cache_entries_def
        split: bind_splits option.splits)
  then show ?thesis using dead_free_ue_address dead_stays_trans by blast
qed

lemma dead_callback_call [dead]:
  "bsf_client_sess_retrieve_callback_call env p b w = Some (r, w') \<Longrightarrow> dead_stays w w'"
  by (auto simp: bsf_client_sess_retrieve_callback_call_def Let_def split: bind_splits option.splits if_splits
      intro!: dead_log_trans)

lemma dead_xact_remove [dead]: "bsf_xact_remove x w = Some w' \<Longrightarrow> dead_stays w w'"
  by (auto simp: bsf_xact_remove_def split: bind_splits intro!: dead_log_trans dead_stays_same)
    (simp add: cache_entries_def)

lemma dead_xact_add: "bsf_xact_add p w = (x, w') \<Longrightarrow> dead_stays w w'"
  by (auto simp: bsf_xact_add_def cache_entries_def intro!: dead_stays_same)

lemma dead_discover_and_send:
  "bsf_client_sess_discover_and_send oc p w = Some (r, w') \<Longrightarrow> dead_stays w w'"
  by (auto simp: bsf_client_sess_discover_and_send_def split: bind_splits if_splits prod.splits
      dest!: dead_xact_add dead_xact_remove intro: dead_stays_trans dead_log_trans)

lemma dead_local [dead]:
  "bsf_client_local_process_event oc p ev w = Some (r, w') \<Longrightarrow> dead_stays w w'"
  by (auto simp: bsf_client_local_process_event_def split: if_splits local_event.splits dest: dead_discover_and_send)

lemma cache_find_subset:
  "pcf_bindings_cache_find blocks now k cache = Some (b, cache') \<Longrightarrow> set cache' \<subseteq> set cache"
  by (auto simp: pcf_bindings_cache_find_def split: bind_splits option.splits if_splits
      dest: set_remove1_subset [THEN subsetD])

lemma dead_from_cache:
  "bsf_client_pcf_bindings_from_cache now a w = Some (b, w') \<Longrightarrow> dead_stays w w'"
  by (auto simp: bsf_client_pcf_bindings_from_cache_def on_context_def cache_entries_def
      split: option.splits dest!: cache_find_subset intro!: dead_stays_same)

lemma dead_retrieve [dead]:
  assumes "bsf_retrieve_pcf_binding_for_pdu_session env now pushed a f d w = Some (r, w')"
  shows "dead_stays w w'"
proof -
  obtain b w1 where w1: "bsf_client_pcf_bindings_from_cache now a w = Some (b, w1)"
    using assms by (auto simp: bsf_retrieve_pcf_binding_for_pdu_session_def split: bind_splits)
  have d1: "dead_stays w w1" by (rule dead_from_cache [OF w1])
  show ?thesis
  proof (cases b)
    case (Some x)
    then show ?thesis
      using assms w1 d1
      by (auto simp: bsf_retrieve_pcf_binding_for_pdu_session_def answer_from_cache_def Let_def
          split: bind_splits if_splits intro!: dead_log_trans)
  next
    case None
    obtain p w2 where w2: "bsf_client_sess_new w1 = (p, w2)" by (cases "bsf_client_sess_new w1")
    then obtain w3 s' where w3: "bsf_client_sess_ue_address_set p (Some a) w2 = Some w3"
        "w' = snd (bsf_client_local_discover_and_send pushed p (put_sess p s' w3))"
      using assms w1 None
      by (auto simp: bsf_retrieve_pcf_binding_for_pdu_session_def split: bind_splits)
    have "dead_stays w1 w2" using dead_sess_new [of w1] w2 by simp
    then have "dead_stays w (put_sess p s' w3)"
      using d1 dead_ue_address_set [OF w3(1)] dead_put_sess dead_stays_trans by meson
    then show ?thesis by (auto simp: w3(2) bsf_client_local_discover_and_send_def intro: dead_log_trans)
  qed
qed

lemma dead_end_sess: "end_sess x p w = Some (r, w') \<Longrightarrow> dead_stays w w'"
  by (auto simp: end_sess_def split: bind_splits dest!: dead_xact_remove dead_sess_free intro: dead_stays_trans)

lemma dead_answer_nothing [dead]: "answer_nothing env x p w = Some (r, w') \<Longrightarrow> dead_stays w w'"
  by (auto simp: answer_nothing_def split: bind_splits dest!: dead_callback_call dead_end_sess intro: dead_stays_trans)

section \<open>Storing a binding\<close>

text \<open>The events are printed first, so a cache with a dead key stops the handler there.\<close>

lemma log_debug_dead:
  assumes "keys_dead w" "bsf_client_context_log_debug w \<noteq> None"
  shows "cache_entries w = {}"
  using assms
  by (fastforce simp: keys_dead_def cache_entries_def bsf_client_context_log_debug_def
      pcf_bindings_cache_log_debug_def keys_readable_def split: option.splits bind_splits if_splits)

lemma end_sess_frees:
  assumes "end_sess x p w = Some (r, w')" "b_sess w p = Some s" "bs_ue_address s = Some q"
  shows "b_blocks w' q = None"
  using assms
  by (auto simp: end_sess_def bsf_xact_remove_def bsf_client_sess_free_def bsf_log_def put_sess_def
      bsf_client_context_active_sessions_remove_def on_context_def split: bind_splits elim!: free_ue_address_cases)

lemma dead_pcf_bindings [dead]:
  assumes "handle_pcf_bindings env now resp x p w = Some (r, w')" "keys_dead w" "bsf_inv {} w"
  shows "keys_dead w'"
proof (cases "bp_status resp = 200 \<and> bp_full resp")
  case True
  then obtain s r1 w1 r2 w2 where w2: "bsf_client_context_log_debug w \<noteq> None" "b_sess w p = Some s"
      "bsf_client_context_add_pcf_binding (bs_ue_address s) (bp_binding resp)
         (response_to_expiry_time (ev_ogs env) now (bp_headers resp)) w = Some (r1, w1)"
      "bsf_client_sess_retrieve_callback_call env p (bp_binding resp) w1 = Some (r2, w2)"
      "end_sess x p w2 = Some (r, w')"
    using assms(1) unfolding handle_pcf_bindings_def by (clarsimp split: bind_splits)
  show ?thesis
  proof (cases "b_ctx w")
    case None
    then have "w1 = w" using w2(3) by (simp add: bsf_client_context_add_pcf_binding_def)
    then show ?thesis
      using assms(2) w2(4,5) dead_callback_call dead_end_sess dead_stays_trans dead_stays_keys by blast
  next
    case (Some c)
    then have "cx_cache c = []" using log_debug_dead [OF assms(2) w2(1)] by (simp add: cache_entries_def)
    then obtain q k b where q: "bs_ue_address s = Some q" "b_blocks w q = Some k"
        "w1 = on_context (\<lambda>c. c\<lparr>cx_cache := [\<lparr>ce_block = q, ce_key = k, ce_binding = b,
            ce_expires = response_to_expiry_time (ev_ogs env) now (bp_headers resp)\<rparr>]\<rparr>) w"
      using w2(3) Some
      by (auto simp: bsf_client_context_add_pcf_binding_def pcf_bindings_cache_add_def split: bind_splits)
    have sess: "b_sess w2 p = Some s"
      using w2(2,4) q(3)
      by (auto simp: bsf_client_sess_retrieve_callback_call_def on_context_def bsf_log_def Let_def
          split: bind_splits option.splits if_splits)
    have "cache_entries w' \<subseteq> cache_entries w1" "b_next w1 \<le> b_next w'"
      using dead_stays_trans [OF dead_callback_call [OF w2(4)] dead_end_sess [OF w2(5)]]
      by (simp_all add: dead_stays_def)
    moreover have "q < b_next w"
      using inv_below [OF assms(3), of q] q(2) by (auto simp: not_less [symmetric])
    moreover have "\<forall>e\<in>cache_entries w1. ce_block e = q" "b_next w1 = b_next w"
      using Some by (auto simp: q(3) cache_entries_def on_context_def)
    ultimately show ?thesis
      using end_sess_frees [OF w2(5) sess q(1)] unfolding keys_dead_def by auto
  qed
next
  case False
  then have "dead_stays w w'"
    using assms(1) by (auto simp: handle_pcf_bindings_def split: bind_splits if_splits dest: dead_answer_nothing)
  then show ?thesis using assms(2) by (rule dead_stays_keys)
qed

section \<open>Every step\<close>

lemma dead_process_event:
  assumes "bsf_process_event env now e w = Some (r, w')" "keys_dead w" "bsf_inv {} w"
  shows "keys_dead w'"
  using assms
  by (auto simp: bsf_process_event_def handle_bsf_response_def handle_nf_instances_def
      split: if_splits bsf_event.splits option.splits bind_splits prod.splits
      dest: dead_pcf_bindings intro: dead_stays_keys dead_answer_nothing dead_local dead_log)

lemma dead_same_but_config:
  assumes "same_but_config w w'" shows "dead_stays w w'"
  using assms
  by (auto simp: same_but_config_def cache_entries_def split: option.splits intro!: dead_stays_same)

lemma dead_parse:
  assumes "bsf_parse_config env oc local doc w = Some (r, w')"
  shows "dead_stays w w'"
proof -
  let ?w = "if b_ctx w = None then bsf_client_context_init w else w"
  obtain kys w1 rv where w1: "fold_option (parse_root_key env local) kys ?w = Some w1"
      "bsf_client_context_validation oc w1 = Some (rv, w')"
    using assms by (auto simp: bsf_parse_config_def split: bind_splits)
  obtain p w2 where w2: "bsf_client_sess_new w1 = (p, w2)" by (cases "bsf_client_sess_new w1")
  have "dead_stays w ?w"
    by (rule dead_stays_same) (auto simp: bsf_client_context_init_def cache_entries_def pcf_bindings_cache_init_def)
  moreover have "dead_stays ?w w1" by (rule dead_same_but_config [OF same_but_config_roots [OF w1(1)]])
  moreover have "dead_stays w1 w2" using dead_sess_new [of w1] w2 by simp
  then have "dead_stays w1 w'"
    using w1(2) w2
    by (auto simp: bsf_client_context_validation_def Let_def split: bind_splits if_splits prod.splits
        dest!: dead_xact_add intro!: dead_log_trans intro: dead_stays_trans)
  ultimately show ?thesis using dead_stays_trans by blast
qed

lemma dead_final:
  assumes "bsf_client_context_final w = Some w'"
  shows "dead_stays w w'"
proof (cases "b_ctx w")
  case (Some c)
  then obtain w1 where w1: "fold_option bsf_client_sess_free (cx_active c) w = Some w1" "w' = w1\<lparr>b_ctx := None\<rparr>"
    using assms by (auto simp: bsf_client_context_final_def split: bind_splits)
  have "dead_stays w w1"
    by (rule fold_option_inv [OF w1(1), of "dead_stays w"]) (auto intro: dead_stays_trans dead_sess_free)
  then show ?thesis by (rule dead_stays_trans) (simp add: w1(2) dead_stays_def cache_entries_def)
qed (use assms in \<open>simp add: bsf_client_context_final_def\<close>)

lemma dead_foreign: "dead_stays w (foreign_xact w)" "dead_stays w (foreign_remove x w)"
  by (auto simp: dead_stays_def foreign_xact_def foreign_remove_def cache_entries_def split: option.split)

lemma dead_step:
  assumes "bsf_step env l w = Some w'" "bsf_inv {} w \<and> keys_dead w"
  shows "bsf_inv {} w' \<and> keys_dead w'"
proof
  show "bsf_inv {} w'" using bsf_step_inv assms by blast
  obtain now c where l: "l = (now, c)" by (cases l)
  show "keys_dead w'"
  proof (cases c)
    case (Bsf_event e)
    then show ?thesis using assms l dead_process_event by auto
  next
    case Foreign_xact
    then have "w' = foreign_xact w" using assms(1) l by simp
    then show ?thesis using assms(2) dead_foreign dead_stays_keys by blast
  next
    case (Foreign_remove x)
    then have "w' = foreign_remove x w" using assms(1) l by simp
    then show ?thesis using assms(2) dead_foreign dead_stays_keys by blast
  next
    case (Bsf_parse oc local doc)
    then obtain r where "bsf_parse_config env oc local doc w = Some (r, w')" using assms(1) l by auto
    then show ?thesis using assms(2) dead_parse dead_stays_keys by blast
  next
    case (Bsf_retrieve pushed a f d)
    then obtain r where "bsf_retrieve_pcf_binding_for_pdu_session env now pushed a f d w = Some (r, w')"
      using assms(1) l by auto
    then show ?thesis using assms(2) dead_retrieve dead_stays_keys by blast
  next
    case Bsf_terminate
    then have "bsf_client_context_final w = Some w'" using assms(1) l by simp
    then show ?thesis using assms(2) dead_final dead_stays_keys by blast
  qed
qed

interpretation bsf_dead: invariant_machine "bsf_step env" "\<lambda>w. bsf_inv {} w \<and> keys_dead w" for env
  by unfold_locales (rule dead_step)

end
