(* ===== verification/Bsf_Spec.thy ===== *)
theory Bsf_Spec
  imports Bsf_Cache_Dead Example_Api
begin

text \<open>
  What the BSF library does for its application: a retrieval is answered once, from the cache,
  by the BSF or by a timeout; and where it does not.  The theorems about runs rest on the
  interpretations of \<open>Bsf_Machine\<close> and \<open>Bsf_Cache_Dead\<close>.
\<close>

section \<open>Example\<close>

definition example_env :: bsf_env where
  "example_env =
     \<lparr>ev_ogs = example_api, ev_ipstr = (\<lambda>a. ''10.45.0.2''), ev_callback = (\<lambda>f b d. True),
      ev_addaddrinfo = (\<lambda>f h p. Some [\<lparr>sa_family = Af_inet, sa_addr = [127, 0, 0, 1], sa_port = p\<rparr>]),
      ev_probe = (\<lambda>d p. Some ([], [])), ev_sockopt_ok = (\<lambda>y. True), ev_http_port = 80, ev_max_hostnames = 16\<rparr>"

definition example_block :: "string \<Rightarrow> yaml" where
  "example_block host = Y_map [(''addr'', Y_scalar (Some host))]"

definition example_document :: yaml where
  "example_document =
     Y_map [(''bsf'', Y_map [(''sbi'', example_block ''bsf.example''),
                            (''notificationListener'', example_block ''127.0.0.1'')])]"

definition discovery_document :: yaml where
  "discovery_document =
     Y_map [(''bsf'', Y_map [(''notificationListener'', example_block ''127.0.0.1''),
                            (''discovery'', Y_scalar (Some ''yes''))])]"

definition ue :: sockaddr where
  "ue = \<lparr>sa_family = Af_inet, sa_addr = [10, 45, 0, 2], sa_port = 0\<rparr>"

definition good_response :: "pcf_binding \<Rightarrow> (string \<times> string) list \<Rightarrow> bsf_response" where
  "good_response b hs =
     \<lparr>bp_status = 200,
      bp_header = (True, \<lparr>bm_service = Some ''nbsf-management'', bm_resource0 = Some ''pcf-bindings'', bm_method = Some ''GET''\<rparr>),
      bp_full = True, bp_binding = Some b, bp_headers = hs, bp_instance = False\<rparr>"

lemmas parse_defs = bsf_parse_config_def parse_root_key_def parse_bsf_key_def parse_server_config_def
  parse_server_key_def add_hosts_def finish_block_def listen_addresses_def server_add_def
  notification_listener_add_def notification_listener_start_def start_server_def
  bsf_client_context_init_def on_context_def bsf_log_def empty_block_def

lemmas config_defs = bsf_configuration_init_def bsf_configuration_server_add_def
  bsf_configuration_notification_listeners_add_def connection_addr_new_def
  bsf_configuration_notification_listeners_exist_def bsf_configuration_servers_exist_def
  bsf_configuration_get_discover_flag_def bsf_configuration_set_discover_flag_def

text \<open>The state after the example is configured.\<close>

definition configured :: bsf_world where
  "configured = snd (the (bsf_parse_config example_env Discover_sends ''bsf'' example_document initial_bsf))"

lemma configured_eq:
  "bsf_parse_config example_env Discover_sends ''bsf'' example_document initial_bsf = Some (False, configured)"
  "\<exists>c. b_ctx configured = Some c \<and> cx_cache c = [] \<and> cx_active c = [] \<and> config_ok (cx_config c) \<and>
     server_list (cx_config c) = [\<lparr>ca_addr = Some ''bsf.example'', ca_port = 80\<rparr>]"
  "b_next configured = 0" "b_xacts configured = (\<lambda>_. None)"
proof -
  have p: "bsf_parse_config example_env Discover_sends ''bsf'' example_document initial_bsf = Some (False, w) \<Longrightarrow>
      configured = w" for w
    by (simp add: configured_def)
  have "\<exists>w c. bsf_parse_config example_env Discover_sends ''bsf'' example_document initial_bsf = Some (False, w) \<and>
      b_ctx w = Some c \<and> cx_cache c = [] \<and> cx_active c = [] \<and> config_ok (cx_config c) \<and>
      server_list (cx_config c) = [\<lparr>ca_addr = Some ''bsf.example'', ca_port = 80\<rparr>] \<and>
      b_next w = 0 \<and> b_xacts w = (\<lambda>_. None)"
    by (simp add: parse_defs config_defs example_document_def example_block_def initial_bsf_def example_env_def
        bsf_client_context_validation_def bool_of_int_def ogs_ok_def pcf_bindings_cache_init_def
        config_ok_def server_list_def)
  then show "bsf_parse_config example_env Discover_sends ''bsf'' example_document initial_bsf = Some (False, configured)"
    "\<exists>c. b_ctx configured = Some c \<and> cx_cache c = [] \<and> cx_active c = [] \<and> config_ok (cx_config c) \<and>
       server_list (cx_config c) = [\<lparr>ca_addr = Some ''bsf.example'', ca_port = 80\<rparr>]"
    "b_next configured = 0" "b_xacts configured = (\<lambda>_. None)"
    using p by auto
qed

lemma configured_reachable: "reachable (bsf_step example_env) initial_bsf configured"
  by (rule reachable_step [OF reachable_start, where l = "(0, Bsf_parse Discover_sends ''bsf'' example_document)"])
    (simp add: configured_eq(1))

section \<open>At most one answer\<close>

text \<open>C3: In every state the library can reach, whatever the application calls and whatever events arrive in
  whatever order, no retrieval has been answered through its callback more than once, a session
  that is still alive has not been answered, and every session on the list of active sessions is
  an allocated one.\<close>

theorem bsf_answered_at_most_once:
  assumes "reachable (bsf_step env) initial_bsf w"
  shows "answer_count p (b_log w) \<le> 1 \<and> (b_sess w p \<noteq> None \<longrightarrow> answer_count p (b_log w) = 0) \<and>
         (bsf_client_context_active_sessions_exists p w \<longrightarrow> b_sess w p \<noteq> None)"
  using bsf.reachable_inv [OF assms initial_bsf_inv]
  by (auto simp: bsf_inv_def answered_once_def bsf_context_ok_def bsf_client_context_active_sessions_exists_def
      split: option.splits)

section \<open>The way of a retrieval\<close>

definition asked_sess :: "bsf_env \<Rightarrow> sockaddr \<Rightarrow> nat \<Rightarrow> nat option \<Rightarrow> nat option \<Rightarrow> bsf_sess" where
  "asked_sess env a q f d =
     \<lparr>bs_ue_address = Some q,
      bs_ipv4addr = (if sa_family a = Af_inet then Some (ev_ipstr env a) else None),
      bs_ipv6prefix = (if sa_family a = Af_inet then None else Some (ev_ipstr env a @ ''/128'')),
      bs_callback = f, bs_user_data = d\<rparr>"

text \<open>A state in which the library is configured, caches nothing and can print its sessions.\<close>

definition ready :: "bsf_world \<Rightarrow> bool" where
  "ready w \<longleftrightarrow> (\<exists>c. b_ctx w = Some c \<and> cx_cache c = []) \<and> bsf_client_context_log_debug w \<noteq> None"

lemma log_debug_eq:
  assumes "b_ctx w = Some c"
  shows "bsf_client_context_log_debug w \<noteq> None \<longleftrightarrow>
    bsf_configuration_log_debug (cx_config c) \<noteq> None \<and> keys_readable (b_blocks w) (cx_cache c) \<and>
    (\<forall>p\<in>set (cx_active c). sess_address p w \<noteq> None)"
  using assms
  by (simp add: bsf_client_context_log_debug_def pcf_bindings_cache_log_debug_def active_sessions_log_debug_def
      bsf_client_sess_log_debug_def list_all_iff split: Option.bind_split)

lemma ready_iff:
  assumes "bsf_inv {} w"
  shows "ready w \<longleftrightarrow> (\<exists>c. b_ctx w = Some c \<and> cx_cache c = [] \<and> (\<forall>p\<in>set (cx_active c). sess_address p w \<noteq> None))"
proof -
  have "bsf_configuration_log_debug (cx_config c) \<noteq> None" if "b_ctx w = Some c" for c
    using assms that
    by (auto simp: bsf_inv_def bsf_context_ok_def config_ok_def bsf_configuration_log_debug_def list_all_iff)
  then show ?thesis using log_debug_eq [of w] by (auto simp: ready_def keys_readable_def)
qed

text \<open>The three worlds a retrieval goes through: asked, sent, and answered.\<close>

definition world_asked :: "bsf_env \<Rightarrow> sockaddr \<Rightarrow> nat option \<Rightarrow> nat option \<Rightarrow> bsf_world \<Rightarrow> bsf_world" where
  "world_asked env a f d w =
     w\<lparr>b_ctx := map_option (\<lambda>c. c\<lparr>cx_active := cx_active c @ [b_next w]\<rparr>) (b_ctx w),
       b_sess := (b_sess w)(b_next w \<mapsto> asked_sess env a (b_next w + 1) f d),
       b_blocks := (b_blocks w)(b_next w + 1 \<mapsto> a), b_next := b_next w + 2, b_log := b_log w @ [Bsf_queued (b_next w)]\<rparr>"

lemma retrieve_asks:
  assumes "bsf_inv {} w" "ready w" "sa_family a \<in> {Af_inet, Af_inet6}"
  shows "bsf_retrieve_pcf_binding_for_pdu_session env now True a f d w = Some (True, world_asked env a f d w)"
proof -
  obtain c where c: "b_ctx w = Some c" "cx_cache c = []" "\<forall>p\<in>set (cx_active c). sess_address p w \<noteq> None"
    using assms(2) unfolding ready_iff [OF assms(1)] by blast
  have cache: "bsf_client_pcf_bindings_from_cache now a w = Some (None, w)"
    using c(1,2) by (cases c; cases w) (auto simp: bsf_client_pcf_bindings_from_cache_def pcf_bindings_cache_find_def on_context_def)
  obtain p w2 where w2: "bsf_client_sess_new w = (p, w2)" by (cases "bsf_client_sess_new w")
  have p: "p = b_next w" using sess_new_simps(1) [of w] w2 by simp
  obtain w3 s where w3: "bsf_client_sess_ue_address_set p (Some a) w2 = Some w3" "b_sess w3 p = Some s"
      "bs_ipv4addr s = None" "bs_ipv6prefix s = None" "bs_ue_address s = Some (p + 1)"
      "w3 = put_sess p s (w2\<lparr>b_blocks := (b_blocks w2)(p + 1 \<mapsto> a), b_next := p + 2\<rparr>)"
    using sess_new_simps(2-) [of w] w2 p
    by (auto simp: bsf_client_sess_ue_address_set_def free_ue_address_def empty_sess_def put_sess_def)
  have fill: "fill_sess env a f d s = Some (asked_sess env a (p + 1) f d)"
    using assms(3) w3(3-5)
    by (cases s) (auto simp: fill_sess_def asked_sess_def bsf_client_sess_retrieve_callback_set_def
        bsf_client_sess_ipv4addr_set_from_sockaddr_def bsf_client_sess_ipv6prefix_set_from_sockaddr_def)
  let ?w4 = "put_sess p (asked_sess env a (p + 1) f d) w3"
  have eq: "bsf_log (Bsf_queued p) ?w4 = world_asked env a f d w"
    using sess_new_simps [of w] w2 p
    by (simp add: w3(6) world_asked_def put_sess_def bsf_log_def)
  have inv: "bsf_inv {} ?w4"
    using inv_put_sess [OF inv_ue_address_set [OF _ w3(1)] w3(2)] inv_sess_new [OF assms(1)] w2
      fill_sess_address [OF fill] by simp
  have "sess_address q ?w4 \<noteq> None" if q: "sess_address q w \<noteq> None" for q
  proof -
    have "q \<noteq> b_next w" "b_blocks w (b_next w + 1) = None"
      using q inv_below [OF assms(1)] by (auto simp: sess_address_def split: bind_splits)
    then show ?thesis
      using q sess_new_simps(2-4) [of w] w2 p
      by (auto simp: sess_address_def put_sess_def w3(6) split: bind_splits)
  qed
  moreover have "sess_address p ?w4 \<noteq> None"
    by (simp add: sess_address_def put_sess_def asked_sess_def w3(6))
  ultimately have "ready ?w4"
    unfolding ready_iff [OF inv] using c sess_new_simps(7) [of w] w2 p
    by (auto simp: put_sess_def w3(6))
  then show ?thesis
    using cache w2 w3(1,2) fill eq
    by (auto simp: bsf_retrieve_pcf_binding_for_pdu_session_def bsf_client_local_discover_and_send_def ready_def)
qed

lemma world_asked_simps [simp]:
  "b_next (world_asked env a f d w) = b_next w + 2" "b_xacts (world_asked env a f d w) = b_xacts w"
  "b_sess (world_asked env a f d w) (b_next w) = Some (asked_sess env a (b_next w + 1) f d)"
  "b_log (world_asked env a f d w) = b_log w @ [Bsf_queued (b_next w)]"
  by (simp_all add: world_asked_def)

lemma local_event_sends:
  assumes "b_ctx w = Some c" "p \<in> set (cx_active c)" "b_sess w p = Some s"
  shows "bsf_process_event env now (Bsf_local p Local_discover_and_send Discover_sends) w =
           Some (True, bsf_log (Bsf_request (b_next w) (nbsf_management_pcf_binding_build s)) (snd (bsf_xact_add p w)))"
  using assms
  by (simp add: bsf_process_event_def bsf_client_local_process_event_def bsf_client_sess_discover_and_send_def
      bsf_client_context_active_sessions_exists_def bsf_xact_add_def)

lemma good_response_simps [simp]:
  "bp_header (good_response b hs) =
     (True, \<lparr>bm_service = Some ''nbsf-management'', bm_resource0 = Some ''pcf-bindings'', bm_method = Some ''GET''\<rparr>)"
  "bp_status (good_response b hs) = 200" "bp_full (good_response b hs)"
  "bp_binding (good_response b hs) = Some b" "bp_headers (good_response b hs) = hs"
  by (simp_all add: good_response_def)

lemma good_response_event:
  "our_sess x w = Some p \<Longrightarrow> b_ctx w \<noteq> None \<Longrightarrow>
     bsf_process_event env now (Bsf_client x (Some (good_response b hs))) w =
     handle_pcf_bindings env now (good_response b hs) x p w"
  by (auto simp: bsf_process_event_def handle_bsf_response_def switch_string_def)

text \<open>The end of a session that is active and has its address.\<close>

lemma end_sess_eq:
  assumes "b_xacts w x = Some p" "b_sess w p = Some s" "bs_ue_address s = Some q" "b_blocks w q \<noteq> None"
  shows "\<exists>w'. end_sess x p w = Some (True, w') \<and> b_log w' = b_log w @ [Bsf_xact_remove x] \<and>
           b_sess w' = (b_sess w)(p := None) \<and> b_blocks w' = (b_blocks w)(q := None) \<and>
           b_xacts w' = (b_xacts w)(x := None) \<and>
           b_ctx w' = map_option (\<lambda>c. c\<lparr>cx_active := remove1 p (cx_active c)\<rparr>) (b_ctx w)"
  using assms
  by (auto simp: end_sess_def bsf_xact_remove_def bsf_client_sess_free_def free_ue_address_def free_block_def
      bsf_client_context_active_sessions_remove_def on_context_def put_sess_def bsf_log_def)

lemma callback_call_eq:
  assumes "b_sess w p = Some s" "bs_callback s = Some f"
  shows "\<exists>r w'. bsf_client_sess_retrieve_callback_call env p b w = Some (r, w') \<and> b_sess w' = b_sess w \<and>
           b_blocks w' = b_blocks w \<and> b_xacts w' = b_xacts w \<and> b_ctx w' = b_ctx w \<and>
           b_log w' = b_log w @ Bsf_callback p f b (bs_user_data s) #
             (if ev_callback env f b (bs_user_data s) \<or> b = None then [] else [Bsf_binding_free (the b)])"
  using assms
  by (auto simp: bsf_client_sess_retrieve_callback_call_def bsf_log_def Let_def split: option.split)

lemma retrieval_run:
  assumes "bsf_inv {} w" "ready w" "sa_family a \<in> {Af_inet, Af_inet6}"
  shows "\<exists>w'. run (bsf_step env)
      [(t1, Bsf_retrieve True a (Some f) d),
       (t2, Bsf_event (Bsf_local (b_next w) Local_discover_and_send Discover_sends)),
       (t3, Bsf_event (Bsf_client (b_next w + 2) (Some (good_response b hs))))] w = Some w' \<and>
    b_log w' = b_log w @
      [Bsf_queued (b_next w),
       Bsf_request (b_next w + 2)
         \<lparr>br_method = ''GET'', br_service = ''nbsf-management'', br_version = ''v1'', br_resource = ''pcf-bindings'',
          br_ipv4addr = (if sa_family a = Af_inet then Some (ev_ipstr env a) else None),
          br_ipv6prefix = (if sa_family a = Af_inet then None else Some (ev_ipstr env a @ ''/128''))\<rparr>,
       Bsf_callback (b_next w) f (Some b) d] @
      (if ev_callback env f (Some b) d then [] else [Bsf_binding_free b]) @ [Bsf_xact_remove (b_next w + 2)] \<and>
    b_sess w' = (b_sess w)(b_next w := None) \<and> b_blocks w' = (b_blocks w)(b_next w + 1 := None) \<and>
    b_xacts w' = (b_xacts w)(b_next w + 2 := None) \<and>
    cache_entries w' = {\<lparr>ce_block = b_next w + 1, ce_key = a, ce_binding = b,
      ce_expires = response_to_expiry_time (ev_ogs env) t3 hs\<rparr>}"
proof -
  let ?p = "b_next w" and ?s = "asked_sess env a (b_next w + 1) (Some f) d"
  let ?w1 = "world_asked env a (Some f) d w"
  let ?x = "?p + 2" and ?req = "Bsf_request (?p + 2) (nbsf_management_pcf_binding_build ?s)"
  let ?w2 = "bsf_log ?req (snd (bsf_xact_add ?p ?w1))"
  note inv = assms(1)
  obtain c where c: "b_ctx w = Some c" "cx_cache c = []" "\<forall>p\<in>set (cx_active c). sess_address p w \<noteq> None"
    using assms(2) unfolding ready_iff [OF inv] by blast
  let ?c = "c\<lparr>cx_active := cx_active c @ [?p]\<rparr>"
  have ask: "bsf_step env (t1, Bsf_retrieve True a (Some f) d) w = Some ?w1"
    using retrieve_asks [OF inv assms(2,3)] by simp
  have ctx1: "b_ctx ?w1 = Some ?c" by (simp add: world_asked_def c(1))
  have send: "bsf_step env (t2, Bsf_event (Bsf_local ?p Local_discover_and_send Discover_sends)) ?w1 = Some ?w2"
    using local_event_sends [OF ctx1, of ?p ?s env t2] by simp
  have inv2: "bsf_inv {} ?w2"
    using bsf_step_inv [OF send bsf_step_inv [OF ask inv]] .
  have addr: "sess_address q ?w2 \<noteq> None" if "sess_address q w \<noteq> None" for q
  proof -
    have "q \<noteq> ?p" "b_blocks w (?p + 1) = None"
      using that inv_below [OF inv] by (auto simp: sess_address_def split: bind_splits)
    then show ?thesis
      using that by (auto simp: sess_address_def bsf_log_def bsf_xact_add_def world_asked_def split: bind_splits)
  qed
  have "sess_address ?p ?w2 \<noteq> None"
    by (simp add: sess_address_def bsf_log_def bsf_xact_add_def world_asked_def asked_sess_def)
  then have printable: "bsf_client_context_log_debug ?w2 = Some ()"
    using ready_iff [OF inv2] addr c ctx1 by (auto simp: ready_def bsf_log_def bsf_xact_add_def)
  let ?e = "response_to_expiry_time (ev_ogs env) t3 hs"
  let ?w3 = "on_context (\<lambda>c. c\<lparr>cx_cache := [\<lparr>ce_block = ?p + 1, ce_key = a, ce_binding = b, ce_expires = ?e\<rparr>]\<rparr>) ?w2"
  have stored: "bsf_client_context_add_pcf_binding (bs_ue_address ?s) (Some b) ?e ?w2 = Some (True, ?w3)"
    using c by (simp add: bsf_client_context_add_pcf_binding_def asked_sess_def bsf_log_def bsf_xact_add_def
        world_asked_def pcf_bindings_cache_add_def)
  obtain r w4 where w4: "bsf_client_sess_retrieve_callback_call env ?p (Some b) ?w3 = Some (r, w4)"
      "b_sess w4 = b_sess ?w3" "b_blocks w4 = b_blocks ?w3" "b_xacts w4 = b_xacts ?w3" "b_ctx w4 = b_ctx ?w3"
      "b_log w4 = b_log ?w3 @ Bsf_callback ?p f (Some b) d #
         (if ev_callback env f (Some b) d \<or> Some b = None then [] else [Bsf_binding_free (the (Some b))])"
    using callback_call_eq [of ?w3 ?p ?s f env "Some b"]
    by (auto simp: asked_sess_def on_context_def bsf_log_def bsf_xact_add_def)
  obtain w' where w': "end_sess ?x ?p w4 = Some (True, w')" "b_log w' = b_log w4 @ [Bsf_xact_remove ?x]"
      "b_sess w' = (b_sess w4)(?p := None)" "b_blocks w' = (b_blocks w4)(?p + 1 := None)"
      "b_xacts w' = (b_xacts w4)(?x := None)"
      "b_ctx w' = map_option (\<lambda>c. c\<lparr>cx_active := remove1 ?p (cx_active c)\<rparr>) (b_ctx w4)"
    using end_sess_eq [of w4 ?x ?p ?s "?p + 1"] w4(2-4)
    by (auto simp: on_context_def bsf_log_def bsf_xact_add_def world_asked_def asked_sess_def)
  have ours: "our_sess ?x ?w2 = Some ?p"
    using ctx1 by (simp add: our_sess_def bsf_log_def bsf_xact_add_def bsf_client_context_active_sessions_exists_def)
  have "handle_pcf_bindings env t3 (good_response b hs) ?x ?p ?w2 = Some (True, w')"
    using printable stored w4(1) w'(1)
    by (simp add: handle_pcf_bindings_def) (simp add: bsf_log_def bsf_xact_add_def)
  then have "bsf_step env (t3, Bsf_event (Bsf_client ?x (Some (good_response b hs)))) ?w2 = Some w'"
    using ctx1 good_response_event [OF ours, of env t3 b hs] by (simp add: bsf_log_def bsf_xact_add_def)
  then have "run (bsf_step env)
      [(t1, Bsf_retrieve True a (Some f) d),
       (t2, Bsf_event (Bsf_local ?p Local_discover_and_send Discover_sends)),
       (t3, Bsf_event (Bsf_client ?x (Some (good_response b hs))))] w = Some w'"
    using ask send by (simp del: bsf_step.simps)
  moreover have "b_sess w' = (b_sess w)(?p := None)" "b_blocks w' = (b_blocks w)(?p + 1 := None)"
    "b_xacts w' = (b_xacts w)(?x := None)"
    using w4(2-4) w'(3-5)
    by (simp_all add: on_context_def bsf_log_def bsf_xact_add_def world_asked_def)
  moreover have "b_log w' = b_log w @ [Bsf_queued ?p, ?req, Bsf_callback ?p f (Some b) d] @
      (if ev_callback env f (Some b) d then [] else [Bsf_binding_free b]) @ [Bsf_xact_remove ?x]"
    using w4(6) w'(2) by (simp add: on_context_def bsf_log_def bsf_xact_add_def)
  moreover have "cache_entries w' = {\<lparr>ce_block = ?p + 1, ce_key = a, ce_binding = b, ce_expires = ?e\<rparr>}"
    using w4(5) w'(6) ctx1 by (simp add: cache_entries_def on_context_def bsf_log_def bsf_xact_add_def)
  ultimately show ?thesis
    by (intro exI [of _ w']) (simp add: nbsf_management_pcf_binding_build_def asked_sess_def)
qed

text \<open>C5: A retrieval that finds nothing in the cache is answered by the BSF: in a reachable state that is
  ready, the call queues an event for a new session, the event sends one GET request for the
  PCF bindings of the address (the address itself for IPv4, a /128 prefix for IPv6), and the
  response calls the callback once, with the binding and the user data, frees the copy of the
  binding when the callback fails, removes the transaction and frees the session and its
  address.\<close>

theorem bsf_retrieval_answered:
  assumes "reachable (bsf_step env) initial_bsf w" "ready w" "sa_family a \<in> {Af_inet, Af_inet6}"
  shows "\<exists>w'. run (bsf_step env)
      [(t1, Bsf_retrieve True a (Some f) d),
       (t2, Bsf_event (Bsf_local (b_next w) Local_discover_and_send Discover_sends)),
       (t3, Bsf_event (Bsf_client (b_next w + 2) (Some (good_response b hs))))] w = Some w' \<and>
    b_log w' = b_log w @
      [Bsf_queued (b_next w),
       Bsf_request (b_next w + 2)
         \<lparr>br_method = ''GET'', br_service = ''nbsf-management'', br_version = ''v1'', br_resource = ''pcf-bindings'',
          br_ipv4addr = (if sa_family a = Af_inet then Some (ev_ipstr env a) else None),
          br_ipv6prefix = (if sa_family a = Af_inet then None else Some (ev_ipstr env a @ ''/128''))\<rparr>,
       Bsf_callback (b_next w) f (Some b) d] @
      (if ev_callback env f (Some b) d then [] else [Bsf_binding_free b]) @ [Bsf_xact_remove (b_next w + 2)] \<and>
    b_sess w' = (b_sess w)(b_next w := None) \<and> b_blocks w' = (b_blocks w)(b_next w + 1 := None) \<and>
    b_xacts w' = (b_xacts w)(b_next w + 2 := None) \<and>
    cache_entries w' = {\<lparr>ce_block = b_next w + 1, ce_key = a, ce_binding = b,
      ce_expires = response_to_expiry_time (ev_ogs env) t3 hs\<rparr>}"
  by (rule retrieval_run [OF bsf.reachable_inv [OF assms(1) initial_bsf_inv] assms(2,3)])

lemma configured_inv: "bsf_inv {} configured"
  by (rule bsf.reachable_inv [OF configured_reachable initial_bsf_inv])

lemma configured_ready: "ready configured"
  using configured_eq(2) unfolding ready_iff [OF configured_inv] by auto

lemma ue_simps [simp]: "sa_family ue = Af_inet"
  by (simp add: ue_def)

lemma example_env_simps [simp]: "ev_ipstr example_env a = ''10.45.0.2''" "ev_callback example_env f b d"
  by (simp_all add: example_env_def)

text \<open>The calls of the example: the retrieval and its local event, then the response.\<close>

definition example_sent :: "(int \<times> bsf_call) list" where
  "example_sent =
     [(1, Bsf_retrieve True ue (Some 7) (Some 9)),
      (2, Bsf_event (Bsf_local 0 Local_discover_and_send Discover_sends))]"

definition example_calls :: "(int \<times> bsf_call) list" where
  "example_calls = example_sent @ [(3, Bsf_event (Bsf_client 2 (Some (good_response 5 []))))]"

lemmas example_calls_defs = example_calls_def example_sent_def append.simps

theorem bsf_retrieval_answered_witness:
  "\<exists>w'. run (bsf_step example_env) example_calls configured = Some w' \<and>
     b_log w' = b_log configured @ [Bsf_queued 0,
       Bsf_request 2 \<lparr>br_method = ''GET'', br_service = ''nbsf-management'', br_version = ''v1'',
         br_resource = ''pcf-bindings'', br_ipv4addr = Some ''10.45.0.2'', br_ipv6prefix = None\<rparr>,
       Bsf_callback 0 7 (Some 5) (Some 9), Bsf_xact_remove 2] \<and> b_sess w' 0 = None"
  using bsf_retrieval_answered [OF configured_reachable configured_ready, where a = ue and f = 7 and d = "Some 9"
      and b = 5 and hs = "[]" and ?t1.0 = 1 and ?t2.0 = 2 and ?t3.0 = 3]
  unfolding configured_eq(3) example_calls_defs add_0 by (auto simp del: bsf_step.simps run.simps)

lemma answered_run:
  "\<exists>w. run (bsf_step example_env) example_calls configured = Some w \<and>
     b_log w = b_log configured @ [Bsf_queued 0,
       Bsf_request 2 \<lparr>br_method = ''GET'', br_service = ''nbsf-management'', br_version = ''v1'',
         br_resource = ''pcf-bindings'', br_ipv4addr = Some ''10.45.0.2'', br_ipv6prefix = None\<rparr>,
       Bsf_callback 0 7 (Some 5) (Some 9), Bsf_xact_remove 2] \<and> reachable (bsf_step example_env) initial_bsf w \<and>
     cache_entries w \<noteq> {}"
proof -
  obtain ls where ls: "run (bsf_step example_env) ls initial_bsf = Some configured"
    using configured_reachable reachable_run by metis
  obtain w where w: "run (bsf_step example_env) example_calls configured = Some w"
     "b_log w = b_log configured @ [Bsf_queued 0,
       Bsf_request 2 \<lparr>br_method = ''GET'', br_service = ''nbsf-management'', br_version = ''v1'',
         br_resource = ''pcf-bindings'', br_ipv4addr = Some ''10.45.0.2'', br_ipv6prefix = None\<rparr>,
       Bsf_callback 0 7 (Some 5) (Some 9), Bsf_xact_remove 2]" "cache_entries w \<noteq> {}"
    using retrieval_run [OF configured_inv configured_ready, where env = example_env and a = ue and f = 7 and d = "Some 9"
      and b = 5 and hs = "[]" and ?t1.0 = 1 and ?t2.0 = 2 and ?t3.0 = 3]
    unfolding configured_eq(3) example_calls_defs add_0 by (auto simp del: bsf_step.simps run.simps)
  have "run (bsf_step example_env) (ls @ example_calls) initial_bsf = Some w"
    by (simp add: run_append ls w(1))
  then show ?thesis using w reachable_run by metis
qed

theorem bsf_answered_at_most_once_witness:
  "\<exists>w. run (bsf_step example_env) example_calls configured = Some w \<and> answer_count 0 (b_log w) = 1 \<and>
     b_sess w 0 = None"
proof -
  obtain w where w: "run (bsf_step example_env) example_calls configured = Some w"
      "b_log w = b_log configured @ [Bsf_queued 0,
       Bsf_request 2 \<lparr>br_method = ''GET'', br_service = ''nbsf-management'', br_version = ''v1'',
         br_resource = ''pcf-bindings'', br_ipv4addr = Some ''10.45.0.2'', br_ipv6prefix = None\<rparr>,
       Bsf_callback 0 7 (Some 5) (Some 9), Bsf_xact_remove 2]"
      "reachable (bsf_step example_env) initial_bsf w"
    using answered_run by blast
  then have "1 \<le> answer_count 0 (b_log w)" by simp
  then show ?thesis using bsf_answered_at_most_once [OF w(3), of 0] w(1) by auto
qed

section \<open>Timeouts\<close>

text \<open>C10: A retrieval that gets no response is answered by the timeout of its transaction: in every
  reachable state in which a transaction belongs to an active session that was given an address
  and a callback, the timer event is claimed and its handling succeeds; the callback is called
  with no binding and the user data, the transaction is removed, the session and its address are
  freed, and no other session, address or transaction changes.\<close>

theorem bsf_timeout_answers:
  assumes "reachable (bsf_step env) initial_bsf w" "our_sess x w = Some p" "b_sess w p = Some s"
    "bs_callback s = Some f" "bs_ue_address s = Some q"
  shows "\<exists>w'. bsf_process_event env now (Bsf_timer True x) w = Some (True, w') \<and>
           b_log w' = b_log w @ [Bsf_callback p f None (bs_user_data s), Bsf_xact_remove x] \<and>
           b_sess w' = (b_sess w)(p := None) \<and> b_blocks w' = (b_blocks w)(q := None) \<and>
           b_xacts w' = (b_xacts w)(x := None) \<and> our_sess x w' = None"
proof -
  have inv: "bsf_inv {} w" by (rule bsf.reachable_inv [OF assms(1) initial_bsf_inv])
  have "owned_block w p = Some q" using assms(3,5) by (simp add: owned_block_def)
  then have block: "b_blocks w q \<noteq> None"
    using inv unfolding bsf_inv_def sessions_own_def by blast
  have x: "b_xacts w x = Some p" "b_ctx w \<noteq> None"
    using assms(2) by (auto simp: our_sess_def bsf_client_context_active_sessions_exists_def split: option.splits if_splits)
  obtain r w1 where w1: "bsf_client_sess_retrieve_callback_call env p None w = Some (r, w1)" "b_sess w1 = b_sess w"
      "b_blocks w1 = b_blocks w" "b_xacts w1 = b_xacts w" "b_log w1 = b_log w @ [Bsf_callback p f None (bs_user_data s)]"
    using callback_call_eq [OF assms(3,4), of env None] by auto
  obtain w2 where "end_sess x p w1 = Some (True, w2)" "b_log w2 = b_log w1 @ [Bsf_xact_remove x]"
      "b_sess w2 = (b_sess w1)(p := None)" "b_blocks w2 = (b_blocks w1)(q := None)"
      "b_xacts w2 = (b_xacts w1)(x := None)"
    using end_sess_eq [of w1 x p s q] w1 x(1) assms(3,5) block by auto
  then show ?thesis
    using w1 x(2) block assms(2,3,5)
    by (auto simp: bsf_process_event_def answer_nothing_def sess_address_def our_sess_def)
qed

lemma sent_run:
  "\<exists>w. run (bsf_step example_env) example_sent configured = Some w \<and> our_sess 2 w = Some 0 \<and>
     b_sess w 0 = Some (asked_sess example_env ue 1 (Some 7) (Some 9)) \<and>
     reachable (bsf_step example_env) initial_bsf w"
proof -
  let ?w1 = "world_asked example_env ue (Some 7) (Some 9) configured"
  obtain c where c: "b_ctx configured = Some c" "cx_active c = []" using configured_eq(2) by blast
  have ask: "bsf_step example_env (1, Bsf_retrieve True ue (Some 7) (Some 9)) configured = Some ?w1"
    using retrieve_asks [OF configured_inv configured_ready, of ue] by simp
  have ctx: "b_ctx ?w1 = Some (c\<lparr>cx_active := [0]\<rparr>)"
    using c by (simp add: world_asked_def configured_eq(3))
  then have send: "bsf_step example_env (2, Bsf_event (Bsf_local 0 Local_discover_and_send Discover_sends)) ?w1 =
      Some (bsf_log (Bsf_request 2 (nbsf_management_pcf_binding_build (asked_sess example_env ue 1 (Some 7) (Some 9))))
        (snd (bsf_xact_add 0 ?w1)))"
    using local_event_sends [OF ctx, of 0 "asked_sess example_env ue 1 (Some 7) (Some 9)" example_env 2]
      world_asked_simps(3) [of example_env ue "Some 7" "Some 9" configured]
    by (simp add: configured_eq(3) numeral_2_eq_2)
  then obtain w where w: "bsf_step example_env (2, Bsf_event (Bsf_local 0 Local_discover_and_send Discover_sends)) ?w1 = Some w"
      "our_sess 2 w = Some 0" "b_sess w 0 = Some (asked_sess example_env ue 1 (Some 7) (Some 9))"
    using ctx world_asked_simps(3) [of example_env ue "Some 7" "Some 9" configured]
    by (auto simp: configured_eq(3) our_sess_def bsf_log_def bsf_xact_add_def numeral_2_eq_2
        bsf_client_context_active_sessions_exists_def simp del: bsf_step.simps)
  have "reachable (bsf_step example_env) initial_bsf w"
    using reachable_step [OF reachable_step [OF configured_reachable ask] w(1)] .
  moreover have "run (bsf_step example_env) example_sent configured = Some w"
    unfolding example_sent_def run.simps ask bind.bind_lunit w(1) ..
  ultimately show ?thesis using w(2,3) by blast
qed

theorem bsf_timeout_answers_witness:
  "\<exists>w w'. run (bsf_step example_env) example_sent configured = Some w \<and>
     bsf_process_event example_env 10 (Bsf_timer True 2) w = Some (True, w') \<and>
     b_log w' = b_log w @ [Bsf_callback 0 7 None (Some 9), Bsf_xact_remove 2]"
proof -
  obtain w where w: "run (bsf_step example_env) example_sent configured = Some w" "our_sess 2 w = Some 0"
     "b_sess w 0 = Some (asked_sess example_env ue 1 (Some 7) (Some 9))" "reachable (bsf_step example_env) initial_bsf w"
    using sent_run by (elim exE conjE) (rule that; assumption)
  from bsf_timeout_answers [OF w(4,2,3), of 7 1 10] obtain w' where
      "bsf_process_event example_env 10 (Bsf_timer True 2) w = Some (True, w')"
      "b_log w' = b_log w @ [Bsf_callback 0 7 None (Some 9), Bsf_xact_remove 2]"
    unfolding asked_sess_def bsf_sess.simps by blast
  then show ?thesis using w(1) by blast
qed

section \<open>Stored bindings\<close>

lemma hash_get_dead:
  "\<forall>e\<in>set cache. blocks (ce_block e) = None \<Longrightarrow> hash_get blocks k cache \<in> {None, Some None}"
  by (induction cache) auto

lemma log_debug_stuck:
  assumes "keys_dead w" "cache_entries w \<noteq> {}"
  shows "bsf_client_context_log_debug w = None"
  using log_debug_dead [OF assms(1)] assms(2) by blast

lemma entries_put_sess [simp]: "cache_entries (put_sess p s w) = cache_entries w"
  by (simp add: put_sess_def cache_entries_def)

lemma entries_ue_address_set:
  assumes "bsf_client_sess_ue_address_set p (Some a) w = Some w'"
  shows "cache_entries w' = cache_entries w"
proof -
  obtain u where u: "free_ue_address p w = Some u" "b_ctx w' = b_ctx u"
    using assms by (auto simp: bsf_client_sess_ue_address_set_def put_sess_def split: bind_splits)
  have "b_ctx u = b_ctx w" by (rule free_ue_address_cases [OF u(1)]) (simp_all add: put_sess_def)
  then show ?thesis using u(2) by (simp add: cache_entries_def)
qed

lemma on_context_same: "b_ctx w = Some c \<Longrightarrow> f c = c \<Longrightarrow> on_context f w = w"
  by (simp add: on_context_def)

lemma from_cache_dead:
  assumes "b_ctx w = Some c" "\<forall>e\<in>set (cx_cache c). b_blocks w (ce_block e) = None"
    "bsf_client_pcf_bindings_from_cache now a w = Some (b, w1)"
  shows "b = None \<and> w1 = w"
proof -
  have "hash_get (b_blocks w) a (cx_cache c) = Some None"
    using hash_get_dead [OF assms(2), of a] assms(1,3)
    by (auto simp: bsf_client_pcf_bindings_from_cache_def pcf_bindings_cache_find_def)
  then show ?thesis
    using assms(1,3) on_context_same [OF assms(1)]
    by (simp add: bsf_client_pcf_bindings_from_cache_def pcf_bindings_cache_find_def)
qed

text \<open>C25: A binding that was stored is never used again, and after it was stored the library cannot be used
  at all: in every reachable state whose cache is not empty, the next retrieval (for the same or
  for any other address, by any callback), the next response from the BSF or the NRF for a
  session of the library, and the final clean-up read the freed address that is the key of the
  entry.\<close>

theorem bsf_stored_binding_is_fatal:
  assumes "reachable (bsf_step env) initial_bsf w" "b_ctx w = Some c" "cx_cache c \<noteq> []"
  shows "bsf_retrieve_pcf_binding_for_pdu_session env now pushed a f d w = None \<and>
         handle_pcf_bindings env now resp x p w = None \<and> handle_nf_instances m resp x w = None \<and>
         bsf_client_context_final w = None"
proof -
  have "keys_dead initial_bsf" by (simp add: keys_dead_def cache_entries_def initial_bsf_def)
  then have inv: "bsf_inv {} w" "keys_dead w"
    using bsf_dead.reachable_inv [OF assms(1)] initial_bsf_inv by blast+
  have entries: "cache_entries w = set (cx_cache c)" by (simp add: cache_entries_def assms(2))
  then have some: "cache_entries w \<noteq> {}" using assms(3) by simp
  have stuck: "bsf_client_context_log_debug w = None" by (rule log_debug_stuck [OF inv(2) some])
  have dead: "\<forall>e\<in>set (cx_cache c). b_blocks w (ce_block e) = None"
    using inv(2) entries by (simp add: keys_dead_def)
  have "bsf_retrieve_pcf_binding_for_pdu_session env now pushed a f d w = None"
  proof (rule ccontr)
    assume "\<not> ?thesis"
    then obtain b w1 r where w1: "bsf_client_pcf_bindings_from_cache now a w = Some (b, w1)"
        "bsf_retrieve_pcf_binding_for_pdu_session env now pushed a f d w = Some r"
      by (auto simp: bsf_retrieve_pcf_binding_for_pdu_session_def split: bind_splits)
    then have b: "b = None" "w1 = w"
      using from_cache_dead [OF assms(2) dead] by blast+
    obtain p w2 where w2: "bsf_client_sess_new w = (p, w2)" by (cases "bsf_client_sess_new w")
    then obtain w3 s' where w3: "bsf_client_sess_ue_address_set p (Some a) w2 = Some w3"
        "bsf_client_context_log_debug (put_sess p s' w3) \<noteq> None"
      using w1 b by (auto simp: bsf_retrieve_pcf_binding_for_pdu_session_def split: bind_splits)
    have "dead_stays w w2" using dead_sess_new [of w] w2 by simp
    then have "dead_stays w (put_sess p s' w3)"
      using dead_ue_address_set [OF w3(1)] dead_put_sess dead_stays_trans by meson
    then have "keys_dead (put_sess p s' w3)" using dead_stays_keys inv(2) by blast
    moreover have "cache_entries w2 = cache_entries w"
      using cache_entries_active(2) [of w] w2 by simp
    then have "cache_entries (put_sess p s' w3) = cache_entries w"
      using entries_ue_address_set [OF w3(1)] by simp
    ultimately show False using log_debug_stuck some w3(2) by metis
  qed
  moreover have "pcf_bindings_cache_clear (b_blocks w) (cx_cache c) = None"
    using dead assms(3) by (cases "cx_cache c") auto
  then have "bsf_client_context_final w = None"
    by (simp add: bsf_client_context_final_def assms(2) split: Option.bind_split)
  ultimately show ?thesis by (simp add: handle_pcf_bindings_def handle_nf_instances_def stuck)
qed

text \<open>C26: The cache itself keeps a binding for as long as it should: whatever is stored and looked up for other
  addresses in between, a search for the address that is not later than the expiry time finds
  the binding that was stored last, and a search after the expiry time finds nothing, provided
  that the keys of the entries stay allocated.\<close>

theorem bsf_cache_finds_until_expiry:
  assumes "cache_ok blocks cache" "blocks q = Some k" "survives blocks ops k e"
  shows "\<exists>c1 c2. pcf_bindings_cache_add blocks q b e cache = Some c1 \<and>
    perform (pcf_bindings_cache_add blocks) (pcf_bindings_cache_find blocks) ops c1 = Some c2 \<and>
    (\<exists>c3. pcf_bindings_cache_find blocks now k c2 = Some (if now \<le> e then Some b else None, c3))"
proof -
  obtain c1 where c1: "pcf_bindings_cache_add blocks q b e cache = Some c1" "cache_ok blocks c1"
      "cache_view c1 = (cache_view cache)(k \<mapsto> (b, e))"
    using bsf_cache.add_spec [OF assms(1,2)] by blast
  then obtain c2 where c2: "perform (pcf_bindings_cache_add blocks) (pcf_bindings_cache_find blocks) ops c1 = Some c2"
      "cache_ok blocks c2" "cache_view c2 k = Some (b, e)"
    using bsf_cache.perform_view [OF c1(2), of k b e ops] assms(3) by auto
  then show ?thesis
    using c1(1) bsf_cache.find_spec [OF c2(2), of now k] by (auto simp: fresh_value_def)
qed

text \<open>C36: The age that a response allows is in seconds but is added to a clock in microseconds: a binding
  from a response that may be kept for n seconds is not found any more n + 1 microseconds
  later.\<close>

theorem bsf_binding_expires_early:
  assumes "cache_ok blocks cache" "blocks q = Some k"
    "cache_control_to_cache_age api cc = n" "0 \<le> n"
  shows "\<exists>c1 c2. pcf_bindings_cache_add blocks q b (response_to_expiry_time api now [(''Cache-Control'', cc)]) cache = Some c1 \<and>
    pcf_bindings_cache_find blocks (now + n + 1) k c1 = Some (None, c2)"
proof -
  have "strcaseeq ''Cache-Control'' ''Cache-Control''" "\<not> strcaseeq ''Cache-Control'' ''Age''"
    by (simp_all add: strcaseeq_def header_names_differ [symmetric])
  then have "response_to_expiry_time api now [(''Cache-Control'', cc)] = now + n"
    using assms(3,4) by (simp add: response_to_expiry_time_def expiry_header_def)
  then show ?thesis
    using bsf_cache.find_added [OF assms(1,2), of b "now + n" "now + n + 1"] by auto
qed

section \<open>Requests that are lost\<close>

text \<open>C35: When the request for a retrieval cannot be made or sent, nobody is told: the event is claimed, the
  session stays active without any transaction, so that neither a response nor a timeout can
  ever name it, and the callback is not called.\<close>

theorem bsf_lost_retrieval:
  assumes "bsf_client_context_active_sessions_exists p w" "b_sess w p = Some s" "\<forall>x. b_xacts w x \<noteq> Some p"
    "oc \<noteq> Discover_sends" "b_xacts w (b_next w) = None"
  shows "\<exists>w'. bsf_process_event env now (Bsf_local p Local_discover_and_send oc) w = Some (True, w') \<and>
    bsf_client_context_active_sessions_exists p w' \<and> b_sess w' = b_sess w \<and>
    answer_count p (b_log w') = answer_count p (b_log w) \<and> (\<forall>x. our_sess x w' \<noteq> Some p)"
proof -
  obtain c where ctx: "b_ctx w = Some c" using assms(1) by (auto simp: bsf_client_context_active_sessions_exists_def split: option.splits)
  have local: "bsf_process_event env now (Bsf_local p Local_discover_and_send oc) w =
      map_option (\<lambda>(r, w). (True, w)) (bsf_client_sess_discover_and_send oc p w)"
    using ctx assms(1) by (simp add: bsf_process_event_def bsf_client_local_process_event_def)
  show ?thesis
  proof (cases "oc = Xact_add_fails")
    case True
    then show ?thesis
      using local assms(1-3) by (auto simp: bsf_client_sess_discover_and_send_def our_sess_def split: option.splits if_splits)
  next
    case False
    then have "oc = Discover_fails" using assms(4) by (cases oc) auto
    then show ?thesis
      using local assms(1-3,5)
      by (auto simp: bsf_client_sess_discover_and_send_def bsf_xact_add_def bsf_xact_remove_def bsf_log_def our_sess_def
          bsf_client_context_active_sessions_exists_def split: option.splits if_splits)
  qed
qed

theorem bsf_stored_binding_is_fatal_witness:
  "\<exists>w. run (bsf_step example_env) example_calls configured = Some w \<and>
     bsf_retrieve_pcf_binding_for_pdu_session example_env 4 True ue (Some 8) None w = None \<and>
     bsf_client_context_final w = None"
proof -
  obtain w where w: "run (bsf_step example_env) example_calls configured = Some w"
      "reachable (bsf_step example_env) initial_bsf w" "cache_entries w \<noteq> {}"
    using answered_run by blast
  then obtain c where "b_ctx w = Some c" "cx_cache c \<noteq> []"
    by (auto simp: cache_entries_def split: option.splits)
  from bsf_stored_binding_is_fatal [OF w(2) this] show ?thesis using w(1) by blast
qed

text \<open>Two addresses; the other one is stored and looked up in between.\<close>

definition other_ue :: sockaddr where
  "other_ue = ue\<lparr>sa_addr := [10, 45, 0, 3]\<rparr>"

definition example_blocks :: blocks where
  "example_blocks = [1 \<mapsto> ue, 2 \<mapsto> other_ue]"

lemma example_blocks_simps [simp]:
  "example_blocks 1 = Some ue" "example_blocks (Suc 0) = Some ue" "example_blocks 2 = Some other_ue"
  "other_ue \<noteq> ue" "cache_ok example_blocks []"
  by (simp_all add: example_blocks_def other_ue_def ue_def cache_ok_def keys_readable_def)

theorem bsf_cache_finds_until_expiry_witness:
  "\<exists>c1 c2 c3. pcf_bindings_cache_add example_blocks 1 5 100 [] = Some c1 \<and>
    perform (pcf_bindings_cache_add example_blocks) (pcf_bindings_cache_find example_blocks)
      [Inl (2, 6, 50), Inr (60, other_ue), Inr (100, ue)] c1 = Some c2 \<and>
    pcf_bindings_cache_find example_blocks 101 ue c2 = Some (None, c3)"
  using bsf_cache_finds_until_expiry [of example_blocks "[]" 1 ue "[Inl (2, 6, 50), Inr (60, other_ue), Inr (100, ue)]"
      100 5 101]
  by (simp del: perform.simps)

lemma example_max_age: "cache_control_to_cache_age example_api ''max-age=3600'' = 3600"
proof -
  have "strtok (CHR '','') ''max-age=3600'' = [''max-age=3600'']" by code_simp
  moreover have "\<not> strcaseeq ''max-age=3600'' ''no-cache''" "\<not> strcaseeq ''max-age=3600'' ''no-store''"
    "strncaseeq ''max-age=3600'' ''max-age='' 8" by code_simp+
  moreover have "atoi ''3600'' = 3600" by code_simp
  ultimately show ?thesis by (simp add: cache_control_to_cache_age_def)
qed

theorem bsf_binding_expires_early_witness:
  "\<exists>c1 c2. pcf_bindings_cache_add example_blocks 1 5
       (response_to_expiry_time example_api 10 [(''Cache-Control'', ''max-age=3600'')]) [] = Some c1 \<and>
    pcf_bindings_cache_find example_blocks 3611 ue c1 = Some (None, c2)"
  using bsf_binding_expires_early [OF _ _ example_max_age, of example_blocks "[]" 1 ue 5 10] by simp

lemma asked_run:
  "\<exists>w. run (bsf_step example_env) [(1, Bsf_retrieve True ue (Some 7) (Some 9))] configured = Some w \<and>
     bsf_client_context_active_sessions_exists 0 w \<and> b_xacts w = (\<lambda>_. None) \<and>
     b_sess w 0 = Some (asked_sess example_env ue 1 (Some 7) (Some 9))"
proof -
  obtain c where "b_ctx configured = Some c" using configured_eq(2) by blast
  then have "bsf_client_context_active_sessions_exists 0 (world_asked example_env ue (Some 7) (Some 9) configured)"
    by (simp add: bsf_client_context_active_sessions_exists_def world_asked_def configured_eq(3))
  then show ?thesis
    using retrieve_asks [OF configured_inv configured_ready, of ue] world_asked_simps [of example_env ue "Some 7" "Some 9" configured]
    by (simp add: configured_eq(3,4))
qed

theorem bsf_lost_retrieval_witness:
  "\<exists>w w'. run (bsf_step example_env) [(1, Bsf_retrieve True ue (Some 7) (Some 9))] configured = Some w \<and>
     bsf_process_event example_env 2 (Bsf_local 0 Local_discover_and_send Discover_fails) w = Some (True, w') \<and>
     bsf_client_context_active_sessions_exists 0 w'"
proof -
  obtain w where w: "run (bsf_step example_env) [(1, Bsf_retrieve True ue (Some 7) (Some 9))] configured = Some w"
     "bsf_client_context_active_sessions_exists 0 w" "b_xacts w = (\<lambda>_. None)"
     "b_sess w 0 = Some (asked_sess example_env ue 1 (Some 7) (Some 9))"
    using asked_run by blast
  have "\<forall>x. b_xacts w x \<noteq> Some 0" "b_xacts w (b_next w) = None" by (simp_all add: w(3))
  from bsf_lost_retrieval [OF w(2,4) this(1) _ this(2), of Discover_fails example_env 2] show ?thesis
    using w(1) by blast
qed

section \<open>Configuration\<close>

lemma validation_cases:
  assumes "bsf_client_context_validation oc w = Some (rv, w')" "b_ctx w = Some c"
  obtains "cf_listeners (cx_config c) = []" "rv = ogs_error" "w' = w"
  | "cf_listeners (cx_config c) \<noteq> []" "cf_servers (cx_config c) = []" "cf_discover_flag (cx_config c) \<noteq> 0"
    "rv = (if oc = Discover_sends then ogs_ok else ogs_error)"
    "b_ctx w' = Some (c\<lparr>cx_active := cx_active c @ [b_next w]\<rparr>)" "b_sess w' (b_next w) = Some empty_sess"
    "b_next w < b_next w'"
  | "cf_listeners (cx_config c) \<noteq> []" "cf_servers (cx_config c) \<noteq> [] \<or> cf_discover_flag (cx_config c) = 0"
    "rv = ogs_ok" "w' = w"
proof -
  obtain p w1 where w1: "bsf_client_sess_new w = (p, w1)" by (cases "bsf_client_sess_new w")
  then have new: "p = b_next w" "b_ctx w1 = Some (c\<lparr>cx_active := cx_active c @ [b_next w]\<rparr>)"
      "b_sess w1 (b_next w) = Some empty_sess" "b_next w1 = b_next w + 1"
    using sess_new_simps(1,2,3,7) [of w] assms(2) by auto
  show thesis
    using assms w1 new that
    by (cases oc) (auto simp: bsf_client_context_validation_def bsf_configuration_notification_listeners_exist_def
        bsf_configuration_servers_exist_def bsf_configuration_get_discover_flag_def bsf_xact_add_def bsf_log_def
        Let_def split: if_splits)
qed

lemma parse_validated:
  assumes "bsf_parse_config env oc local doc w = Some (r, w')"
  obtains w1 c rv where "bsf_client_context_validation oc w1 = Some (rv, w')" "b_ctx w1 = Some c"
    "r \<longleftrightarrow> rv \<noteq> 0"
proof -
  obtain w1 rv where w1: "bsf_client_context_validation oc w1 = Some (rv, w')" "r = bool_of_int rv"
    using assms by (auto simp: bsf_parse_config_def split: bind_splits)
  moreover obtain c where "b_ctx w1 = Some c"
    using w1(1) by (auto simp: bsf_client_context_validation_def split: bind_splits)
  ultimately show thesis using that by (simp add: bool_of_int_def)
qed

text \<open>The result of reading the configuration is the wrong way round: the status code is converted to
  the bool that the function is declared to return, so it is true when there is no notification
  listener or the discovery request fails, and false when the configuration is complete.\<close>

theorem bsf_parse_config_result:
  assumes "bsf_parse_config env oc local doc w = Some (r, w')" "b_ctx w' = Some c"
  shows "r \<longleftrightarrow> cf_listeners (cx_config c) = [] \<or>
           (cf_servers (cx_config c) = [] \<and> cf_discover_flag (cx_config c) \<noteq> 0 \<and> oc \<noteq> Discover_sends)"
proof -
  obtain w1 c1 rv where w1: "bsf_client_context_validation oc w1 = Some (rv, w')" "b_ctx w1 = Some c1" "r \<longleftrightarrow> rv \<noteq> 0"
    by (rule parse_validated [OF assms(1)])
  from w1(1,2) show ?thesis
    by (cases rule: validation_cases) (use w1(2,3) assms(2) in \<open>auto simp: ogs_ok_def ogs_error_def\<close>)
qed

text \<open>With discovery configured and no server given, reading the configuration leaves a session
  without an address on the list of active sessions, and from then on every retrieval aborts
  when it prints the sessions, whatever the address and whatever the discovery finds.\<close>

theorem bsf_discovery_blocks_retrieval:
  assumes "reachable (bsf_step env) initial_bsf w" "bsf_parse_config env oc local doc w = Some (r, w')"
    "b_ctx w' = Some c" "cf_listeners (cx_config c) \<noteq> []" "cf_servers (cx_config c) = []"
    "cf_discover_flag (cx_config c) \<noteq> 0"
  shows "bsf_retrieve_pcf_binding_for_pdu_session env now pushed a f d w' = None"
proof (rule ccontr)
  assume ret: "\<not> ?thesis"
  obtain w1 c1 rv where w1: "bsf_client_context_validation oc w1 = Some (rv, w')" "b_ctx w1 = Some c1"
    by (rule parse_validated [OF assms(2)])
  from w1 have sess: "b_next w1 \<in> set (cx_active c)" "b_sess w' (b_next w1) = Some empty_sess" "b_next w1 < b_next w'"
    by (cases rule: validation_cases; use w1(2) assms(3-6) in auto)+
  have "reachable (bsf_step env) initial_bsf w'"
    by (rule reachable_step [OF assms(1), where l = "(0, Bsf_parse oc local doc)"]) (simp add: assms(2))
  moreover have "keys_dead initial_bsf" by (simp add: keys_dead_def cache_entries_def initial_bsf_def)
  ultimately have dead: "\<forall>e\<in>set (cx_cache c). b_blocks w' (ce_block e) = None"
    using bsf_dead.reachable_inv initial_bsf_inv assms(3) by (fastforce simp: keys_dead_def cache_entries_def)
  obtain b u where u: "bsf_client_pcf_bindings_from_cache now a w' = Some (b, u)"
    using ret by (auto simp: bsf_retrieve_pcf_binding_for_pdu_session_def split: bind_splits)
  then have b: "b = None" "u = w'" using from_cache_dead [OF assms(3) dead] by blast+
  obtain p w2 where w2: "bsf_client_sess_new w' = (p, w2)" by (cases "bsf_client_sess_new w'")
  then have new: "p = b_next w'" "b_ctx w2 = Some (c\<lparr>cx_active := cx_active c @ [p]\<rparr>)"
      "b_sess w2 = (b_sess w')(p \<mapsto> empty_sess)"
    using sess_new_simps(1,2,7) [of w'] assms(3) by auto
  obtain w3 s' where w3: "bsf_client_sess_ue_address_set p (Some a) w2 = Some w3"
      "bsf_client_context_log_debug (put_sess p s' w3) \<noteq> None"
    using ret u b w2 by (auto simp: bsf_retrieve_pcf_binding_for_pdu_session_def split: bind_splits)
  have "b_ctx w3 = b_ctx w2 \<and> b_sess w3 (b_next w1) = b_sess w2 (b_next w1)"
    using w3(1) new sess(3)
    by (auto simp: bsf_client_sess_ue_address_set_def free_ue_address_def empty_sess_def put_sess_def)
  then have "sess_address (b_next w1) (put_sess p s' w3) = None" "b_ctx (put_sess p s' w3) = b_ctx w2"
    using sess(2,3) new by (simp_all add: sess_address_def put_sess_def empty_sess_def)
  then show False using w3(2) new(2) sess(1) log_debug_eq by fastforce
qed

text \<open>The address of the BSF, while the nodes of the configuration are alive (as they are in every
  reachable state), is the first server that was configured, resolved; without a server it is
  the first IPv6 address of the discovered instance, else its first IPv4 address, else none.
  After the configuration is cleared the list of servers still names nodes that were freed, so
  asking for the address again is undefined when there was a server.\<close>

theorem bsf_address_choice:
  assumes "reachable (bsf_step env) initial_bsf w" "b_ctx w = Some c"
  shows "bsf_client_context_get_bsf_address env w =
    (case server_list (cx_config c) of
       s # _ \<Rightarrow> ev_addaddrinfo env 0 (ca_addr s) (word_of_int (ca_port s))
     | [] \<Rightarrow> Some (case cf_discovered (cx_config c) of None \<Rightarrow> []
               | Some i \<Rightarrow> (case ni_ipv6 i @ ni_ipv4 i of a # _ \<Rightarrow> a | [] \<Rightarrow> []))) \<and>
    (\<exists>k. bsf_configuration_clear (cx_config c) = Some k \<and> \<not> bsf_configuration_notification_listeners_exist k \<and>
       bsf_configuration_servers_exist k = bsf_configuration_servers_exist (cx_config c) \<and>
       (server_list (cx_config c) \<noteq> [] \<longrightarrow> bsf_configuration_get_bsf_address ai k = None))"
proof
  have ok: "config_ok (cx_config c)"
    using bsf.reachable_inv [OF assms(1) initial_bsf_inv] assms(2) by (simp add: bsf_inv_def bsf_context_ok_def)
  show "bsf_client_context_get_bsf_address env w =
    (case server_list (cx_config c) of
       s # _ \<Rightarrow> ev_addaddrinfo env 0 (ca_addr s) (word_of_int (ca_port s))
     | [] \<Rightarrow> Some (case cf_discovered (cx_config c) of None \<Rightarrow> []
               | Some i \<Rightarrow> (case ni_ipv6 i @ ni_ipv4 i of a # _ \<Rightarrow> a | [] \<Rightarrow> [])))"
    by (simp add: bsf_client_context_get_bsf_address_def assms(2) bsf_configuration_get_bsf_address_eq [OF ok])
  obtain k where k: "bsf_configuration_clear (cx_config c) = Some k" "cf_listeners k = []"
      "cf_servers k = cf_servers (cx_config c)" "\<forall>n\<in>set (cf_servers (cx_config c)). cf_nodes k n = None"
    using bsf_configuration_clear_eq [OF ok] by blast
  then show "\<exists>k. bsf_configuration_clear (cx_config c) = Some k \<and> \<not> bsf_configuration_notification_listeners_exist k \<and>
       bsf_configuration_servers_exist k = bsf_configuration_servers_exist (cx_config c) \<and>
       (server_list (cx_config c) \<noteq> [] \<longrightarrow> bsf_configuration_get_bsf_address ai k = None)"
    by (intro exI [of _ k])
      (auto simp: bsf_configuration_notification_listeners_exist_def bsf_configuration_servers_exist_def
        server_list_def bsf_configuration_get_bsf_address_def split: list.split)
qed

theorem bsf_parse_config_result_witness:
  "\<exists>c. b_ctx configured = Some c \<and> cf_listeners (cx_config c) \<noteq> []"
proof -
  obtain c where "b_ctx configured = Some c" using configured_eq(2) by blast
  from bsf_parse_config_result [OF configured_eq(1) this] show ?thesis
    using \<open>b_ctx configured = Some c\<close> by auto
qed

lemma discovery_configured:
  "\<exists>w c. bsf_parse_config example_env Discover_sends ''bsf'' discovery_document initial_bsf = Some (False, w) \<and>
     b_ctx w = Some c \<and> cf_listeners (cx_config c) \<noteq> [] \<and> cf_servers (cx_config c) = [] \<and>
     cf_discover_flag (cx_config c) = 1"
  by (simp add: parse_defs config_defs discovery_document_def example_block_def initial_bsf_def example_env_def
      bsf_client_context_validation_def bool_of_int_def ogs_ok_def pcf_bindings_cache_init_def
      bsf_client_sess_new_def bsf_client_context_active_sessions_add_def put_sess_def bsf_xact_add_def Let_def)

theorem bsf_discovery_blocks_retrieval_witness:
  "\<exists>w. bsf_parse_config example_env Discover_sends ''bsf'' discovery_document initial_bsf = Some (False, w) \<and>
     bsf_retrieve_pcf_binding_for_pdu_session example_env 1 True ue (Some 7) None w = None"
proof -
  obtain w c where w: "bsf_parse_config example_env Discover_sends ''bsf'' discovery_document initial_bsf = Some (False, w)"
      "b_ctx w = Some c" "cf_listeners (cx_config c) \<noteq> []" "cf_servers (cx_config c) = []"
      "cf_discover_flag (cx_config c) = 1"
    using discovery_configured by blast
  have "cf_discover_flag (cx_config c) \<noteq> 0" by (simp add: w(5))
  from bsf_discovery_blocks_retrieval [OF reachable_start w(1-4) this] show ?thesis using w(1) by blast
qed

theorem bsf_address_choice_witness:
  "\<exists>c k. b_ctx configured = Some c \<and>
     bsf_client_context_get_bsf_address example_env configured =
       Some [\<lparr>sa_family = Af_inet, sa_addr = [127, 0, 0, 1], sa_port = 80\<rparr>] \<and>
     bsf_configuration_clear (cx_config c) = Some k \<and>
     bsf_configuration_get_bsf_address (\<lambda>h p. Some []) k = None"
proof -
  obtain c where c: "b_ctx configured = Some c"
      "server_list (cx_config c) = [\<lparr>ca_addr = Some ''bsf.example'', ca_port = 80\<rparr>]"
    using configured_eq(2) by blast
  from bsf_address_choice [OF configured_reachable c(1), of "\<lambda>h p. Some []"] show ?thesis
    using c by (auto simp: example_env_def)
qed

end
