(* ===== verification/Pcf_Events.thy ===== *)
theory Pcf_Events
  imports "HOL-Library.Word" Sc_Prelude
begin

unbundle bit_operations_syntax

text \<open>
  Events of application sessions in \<open>lib/pcf-service-consumer\<close>: the bit masks of the public
  interface (\<open>pcf-service-consumer.h\<close>), the lists of event subscriptions built from a mask and
  the masks read back (\<open>pcf-evsubsc.c\<close>, \<open>utils.c\<close>), and the merging of a subscription into the
  one that was requested before (\<open>pcf-client-sess.c\<close>).
\<close>

section \<open>Events and their bits\<close>

text \<open>The enumerators of \<open>OpenAPI_npcf_af_event_e\<close> that the library names; any other value is
  \<open>Npcf_other\<close>.\<close>

datatype npcf_af_event =
    Access_type_change | Ani_report | App_detection | Charging_correlation | Eps_fallback
  | Failed_qos_update | Failed_resources_allocation | Out_of_credit | Pdu_session_status | Plmn_chg
  | Qos_monitoring | Qos_notif | Ran_nas_cause | Reallocation_of_credit | Sat_category_chg
  | Successful_qos_update | Successful_resources_allocation | Tsn_bridge_info | Up_path_chg_failure
  | Usage_report | Npcf_other nat

datatype af_notif_method = Event_detection | Other_method nat

text \<open>\<open>OpenAPI_af_event_subscription_t\<close>\<close>

record af_event_subscription =
  sb_event :: npcf_af_event
  sb_method :: af_notif_method

fun npcf_af_event_to_event_mask :: "npcf_af_event \<Rightarrow> 32 word" where
  "npcf_af_event_to_event_mask Access_type_change = 0x00001"
| "npcf_af_event_to_event_mask Ani_report = 0x00002"
| "npcf_af_event_to_event_mask App_detection = 0x00004"
| "npcf_af_event_to_event_mask Charging_correlation = 0x00008"
| "npcf_af_event_to_event_mask Eps_fallback = 0x00020"
| "npcf_af_event_to_event_mask Failed_qos_update = 0x00040"
| "npcf_af_event_to_event_mask Failed_resources_allocation = 0x00080"
| "npcf_af_event_to_event_mask Out_of_credit = 0x00100"
| "npcf_af_event_to_event_mask Pdu_session_status = 0x00200"
| "npcf_af_event_to_event_mask Plmn_chg = 0x00400"
| "npcf_af_event_to_event_mask Qos_monitoring = 0x01000"
| "npcf_af_event_to_event_mask Qos_notif = 0x00800"
| "npcf_af_event_to_event_mask Ran_nas_cause = 0x02000"
| "npcf_af_event_to_event_mask Reallocation_of_credit = 0x04000"
| "npcf_af_event_to_event_mask Sat_category_chg = 0x08000"
| "npcf_af_event_to_event_mask Successful_qos_update = 0x10000"
| "npcf_af_event_to_event_mask Successful_resources_allocation = 0x20000"
| "npcf_af_event_to_event_mask Tsn_bridge_info = 0x40000"
| "npcf_af_event_to_event_mask Up_path_chg_failure = 0x00010"
| "npcf_af_event_to_event_mask Usage_report = 0x80000"
| "npcf_af_event_to_event_mask (Npcf_other n) = 0"

text \<open>\<open>events_map\<close>: two functions of \<open>pcf-evsubsc.c\<close> have this table.\<close>

definition events_map :: "(32 word \<times> npcf_af_event) list" where
  "events_map =
     [(0x00001, Access_type_change), (0x00002, Ani_report), (0x00004, App_detection),
      (0x00008, Charging_correlation), (0x00020, Eps_fallback), (0x00040, Failed_qos_update),
      (0x00080, Failed_resources_allocation), (0x00100, Out_of_credit), (0x00200, Pdu_session_status),
      (0x00400, Plmn_chg), (0x01000, Qos_monitoring), (0x00800, Qos_notif), (0x02000, Ran_nas_cause),
      (0x04000, Reallocation_of_credit), (0x08000, Sat_category_chg), (0x10000, Successful_qos_update),
      (0x20000, Successful_resources_allocation), (0x40000, Tsn_bridge_info),
      (0x00010, Up_path_chg_failure), (0x80000, Usage_report)]"

definition event_type_all :: "32 word" where "event_type_all = 0xFFFFF"

definition events_subsc_create :: "32 word \<Rightarrow> af_event_subscription list" where
  "events_subsc_create events =
     map (\<lambda>(b, e). \<lparr>sb_event = e, sb_method = Event_detection\<rparr>) (filter (\<lambda>(b, e). events AND b \<noteq> 0) events_map)"

definition pcf_app_session_evts :: "af_event_subscription list \<Rightarrow> 32 word" where
  "pcf_app_session_evts subs =
     fold (\<lambda>(b, e) events. fold (\<lambda>s events. if sb_event s = e then events OR b else events) subs events)
       events_map 0"

text \<open>\<open>OpenAPI_events_notification_t\<close>: the events of the notifications it lists.\<close>

type_synonym events_notification = "npcf_af_event list"

definition events_notification_to_events_mask :: "events_notification option \<Rightarrow> 32 word" where
  "events_notification_to_events_mask n =
     (case n of None \<Rightarrow> 0 | Some es \<Rightarrow> fold (\<lambda>e m. m OR npcf_af_event_to_event_mask e) es 0)"

definition events_subsc_req_data_to_events_mask :: "af_event_subscription list option \<Rightarrow> 32 word" where
  "events_subsc_req_data_to_events_mask subs =
     (case subs of None \<Rightarrow> 0 | Some ss \<Rightarrow> fold (\<lambda>s m. m OR npcf_af_event_to_event_mask (sb_event s)) ss 0)"

section \<open>Masks as sets of bits\<close>

lemma bit_fold_or: "bit (fold (\<lambda>x m. m OR f x) xs m) n \<longleftrightarrow> bit m n \<or> (\<exists>x\<in>set xs. bit (f x) n)"
  for m :: "32 word"
  by (induction xs arbitrary: m) (auto simp: bit_or_iff)

lemma bit_fold_or_if:
  "bit (fold (\<lambda>x m. if P x then m OR f x else m) xs m) n \<longleftrightarrow> bit m n \<or> (\<exists>x\<in>set xs. P x \<and> bit (f x) n)"
  for m :: "32 word"
  by (induction xs arbitrary: m) (auto simp: bit_or_iff)

lemma bit_fold_fold:
  "bit (fold (\<lambda>(b, e) m. fold (\<lambda>s m. if sb_event s = e then m OR b else m) subs m) t m) n \<longleftrightarrow>
     bit m n \<or> (\<exists>(b, e)\<in>set t. bit b n \<and> (\<exists>s\<in>set subs. sb_event s = e))"
  for m :: "32 word"
  by (induction t arbitrary: m) (auto simp: bit_fold_or_if split: prod.splits)

lemma bit_evts:
  "bit (pcf_app_session_evts subs) n \<longleftrightarrow>
     (\<exists>(b, e)\<in>set events_map. bit b n \<and> (\<exists>s\<in>set subs. sb_event s = e))"
  by (simp add: pcf_app_session_evts_def bit_fold_fold)

fun event_index :: "npcf_af_event \<Rightarrow> nat option" where
  "event_index Access_type_change = Some 0" | "event_index Ani_report = Some 1"
| "event_index App_detection = Some 2" | "event_index Charging_correlation = Some 3"
| "event_index Up_path_chg_failure = Some 4" | "event_index Eps_fallback = Some 5"
| "event_index Failed_qos_update = Some 6" | "event_index Failed_resources_allocation = Some 7"
| "event_index Out_of_credit = Some 8" | "event_index Pdu_session_status = Some 9"
| "event_index Plmn_chg = Some 10" | "event_index Qos_notif = Some 11"
| "event_index Qos_monitoring = Some 12" | "event_index Ran_nas_cause = Some 13"
| "event_index Reallocation_of_credit = Some 14" | "event_index Sat_category_chg = Some 15"
| "event_index Successful_qos_update = Some 16" | "event_index Successful_resources_allocation = Some 17"
| "event_index Tsn_bridge_info = Some 18" | "event_index Usage_report = Some 19"
| "event_index (Npcf_other n) = None"

lemma event_index_less: "event_index e = Some i \<Longrightarrow> i < 20"
  by (cases e) auto

lemma event_mask_index:
  "npcf_af_event_to_event_mask e = (case event_index e of None \<Rightarrow> 0 | Some i \<Rightarrow> 2 ^ i)"
  by (cases e) simp_all

lemma bit_event_mask: "bit (npcf_af_event_to_event_mask e) n \<longleftrightarrow> event_index e = Some n"
  using event_index_less [of e]
  by (auto simp: event_mask_index bit_exp_iff split: option.split)

lemma events_map_iff:
  "(b, e) \<in> set events_map \<longleftrightarrow> b = npcf_af_event_to_event_mask e \<and> event_index e \<noteq> None"
  by (cases e) (auto simp: events_map_def)

lemma event_index_onto:
  assumes "n < 20" obtains e where "event_index e = Some n"
proof -
  have "n \<in> set [0..<20]" using assms by simp
  also have "[0..<20] = map (the \<circ> event_index \<circ> snd) (sort_key (the \<circ> event_index \<circ> snd) events_map)"
    by (simp add: events_map_def upt_rec)
  finally obtain p where "p \<in> set events_map" "n = the (event_index (snd p))" by auto
  then have "event_index (snd p) = Some n" using events_map_iff [of "fst p" "snd p"] by auto
  then show thesis using that by blast
qed

lemma bit_evts_index: "bit (pcf_app_session_evts subs) n \<longleftrightarrow> (\<exists>s\<in>set subs. event_index (sb_event s) = Some n)"
  by (force simp: bit_evts events_map_iff bit_event_mask)

lemma evts_eq_mask: "pcf_app_session_evts subs = events_subsc_req_data_to_events_mask (Some subs)"
  by (rule bit_eqI) (auto simp: bit_evts_index events_subsc_req_data_to_events_mask_def bit_fold_or bit_event_mask)

lemma and_event_mask: "events AND npcf_af_event_to_event_mask e \<noteq> 0 \<longleftrightarrow> (\<exists>i. event_index e = Some i \<and> bit events i)"
proof -
  have "events AND npcf_af_event_to_event_mask e \<noteq> 0 \<longleftrightarrow> (\<exists>i. bit (events AND npcf_af_event_to_event_mask e) i)"
    by (metis bit_0_eq bit_eqI bot_apply bot_bool_def)
  then show ?thesis by (auto simp: bit_and_iff bit_event_mask)
qed

lemma events_subsc_create_set:
  "s \<in> set (events_subsc_create m) \<longleftrightarrow>
     sb_method s = Event_detection \<and> af_event_subscription.more s = () \<and>
     (\<exists>i. event_index (sb_event s) = Some i \<and> bit m i)"
proof
  assume "s \<in> set (events_subsc_create m)"
  then show "sb_method s = Event_detection \<and> af_event_subscription.more s = () \<and>
      (\<exists>i. event_index (sb_event s) = Some i \<and> bit m i)"
    by (auto simp: events_subsc_create_def events_map_iff and_event_mask)
next
  assume a: "sb_method s = Event_detection \<and> af_event_subscription.more s = () \<and>
      (\<exists>i. event_index (sb_event s) = Some i \<and> bit m i)"
  then have "(npcf_af_event_to_event_mask (sb_event s), sb_event s) \<in> set events_map"
    unfolding events_map_iff by blast
  moreover have "m AND npcf_af_event_to_event_mask (sb_event s) \<noteq> 0" using a by (simp add: and_event_mask)
  ultimately show "s \<in> set (events_subsc_create m)"
    unfolding events_subsc_create_def using a by (force intro: image_eqI)
qed

lemma bit_event_type_all: "bit event_type_all n \<longleftrightarrow> n < 20"
proof -
  have "event_type_all = mask 20" by (simp add: event_type_all_def mask_eq_exp_minus_1)
  then have "bit event_type_all n \<longleftrightarrow> bit (mask 20 :: 32 word) n" by (rule arg_cong)
  also have "\<dots> \<longleftrightarrow> n < 20" unfolding bit_mask_iff by auto
  finally show ?thesis .
qed

lemma evts_create: "pcf_app_session_evts (events_subsc_create m) = m AND event_type_all"
proof (rule bit_eqI)
  fix n
  have "(\<exists>s\<in>set (events_subsc_create m). event_index (sb_event s) = Some n) \<longleftrightarrow> bit m n \<and> n < 20"
  proof
    assume "bit m n \<and> n < 20"
    then obtain e where e: "event_index e = Some n" "bit m n" using event_index_onto by blast
    have "\<lparr>sb_event = e, sb_method = Event_detection\<rparr> \<in> set (events_subsc_create m)"
      using e by (simp add: events_subsc_create_set)
    then show "\<exists>s\<in>set (events_subsc_create m). event_index (sb_event s) = Some n"
      by (rule bexI [rotated]) (simp add: e)
  qed (auto simp: events_subsc_create_set dest: event_index_less)
  then show "bit (pcf_app_session_evts (events_subsc_create m)) n \<longleftrightarrow> bit (m AND event_type_all) n"
    by (simp add: bit_evts_index bit_and_iff bit_event_type_all)
qed

section \<open>Merging a subscription\<close>

text \<open>Two subscriptions are the same when the texts of event and method are; the enumerators
  have different texts.\<close>

definition same_subscription :: "af_event_subscription \<Rightarrow> af_event_subscription \<Rightarrow> bool" where
  "same_subscription a b \<longleftrightarrow> sb_event a = sb_event b \<and> sb_method a = sb_method b"

text \<open>The loop of \<open>merge_event_subsc_to_app_session_context\<close>: \<open>done\<close> is the part of the list that
  was walked, \<open>todo\<close> the rest, to which the loop appends.  A loop that does not end has no
  result.\<close>

partial_function (option) merge_loop ::
  "af_event_subscription list \<Rightarrow> af_event_subscription list \<Rightarrow> af_event_subscription list \<Rightarrow> nat \<Rightarrow>
     (nat \<times> af_event_subscription list) option" where
  "merge_loop req walked todo merged =
     (case todo of
        [] \<Rightarrow> Some (merged, walked)
      | e # es \<Rightarrow>
          (let new = filter (\<lambda>s. \<not> same_subscription e s) req
           in merge_loop req (walked @ [e]) (es @ new) (merged + length new)))"

definition merge_event_subsc ::
  "af_event_subscription list \<Rightarrow> af_event_subscription list \<Rightarrow> (nat \<times> af_event_subscription list) option" where
  "merge_event_subsc requested req = merge_loop req [] requested 0"

definition merge_evt_subsc ::
  "af_event_subscription option list \<Rightarrow> af_event_subscription list \<Rightarrow> af_event_subscription list" where
  "merge_evt_subsc req requested = fold (\<lambda>e es. case e of None \<Rightarrow> es | Some s \<Rightarrow> es @ [s]) req requested"

declare merge_loop.simps [code]

lemma merge_loop_Nil [simp]: "merge_loop req walked [] n = Some (n, walked)"
  by (simp add: merge_loop.simps)

lemma merge_loop_Cons:
  "merge_loop req walked (e # es) n =
     merge_loop req (walked @ [e]) (es @ filter (\<lambda>s. \<not> same_subscription e s) req)
       (n + length (filter (\<lambda>s. \<not> same_subscription e s) req))"
  by (subst merge_loop.simps) (simp add: Let_def)

lemma merge_loop_same:
  "(\<And>e s. e \<in> set todo \<Longrightarrow> s \<in> set req \<Longrightarrow> same_subscription e s) \<Longrightarrow>
     merge_loop req walked todo n = Some (n, walked @ todo)"
proof (induction todo arbitrary: walked)
  case (Cons e es)
  then have "filter (\<lambda>s. \<not> same_subscription e s) req = []" by (auto simp: filter_empty_conv)
  then show ?case using Cons by (simp add: merge_loop_Cons)
qed simp

text \<open>When the new subscriptions are all the same the loop ends: each different subscription in
  the list adds a copy of them.\<close>

definition differing :: "af_event_subscription list \<Rightarrow> af_event_subscription list \<Rightarrow> af_event_subscription list" where
  "differing req es = filter (\<lambda>e. \<exists>s\<in>set req. \<not> same_subscription e s) es"

lemma merge_loop_uniform:
  assumes "\<And>s t. s \<in> set req \<Longrightarrow> t \<in> set req \<Longrightarrow> same_subscription s t" "set added \<subseteq> set req"
  shows "merge_loop req walked (todo @ added) n =
     Some (n + length (differing req todo) * length req,
       walked @ todo @ added @ concat (replicate (length (differing req todo)) req))"
  using assms(2)
proof (induction todo arbitrary: walked added n)
  case Nil
  then show ?case using assms(1) by (simp add: merge_loop_same differing_def subset_iff)
next
  case (Cons e todo)
  show ?case
  proof (cases "\<exists>s\<in>set req. \<not> same_subscription e s")
    case True
    then obtain t where "t \<in> set req" "\<not> same_subscription e t" by blast
    then have "\<not> same_subscription e s" if "s \<in> set req" for s
      using assms(1) [OF that] by (simp add: same_subscription_def)
    then have f: "filter (\<lambda>s. \<not> same_subscription e s) req = req" by (simp add: filter_id_conv)
    have d: "differing req (e # todo) = e # differing req todo" using True by (simp add: differing_def)
    have "merge_loop req walked ((e # todo) @ added) n =
        merge_loop req (walked @ [e]) (todo @ (added @ req)) (n + length req)"
      by (simp add: merge_loop_Cons f)
    also have "\<dots> = Some (n + length req + length (differing req todo) * length req,
        (walked @ [e]) @ todo @ (added @ req) @ concat (replicate (length (differing req todo)) req))"
      by (rule Cons.IH) (use Cons.prems in auto)
    finally show ?thesis by (simp add: d)
  next
    case False
    then have "filter (\<lambda>s. \<not> same_subscription e s) req = []" by (auto simp: filter_empty_conv)
    then show ?thesis using Cons.IH [of added] Cons.prems False by (simp add: merge_loop_Cons differing_def)
  qed
qed

lemma merge_event_subsc_uniform:
  assumes "\<And>s t. s \<in> set req \<Longrightarrow> t \<in> set req \<Longrightarrow> same_subscription s t"
  shows "merge_event_subsc requested req =
     (let k = length (differing req requested) in Some (k * length req, requested @ concat (replicate k req)))"
  using merge_loop_uniform [OF assms, where added = "[]" and walked = "[]" and todo = requested and n = 0] by (simp add: merge_event_subsc_def Let_def)

text \<open>With two different subscriptions the loop never ends: each element that is walked adds at
  least one more.\<close>

lemma merge_loop_ends:
  assumes "merge_loop req walked todo n = Some r"
  shows "s \<in> set req \<and> t \<in> set req \<and> \<not> same_subscription s t \<longrightarrow> todo = []"
proof (rule merge_loop.raw_induct [where P = "\<lambda>req walked todo n r.
    s \<in> set req \<and> t \<in> set req \<and> \<not> same_subscription s t \<longrightarrow> todo = []", OF _ assms])
  fix loop req walked todo n r
  let ?Q = "\<lambda>req todo. s \<in> set req \<and> t \<in> set req \<and> \<not> same_subscription s t \<longrightarrow> todo = []"
  assume IH: "\<And>req walked todo n r. loop req walked todo n = Some r \<Longrightarrow> ?Q req todo"
    and r: "(case todo of [] \<Rightarrow> Some (n, walked)
      | e # es \<Rightarrow> let new = filter (\<lambda>s. \<not> same_subscription e s) req
                  in loop req (walked @ [e]) (es @ new) (n + length new)) = Some r"
  show "?Q req todo"
  proof (cases todo)
    case (Cons e es)
    let ?new = "filter (\<lambda>s. \<not> same_subscription e s) req"
    have "loop req (walked @ [e]) (es @ ?new) (n + length ?new) = Some r"
      using r Cons by (simp add: Let_def)
    from IH [OF this] show ?thesis by (simp add: filter_empty_conv same_subscription_def) metis
  qed simp
qed

lemma merge_event_subsc_diverges:
  "s \<in> set req \<Longrightarrow> t \<in> set req \<Longrightarrow> \<not> same_subscription s t \<Longrightarrow> requested \<noteq> [] \<Longrightarrow>
     merge_event_subsc requested req = None"
  unfolding merge_event_subsc_def using merge_loop_ends by (metis option.exhaust)

end
