(* ===== verification/Pcf_Context.thy ===== *)
theory Pcf_Context
  imports Pcf_Events Bsf_Config Sc_State Yaml
begin

text \<open>
  The state of \<open>lib/pcf-service-consumer\<close> (\<open>context.c\<close>, \<open>pcf-client-sess.c\<close>, \<open>pcf-client.c\<close>): the
  context with its listeners and sessions, the sessions with the PCF, the application sessions
  with their event notifications, and the log of what leaves the library.  Sessions and
  application sessions are finite-map entries under their address; using one that is not
  allocated is undefined.  Callbacks of the application are opaque: a callback is logged and its
  result is a parameter.
\<close>

section \<open>Addresses as text\<close>

text \<open>\<open>%p\<close> of a pointer that is not \<open>NULL\<close>.\<close>

definition pointer_text :: "nat \<Rightarrow> string" where
  "pointer_text a = ''0x'' @ map to_lower (digits_str 16 a)"

lemma digit_value_digit_char: "d < 16 \<Longrightarrow> digit_value (to_lower (digit_char d)) = Some d"
  by (cases "d < 10") (simp_all add: digit_value_def digit_char_def is_digit_def to_lower_def Let_def)

lemma read_digits_snoc:
  assumes "\<forall>c\<in>set s. \<exists>d<b. digit_value c = Some d" "digit_value x = Some d" "d < b"
  shows "read_digits b n (s @ [x]) = (b * fst (read_digits b n s) + d, [])"
  using assms by (induction s arbitrary: n) (auto split: option.splits)

lemma hex_digits: "\<forall>c\<in>set (map to_lower (digits_str 16 n)). \<exists>d<16. digit_value c = Some d"
  using digits_str_chars [of 16 n] by (auto dest!: subsetD intro: digit_value_digit_char)

lemma read_digits_hex: "read_digits 16 0 (map to_lower (digits_str 16 n)) = (n, [])"
proof (induction "16 :: nat" n rule: digits_str.induct)
  case (1 n)
  show ?case
  proof (cases "n = 0")
    case True
    then show ?thesis by (simp add: digits_str.simps)
  next
    case False
    have e: "digits_str 16 n = digits_str 16 (n div 16) @ [digit_char (n mod 16)]"
      using False by (subst digits_str.simps) simp
    have "read_digits 16 0 (map to_lower (digits_str 16 (n div 16))) = (n div 16, [])"
      using 1 False by simp
    then show ?thesis
      using read_digits_snoc [OF hex_digits [of "n div 16"] digit_value_digit_char [of "n mod 16"], of 0]
      by (simp add: e)
  qed
qed

lemma starts_digit_hex:
  assumes "0 < n" shows "starts_digit 16 (map to_lower (digits_str 16 n))"
proof -
  have "digits_str 16 n \<noteq> []" using assms by (subst digits_str.simps) simp
  then obtain c cs where c: "map to_lower (digits_str 16 n) = c # cs"
    by (cases "map to_lower (digits_str 16 n)") auto
  then obtain d where "digit_value c = Some d" "d < 16" using hex_digits [of n] by auto
  then show ?thesis by (simp add: starts_digit_def c)
qed

text \<open>A pointer that was printed is read back by \<open>strtoull\<close> with base 0.\<close>

lemma strtoul_pointer_text:
  assumes "0 < a" "a < 2 ^ 64"
  shows "strtoul (pointer_text a) = (of_nat a, [])"
proof -
  have m: "read_magnitude (pointer_text a) = Some (a, [])"
    using starts_digit_hex [OF assms(1)] read_digits_hex [of a]
    by (simp add: read_magnitude_def pointer_text_def to_lower_def)
  have s: "dropWhile is_space (pointer_text a) = pointer_text a"
    by (simp add: pointer_text_def is_space_def)
  then show ?thesis
    using m assms(2) by (simp add: strtoul_def s pointer_text_def)
qed

section \<open>Data\<close>

text \<open>\<open>ue_network_identifier_t\<close> (\<open>pcf-service-consumer.h\<close>)\<close>

record ue_network_identifier =
  ue_address :: "sockaddr option"
  ue_supi :: "string option"
  ue_gpsi :: "string option"
  ue_dnn :: "string option"
  ue_ip_domain :: "string option"

text \<open>The members of the OpenAPI objects that the library sets or reads.  A list of media
  components owns the memory blocks of its strings, lists and components, which
  \<open>media_components_free\<close> walks.\<close>

record media_sub_component =
  sc_block :: nat
  sc_descs :: "nat option list"

record media_sub_entry =
  se_block :: nat
  se_key :: "nat option"
  se_component :: "media_sub_component option"

record media_component =
  mc_block :: nat
  mc_bandwidths :: "nat option list"
  mc_codecs :: "nat option list"
  mc_subs :: "media_sub_entry option list"

record media_entry =
  me_block :: nat
  me_key :: "nat option"
  me_component :: "media_component option"

type_synonym media_components = "media_entry option list"

record events_subsc =
  es_events :: "af_event_subscription list"
  es_notif_uri :: "string option"

datatype sponsoring_status = Sponsor_null | Sponsor_disabled | Sponsor_enabled

record req_data =
  rd_notif_uri :: "string option"
  rd_supp_feat :: "string option"
  rd_ue_ipv4 :: "string option"
  rd_ue_ipv6 :: "string option"
  rd_dnn :: "string option"
  rd_ev_subsc :: "events_subsc option"
  rd_slice :: "(8 word \<times> string option) option"
  rd_spon :: sponsoring_status
  rd_supi :: "string option"
  rd_gpsi :: "string option"
  rd_res_prio :: nat
  rd_media :: "media_components option"

text \<open>\<open>OpenAPI_app_session_context_t\<close> by its \<open>asc_req_data\<close>, and the data of an update.\<close>

type_synonym app_context = "req_data option"

record update_data =
  ud_spon :: sponsoring_status
  ud_res_prio :: nat
  ud_media :: "media_components option"

type_synonym update_patch = "update_data option"

record event_notification =
  en_callback :: "nat option"
  en_events :: "32 word"
  en_user_data :: "nat option"

text \<open>\<open>pcf_app_session_t\<close> (\<open>pcf-client.h\<close>)\<close>

record app_session =
  aps_features :: "64 word"
  aps_id :: "string option"
  aps_ipv4addr :: "string option"
  aps_ipv6addr :: "string option"
  aps_ipv6prefix :: "string option"
  aps_supi :: "string option"
  aps_gpsi :: "string option"
  aps_snssai :: snssai
  aps_dnn :: "string option"
  aps_session :: nat
  aps_ue :: ue_network_identifier
  aps_requested :: "app_context option"
  aps_received :: "app_context option"
  aps_updates :: "update_patch option"
  aps_updates_received :: "update_patch option"
  aps_change_cb :: "nat option"
  aps_change_data :: "nat option"
  aps_notifs :: "event_notification list"
  aps_notif_url :: "string option"

text \<open>\<open>pcf_session_t\<close> (\<open>pcf-client-sess.h\<close>)\<close>

record pcf_session =
  px_addr :: sockaddr
  px_client :: nat
  px_apps :: "nat list"
  px_server :: "nat option"

text \<open>\<open>pcf_context_t\<close> (\<open>context.h\<close>)\<close>

record pcf_context =
  pc_listeners :: "connection_addr list"
  pc_sessions :: "nat list"

section \<open>What leaves the library\<close>

datatype pcf_body = Pb_context app_context | Pb_update update_patch | Pb_subsc events_subsc | Pb_none

record pcf_request =
  pr_method :: string
  pr_uri :: string
  pr_body :: pcf_body

datatype pcf_action =
    Pcf_send nat nat pcf_request bool
  | Pcf_changed nat "nat option" "nat option"
  | Pcf_notified nat nat events_notification "nat option"
  | Pcf_error_reply nat int
  | Pcf_reply nat int
  | Pcf_server_start sockaddr
  | Pcf_client_removed nat
  | Pcf_data_freed nat

record pcf_world =
  p_ctx :: "pcf_context option"
  p_sess :: "nat \<Rightarrow> pcf_session option"
  p_apps :: "nat \<Rightarrow> app_session option"
  p_servers :: "nat list"
  p_blocks :: "nat set"
  p_next :: nat
  p_log :: "pcf_action list"

text \<open>Open5GS, the network and the application: the text of an address, the results of the
  callbacks, whether a client can be made for a PCF address, the local address from which the
  PCF is reached, whether a server starts, the URI of a server with a path, the copy functions
  of the OpenAPI objects, the texts of feature sets and slice differentiators, the path of a
  location, and whether a request can be built.\<close>

record pcf_env =
  pe_ipstr :: "sockaddr \<Rightarrow> string"
  pe_change :: "nat \<Rightarrow> nat option \<Rightarrow> nat option \<Rightarrow> bool"
  pe_notify :: "nat \<Rightarrow> nat \<Rightarrow> events_notification \<Rightarrow> nat option \<Rightarrow> bool"
  pe_client :: "sockaddr \<Rightarrow> bool"
  pe_local :: "sockaddr \<Rightarrow> sockaddr option"
  pe_starts :: "sockaddr \<Rightarrow> bool"
  pe_server_uri :: "nat \<Rightarrow> string list \<Rightarrow> string"
  pe_copy_context :: "app_context \<Rightarrow> app_context option"
  pe_copy_patch :: "update_patch \<Rightarrow> update_patch option"
  pe_copy_subsc :: "events_subsc \<Rightarrow> events_subsc option"
  pe_features_text :: "64 word \<Rightarrow> string"
  pe_features :: "string \<Rightarrow> 64 word"
  pe_sd_text :: "24 word \<Rightarrow> string option"
  pe_location :: "string \<Rightarrow> string list option"
  pe_builds :: "pcf_request \<Rightarrow> bool"

definition pcf_log :: "pcf_action \<Rightarrow> pcf_world \<Rightarrow> pcf_world" where
  "pcf_log a w = w\<lparr>p_log := p_log w @ [a]\<rparr>"

definition put_app :: "nat \<Rightarrow> app_session \<Rightarrow> pcf_world \<Rightarrow> pcf_world" where
  "put_app a s w = w\<lparr>p_apps := (p_apps w)(a \<mapsto> s)\<rparr>"

definition put_psess :: "nat \<Rightarrow> pcf_session \<Rightarrow> pcf_world \<Rightarrow> pcf_world" where
  "put_psess p s w = w\<lparr>p_sess := (p_sess w)(p \<mapsto> s)\<rparr>"

lemma pcf_put_sel [simp]:
  "p_ctx (pcf_log x w) = p_ctx w" "p_sess (pcf_log x w) = p_sess w" "p_apps (pcf_log x w) = p_apps w"
  "p_servers (pcf_log x w) = p_servers w" "p_blocks (pcf_log x w) = p_blocks w" "p_next (pcf_log x w) = p_next w"
  "p_log (pcf_log x w) = p_log w @ [x]"
  "p_ctx (put_app a s w) = p_ctx w" "p_sess (put_app a s w) = p_sess w"
  "p_apps (put_app a s w) = (p_apps w)(a \<mapsto> s)" "p_servers (put_app a s w) = p_servers w"
  "p_blocks (put_app a s w) = p_blocks w" "p_next (put_app a s w) = p_next w" "p_log (put_app a s w) = p_log w"
  "p_ctx (put_psess p t w) = p_ctx w" "p_sess (put_psess p t w) = (p_sess w)(p \<mapsto> t)"
  "p_apps (put_psess p t w) = p_apps w" "p_servers (put_psess p t w) = p_servers w"
  "p_blocks (put_psess p t w) = p_blocks w" "p_next (put_psess p t w) = p_next w" "p_log (put_psess p t w) = p_log w"
  by (simp_all add: pcf_log_def put_app_def put_psess_def)

section \<open>The context\<close>

definition empty_pcf_context :: pcf_context where
  "empty_pcf_context = \<lparr>pc_listeners = [], pc_sessions = []\<rparr>"

definition pcf_context_init :: "pcf_world \<Rightarrow> pcf_world option" where
  "pcf_context_init w = (if p_ctx w = None then Some (w\<lparr>p_ctx := Some empty_pcf_context\<rparr>) else None)"

definition pcf_self :: "pcf_world \<Rightarrow> pcf_world" where
  "pcf_self w = (case pcf_context_init w of None \<Rightarrow> w | Some w \<Rightarrow> w)"

definition on_pcf_context :: "(pcf_context \<Rightarrow> pcf_context) \<Rightarrow> pcf_world \<Rightarrow> pcf_world" where
  "on_pcf_context f w = w\<lparr>p_ctx := map_option f (p_ctx w)\<rparr>"

definition pcf_sessions :: "pcf_world \<Rightarrow> nat list" where
  "pcf_sessions w = (case p_ctx w of None \<Rightarrow> [] | Some c \<Rightarrow> pc_sessions c)"

definition pcf_notification_listener_add :: "string option \<Rightarrow> int \<Rightarrow> pcf_world \<Rightarrow> pcf_world option" where
  "pcf_notification_listener_add host port w =
     (case p_ctx w of
        None \<Rightarrow> None
      | Some c \<Rightarrow> Some (w\<lparr>p_ctx := Some (c\<lparr>pc_listeners := pc_listeners c @ [\<lparr>ca_addr = host, ca_port = port\<rparr>]\<rparr>)\<rparr>))"

definition pcf_notification_listener_remove_all :: "pcf_world \<Rightarrow> pcf_world" where
  "pcf_notification_listener_remove_all w = on_pcf_context (\<lambda>c. c\<lparr>pc_listeners := []\<rparr>) w"

text \<open>The first application session that passes a test, in a list of application sessions and in
  those of a list of sessions; a test may be undefined.\<close>

fun walk_apps :: "pcf_world \<Rightarrow> (nat \<Rightarrow> app_session \<Rightarrow> bool option) \<Rightarrow> nat list \<Rightarrow> nat option option" where
  "walk_apps w P [] = Some None"
| "walk_apps w P (a # as) = do {
     s \<leftarrow> p_apps w a;
     b \<leftarrow> P a s;
     (if b then Some (Some a) else walk_apps w P as)
   }"

fun walk_sessions :: "pcf_world \<Rightarrow> (nat \<Rightarrow> app_session \<Rightarrow> bool option) \<Rightarrow> nat list \<Rightarrow> nat option option" where
  "walk_sessions w P [] = Some None"
| "walk_sessions w P (p # ps) = do {
     s \<leftarrow> p_sess w p;
     r \<leftarrow> walk_apps w P (px_apps s);
     (case r of Some a \<Rightarrow> Some (Some a) | None \<Rightarrow> walk_sessions w P ps)
   }"

text \<open>\<open>strcmp\<close> of a \<open>NULL\<close> text is undefined.\<close>

definition same_text :: "string option \<Rightarrow> string option \<Rightarrow> bool option" where
  "same_text s t = (case (s, t) of (Some x, Some y) \<Rightarrow> Some (x = y) | _ \<Rightarrow> None)"

definition pcf_app_session_exists :: "nat \<Rightarrow> pcf_world \<Rightarrow> bool option" where
  "pcf_app_session_exists a w = map_option (\<lambda>r. r \<noteq> None) (walk_sessions w (\<lambda>b _. Some (b = a)) (pcf_sessions w))"

definition pcf_session_find_by_pcf_app_session_id :: "string option \<Rightarrow> pcf_world \<Rightarrow> nat option option" where
  "pcf_session_find_by_pcf_app_session_id i w =
     walk_sessions w (\<lambda>_ s. same_text (aps_id s) i) (pcf_sessions w)"

definition pcf_client_context_active_sessions_exists :: "nat \<Rightarrow> pcf_world \<Rightarrow> nat option option" where
  "pcf_client_context_active_sessions_exists a w = do {
     s \<leftarrow> p_apps w a;
     p \<leftarrow> p_sess w (aps_session s);
     walk_apps w (\<lambda>_ t. same_text (aps_id s) (aps_id t)) (px_apps p)
   }"

definition pcf_session_has_notification_server :: "nat \<Rightarrow> nat \<Rightarrow> pcf_world \<Rightarrow> bool option" where
  "pcf_session_has_notification_server p v w = map_option (\<lambda>s. px_server s = Some v) (p_sess w p)"

end
