(* ===== verification/Pcf_Session.thy ===== *)
theory Pcf_Session
  imports Pcf_Context
begin

text \<open>
  Operations on application sessions and PCF sessions (\<open>pcf-client.c\<close>, \<open>pcf-client-sess.c\<close>,
  \<open>pcf-service-consumer.c\<close>): creation and release, event notifications and their callbacks, the
  notification server with its URL, and the stored OpenAPI objects.
\<close>

section \<open>Event notifications\<close>

definition add_notification :: "32 word \<Rightarrow> nat option \<Rightarrow> nat option \<Rightarrow> app_session \<Rightarrow> app_session" where
  "add_notification events cb d s =
     s\<lparr>aps_notifs := aps_notifs s @ [\<lparr>en_callback = cb, en_events = events, en_user_data = d\<rparr>]\<rparr>"

definition pcf_app_session_add_event_notification ::
  "nat option \<Rightarrow> 32 word \<Rightarrow> nat option \<Rightarrow> nat option \<Rightarrow> pcf_world \<Rightarrow> (bool \<times> pcf_world) option" where
  "pcf_app_session_add_event_notification p events cb d w =
     (case (p, cb) of
        (Some a, Some f) \<Rightarrow> map_option (\<lambda>s. (True, put_app a (add_notification events cb d s) w)) (p_apps w a)
      | _ \<Rightarrow> Some (False, w))"

text \<open>Without a callback every entry is concerned.\<close>

definition concerns :: "nat option \<Rightarrow> nat option \<Rightarrow> event_notification \<Rightarrow> bool" where
  "concerns cb d n \<longleftrightarrow> cb = None \<or> (en_callback n = cb \<and> (d = None \<or> en_user_data n = d))"

fun drop_events :: "32 word \<Rightarrow> nat option \<Rightarrow> nat option \<Rightarrow> event_notification list \<Rightarrow> event_notification list" where
  "drop_events m cb d [] = []"
| "drop_events m cb d (n # ns) =
     (if concerns cb d n then
        (let left = en_events n AND NOT m
         in if left = 0 then drop_events m cb d ns else n\<lparr>en_events := left\<rparr> # drop_events m cb d ns)
      else n # drop_events m cb d ns)"

definition pcf_app_session_remove_event_notification ::
  "nat option \<Rightarrow> 32 word \<Rightarrow> nat option \<Rightarrow> nat option \<Rightarrow> pcf_world \<Rightarrow> (bool \<times> pcf_world) option" where
  "pcf_app_session_remove_event_notification p m cb d w =
     (case p of
        None \<Rightarrow> Some (False, w)
      | Some a \<Rightarrow> map_option (\<lambda>s. (True, put_app a (s\<lparr>aps_notifs := drop_events m cb d (aps_notifs s)\<rparr>) w))
                    (p_apps w a))"

definition pcf_client_sess_notification_callback_init :: "nat \<Rightarrow> pcf_world \<Rightarrow> pcf_world option" where
  "pcf_client_sess_notification_callback_init a w =
     map_option (\<lambda>s. put_app a (s\<lparr>aps_notifs := []\<rparr>) w) (p_apps w a)"

definition pcf_client_sess_notification_callback_set ::
  "nat option \<Rightarrow> nat option \<Rightarrow> 32 word \<Rightarrow> af_event_subscription list option \<Rightarrow> nat option \<Rightarrow> pcf_world \<Rightarrow>
     (bool \<times> pcf_world) option" where
  "pcf_client_sess_notification_callback_set p cb events req d w =
     (case p of
        None \<Rightarrow> Some (False, w)
      | Some a \<Rightarrow>
          (let m = (case req of None \<Rightarrow> events
                    | Some subs \<Rightarrow> if events = 0 then pcf_app_session_evts subs else events)
           in map_option (\<lambda>s. (True, put_app a (add_notification m cb d s) w)) (p_apps w a)))"

text \<open>This removal also frees the data of the application, unlike the release of a session.\<close>

definition pcf_app_sess_event_notifications_remove :: "nat \<Rightarrow> pcf_world \<Rightarrow> pcf_world option" where
  "pcf_app_sess_event_notifications_remove a w =
     map_option (\<lambda>s. fold (\<lambda>n w. case en_user_data n of None \<Rightarrow> w | Some d \<Rightarrow> pcf_log (Pcf_data_freed d) w)
         (aps_notifs s) (put_app a (s\<lparr>aps_notifs := []\<rparr>) w)) (p_apps w a)"

section \<open>Callbacks of the application\<close>

definition pcf_app_session_change_callback_call ::
  "pcf_env \<Rightarrow> nat option \<Rightarrow> bool \<Rightarrow> pcf_world \<Rightarrow> (bool \<times> pcf_world) option" where
  "pcf_app_session_change_callback_call env p deleted w =
     (case p of
        None \<Rightarrow> Some (False, w)
      | Some a \<Rightarrow> do {
          s \<leftarrow> p_apps w a;
          (case aps_change_cb s of
             None \<Rightarrow> Some (False, w)
           | Some f \<Rightarrow>
               (let arg = (if deleted then None else Some a)
                in Some (pe_change env f arg (aps_change_data s), pcf_log (Pcf_changed f arg (aps_change_data s)) w)))
        })"

text \<open>A \<open>NULL\<close> callback that is called is undefined.\<close>

fun notify_all ::
  "pcf_env \<Rightarrow> nat \<Rightarrow> events_notification \<Rightarrow> 32 word \<Rightarrow> event_notification list \<Rightarrow> bool \<Rightarrow> pcf_world \<Rightarrow>
     (bool \<times> pcf_world) option" where
  "notify_all env a es m [] r w = Some (r, w)"
| "notify_all env a es m (n # ns) r w =
     (if en_events n AND m \<noteq> 0 then
        (case en_callback n of
           None \<Rightarrow> None
         | Some f \<Rightarrow> notify_all env a es m ns (r \<and> pe_notify env f a es (en_user_data n))
                       (pcf_log (Pcf_notified f a es (en_user_data n)) w))
      else notify_all env a es m ns r w)"

definition pcf_app_session_notifications_callback_call ::
  "pcf_env \<Rightarrow> nat option \<Rightarrow> events_notification option \<Rightarrow> pcf_world \<Rightarrow> (bool \<times> pcf_world) option" where
  "pcf_app_session_notifications_callback_call env p es w =
     (case (p, es) of
        (Some a, Some ns) \<Rightarrow> do {
          s \<leftarrow> p_apps w a;
          notify_all env a ns (events_notification_to_events_mask es) (aps_notifs s) True w
        }
      | _ \<Rightarrow> Some (False, w))"

definition pcf_client_sess_change_callback_set ::
  "nat option \<Rightarrow> nat option \<Rightarrow> nat option \<Rightarrow> pcf_world \<Rightarrow> (bool \<times> pcf_world) option" where
  "pcf_client_sess_change_callback_set p cb d w =
     (case p of
        None \<Rightarrow> Some (False, w)
      | Some a \<Rightarrow> map_option (\<lambda>s. (True, put_app a (s\<lparr>aps_change_cb := cb, aps_change_data := d\<rparr>) w)) (p_apps w a))"

section \<open>The address of the UE\<close>

definition pcf_client_sess_ue_address_set :: "sockaddr option \<Rightarrow> app_session \<Rightarrow> app_session" where
  "pcf_client_sess_ue_address_set a s = s\<lparr>aps_ue := (aps_ue s)\<lparr>ue_address := a\<rparr>\<rparr>"

definition pcf_client_sess_ipv4addr_set_from_sockaddr ::
  "pcf_env \<Rightarrow> sockaddr option \<Rightarrow> app_session \<Rightarrow> bool \<times> app_session" where
  "pcf_client_sess_ipv4addr_set_from_sockaddr env addr s =
     (case addr of
        None \<Rightarrow> (False, s)
      | Some a \<Rightarrow> if sa_family a \<noteq> Af_inet then (False, s) else (True, s\<lparr>aps_ipv4addr := Some (pe_ipstr env a)\<rparr>))"

definition pcf_client_sess_ipv6prefix_set_from_sockaddr ::
  "pcf_env \<Rightarrow> sockaddr option \<Rightarrow> app_session \<Rightarrow> bool \<times> app_session" where
  "pcf_client_sess_ipv6prefix_set_from_sockaddr env addr s =
     (case addr of
        None \<Rightarrow> (False, s)
      | Some a \<Rightarrow> if sa_family a \<noteq> Af_inet6 then (False, s)
                  else (True, s\<lparr>aps_ipv6prefix := Some (pe_ipstr env a @ ''/128'')\<rparr>))"

section \<open>Stored OpenAPI objects\<close>

text \<open>An absent object clears the member if there is one; a copy that fails leaves \<open>NULL\<close>.  The
  first of the four setters hands an absent object on to the copy function, which asserts.\<close>

definition pcf_client_requested_app_sess_context_set ::
  "pcf_env \<Rightarrow> app_context option \<Rightarrow> app_session \<Rightarrow> (bool \<times> app_session) option" where
  "pcf_client_requested_app_sess_context_set env x s =
     (case x of
        None \<Rightarrow> if aps_requested s = None then None else Some (True, s\<lparr>aps_requested := None\<rparr>)
      | Some c \<Rightarrow> Some (pe_copy_context env c \<noteq> None, s\<lparr>aps_requested := pe_copy_context env c\<rparr>))"

definition pcf_client_received_app_sess_context_set ::
  "pcf_env \<Rightarrow> app_context option \<Rightarrow> app_session \<Rightarrow> bool \<times> app_session" where
  "pcf_client_received_app_sess_context_set env x s =
     (case x of
        None \<Rightarrow> (aps_received s \<noteq> None, s\<lparr>aps_received := None\<rparr>)
      | Some c \<Rightarrow> (pe_copy_context env c \<noteq> None, s\<lparr>aps_received := pe_copy_context env c\<rparr>))"

definition pcf_client_app_sess_context_updates_set ::
  "pcf_env \<Rightarrow> update_patch option \<Rightarrow> app_session \<Rightarrow> bool \<times> app_session" where
  "pcf_client_app_sess_context_updates_set env x s =
     (case x of
        None \<Rightarrow> (aps_updates s \<noteq> None, s\<lparr>aps_updates := None\<rparr>)
      | Some c \<Rightarrow> (pe_copy_patch env c \<noteq> None, s\<lparr>aps_updates := pe_copy_patch env c\<rparr>))"

definition pcf_client_app_sess_context_received_updates_set ::
  "pcf_env \<Rightarrow> update_patch option \<Rightarrow> app_session \<Rightarrow> bool \<times> app_session" where
  "pcf_client_app_sess_context_received_updates_set env x s =
     (case x of
        None \<Rightarrow> (aps_updates_received s \<noteq> None, s\<lparr>aps_updates_received := None\<rparr>)
      | Some c \<Rightarrow> (pe_copy_patch env c \<noteq> None, s\<lparr>aps_updates_received := pe_copy_patch env c\<rparr>))"

text \<open>The events that were requested; a missing object is dereferenced.\<close>

definition requested_subsc :: "app_session \<Rightarrow> events_subsc option" where
  "requested_subsc s = do { c \<leftarrow> aps_requested s; r \<leftarrow> c; rd_ev_subsc r }"

definition set_requested_events :: "af_event_subscription list \<Rightarrow> app_session \<Rightarrow> app_session" where
  "set_requested_events es s =
     s\<lparr>aps_requested := map_option (map_option (\<lambda>r. r\<lparr>rd_ev_subsc :=
         map_option (\<lambda>u. u\<lparr>es_events := es\<rparr>) (rd_ev_subsc r)\<rparr>)) (aps_requested s)\<rparr>"

definition merge_event_subsc_to_app_session_context ::
  "nat \<Rightarrow> af_event_subscription list \<Rightarrow> pcf_world \<Rightarrow> (nat \<times> pcf_world) option" where
  "merge_event_subsc_to_app_session_context a req w = do {
     s \<leftarrow> p_apps w a;
     u \<leftarrow> requested_subsc s;
     (n, es) \<leftarrow> merge_event_subsc (es_events u) req;
     Some (n, put_app a (set_requested_events es s) w)
   }"

definition merge_evt_subsc_to_app_session_context ::
  "nat \<Rightarrow> af_event_subscription option list \<Rightarrow> pcf_world \<Rightarrow> pcf_world option" where
  "merge_evt_subsc_to_app_session_context a req w = do {
     s \<leftarrow> p_apps w a;
     u \<leftarrow> requested_subsc s;
     Some (put_app a (set_requested_events (merge_evt_subsc req (es_events u)) s) w)
   }"

section \<open>Creation and release\<close>

definition ue_network_identifier_clone :: "ue_network_identifier \<Rightarrow> ue_network_identifier" where
  "ue_network_identifier_clone u =
     \<lparr>ue_address = ue_address u, ue_supi = ue_supi u, ue_gpsi = ue_gpsi u, ue_dnn = ue_dnn u,
      ue_ip_domain = ue_ip_domain u\<rparr>"

definition empty_app_session :: "nat \<Rightarrow> ue_network_identifier \<Rightarrow> app_session" where
  "empty_app_session p u =
     \<lparr>aps_features = 0, aps_id = None, aps_ipv4addr = None, aps_ipv6addr = None, aps_ipv6prefix = None,
      aps_supi = None, aps_gpsi = None, aps_snssai = (0, 0), aps_dnn = None, aps_session = p, aps_ue = u,
      aps_requested = None, aps_received = None, aps_updates = None, aps_updates_received = None,
      aps_change_cb = None, aps_change_data = None, aps_notifs = [], aps_notif_url = None\<rparr>"

definition pcf_app_session_new ::
  "nat \<Rightarrow> ue_network_identifier \<Rightarrow> 32 word \<Rightarrow> nat option \<Rightarrow> nat option \<Rightarrow> nat option \<Rightarrow> nat option \<Rightarrow> pcf_world \<Rightarrow>
     (nat \<times> pcf_world) option" where
  "pcf_app_session_new p u events notify notify_data change change_data w = do {
     let a = p_next w;
     let w = put_app a (empty_app_session p (ue_network_identifier_clone u)) w;
     let w = w\<lparr>p_next := a + 1\<rparr>;
     (r, w) \<leftarrow> pcf_app_session_add_event_notification (Some a) events notify notify_data w;
     s \<leftarrow> p_apps w a;
     t \<leftarrow> p_sess w p;
     let w = put_app a (s\<lparr>aps_change_cb := change, aps_change_data := change_data\<rparr>) w;
     Some (a, put_psess p (t\<lparr>px_apps := px_apps t @ [a]\<rparr>) w)
   }"

text \<open>\<open>_pcf_app_session_free\<close>.  A node that was unlinked before still points to its neighbours,
  so unlinking it again changes nothing as long as the list did not change in between.\<close>

definition release_app_session :: "nat option \<Rightarrow> pcf_world \<Rightarrow> pcf_world option" where
  "release_app_session q w =
     (case q of
        None \<Rightarrow> Some w
      | Some a \<Rightarrow> do {
          s \<leftarrow> p_apps w a;
          p \<leftarrow> p_sess w (aps_session s);
          let w = put_psess (aps_session s) (p\<lparr>px_apps := remove1 a (px_apps p)\<rparr>) w;
          Some (w\<lparr>p_apps := (p_apps w)(a := None)\<rparr>)
        })"

definition pcf_app_sess_remove :: "pcf_env \<Rightarrow> nat \<Rightarrow> pcf_world \<Rightarrow> pcf_world option" where
  "pcf_app_sess_remove env a w = do {
     (r, w) \<leftarrow> pcf_app_session_change_callback_call env (Some a) True w;
     release_app_session (Some a) w
   }"

definition pcf_sess_remove_all :: "pcf_env \<Rightarrow> nat \<Rightarrow> pcf_world \<Rightarrow> pcf_world option" where
  "pcf_sess_remove_all env p w = do { t \<leftarrow> p_sess w p; fold_option (pcf_app_sess_remove env) (px_apps t) w }"

definition pcf_session_new :: "pcf_env \<Rightarrow> sockaddr \<Rightarrow> pcf_world \<Rightarrow> nat option \<times> pcf_world" where
  "pcf_session_new env addr w =
     (if \<not> pe_client env addr then (None, w)
      else
        (let w = pcf_self w; p = p_next w;
             w = put_psess p \<lparr>px_addr = addr, px_client = p + 1, px_apps = [], px_server = None\<rparr> w
         in (Some p, on_pcf_context (\<lambda>c. c\<lparr>pc_sessions := pc_sessions c @ [p]\<rparr>) (w\<lparr>p_next := p + 2\<rparr>))))"

definition pcf_session_free :: "pcf_env \<Rightarrow> nat \<Rightarrow> pcf_world \<Rightarrow> pcf_world option" where
  "pcf_session_free env p w = do {
     w \<leftarrow> pcf_sess_remove_all env p w;
     let w = on_pcf_context (\<lambda>c. c\<lparr>pc_sessions := remove1 p (pc_sessions c)\<rparr>) (pcf_self w);
     t \<leftarrow> p_sess w p;
     let w = pcf_log (Pcf_client_removed (px_client t)) w;
     Some (w\<lparr>p_sess := (p_sess w)(p := None)\<rparr>)
   }"

definition pcf_session_remove_all :: "pcf_env \<Rightarrow> pcf_world \<Rightarrow> pcf_world option" where
  "pcf_session_remove_all env w = (let w = pcf_self w in fold_option (pcf_session_free env) (pcf_sessions w) w)"

definition pcf_context_final :: "pcf_env \<Rightarrow> pcf_world \<Rightarrow> pcf_world option" where
  "pcf_context_final env w =
     (case p_ctx w of
        None \<Rightarrow> None
      | Some c \<Rightarrow> do {
          w \<leftarrow> pcf_session_remove_all env (pcf_notification_listener_remove_all w);
          Some (w\<lparr>p_ctx := None\<rparr>)
        })"

definition pcf_service_consumer_final :: "pcf_env \<Rightarrow> pcf_world \<Rightarrow> pcf_world option" where
  "pcf_service_consumer_final env w = pcf_context_final env w"

section \<open>The notification server\<close>

text \<open>The port of the address the server is started on is 0; a server that does not start has no
  socket, which is read.\<close>

definition ephemeral :: "sockaddr \<Rightarrow> sockaddr" where
  "ephemeral a = (case sa_family a of Af_inet \<Rightarrow> a\<lparr>sa_port := 0\<rparr> | Af_inet6 \<Rightarrow> a\<lparr>sa_port := 0\<rparr> | Af_other _ \<Rightarrow> a)"

definition pcf_session_get_notifications_server ::
  "pcf_env \<Rightarrow> nat option \<Rightarrow> pcf_world \<Rightarrow> (nat option \<times> pcf_world) option" where
  "pcf_session_get_notifications_server env q w =
     (case q of
        None \<Rightarrow> Some (None, w)
      | Some p \<Rightarrow> do {
          t \<leftarrow> p_sess w p;
          (case px_server t of
             Some v \<Rightarrow> Some (Some v, w)
           | None \<Rightarrow> do {
               local \<leftarrow> pe_local env (px_addr t);
               let v = p_next w;
               let w = put_psess p (t\<lparr>px_server := Some v\<rparr>) w;
               let w = pcf_log (Pcf_server_start (ephemeral local)) (w\<lparr>p_servers := p_servers w @ [v], p_next := v + 1\<rparr>);
               (if pe_starts env (ephemeral local) then Some (Some v, w) else None)
             })
        })"

definition pcf_app_session_get_notif_url ::
  "pcf_env \<Rightarrow> nat option \<Rightarrow> pcf_world \<Rightarrow> (string option \<times> pcf_world) option" where
  "pcf_app_session_get_notif_url env q w =
     (case q of
        None \<Rightarrow> Some (None, w)
      | Some a \<Rightarrow> do {
          s \<leftarrow> p_apps w a;
          (case aps_notif_url s of
             Some u \<Rightarrow> Some (Some u, w)
           | None \<Rightarrow> do {
               (v, w) \<leftarrow> pcf_session_get_notifications_server env (Some (aps_session s)) w;
               (case v of
                  None \<Rightarrow> Some (None, w)
                | Some v \<Rightarrow>
                    (let u = pe_server_uri env v
                         [''npcf-policyauthorization'', ''v1'', ''app-session-instance'', pointer_text a]
                     in Some (Some u, put_app a (s\<lparr>aps_notif_url := Some u\<rparr>) w)))
             })
        })"

end
