(* ===== verification/Pcf_Build.thy ===== *)
theory Pcf_Build
  imports Pcf_Session
begin

text \<open>
  The requests of \<open>pcf-build.c\<close> and the release of the media components that they are given.  A
  request has its method, URI and body; Open5GS may fail to build it, then there is none.
\<close>

section \<open>Media components\<close>

fun free_blocks :: "nat list \<Rightarrow> pcf_world \<Rightarrow> pcf_world option" where
  "free_blocks [] w = Some w"
| "free_blocks (b # bs) w = (if b \<in> p_blocks w then free_blocks bs (w\<lparr>p_blocks := p_blocks w - {b}\<rparr>) else None)"

definition opt_blocks :: "nat option list \<Rightarrow> nat list" where
  "opt_blocks xs = concat (map (\<lambda>x. case x of None \<Rightarrow> [] | Some b \<Rightarrow> [b]) xs)"

definition sub_entry_blocks :: "media_sub_entry option \<Rightarrow> nat list" where
  "sub_entry_blocks e =
     (case e of
        None \<Rightarrow> []
      | Some m \<Rightarrow>
          (case se_component m of None \<Rightarrow> [] | Some c \<Rightarrow> opt_blocks (sc_descs c) @ [sc_block c]) @
          opt_blocks [se_key m] @ [se_block m])"

definition media_entry_blocks :: "media_entry option \<Rightarrow> nat list" where
  "media_entry_blocks e =
     (case e of
        None \<Rightarrow> []
      | Some m \<Rightarrow>
          (case me_component m of
             None \<Rightarrow> []
           | Some c \<Rightarrow> opt_blocks (mc_bandwidths c) @ opt_blocks (mc_codecs c) @
                       concat (map sub_entry_blocks (mc_subs c)) @ [mc_block c]) @
          opt_blocks [me_key m] @ [me_block m])"

definition media_blocks :: "media_components \<Rightarrow> nat list" where
  "media_blocks ms = concat (map media_entry_blocks ms)"

definition media_components_free :: "media_components \<Rightarrow> pcf_world \<Rightarrow> pcf_world option" where
  "media_components_free ms w = free_blocks (media_blocks ms) w"

definition free_media :: "media_components option \<Rightarrow> pcf_world \<Rightarrow> pcf_world option" where
  "free_media ms w = (case ms of None \<Rightarrow> Some w | Some m \<Rightarrow> media_components_free m w)"

lemma free_blocks_eq:
  "free_blocks bs w =
     (if distinct bs \<and> set bs \<subseteq> p_blocks w then Some (w\<lparr>p_blocks := p_blocks w - set bs\<rparr>) else None)"
  by (induction bs arbitrary: w) (auto simp: Diff_insert2 [symmetric] insert_Diff_if)

section \<open>Requests\<close>

text \<open>\<open>printf\<close> of a \<open>NULL\<close> text; the address of an IPv6 PCF is not put in brackets.\<close>

definition printed :: "string option \<Rightarrow> string" where
  "printed s = (case s of None \<Rightarrow> ''(null)'' | Some t \<Rightarrow> t)"

definition app_sessions_uri :: "pcf_env \<Rightarrow> sockaddr \<Rightarrow> string list \<Rightarrow> string" where
  "app_sessions_uri env a path =
     ''http://'' @ pe_ipstr env a @ '':'' @ dec_str (unat (sa_port a)) @
     ''/npcf-policyauthorization/v1/app-sessions'' @ concat (map ((@) ''/'') path)"

definition built :: "pcf_env \<Rightarrow> pcf_request \<Rightarrow> pcf_request option" where
  "built env rq = (if pe_builds env rq then Some rq else None)"

definition create_data ::
  "pcf_env \<Rightarrow> app_session \<Rightarrow> string \<Rightarrow> 32 word \<Rightarrow> media_components option \<Rightarrow> req_data" where
  "create_data env s url events media =
     \<lparr>rd_notif_uri = Some url, rd_supp_feat = Some (pe_features_text env (aps_features s)),
      rd_ue_ipv4 = aps_ipv4addr s, rd_ue_ipv6 = aps_ipv6addr s, rd_dnn = aps_dnn s,
      rd_ev_subsc = Some \<lparr>es_events = events_subsc_create events, es_notif_uri = Some url\<rparr>,
      rd_slice = (if fst (aps_snssai s) \<noteq> 0 then Some (fst (aps_snssai s), pe_sd_text env (snd (aps_snssai s))) else None),
      rd_spon = Sponsor_disabled, rd_supi = aps_supi s, rd_gpsi = aps_gpsi s, rd_res_prio = 16, rd_media = media\<rparr>"

definition pcf_policyauthorization_request_create ::
  "pcf_env \<Rightarrow> nat \<Rightarrow> media_components option \<Rightarrow> 32 word \<Rightarrow> pcf_world \<Rightarrow> (pcf_request option \<times> pcf_world) option"
  where
  "pcf_policyauthorization_request_create env a media events w = do {
     (u, w) \<leftarrow> pcf_app_session_get_notif_url env (Some a) w;
     url \<leftarrow> u;
     s \<leftarrow> p_apps w a;
     t \<leftarrow> p_sess w (aps_session s);
     let data = create_data env s url events media;
     let rq = \<lparr>pr_method = ''POST'', pr_uri = app_sessions_uri env (px_addr t) [], pr_body = Pb_context (Some data)\<rparr>;
     (r, s) \<leftarrow> pcf_client_requested_app_sess_context_set env (Some (Some data)) s;
     w \<leftarrow> free_media media (put_app a s w);
     Some (built env rq, w)
   }"

text \<open>The first server of Open5GS is asserted to exist, although it is not used.\<close>

definition pcf_policyauthorization_request_update ::
  "pcf_env \<Rightarrow> nat option \<Rightarrow> media_components option \<Rightarrow> pcf_world \<Rightarrow> (pcf_request option \<times> pcf_world) option" where
  "pcf_policyauthorization_request_update env p media w =
     (case (p, media) of
        (Some a, Some m) \<Rightarrow> do {
          s \<leftarrow> p_apps w a;
          t \<leftarrow> p_sess w (aps_session s);
          let patch = Some \<lparr>ud_spon = Sponsor_disabled, ud_res_prio = 16, ud_media = media\<rparr>;
          let rq = \<lparr>pr_method = ''PATCH'', pr_uri = app_sessions_uri env (px_addr t) [printed (aps_id s)],
                    pr_body = Pb_update patch\<rparr>;
          (if p_servers w = [] then None else do {
             let s = snd (pcf_client_app_sess_context_updates_set env (Some patch) s);
             w \<leftarrow> media_components_free m (put_app a s w);
             Some (built env rq, w)
           })
        }
      | _ \<Rightarrow> Some (None, w))"

definition pcf_policyauthorization_subscribe_request_event ::
  "pcf_env \<Rightarrow> nat \<Rightarrow> pcf_world \<Rightarrow> pcf_request option option" where
  "pcf_policyauthorization_subscribe_request_event env a w = do {
     s \<leftarrow> p_apps w a;
     i \<leftarrow> aps_id s;
     t \<leftarrow> p_sess w (aps_session s);
     (if p_servers w = [] then None
      else Some (built env \<lparr>pr_method = ''PUT'', pr_uri = app_sessions_uri env (px_addr t) [i, ''events-subscription''],
             pr_body = (case aps_requested s of None \<Rightarrow> Pb_none | Some c \<Rightarrow> Pb_context c)\<rparr>))
   }"

definition pcf_policyauthorization_req_unsubscribe_event ::
  "pcf_env \<Rightarrow> nat \<Rightarrow> pcf_world \<Rightarrow> pcf_request option" where
  "pcf_policyauthorization_req_unsubscribe_event env a w = do {
     s \<leftarrow> p_apps w a;
     t \<leftarrow> p_sess w (aps_session s);
     Some \<lparr>pr_method = ''DELETE'',
           pr_uri = app_sessions_uri env (px_addr t) [printed (aps_id s), ''events-subscription''], pr_body = Pb_none\<rparr>
   }"

definition pcf_policyauthorization_req_subscribe_event ::
  "pcf_env \<Rightarrow> nat \<Rightarrow> pcf_world \<Rightarrow> pcf_request option" where
  "pcf_policyauthorization_req_subscribe_event env a w = do {
     s \<leftarrow> p_apps w a;
     u \<leftarrow> requested_subsc s;
     u \<leftarrow> pe_copy_subsc env u;
     t \<leftarrow> p_sess w (aps_session s);
     (if p_servers w = [] then None
      else Some \<lparr>pr_method = ''PUT'',
             pr_uri = app_sessions_uri env (px_addr t) [printed (aps_id s), ''events-subscription''], pr_body = Pb_subsc u\<rparr>)
   }"

definition pcf_policyauthorization_request_delete :: "pcf_env \<Rightarrow> nat \<Rightarrow> pcf_world \<Rightarrow> pcf_request option option" where
  "pcf_policyauthorization_request_delete env a w = do {
     s \<leftarrow> p_apps w a;
     i \<leftarrow> aps_id s;
     t \<leftarrow> p_sess w (aps_session s);
     Some (built env \<lparr>pr_method = ''POST'', pr_uri = app_sessions_uri env (px_addr t) [i, ''delete''], pr_body = Pb_none\<rparr>)
   }"

end
