(* ===== verification/Pcf_Process.thy ===== *)
theory Pcf_Process
  imports Pcf_Build
begin

text \<open>
  The calls of the application (\<open>pcf-service-consumer.c\<close>), the handlers of the responses
  (\<open>pcf-handler.c\<close>) and the event handler (\<open>npcf-process.c\<close>).  Whether Open5GS sends a request is
  an argument of the call; a request that could not be built is asserted away when it is sent.
\<close>

section \<open>Events\<close>

text \<open>What is read of a response: the outcome of parsing it, and the members of the message.\<close>

record pcf_response =
  re_status :: int
  re_parsed :: bool
  re_service :: "string option"
  re_method :: "string option"
  re_components :: "string list"
  re_location :: "string option"
  re_context :: "app_context option"
  re_patch :: "update_patch option"
  re_content :: bool

datatype notification_body = Nb_bad_json | Nb_bad_object | Nb_events events_notification

record pcf_server_request =
  sr_header :: bool
  sr_service :: "string option"
  sr_components :: "string list"
  sr_body :: notification_body

datatype client_state = Client_ok | Client_done | Client_timeup | Client_other

datatype pcf_event =
    Pcf_server nat nat pcf_server_request
  | Pcf_client nat client_state "pcf_response option"
  | Pcf_other

text \<open>A component of the path, \<open>NULL\<close> when the path is shorter.\<close>

definition component :: "string list \<Rightarrow> nat \<Rightarrow> string option" where
  "component cs i = (if i < length cs then Some (cs ! i) else None)"

text \<open>\<open>client_notify_cb\<close>: the response becomes an event; \<open>pushed\<close> says whether the queue takes
  it.  The result is that of the C function.\<close>

definition client_notify_cb ::
  "bool \<Rightarrow> client_state \<Rightarrow> pcf_response option \<Rightarrow> nat \<Rightarrow> result_code \<times> pcf_event option" where
  "client_notify_cb pushed status response a =
     (if \<not> pushed then (Ogs_error, None)
      else (if status = Client_ok then Ogs_ok else Ogs_error, Some (Pcf_client a status response)))"

section \<open>Calls\<close>

definition send_app_request ::
  "bool \<Rightarrow> nat \<Rightarrow> pcf_request option \<Rightarrow> pcf_world \<Rightarrow> pcf_world option" where
  "send_app_request sent a rq w = do {
     r \<leftarrow> rq;
     s \<leftarrow> p_apps w a;
     t \<leftarrow> p_sess w (aps_session s);
     Some (pcf_log (Pcf_send (px_client t) a r sent) w)
   }"

definition set_ue_texts :: "pcf_env \<Rightarrow> app_session \<Rightarrow> app_session" where
  "set_ue_texts env s =
     (let s = snd (pcf_client_sess_ipv4addr_set_from_sockaddr env (ue_address (aps_ue s)) s)
      in snd (pcf_client_sess_ipv6prefix_set_from_sockaddr env (ue_address (aps_ue s)) s))"

definition pcf_session_create_app_session ::
  "pcf_env \<Rightarrow> bool \<Rightarrow> nat \<Rightarrow> ue_network_identifier \<Rightarrow> 32 word \<Rightarrow> media_components option \<Rightarrow> nat option \<Rightarrow>
     nat option \<Rightarrow> nat option \<Rightarrow> nat option \<Rightarrow> pcf_world \<Rightarrow> (bool \<times> pcf_world) option" where
  "pcf_session_create_app_session env sent p u events media notify notify_data change change_data w = do {
     (a, w) \<leftarrow> pcf_app_session_new p u events notify notify_data change change_data w;
     s \<leftarrow> p_apps w a;
     (rq, w) \<leftarrow> pcf_policyauthorization_request_create env a media events (put_app a (set_ue_texts env s) w);
     w \<leftarrow> send_app_request sent a rq w;
     Some (sent, w)
   }"

definition pcf_session_update_app_session ::
  "pcf_env \<Rightarrow> bool \<Rightarrow> nat option \<Rightarrow> media_components option \<Rightarrow> pcf_world \<Rightarrow> (bool \<times> pcf_world) option" where
  "pcf_session_update_app_session env sent p media w =
     (case p of
        None \<Rightarrow> Some (False, w)
      | Some a \<Rightarrow> do {
          r \<leftarrow> pcf_client_context_active_sessions_exists a w;
          (case r of
             None \<Rightarrow> Some (False, w)
           | Some b \<Rightarrow> do {
               (rq, w) \<leftarrow> pcf_policyauthorization_request_update env (Some b) media w;
               w \<leftarrow> send_app_request sent b rq w;
               Some (sent, w)
             })
        })"

definition pcf_app_session_free :: "pcf_env \<Rightarrow> bool \<Rightarrow> nat option \<Rightarrow> pcf_world \<Rightarrow> pcf_world option" where
  "pcf_app_session_free env sent p w =
     (case p of
        None \<Rightarrow> Some w
      | Some a \<Rightarrow> do { rq \<leftarrow> pcf_policyauthorization_request_delete env a w; send_app_request sent a rq w })"

text \<open>The events are read with and without a test for \<open>NULL\<close>, so the request data must be there.\<close>

definition pcf_app_session_subscribe_event ::
  "pcf_env \<Rightarrow> bool \<Rightarrow> nat option \<Rightarrow> af_event_subscription list \<Rightarrow> nat option \<Rightarrow> nat option \<Rightarrow> pcf_world \<Rightarrow>
     (bool \<times> pcf_world) option" where
  "pcf_app_session_subscribe_event env sent p req cb d w =
     (case p of
        None \<Rightarrow> Some (False, w)
      | Some a \<Rightarrow>
          (if cb = None then Some (False, w)
           else do {
             (r, w) \<leftarrow> pcf_app_session_add_event_notification (Some a)
                        (events_subsc_req_data_to_events_mask (Some req)) cb d w;
             (merged, w) \<leftarrow> merge_event_subsc_to_app_session_context a req w;
             (if merged = 0 then Some (True, w)
              else do {
                rq \<leftarrow> pcf_policyauthorization_req_subscribe_event env a w;
                w \<leftarrow> send_app_request sent a (Some rq) w;
                Some (True, w)
              })
           }))"

definition pcf_app_session_unsubscribe_event ::
  "pcf_env \<Rightarrow> bool \<Rightarrow> nat option \<Rightarrow> pcf_world \<Rightarrow> (bool \<times> pcf_world) option" where
  "pcf_app_session_unsubscribe_event env sent p w =
     (case p of
        None \<Rightarrow> Some (False, w)
      | Some a \<Rightarrow> do {
          rq \<leftarrow> pcf_policyauthorization_req_unsubscribe_event env a w;
          w \<leftarrow> send_app_request sent a (Some rq) w;
          Some (True, w)
        })"

section \<open>Handlers of responses\<close>

definition tell_change :: "pcf_env \<Rightarrow> nat \<Rightarrow> bool \<Rightarrow> pcf_world \<Rightarrow> pcf_world option" where
  "tell_change env a deleted w = map_option snd (pcf_app_session_change_callback_call env (Some a) deleted w)"

definition pcf_policyauthorization_create ::
  "pcf_env \<Rightarrow> nat \<Rightarrow> pcf_response \<Rightarrow> pcf_world \<Rightarrow> pcf_world option" where
  "pcf_policyauthorization_create env a m w = do {
     s \<leftarrow> p_apps w a;
     (case Option.bind (re_location m) (pe_location env) of
        None \<Rightarrow> Some w
      | Some path \<Rightarrow>
          (case (component path 1, re_context m) of
             (Some i, Some c) \<Rightarrow>
               (let s = snd (pcf_client_received_app_sess_context_set env (Some c) s); w = put_app a s w
                in case Option.bind c rd_supp_feat of
                     None \<Rightarrow> Some w
                   | Some f \<Rightarrow>
                       tell_change env a False
                         (put_app a (s\<lparr>aps_features := aps_features s AND pe_features env f, aps_id := Some i\<rparr>) w))
           | _ \<Rightarrow> Some w))
   }"

definition pcf_policyauthorization_update ::
  "pcf_env \<Rightarrow> nat \<Rightarrow> pcf_response \<Rightarrow> pcf_world \<Rightarrow> pcf_world option" where
  "pcf_policyauthorization_update env a m w = do {
     s \<leftarrow> p_apps w a;
     (case (component (re_components m) 1, re_patch m) of
        (Some i, Some c) \<Rightarrow>
          (let w = put_app a (snd (pcf_client_app_sess_context_received_updates_set env (Some c) s)) w
           in if c = None then Some w else tell_change env a False w)
      | _ \<Rightarrow> Some w)
   }"

definition pcf_policyauthorization_subscribe_event ::
  "pcf_env \<Rightarrow> nat \<Rightarrow> pcf_response \<Rightarrow> pcf_world \<Rightarrow> pcf_world option" where
  "pcf_policyauthorization_subscribe_event env a m w =
     (if (re_status m = 201 \<and> re_content m \<and> re_location m \<noteq> None) \<or> (re_status m = 200 \<and> re_content m)
      then tell_change env a False w
      else if re_status m = 204 then tell_change env a False w
      else tell_change env a True w)"

definition pcf_policyauthorization_delete :: "pcf_env \<Rightarrow> nat \<Rightarrow> pcf_world \<Rightarrow> pcf_world option" where
  "pcf_policyauthorization_delete env a w = do {
     s \<leftarrow> p_apps w a;
     t \<leftarrow> p_sess w (aps_session s);
     r \<leftarrow> walk_apps w (\<lambda>_ x. same_text (aps_id s) (aps_id x)) (px_apps t);
     (case r of
        None \<Rightarrow> Some w
      | Some b \<Rightarrow>
          pcf_app_sess_remove env b (put_psess (aps_session s) (t\<lparr>px_apps := remove1 b (px_apps t)\<rparr>) w))
   }"

section \<open>Notifications\<close>

definition error_reply :: "nat \<Rightarrow> int \<Rightarrow> pcf_world \<Rightarrow> pcf_world option" where
  "error_reply stream status w = Some (pcf_log (Pcf_error_reply stream status) w)"

definition notify_app_session ::
  "pcf_env \<Rightarrow> nat \<Rightarrow> nat \<Rightarrow> pcf_server_request \<Rightarrow> pcf_world \<Rightarrow> pcf_world option" where
  "notify_app_session env stream a r w = do {
     known \<leftarrow> pcf_app_session_exists a w;
     (if \<not> known then error_reply stream 404 w
      else if component (sr_components r) 2 \<noteq> Some ''notify'' then error_reply stream 400 w
      else (case sr_body r of
        Nb_bad_json \<Rightarrow> error_reply stream 400 w
      | Nb_bad_object \<Rightarrow> error_reply stream 400 w
      | Nb_events es \<Rightarrow> do {
          (res, w) \<leftarrow> pcf_app_session_notifications_callback_call env (Some a) (Some es) w;
          Some (pcf_log (Pcf_reply stream 204) w)
        }))
   }"

definition handle_pcf_notification :: "pcf_env \<Rightarrow> nat \<Rightarrow> pcf_server_request \<Rightarrow> pcf_world \<Rightarrow> pcf_world option" where
  "handle_pcf_notification env stream r w =
     (case sr_service r of
        None \<Rightarrow> error_reply stream 400 w
      | Some name \<Rightarrow>
          if name \<noteq> ''npcf-policyauthorization'' then error_reply stream 400 w
          else (case component (sr_components r) 0 of
            None \<Rightarrow> error_reply stream 400 w
          | Some c0 \<Rightarrow>
              if c0 \<noteq> ''app-session-instance'' then error_reply stream 400 w
              else (case component (sr_components r) 1 of
                None \<Rightarrow> error_reply stream 400 w
              | Some c1 \<Rightarrow>
                  (case strtoul c1 of (v, rest) \<Rightarrow>
                     if rest \<noteq> [] then error_reply stream 400 w
                     else notify_app_session env stream (unat v) r w))))"

section \<open>The event handler\<close>

definition handle_app_sessions ::
  "pcf_env \<Rightarrow> nat \<Rightarrow> pcf_response \<Rightarrow> pcf_world \<Rightarrow> pcf_world option" where
  "handle_app_sessions env a m w =
     (let method = switch_string (re_method m) in
      case component (re_components m) 1 of
        Some _ \<Rightarrow>
          (case component (re_components m) 2 of
             Some c2 \<Rightarrow>
               if c2 = ''events-subscription'' then pcf_policyauthorization_subscribe_event env a m w
               else if c2 = ''delete'' then pcf_policyauthorization_delete env a w
               else Some w
           | None \<Rightarrow>
               if method = ''PATCH'' \<and> re_status m = 200 then pcf_policyauthorization_update env a m w else Some w)
      | None \<Rightarrow>
          if method = ''POST'' then
            if re_status m = 201 then pcf_policyauthorization_create env a m w else pcf_app_sess_remove env a w
          else Some w)"

definition handle_client_response ::
  "pcf_env \<Rightarrow> nat \<Rightarrow> client_state \<Rightarrow> pcf_response option \<Rightarrow> pcf_world \<Rightarrow> pcf_world option" where
  "handle_client_response env a st response w =
     (case st of
        Client_ok \<Rightarrow> do {
          m \<leftarrow> response;
          (if re_parsed m \<and> switch_string (re_service m) = ''npcf-policyauthorization'' \<and>
              switch_string (component (re_components m) 0) = ''app-sessions''
           then handle_app_sessions env a m w else Some w)
        }
      | Client_done \<Rightarrow> pcf_app_sess_remove env a w
      | Client_timeup \<Rightarrow> Some w
      | Client_other \<Rightarrow> pcf_app_sess_remove env a w)"

fun has_server :: "nat \<Rightarrow> nat list \<Rightarrow> pcf_world \<Rightarrow> bool option" where
  "has_server v [] w = Some False"
| "has_server v (p # ps) w = do {
     b \<leftarrow> pcf_session_has_notification_server p v w;
     (if b then Some True else has_server v ps w)
   }"

definition pcf_process_event :: "pcf_env \<Rightarrow> pcf_event \<Rightarrow> pcf_world \<Rightarrow> (bool \<times> pcf_world) option" where
  "pcf_process_event env e w0 =
     (let w = pcf_self w0 in
      case e of
        Pcf_server v stream r \<Rightarrow> do {
          ours \<leftarrow> has_server v (pcf_sessions w) w;
          (if \<not> ours \<or> \<not> sr_header r then Some (False, w)
           else map_option (\<lambda>w. (True, w)) (handle_pcf_notification env stream r w))
        }
      | Pcf_client a st response \<Rightarrow> do {
          known \<leftarrow> pcf_app_session_exists a w;
          (if \<not> known then Some (False, w)
           else map_option (\<lambda>w. (True, w)) (handle_client_response env a st response w))
        }
      | Pcf_other \<Rightarrow> Some (False, w))"

definition pcf_session_process_event :: "pcf_env \<Rightarrow> pcf_event \<Rightarrow> pcf_world \<Rightarrow> (bool \<times> pcf_world) option" where
  "pcf_session_process_event env e w = pcf_process_event env e w"

end
