(* ===== verification/Pcf_Config.thy ===== *)
theory Pcf_Config
  imports Pcf_Session Bsf_Parse
begin

text \<open>
  \<open>pcf_parse_config\<close> (\<open>context.c\<close>) and the start and end of the library (\<open>init.c\<close>).  The loop
  over the keys of a listener block is, key by key, the code of the BSF library, so its
  definitions and parameters (\<open>bsf_env\<close>) are used; what is done with a block differs.  Result
  codes are those of the C functions, 0 for \<open>OGS_OK\<close>; a C function that returns from the middle
  with a code is \<open>Inl\<close>.
\<close>

section \<open>Listener blocks\<close>

definition pcf_listener_keys ::
  "bsf_env \<Rightarrow> (string \<times> yaml) list \<Rightarrow> server_block parse_result option" where
  "pcf_listener_keys env kys = parse_server_keys env kys (empty_block env)"

definition add_listeners :: "bsf_env \<Rightarrow> server_block \<Rightarrow> pcf_world \<Rightarrow> pcf_world option" where
  "add_listeners env b w = fold_option (\<lambda>h. pcf_notification_listener_add h (uint (sb_port b))) (sb_hosts b) w"

definition pcf_start_server :: "sockaddr list \<Rightarrow> pcf_world \<Rightarrow> pcf_world" where
  "pcf_start_server as w =
     (case as of
        [] \<Rightarrow> w
      | a # _ \<Rightarrow> pcf_log (Pcf_server_start a) (w\<lparr>p_servers := p_servers w @ [p_next w], p_next := p_next w + 1\<rparr>))"

definition pcf_listener_block :: "bsf_env \<Rightarrow> server_block \<Rightarrow> pcf_world \<Rightarrow> pcf_world option" where
  "pcf_listener_block env b w = do {
     addr \<leftarrow> resolve_hosts env (sb_family b) (sb_port b) (sb_hosts b);
     w \<leftarrow> add_listeners env b w;
     (v4, v6) \<leftarrow> listen_addresses env b addr;
     adv \<leftarrow> resolve_hosts env (sb_family b) (sb_port b) (sb_advertise b);
     Some (pcf_start_server v6 (pcf_start_server v4 w))
   }"

text \<open>A bad socket option makes the whole function return its code, which is \<open>OGS_ERROR\<close>.\<close>

fun pcf_listener_blocks :: "bsf_env \<Rightarrow> yaml list \<Rightarrow> pcf_world \<Rightarrow> ((int \<times> pcf_world) + pcf_world) option" where
  "pcf_listener_blocks env [] w = Some (Inr w)"
| "pcf_listener_blocks env (y # ys) w = do {
     kys \<leftarrow> yaml_pairs y;
     r \<leftarrow> pcf_listener_keys env kys;
     (case r of
        Bad_option \<Rightarrow> Some (Inl (ogs_error, w))
      | Parsed b \<Rightarrow> Option.bind (pcf_listener_block env b w) (pcf_listener_blocks env ys))
   }"

definition pcf_config_key ::
  "bsf_env \<Rightarrow> string \<times> yaml \<Rightarrow> (int \<times> pcf_world) + pcf_world \<Rightarrow> ((int \<times> pcf_world) + pcf_world) option" where
  "pcf_config_key env ky st =
     (case st of
        Inl r \<Rightarrow> Some (Inl r)
      | Inr w \<Rightarrow>
          (case ky of (key, y) \<Rightarrow>
             if key = ''notificationListener'' then
               (case y of
                  Y_map _ \<Rightarrow> pcf_listener_blocks env [y] w
                | Y_seq ys \<Rightarrow> pcf_listener_blocks env ys w
                | Y_scalar _ \<Rightarrow> Some (Inr w))
             else Some (Inr w)))"

definition pcf_config_root ::
  "bsf_env \<Rightarrow> string \<Rightarrow> string \<times> yaml \<Rightarrow> (int \<times> pcf_world) + pcf_world \<Rightarrow> ((int \<times> pcf_world) + pcf_world) option"
  where
  "pcf_config_root env local ky st =
     (case ky of (key, y) \<Rightarrow>
        if key = local \<and> (\<exists>w. st = Inr w)
        then Option.bind (yaml_pairs y) (\<lambda>kys. fold_option (pcf_config_key env) kys st) else Some st)"

definition pcf_client_context_validation :: "pcf_world \<Rightarrow> int option" where
  "pcf_client_context_validation w =
     (case p_ctx w of None \<Rightarrow> None | Some c \<Rightarrow> Some (if pc_listeners c = [] then ogs_error else ogs_ok))"

definition pcf_context_prepare :: int where "pcf_context_prepare = ogs_ok"

definition pcf_parse_config :: "bsf_env \<Rightarrow> string \<Rightarrow> yaml \<Rightarrow> pcf_world \<Rightarrow> (bool \<times> pcf_world) option" where
  "pcf_parse_config env local document w =
     (if pcf_context_prepare \<noteq> ogs_ok then Some (bool_of_int pcf_context_prepare, w)
      else do {
        kys \<leftarrow> yaml_pairs document;
        st \<leftarrow> fold_option (pcf_config_root env local) kys (Inr w);
        (case st of
           Inl (rv, w) \<Rightarrow> Some (bool_of_int rv, w)
         | Inr w \<Rightarrow> map_option (\<lambda>rv. (bool_of_int rv, w)) (pcf_client_context_validation w))
      })"

section \<open>Start and end of the library\<close>

text \<open>The variable \<open>initialized\<close> beside the context.  The results of the two Open5GS calls are
  parameters; the name of the section is fixed.\<close>

definition pcf_initialize ::
  "bsf_env \<Rightarrow> int \<Rightarrow> int \<Rightarrow> yaml \<Rightarrow> bool \<times> pcf_world \<Rightarrow> (int \<times> bool \<times> pcf_world) option" where
  "pcf_initialize env sbi_rv log_rv document iw = (case iw of (initialized, w) \<Rightarrow> do {
     w \<leftarrow> pcf_context_init w;
     (if sbi_rv \<noteq> ogs_ok then Some (sbi_rv, initialized, w)
      else do {
        (failed, w) \<leftarrow> pcf_parse_config env ''pcf-service-consumer'' document w;
        (if failed then Some (1, initialized, w)
         else if log_rv \<noteq> ogs_ok then Some (log_rv, initialized, w)
         else Some (ogs_ok, True, w))
      })
   })"

definition pcf_terminate :: "pcf_env \<Rightarrow> bool \<times> pcf_world \<Rightarrow> (bool \<times> pcf_world) option" where
  "pcf_terminate env iw = (case iw of (initialized, w) \<Rightarrow>
     if \<not> initialized then Some (initialized, w)
     else map_option (\<lambda>w. (initialized, w)) (pcf_context_final env w))"

section \<open>What a configuration changes\<close>

text \<open>Listeners and servers are added; sessions, blocks and requests stay.\<close>

definition same_but_listeners :: "pcf_world \<Rightarrow> pcf_world \<Rightarrow> bool" where
  "same_but_listeners w w' \<longleftrightarrow>
     p_sess w' = p_sess w \<and> p_apps w' = p_apps w \<and> p_blocks w' = p_blocks w \<and> p_next w \<le> p_next w' \<and>
     pcf_sessions w' = pcf_sessions w \<and> (p_ctx w' = None) = (p_ctx w = None) \<and>
     (\<exists>as. p_log w' = p_log w @ as \<and> (\<forall>a\<in>set as. \<exists>s. a = Pcf_server_start s)) \<and>
     (\<exists>vs. p_servers w' = p_servers w @ vs)"

lemma same_but_listeners_refl [simp]: "same_but_listeners w w"
  by (simp add: same_but_listeners_def)

lemma same_but_listeners_trans:
  "same_but_listeners u v \<Longrightarrow> same_but_listeners v w \<Longrightarrow> same_but_listeners u w"
  unfolding same_but_listeners_def
  by (elim conjE exE) (simp, metis (no_types, lifting) Un_iff append.assoc order.trans set_append)

lemma same_but_listeners_add:
  "pcf_notification_listener_add h p w = Some w' \<Longrightarrow> same_but_listeners w w'"
  by (auto simp: pcf_notification_listener_add_def same_but_listeners_def pcf_sessions_def split: option.splits)

lemma same_but_listeners_start: "same_but_listeners w (pcf_start_server as w)"
  by (auto simp: pcf_start_server_def same_but_listeners_def pcf_sessions_def split: list.split)

lemma same_but_listeners_block: "pcf_listener_block env b w = Some w' \<Longrightarrow> same_but_listeners w w'"
proof -
  assume "pcf_listener_block env b w = Some w'"
  then obtain v v4 v6 where v: "add_listeners env b w = Some v" "w' = pcf_start_server v6 (pcf_start_server v4 v)"
    by (auto simp: pcf_listener_block_def split: bind_splits)
  have "same_but_listeners w v"
    using v(1) unfolding add_listeners_def
    by (rule fold_option_inv [where P = "same_but_listeners w"])
      (auto intro: same_but_listeners_trans dest: same_but_listeners_add)
  then show ?thesis
    unfolding v(2) by (intro same_but_listeners_trans [OF _ same_but_listeners_start]) 
qed

abbreviation config_world :: "(int \<times> pcf_world) + pcf_world \<Rightarrow> pcf_world" where
  "config_world st \<equiv> (case st of Inl r \<Rightarrow> snd r | Inr w \<Rightarrow> w)"

lemma same_but_listeners_blocks:
  "pcf_listener_blocks env ys w = Some st \<Longrightarrow> same_but_listeners w (config_world st)"
proof (induction ys arbitrary: w)
  case (Cons y ys)
  then obtain kys r where r: "yaml_pairs y = Some kys" "pcf_listener_keys env kys = Some r"
    by (auto split: bind_splits)
  show ?case
  proof (cases r)
    case (Parsed b)
    then obtain u where "pcf_listener_block env b w = Some u" "pcf_listener_blocks env ys u = Some st"
      using Cons.prems r by (auto split: bind_splits)
    then show ?thesis using Cons.IH same_but_listeners_block same_but_listeners_trans by blast
  qed (use Cons.prems r in auto)
qed auto

lemma same_but_listeners_key:
  assumes "pcf_config_key env ky st = Some st'" "same_but_listeners w (config_world st)"
  shows "same_but_listeners w (config_world st')"
proof (cases st)
  case (Inr u)
  have "same_but_listeners u (config_world st')"
    using assms(1) Inr
    by (auto simp: pcf_config_key_def simp del: pcf_listener_blocks.simps
        split: prod.splits if_splits yaml.splits dest: same_but_listeners_blocks)
  then show ?thesis using assms(2) Inr same_but_listeners_trans by auto
qed (use assms in \<open>simp add: pcf_config_key_def\<close>)

lemma same_but_listeners_root:
  assumes "pcf_config_root env local ky st = Some st'" "same_but_listeners w (config_world st)"
  shows "same_but_listeners w (config_world st')"
proof (cases "fst ky = local \<and> (\<exists>u. st = Inr u)")
  case True
  then obtain kys where "fold_option (pcf_config_key env) kys st = Some st'"
    using assms(1) by (cases ky) (auto simp: pcf_config_root_def split: bind_splits)
  then show ?thesis
    by (rule fold_option_inv [where P = "\<lambda>st. same_but_listeners w (config_world st)"])
      (use assms(2) in \<open>auto intro: same_but_listeners_key\<close>)
qed (use assms in \<open>cases ky, auto simp: pcf_config_root_def\<close>)

lemma same_but_listeners_parse:
  assumes "pcf_parse_config env local document w = Some (r, w')"
  shows "same_but_listeners w w'"
proof -
  obtain kys st where st: "fold_option (pcf_config_root env local) kys (Inr w) = Some st" "w' = config_world st"
    using assms
    by (auto simp: pcf_parse_config_def pcf_context_prepare_def split: bind_splits sum.splits)
  have "same_but_listeners w (config_world st)"
    by (rule fold_option_inv [where P = "\<lambda>st. same_but_listeners w (config_world st)", OF st(1)])
      (auto intro: same_but_listeners_root)
  then show ?thesis using st(2) by simp
qed

end
