(* ===== verification/Pcf_Machine.thy ===== *)
theory Pcf_Machine
  imports Pcf_Process Pcf_Config Machine
begin

text \<open>
  The PCF library as a machine, and its invariant: the context lists the sessions that are
  alive, each session lists its application sessions, and every application session is well
  formed.  A set of application sessions that are being made may lack their notification URL.
\<close>

section \<open>Calls\<close>

datatype pcf_call =
    Pcf_init
  | Pcf_parse bsf_env string yaml
  | Pcf_session_new sockaddr
  | Pcf_create bool nat ue_network_identifier "32 word" "media_components option" "nat option" "nat option"
      "nat option" "nat option"
  | Pcf_update bool "nat option" "media_components option"
  | Pcf_app_free bool "nat option"
  | Pcf_subscribe bool "nat option" "af_event_subscription list" "nat option" "nat option"
  | Pcf_unsubscribe bool "nat option"
  | Pcf_session_free nat
  | Pcf_event pcf_event
  | Pcf_final
  | Pcf_allocate "nat set"

fun pcf_step :: "pcf_env \<Rightarrow> pcf_call \<Rightarrow> pcf_world \<Rightarrow> pcf_world option" where
  "pcf_step env Pcf_init w = pcf_context_init w"
| "pcf_step env (Pcf_parse benv local document) w = map_option snd (pcf_parse_config benv local document w)"
| "pcf_step env (Pcf_session_new a) w = Some (snd (pcf_session_new env a w))"
| "pcf_step env (Pcf_create sent p u events media f d cf cd) w =
     map_option snd (pcf_session_create_app_session env sent p u events media f d cf cd w)"
| "pcf_step env (Pcf_update sent p media) w = map_option snd (pcf_session_update_app_session env sent p media w)"
| "pcf_step env (Pcf_app_free sent p) w = pcf_app_session_free env sent p w"
| "pcf_step env (Pcf_subscribe sent p req f d) w = map_option snd (pcf_app_session_subscribe_event env sent p req f d w)"
| "pcf_step env (Pcf_unsubscribe sent p) w = map_option snd (pcf_app_session_unsubscribe_event env sent p w)"
| "pcf_step env (Pcf_session_free p) w = pcf_session_free env p w"
| "pcf_step env (Pcf_event e) w = map_option snd (pcf_session_process_event env e w)"
| "pcf_step env Pcf_final w = pcf_service_consumer_final env w"
| "pcf_step env (Pcf_allocate bs) w = Some (w\<lparr>p_blocks := p_blocks w \<union> bs\<rparr>)"

text \<open>No object has the address 0, which is \<open>NULL\<close>.\<close>

definition initial_pcf :: pcf_world where
  "initial_pcf = \<lparr>p_ctx = None, p_sess = (\<lambda>_. None), p_apps = (\<lambda>_. None), p_servers = [], p_blocks = {},
     p_next = 1, p_log = []\<rparr>"

section \<open>The invariant\<close>

definition sessions_ok :: "pcf_world \<Rightarrow> bool" where
  "sessions_ok w \<longleftrightarrow> distinct (pcf_sessions w) \<and> set (pcf_sessions w) = dom (p_sess w)"

definition owner :: "pcf_world \<Rightarrow> nat \<Rightarrow> nat option" where
  "owner w a = map_option aps_session (p_apps w a)"

definition lists_ok :: "pcf_world \<Rightarrow> bool" where
  "lists_ok w \<longleftrightarrow>
     (\<forall>p t. p_sess w p = Some t \<longrightarrow> distinct (px_apps t) \<and> (\<forall>a. a \<in> set (px_apps t) \<longleftrightarrow> owner w a = Some p)) \<and>
     (\<forall>a p. owner w a = Some p \<longrightarrow> p_sess w p \<noteq> None)"

definition addresses_ok :: "pcf_world \<Rightarrow> bool" where
  "addresses_ok w \<longleftrightarrow> 0 < p_next w \<and>
     (\<forall>p. p_sess w p \<noteq> None \<or> p_apps w p \<noteq> None \<longrightarrow> 0 < p \<and> p < p_next w) \<and>
     (\<forall>p t v. p_sess w p = Some t \<longrightarrow> px_server t = Some v \<longrightarrow> v \<in> set (p_servers w))"

text \<open>What is never set, what comes from the address of the UE, and that every callback is there.\<close>

definition app_typed :: "pcf_env \<Rightarrow> app_session \<Rightarrow> bool" where
  "app_typed env s \<longleftrightarrow>
     aps_features s = 0 \<and> aps_ipv6addr s = None \<and> aps_supi s = None \<and> aps_gpsi s = None \<and> aps_dnn s = None \<and>
     aps_snssai s = (0, 0) \<and>
     (\<forall>x. aps_ipv4addr s = Some x \<longrightarrow>
        (\<exists>a. ue_address (aps_ue s) = Some a \<and> sa_family a = Af_inet \<and> x = pe_ipstr env a)) \<and>
     (\<forall>x. aps_ipv6prefix s = Some x \<longrightarrow>
        (\<exists>a. ue_address (aps_ue s) = Some a \<and> sa_family a = Af_inet6 \<and> x = pe_ipstr env a @ ''/128'')) \<and>
     (\<forall>n\<in>set (aps_notifs s). en_callback n \<noteq> None)"

definition url_path :: "nat \<Rightarrow> string list" where
  "url_path a = [''npcf-policyauthorization'', ''v1'', ''app-session-instance'', pointer_text a]"

definition url_ok :: "pcf_env \<Rightarrow> nat set \<Rightarrow> pcf_world \<Rightarrow> nat \<Rightarrow> app_session \<Rightarrow> bool" where
  "url_ok env E w a s \<longleftrightarrow>
     (case aps_notif_url s of
        None \<Rightarrow> a \<in> E
      | Some u \<Rightarrow> \<exists>t v. p_sess w (aps_session s) = Some t \<and> px_server t = Some v \<and> u = pe_server_uri env v (url_path a))"

definition apps_ok :: "pcf_env \<Rightarrow> nat set \<Rightarrow> pcf_world \<Rightarrow> bool" where
  "apps_ok env E w \<longleftrightarrow> (\<forall>a s. p_apps w a = Some s \<longrightarrow> app_typed env s \<and> url_ok env E w a s)"

definition pcf_inv :: "pcf_env \<Rightarrow> nat set \<Rightarrow> pcf_world \<Rightarrow> bool" where
  "pcf_inv env E w \<longleftrightarrow> sessions_ok w \<and> lists_ok w \<and> addresses_ok w \<and> apps_ok env E w"

lemmas pcf_inv_defs = pcf_inv_def sessions_ok_def lists_ok_def addresses_ok_def apps_ok_def

lemma initial_pcf_inv: "pcf_inv env {} initial_pcf"
  by (simp add: pcf_inv_defs initial_pcf_def pcf_sessions_def owner_def)

named_theorems pcf_keeps

section \<open>Looking up\<close>

lemma inv_listed:
  "pcf_inv env E w \<Longrightarrow> p_sess w p = Some t \<Longrightarrow> a \<in> set (px_apps t) \<longleftrightarrow> (\<exists>s. p_apps w a = Some s \<and> aps_session s = p)"
  by (simp add: pcf_inv_def lists_ok_def owner_def)

lemma inv_owner:
  assumes "pcf_inv env E w" "p_apps w a = Some s"
  shows "\<exists>t. p_sess w (aps_session s) = Some t \<and> a \<in> set (px_apps t)"
proof -
  have o: "owner w a = Some (aps_session s)" using assms(2) by (simp add: owner_def)
  then obtain t where t: "p_sess w (aps_session s) = Some t"
    using assms(1) unfolding pcf_inv_def lists_ok_def by blast
  then show ?thesis using assms(1) o unfolding pcf_inv_def lists_ok_def by blast
qed

lemma walk_apps_eq:
  assumes "\<And>a. a \<in> set as \<Longrightarrow> p_apps w a \<noteq> None"
  shows "walk_apps w (\<lambda>b _. Some (b = a)) as = Some (if a \<in> set as then Some a else None)"
  using assms
proof (induction as)
  case (Cons b as)
  obtain s where "p_apps w b = Some s" using Cons.prems [of b] by auto
  then show ?case using Cons by auto
qed simp

lemma walk_sessions_eq:
  assumes "\<And>p. p \<in> set ps \<Longrightarrow> \<exists>t. p_sess w p = Some t \<and> (\<forall>b\<in>set (px_apps t). p_apps w b \<noteq> None)"
  shows "walk_sessions w (\<lambda>b _. Some (b = a)) ps =
    Some (if \<exists>p\<in>set ps. a \<in> set (px_apps (the (p_sess w p))) then Some a else None)"
  using assms
proof (induction ps)
  case (Cons p ps)
  obtain t where t: "p_sess w p = Some t" "\<forall>b\<in>set (px_apps t). p_apps w b \<noteq> None" using Cons.prems [of p] by auto
  then show ?case using Cons walk_apps_eq [of "px_apps t" w a] by auto
qed simp

text \<open>The test for a known application session is exact.\<close>

lemma exists_exact:
  assumes "pcf_inv env E w" shows "pcf_app_session_exists a w = Some (p_apps w a \<noteq> None)"
proof -
  have s: "\<exists>t. p_sess w p = Some t \<and> (\<forall>b\<in>set (px_apps t). p_apps w b \<noteq> None)" if "p \<in> set (pcf_sessions w)" for p
    using assms that inv_listed [OF assms] by (fastforce simp: pcf_inv_def sessions_ok_def)
  have "(\<exists>p\<in>set (pcf_sessions w). a \<in> set (px_apps (the (p_sess w p)))) \<longleftrightarrow> p_apps w a \<noteq> None"
  proof
    assume "\<exists>p\<in>set (pcf_sessions w). a \<in> set (px_apps (the (p_sess w p)))"
    then show "p_apps w a \<noteq> None" using s by force
  next
    assume "p_apps w a \<noteq> None"
    then obtain x where x: "p_apps w a = Some x" by auto
    then obtain t where "p_sess w (aps_session x) = Some t" "a \<in> set (px_apps t)" using inv_owner [OF assms] by blast
    then show "\<exists>p\<in>set (pcf_sessions w). a \<in> set (px_apps (the (p_sess w p)))"
      using assms by (intro bexI [of _ "aps_session x"]) (auto simp: pcf_inv_def sessions_ok_def)
  qed
  then show ?thesis using walk_sessions_eq [of "pcf_sessions w" w a] s by (auto simp: pcf_app_session_exists_def)
qed

section \<open>Changes that keep the structure\<close>

lemma inv_frame:
  assumes "pcf_inv env E w" "p_sess w' = p_sess w" "p_apps w' = p_apps w" "pcf_sessions w' = pcf_sessions w"
    "p_next w \<le> p_next w'" "set (p_servers w) \<subseteq> set (p_servers w')"
  shows "pcf_inv env E w'"
proof -
  have "sessions_ok w'" "lists_ok w'" "apps_ok env E w'"
    using assms(1) unfolding pcf_inv_def sessions_ok_def lists_ok_def apps_ok_def owner_def url_ok_def assms(2-4)
    by blast+
  moreover have "addresses_ok w'"
    using assms(1,5,6) unfolding pcf_inv_def addresses_ok_def assms(2,3) by (meson less_le_trans subsetD)
  ultimately show ?thesis by (simp add: pcf_inv_def)
qed

lemma inv_pcf_log [pcf_keeps]: "pcf_inv env E w \<Longrightarrow> pcf_inv env E (pcf_log x w)"
  by (erule inv_frame) (simp_all add: pcf_sessions_def)

lemma url_ok_cong: "p_sess w' = p_sess w \<Longrightarrow> url_ok env E w' = url_ok env E w"
  unfolding url_ok_def by (simp only:)

lemma url_ok_mono: "url_ok env E w b s \<Longrightarrow> E - {a} \<subseteq> F \<Longrightarrow> b \<noteq> a \<Longrightarrow> url_ok env F w b s"
  by (auto simp: url_ok_def split: option.splits)

lemma inv_put_app:
  assumes "pcf_inv env E w" "p_apps w a = Some s" "aps_session s' = aps_session s"
    "app_typed env s'" "url_ok env F w a s'" "E - {a} \<subseteq> F"
  shows "pcf_inv env F (put_app a s' w)"
proof -
  have "owner (put_app a s' w) = owner w" using assms(2,3) by (auto simp: owner_def fun_eq_iff)
  then have "lists_ok (put_app a s' w)" using assms(1) by (simp add: pcf_inv_def lists_ok_def)
  moreover have "sessions_ok (put_app a s' w)" using assms(1) by (simp add: pcf_inv_def sessions_ok_def pcf_sessions_def)
  moreover have "addresses_ok (put_app a s' w)" using assms(1,2) by (auto simp: pcf_inv_def addresses_ok_def)
  moreover have "apps_ok env F (put_app a s' w)"
    unfolding apps_ok_def
  proof (intro allI impI)
    fix b x assume b: "p_apps (put_app a s' w) b = Some x"
    show "app_typed env x \<and> url_ok env F (put_app a s' w) b x"
    proof (cases "b = a")
      case True
      then show ?thesis using b assms(4,5) url_ok_cong [of "put_app a s' w" w env F] by simp
    next
      case False
      then have "app_typed env x" "url_ok env E w b x" using b assms(1) by (auto simp: pcf_inv_def apps_ok_def)
      then show ?thesis
        using url_ok_mono [OF _ assms(6) False] url_ok_cong [of "put_app a s' w" w env F] by simp
    qed
  qed
  ultimately show ?thesis by (simp add: pcf_inv_def)
qed

lemma inv_put_app_same:
  assumes "pcf_inv env E w" "p_apps w a = Some s" "aps_session s' = aps_session s"
    "aps_notif_url s' = aps_notif_url s" "app_typed env s \<Longrightarrow> app_typed env s'"
  shows "pcf_inv env E (put_app a s' w)"
proof (rule inv_put_app [OF assms(1-3)])
  have "app_typed env s" "url_ok env E w a s" using assms(1,2) by (auto simp: pcf_inv_def apps_ok_def)
  then show "app_typed env s'" "url_ok env E w a s'"
    using assms(5) unfolding url_ok_def assms(3,4) by blast+
qed simp

text \<open>A session may get a notification server; its list stays.\<close>

lemma inv_put_psess:
  assumes "pcf_inv env E w" "p_sess w p = Some t" "px_apps t' = px_apps t"
    "px_server t \<noteq> None \<Longrightarrow> px_server t' = px_server t" "\<And>v. px_server t' = Some v \<Longrightarrow> v \<in> set (p_servers w)"
  shows "pcf_inv env E (put_psess p t' w)"
proof -
  have "sessions_ok (put_psess p t' w)"
    using assms(1,2) by (auto simp: pcf_inv_def sessions_ok_def pcf_sessions_def)
  moreover have "lists_ok (put_psess p t' w)"
    using assms(1-3) by (simp add: pcf_inv_def lists_ok_def owner_def)
  moreover have "addresses_ok (put_psess p t' w)"
    using assms(1,2,5) unfolding pcf_inv_def addresses_ok_def by auto
  moreover have "url_ok env E (put_psess p t' w) a s" if "url_ok env E w a s" for a s
    using that assms(2,4)
    by (cases "aps_notif_url s"; cases "aps_session s = p") (auto simp: url_ok_def)
  then have "apps_ok env E (put_psess p t' w)"
    using assms(1) unfolding pcf_inv_def apps_ok_def by simp
  ultimately show ?thesis by (simp add: pcf_inv_def)
qed

section \<open>Application sessions\<close>

definition without_app :: "nat \<Rightarrow> app_session \<Rightarrow> pcf_session \<Rightarrow> pcf_world \<Rightarrow> pcf_world" where
  "without_app a s t w =
     w\<lparr>p_sess := (p_sess w)(aps_session s \<mapsto> t\<lparr>px_apps := remove1 a (px_apps t)\<rparr>), p_apps := (p_apps w)(a := None)\<rparr>"

lemma release_eq:
  "p_apps w a = Some s \<Longrightarrow> p_sess w (aps_session s) = Some t \<Longrightarrow>
     release_app_session (Some a) w = Some (without_app a s t w)"
  by (simp add: release_app_session_def without_app_def put_psess_def Let_def)

lemma owner_without_app: "owner (without_app a s t w) = (owner w)(a := None)"
  by (simp add: owner_def without_app_def fun_eq_iff)

lemma inv_without_app:
  assumes "pcf_inv env E w" "p_apps w a = Some s" "p_sess w (aps_session s) = Some t"
  shows "pcf_inv env E (without_app a s t w)"
proof -
  let ?w = "without_app a s t w"
  have l: "distinct (px_apps u)" "b \<in> set (px_apps u) \<longleftrightarrow> owner w b = Some p" if "p_sess w p = Some u" for p u b
    using assms(1) that by (simp_all add: pcf_inv_def lists_ok_def)
  have "sessions_ok ?w"
    using assms(1,3) by (auto simp: pcf_inv_def sessions_ok_def without_app_def pcf_sessions_def)
  moreover have "lists_ok ?w"
    unfolding lists_ok_def owner_without_app
  proof (intro conjI allI impI)
    fix p u assume u: "p_sess ?w p = Some u"
    show "distinct (px_apps u)" using u l(1) assms(3) by (auto simp: without_app_def split: if_splits)
    show "b \<in> set (px_apps u) \<longleftrightarrow> ((owner w)(a := None)) b = Some p" for b
      using u l assms(2,3) by (auto simp: without_app_def owner_def split: if_splits)
  next
    fix b p assume "((owner w)(a := None)) b = Some p"
    then show "p_sess ?w p \<noteq> None"
      using assms(1) by (auto simp: pcf_inv_def lists_ok_def without_app_def split: if_splits)
  qed
  moreover have "addresses_ok ?w"
    using assms(1,3) unfolding pcf_inv_def addresses_ok_def without_app_def by auto
  moreover have "url_ok env E ?w b x" if "url_ok env E w b x" for b x
    using that assms(3) by (cases "aps_notif_url x"; cases "aps_session x = aps_session s") (auto simp: url_ok_def without_app_def)
  then have "apps_ok env E ?w"
    using assms(1) by (simp add: pcf_inv_def apps_ok_def) (simp add: without_app_def)
  ultimately show ?thesis by (simp add: pcf_inv_def)
qed

lemma inv_release [pcf_keeps]:
  assumes "pcf_inv env E w" "release_app_session (Some a) w = Some w'"
  shows "pcf_inv env E w' \<and> p_apps w' = (p_apps w)(a := None)"
proof -
  obtain s t where st: "p_apps w a = Some s" "p_sess w (aps_session s) = Some t"
    using assms(2) by (auto simp: release_app_session_def split: bind_splits)
  then show ?thesis
    using assms inv_without_app [OF assms(1) st] by (simp add: release_eq) (auto simp: without_app_def)
qed

lemma change_callback_cases:
  assumes "pcf_app_session_change_callback_call env (Some a) d w = Some (r, w')"
  obtains s where "p_apps w a = Some s"
    "w' = (case aps_change_cb s of None \<Rightarrow> w
           | Some f \<Rightarrow> pcf_log (Pcf_changed f (if d then None else Some a) (aps_change_data s)) w)"
  using assms by (auto simp: pcf_app_session_change_callback_call_def Let_def split: bind_splits option.splits)

lemma inv_change_callback [pcf_keeps]:
  "pcf_inv env E w \<Longrightarrow> pcf_app_session_change_callback_call env (Some a) d w = Some (r, w') \<Longrightarrow>
     pcf_inv env E w' \<and> p_apps w' = p_apps w"
  by (erule change_callback_cases) (auto intro: inv_pcf_log split: option.split)

lemma inv_app_sess_remove [pcf_keeps]:
  assumes "pcf_inv env E w" "pcf_app_sess_remove env a w = Some w'"
  shows "pcf_inv env E w' \<and> p_apps w' = (p_apps w)(a := None)"
proof -
  obtain r v where v: "pcf_app_session_change_callback_call env (Some a) True w = Some (r, v)"
      "release_app_session (Some a) v = Some w'"
    using assms(2) by (auto simp: pcf_app_sess_remove_def split: bind_splits)
  have "pcf_inv env E v" "p_apps v = p_apps w" using inv_change_callback [OF assms(1) v(1)] by auto
  then show ?thesis using inv_release [OF _ v(2)] by metis
qed

text \<open>Unlinking the node twice is harmless.\<close>

lemma remove_after_unlink:
  assumes "p_apps w b = Some s" "p_sess w (aps_session s) = Some t" "distinct (px_apps t)"
  shows "pcf_app_sess_remove env b (put_psess (aps_session s) (t\<lparr>px_apps := remove1 b (px_apps t)\<rparr>) w) =
           pcf_app_sess_remove env b w"
proof -
  have r: "remove1 b (remove1 b (px_apps t)) = remove1 b (px_apps t)"
    using assms(3) by (simp add: remove1_idem)
  show ?thesis
    using assms
    by (auto simp: pcf_app_sess_remove_def pcf_app_session_change_callback_call_def release_app_session_def
        put_psess_def pcf_log_def r Let_def split: option.split)
qed

lemma inv_delete [pcf_keeps]:
  assumes "pcf_inv env E w" "pcf_policyauthorization_delete env a w = Some w'"
  shows "pcf_inv env E w'"
proof -
  obtain s t r where r: "p_apps w a = Some s" "p_sess w (aps_session s) = Some t"
      "walk_apps w (\<lambda>_ x. same_text (aps_id s) (aps_id x)) (px_apps t) = Some r"
      "(case r of None \<Rightarrow> Some w | Some b \<Rightarrow>
          pcf_app_sess_remove env b (put_psess (aps_session s) (t\<lparr>px_apps := remove1 b (px_apps t)\<rparr>) w)) = Some w'"
    using assms(2) by (auto simp: pcf_policyauthorization_delete_def split: bind_splits)
  have walk: "walk_apps w P as = Some (Some b) \<Longrightarrow> b \<in> set as" for P as b
    by (induction as) (auto split: bind_splits if_splits)
  show ?thesis
  proof (cases r)
    case (Some b)
    then have "b \<in> set (px_apps t)" using walk r(3) by blast
    then obtain x where "p_apps w b = Some x" "aps_session x = aps_session s"
      using inv_listed [OF assms(1) r(2)] by blast
    moreover have "distinct (px_apps t)" using assms(1) r(2) by (simp add: pcf_inv_def lists_ok_def)
    ultimately have "pcf_app_sess_remove env b w = Some w'"
      using remove_after_unlink [of w b x t env] r(2,4) Some by simp
    then show ?thesis using inv_app_sess_remove [OF assms(1)] by blast
  qed (use r assms(1) in simp)
qed

section \<open>Making an application session\<close>

definition new_app ::
  "nat \<Rightarrow> ue_network_identifier \<Rightarrow> 32 word \<Rightarrow> nat option \<Rightarrow> nat option \<Rightarrow> nat option \<Rightarrow> nat option \<Rightarrow> app_session" where
  "new_app p u events f d cf cd =
     (if f = None then empty_app_session p u else add_notification events f d (empty_app_session p u))
       \<lparr>aps_change_cb := cf, aps_change_data := cd\<rparr>"

definition with_app :: "app_session \<Rightarrow> pcf_session \<Rightarrow> pcf_world \<Rightarrow> pcf_world" where
  "with_app s t w =
     w\<lparr>p_sess := (p_sess w)(aps_session s \<mapsto> t\<lparr>px_apps := px_apps t @ [p_next w]\<rparr>),
       p_apps := (p_apps w)(p_next w \<mapsto> s), p_next := p_next w + 1\<rparr>"

lemma new_app_session [simp]: "aps_session (new_app p u events f d cf cd) = p"
  by (simp add: new_app_def empty_app_session_def add_notification_def)

lemma clone_id [simp]: "ue_network_identifier_clone u = u"
  by (simp add: ue_network_identifier_clone_def)

lemma app_new_eq:
  assumes "p_sess w p = Some t"
  shows "pcf_app_session_new p u events f d cf cd w = Some (p_next w, with_app (new_app p u events f d cf cd) t w)"
  using assms
  by (cases f) (simp_all add: pcf_app_session_new_def pcf_app_session_add_event_notification_def
      with_app_def new_app_def put_app_def put_psess_def Let_def empty_app_session_def add_notification_def)

lemma app_new_cases:
  assumes "pcf_app_session_new p u events f d cf cd w = Some (a, w')"
  obtains t where "p_sess w p = Some t" "a = p_next w" "w' = with_app (new_app p u events f d cf cd) t w"
proof -
  obtain t where t: "p_sess w p = Some t"
    using assms by (auto simp: pcf_app_session_new_def pcf_app_session_add_event_notification_def Let_def
        split: bind_splits option.splits)
  then show thesis using that [OF t] assms app_new_eq [OF t] by simp
qed

lemma with_app_sel [simp]:
  "p_apps (with_app s t w) = (p_apps w)(p_next w \<mapsto> s)" "p_next (with_app s t w) = p_next w + 1"
  "p_sess (with_app s t w) = (p_sess w)(aps_session s \<mapsto> t\<lparr>px_apps := px_apps t @ [p_next w]\<rparr>)"
  "p_servers (with_app s t w) = p_servers w" "p_blocks (with_app s t w) = p_blocks w"
  "p_log (with_app s t w) = p_log w" "p_ctx (with_app s t w) = p_ctx w"
  by (simp_all add: with_app_def)

lemma inv_fresh:
  "pcf_inv env E w \<Longrightarrow> p_next w \<le> a \<Longrightarrow> p_apps w a = None \<and> p_sess w a = None"
  unfolding pcf_inv_def addresses_ok_def by (metis not_less)

lemma inv_with_app:
  assumes "pcf_inv env E w" "p_sess w (aps_session s) = Some t" "app_typed env s" "aps_notif_url s = None"
  shows "pcf_inv env (insert (p_next w) E) (with_app s t w)"
proof -
  let ?w = "with_app s t w" and ?a = "p_next w"
  have fresh: "p_apps w ?a = None" using inv_fresh [OF assms(1)] by simp
  have o: "owner ?w = (owner w)(?a \<mapsto> aps_session s)" by (simp add: owner_def fun_eq_iff)
  have l: "distinct (px_apps u)" "b \<in> set (px_apps u) \<longleftrightarrow> owner w b = Some p" if "p_sess w p = Some u" for p u b
    using assms(1) that by (simp_all add: pcf_inv_def lists_ok_def)
  have "owner w ?a = None" using fresh by (simp add: owner_def)
  then have notin: "?a \<notin> set (px_apps u)" if "p_sess w p = Some u" for p u using l(2) [OF that] by simp
  have "sessions_ok ?w"
    using assms(1,2) by (auto simp: pcf_inv_def sessions_ok_def pcf_sessions_def)
  moreover have "lists_ok ?w"
    unfolding lists_ok_def o
  proof (intro conjI allI impI)
    fix p u assume u: "p_sess ?w p = Some u"
    show "distinct (px_apps u)" using u l(1) notin assms(2) by (auto split: if_splits)
    show "b \<in> set (px_apps u) \<longleftrightarrow> ((owner w)(?a \<mapsto> aps_session s)) b = Some p" for b
      using u l(2) notin assms(2) by (auto split: if_splits)
  next
    fix b p assume "((owner w)(?a \<mapsto> aps_session s)) b = Some p"
    then show "p_sess ?w p \<noteq> None"
      using assms(1) by (auto simp: pcf_inv_def lists_ok_def split: if_splits)
  qed
  moreover have "addresses_ok ?w"
    using assms(1,2) unfolding pcf_inv_def addresses_ok_def by (auto simp: less_Suc_eq)
  moreover have "url_ok env (insert ?a E) ?w b x" if "url_ok env E w b x" for b x
    using that assms(2) by (cases "aps_notif_url x"; cases "aps_session x = aps_session s") (auto simp: url_ok_def)
  then have "apps_ok env (insert ?a E) ?w"
    using assms(1,3,4) unfolding pcf_inv_def apps_ok_def by (auto simp: url_ok_def [of _ _ _ ?a])
  ultimately show ?thesis by (simp add: pcf_inv_def)
qed

lemma app_typed_new: "app_typed env (new_app p u events f d cf cd)"
  by (simp add: app_typed_def new_app_def empty_app_session_def add_notification_def)

lemma inv_app_new:
  assumes "pcf_inv env E w" "pcf_app_session_new p u events f d cf cd w = Some (a, w')"
  shows "pcf_inv env (insert a E) w'"
  using assms(2)
proof (cases rule: app_new_cases)
  case (1 t)
  have "aps_notif_url (new_app p u events f d cf cd) = None"
    by (simp add: new_app_def empty_app_session_def add_notification_def)
  then show ?thesis using inv_with_app [OF assms(1) _ app_typed_new] 1 by simp
qed

subsection \<open>The notification URL\<close>

lemma inv_get_server [pcf_keeps]:
  assumes "pcf_inv env E w" "pcf_session_get_notifications_server env (Some p) w = Some (v, w')"
  shows "pcf_inv env E w' \<and> p_apps w' = p_apps w \<and> (\<exists>t x. p_sess w' p = Some t \<and> px_server t = Some x \<and> v = Some x)"
proof -
  obtain t where t: "p_sess w p = Some t"
    using assms(2) by (auto simp: pcf_session_get_notifications_server_def split: bind_splits)
  show ?thesis
  proof (cases "px_server t")
    case None
    let ?u = "w\<lparr>p_servers := p_servers w @ [p_next w], p_next := p_next w + 1\<rparr>"
    obtain loc where w': "v = Some (p_next w)" "w' = pcf_log (Pcf_server_start (ephemeral loc))
        ((put_psess p (t\<lparr>px_server := Some (p_next w)\<rparr>) w)\<lparr>p_servers := p_servers w @ [p_next w], p_next := p_next w + 1\<rparr>)"
      using assms(2) t None
      by (auto simp: pcf_session_get_notifications_server_def Let_def split: bind_splits if_splits)
    have eq: "(put_psess p (t\<lparr>px_server := Some (p_next w)\<rparr>) w)\<lparr>p_servers := p_servers w @ [p_next w], p_next := p_next w + 1\<rparr>
        = put_psess p (t\<lparr>px_server := Some (p_next w)\<rparr>) ?u" by (simp add: put_psess_def)
    have "pcf_inv env E ?u" by (rule inv_frame [OF assms(1)]) (auto simp: pcf_sessions_def)
    then have "pcf_inv env E (put_psess p (t\<lparr>px_server := Some (p_next w)\<rparr>) ?u)"
      by (rule inv_put_psess [of _ _ _ p t]) (use t None in auto)
    then show ?thesis unfolding w' eq using inv_pcf_log by auto
  next
    case (Some x)
    then have "v = Some x" "w' = w"
      using assms(2) t by (simp_all add: pcf_session_get_notifications_server_def)
    then show ?thesis using assms(1) t Some by simp
  qed
qed

lemma inv_get_url:
  assumes "pcf_inv env (insert a E) w" "a \<notin> E" "pcf_app_session_get_notif_url env (Some a) w = Some (Some u, w')"
  shows "pcf_inv env E w' \<and> (\<exists>s. p_apps w a = Some s \<and> p_apps w' = (p_apps w)(a \<mapsto> s\<lparr>aps_notif_url := Some u\<rparr>))"
proof -
  obtain s where s: "p_apps w a = Some s"
    using assms(3) by (auto simp: pcf_app_session_get_notif_url_def split: bind_splits)
  have ty: "app_typed env s" "url_ok env (insert a E) w a s" using assms(1) s by (auto simp: pcf_inv_def apps_ok_def)
  show ?thesis
  proof (cases "aps_notif_url s")
    case None
    obtain v w1 where v: "pcf_session_get_notifications_server env (Some (aps_session s)) w = Some (Some v, w1)"
        "u = pe_server_uri env v (url_path a)" "w' = put_app a (s\<lparr>aps_notif_url := Some u\<rparr>) w1"
      using assms(3) s None
      by (auto simp: pcf_app_session_get_notif_url_def url_path_def Let_def split: bind_splits option.splits)
    obtain t where t: "pcf_inv env (insert a E) w1" "p_apps w1 = p_apps w" "p_sess w1 (aps_session s) = Some t" "px_server t = Some v"
      using inv_get_server [OF assms(1) v(1)] by auto
    have "pcf_inv env E w'"
      unfolding v(3)
      by (rule inv_put_app [OF t(1)]) (use s t ty v(2) in \<open>auto simp: app_typed_def url_ok_def\<close>)
    then show ?thesis using s t(2) v(3) by simp
  next
    case (Some x)
    then have x: "w' = w" "x = u" using assms(3) s by (auto simp: pcf_app_session_get_notif_url_def)
    have "put_app a s w = w" using s by (simp add: put_app_def fun_upd_idem)
    moreover have "url_ok env E w a s" using ty(2) Some by (simp add: url_ok_def)
    ultimately have "pcf_inv env E w"
      using inv_put_app [OF assms(1) s refl ty(1), of E] by auto
    moreover have "s\<lparr>aps_notif_url := Some u\<rparr> = s" using Some x by simp
    ultimately show ?thesis using s x by (simp add: fun_upd_idem)
  qed
qed

subsection \<open>Requests\<close>

lemma inv_blocks: "pcf_inv env E w \<Longrightarrow> pcf_inv env E (w\<lparr>p_blocks := b\<rparr>)"
  by (erule inv_frame) (simp_all add: pcf_sessions_def)

lemma inv_media_free [pcf_keeps]:
  "pcf_inv env E w \<Longrightarrow> media_components_free ms w = Some w' \<Longrightarrow> pcf_inv env E w' \<and> p_apps w' = p_apps w"
  by (auto simp: media_components_free_def free_blocks_eq split: if_splits intro: inv_blocks)

lemma inv_free_media [pcf_keeps]:
  "pcf_inv env E w \<Longrightarrow> free_media ms w = Some w' \<Longrightarrow> pcf_inv env E w' \<and> p_apps w' = p_apps w"
  by (cases ms) (simp_all add: free_media_def inv_media_free)

lemma inv_send [pcf_keeps]:
  "pcf_inv env E w \<Longrightarrow> send_app_request sent a rq w = Some w' \<Longrightarrow> pcf_inv env E w'"
  by (auto simp: send_app_request_def split: bind_splits intro: inv_pcf_log)

text \<open>Setters that leave what the invariant speaks of.\<close>

definition same_shape :: "app_session \<Rightarrow> app_session \<Rightarrow> bool" where
  "same_shape s s' \<longleftrightarrow> aps_session s' = aps_session s \<and> aps_notif_url s' = aps_notif_url s \<and>
     aps_features s' = aps_features s \<and> aps_ipv6addr s' = aps_ipv6addr s \<and> aps_supi s' = aps_supi s \<and>
     aps_gpsi s' = aps_gpsi s \<and> aps_dnn s' = aps_dnn s \<and> aps_snssai s' = aps_snssai s \<and>
     aps_ipv4addr s' = aps_ipv4addr s \<and> aps_ipv6prefix s' = aps_ipv6prefix s \<and> aps_ue s' = aps_ue s \<and>
     aps_notifs s' = aps_notifs s"

lemma same_shape_typed: "same_shape s s' \<Longrightarrow> app_typed env s \<Longrightarrow> app_typed env s'"
  by (simp add: same_shape_def app_typed_def)

lemma inv_same_shape:
  assumes "pcf_inv env E w" "p_apps w a = Some s" "same_shape s s'"
  shows "pcf_inv env E (put_app a s' w)"
  by (rule inv_put_app_same [OF assms(1,2)]) (use assms(3) same_shape_typed in \<open>auto simp: same_shape_def\<close>)

lemma same_shape_setters:
  "pcf_client_requested_app_sess_context_set env x s = Some (r, s') \<Longrightarrow> same_shape s s'"
  "same_shape s (snd (pcf_client_received_app_sess_context_set env x s))"
  "same_shape s (snd (pcf_client_app_sess_context_updates_set env y s))"
  "same_shape s (snd (pcf_client_app_sess_context_received_updates_set env y s))"
  "same_shape s (set_requested_events es s)"
  by (auto simp: pcf_client_requested_app_sess_context_set_def pcf_client_received_app_sess_context_set_def
      pcf_client_app_sess_context_updates_set_def pcf_client_app_sess_context_received_updates_set_def
      set_requested_events_def same_shape_def split: option.splits if_splits)

lemma inv_request_create:
  assumes "pcf_inv env (insert a E) w" "a \<notin> E"
    "pcf_policyauthorization_request_create env a media events w = Some (rq, w')"
  shows "pcf_inv env E w'"
proof -
  obtain u v s s' t r d where v: "pcf_app_session_get_notif_url env (Some a) w = Some (Some u, v)"
      "p_apps v a = Some s" "p_sess v (aps_session s) = Some t"
      "pcf_client_requested_app_sess_context_set env (Some (Some d)) s = Some (r, s')"
      "free_media media (put_app a s' v) = Some w'"
    using assms(3) by (auto simp: pcf_policyauthorization_request_create_def Let_def split: bind_splits)
  have "pcf_inv env E v" using inv_get_url [OF assms(1,2) v(1)] by blast
  then have "pcf_inv env E (put_app a s' v)"
    by (rule inv_same_shape [OF _ v(2) same_shape_setters(1) [OF v(4)]])
  then show ?thesis using inv_free_media v(5) by blast
qed

lemma inv_create [pcf_keeps]:
  assumes "pcf_inv env {} w"
    "pcf_session_create_app_session env sent p u events media f d cf cd w = Some (r, w')"
  shows "pcf_inv env {} w'"
proof -
  obtain a w1 s rq w2 where w1: "pcf_app_session_new p u events f d cf cd w = Some (a, w1)" "p_apps w1 a = Some s"
      "pcf_policyauthorization_request_create env a media events (put_app a (set_ue_texts env s) w1) = Some (rq, w2)"
      "send_app_request sent a rq w2 = Some w'"
    using assms(2) by (auto simp: pcf_session_create_app_session_def split: bind_splits)
  have "pcf_inv env {a} w1" by (rule inv_app_new [OF assms(1) w1(1)])
  then have "pcf_inv env {a} (put_app a (set_ue_texts env s) w1)"
    by (rule inv_put_app_same [OF _ w1(2)])
      (auto simp: set_ue_texts_def Let_def app_typed_def pcf_client_sess_ipv4addr_set_from_sockaddr_def
        pcf_client_sess_ipv6prefix_set_from_sockaddr_def split: option.splits)
  then have "pcf_inv env {} w2" by (rule inv_request_create [OF _ _ w1(3)]) simp
  then show ?thesis by (rule inv_send [OF _ w1(4)])
qed

lemma inv_update [pcf_keeps]:
  assumes "pcf_inv env E w" "pcf_session_update_app_session env sent p media w = Some (r, w')"
  shows "pcf_inv env E w'"
proof (cases p)
  case (Some a)
  obtain q where q: "pcf_client_context_active_sessions_exists a w = Some q"
    using assms(2) Some by (auto simp: pcf_session_update_app_session_def split: bind_splits)
  show ?thesis
  proof (cases q)
    case (Some b)
    obtain rq v where v: "pcf_policyauthorization_request_update env (Some b) media w = Some (rq, v)"
        "send_app_request sent b rq v = Some w'"
      using assms(2) \<open>p = Some a\<close> q Some by (auto simp: pcf_session_update_app_session_def split: bind_splits)
    have "pcf_inv env E v"
    proof (cases media)
      case None
      then show ?thesis using v(1) assms(1) by (simp add: pcf_policyauthorization_request_update_def)
    next
      case (Some m)
      then obtain s pt where s: "p_apps w b = Some s"
          "media_components_free m (put_app b (snd (pcf_client_app_sess_context_updates_set env (Some pt) s)) w) = Some v"
        using v(1) by (auto simp: pcf_policyauthorization_request_update_def Let_def split: bind_splits if_splits)
      show ?thesis
        using inv_media_free [OF inv_same_shape [OF assms(1) s(1) same_shape_setters(3)] s(2)] by blast
    qed
    then show ?thesis by (rule inv_send [OF _ v(2)])
  qed (use assms q Some in \<open>simp add: pcf_session_update_app_session_def\<close>)
qed (use assms in \<open>simp add: pcf_session_update_app_session_def\<close>)

lemma inv_app_free [pcf_keeps]:
  "pcf_inv env E w \<Longrightarrow> pcf_app_session_free env sent p w = Some w' \<Longrightarrow> pcf_inv env E w'"
  by (cases p) (auto simp: pcf_app_session_free_def split: bind_splits dest: inv_send)

lemma inv_unsubscribe [pcf_keeps]:
  "pcf_inv env E w \<Longrightarrow> pcf_app_session_unsubscribe_event env sent p w = Some (r, w') \<Longrightarrow> pcf_inv env E w'"
  by (cases p) (auto simp: pcf_app_session_unsubscribe_event_def split: bind_splits dest: inv_send)

lemma inv_add_notification [pcf_keeps]:
  assumes "pcf_inv env E w" "pcf_app_session_add_event_notification p events cb d w = Some (r, w')"
  shows "pcf_inv env E w'"
proof (cases p; cases cb)
  fix a f assume pc: "p = Some a" "cb = Some f"
  then obtain s where s: "p_apps w a = Some s" "w' = put_app a (add_notification events cb d s) w"
    using assms(2) by (auto simp: pcf_app_session_add_event_notification_def)
  show ?thesis
    unfolding s(2)
    by (rule inv_put_app_same [OF assms(1) s(1)]) (auto simp: add_notification_def app_typed_def pc)
qed (use assms in \<open>auto simp: pcf_app_session_add_event_notification_def\<close>)

lemma inv_merge [pcf_keeps]:
  assumes "pcf_inv env E w" "merge_event_subsc_to_app_session_context a req w = Some (n, w')"
  shows "pcf_inv env E w'"
proof -
  obtain s es where "p_apps w a = Some s" "w' = put_app a (set_requested_events es s) w"
    using assms(2) by (auto simp: merge_event_subsc_to_app_session_context_def split: bind_splits)
  then show ?thesis using inv_same_shape [OF assms(1) _ same_shape_setters(5)] by simp
qed

lemma inv_subscribe [pcf_keeps]:
  assumes "pcf_inv env E w" "pcf_app_session_subscribe_event env sent p req cb d w = Some (r, w')"
  shows "pcf_inv env E w'"
proof (cases p; cases cb)
  fix a f assume pc: "p = Some a" "cb = Some f"
  obtain r1 w1 n w2 where w1:
      "pcf_app_session_add_event_notification (Some a) (events_subsc_req_data_to_events_mask (Some req)) cb d w = Some (r1, w1)"
      "merge_event_subsc_to_app_session_context a req w1 = Some (n, w2)"
      "w' = w2 \<or> (\<exists>rq. send_app_request sent a (Some rq) w2 = Some w')"
    using assms(2) pc by (auto simp: pcf_app_session_subscribe_event_def split: bind_splits if_splits) blast
  have "pcf_inv env E w2" by (rule inv_merge [OF inv_add_notification [OF assms(1) w1(1)] w1(2)])
  then show ?thesis using w1(3) inv_send by blast
qed (use assms in \<open>auto simp: pcf_app_session_subscribe_event_def\<close>)

section \<open>Sessions\<close>

lemma on_context_sessions:
  "p_ctx w = Some c \<Longrightarrow> pcf_sessions (on_pcf_context f w) = pc_sessions (f c)"
  by (simp add: pcf_sessions_def on_pcf_context_def)

lemma inv_pcf_self [pcf_keeps]: "pcf_inv env E w \<Longrightarrow> pcf_inv env E (pcf_self w)"
  by (erule inv_frame)
    (auto simp: pcf_self_def pcf_context_init_def pcf_sessions_def empty_pcf_context_def split: option.splits if_splits)

lemma pcf_self_sel [simp]:
  "p_sess (pcf_self w) = p_sess w" "p_apps (pcf_self w) = p_apps w" "p_next (pcf_self w) = p_next w"
  "p_log (pcf_self w) = p_log w" "p_servers (pcf_self w) = p_servers w" "p_blocks (pcf_self w) = p_blocks w"
  "pcf_sessions (pcf_self w) = pcf_sessions w" "p_ctx (pcf_self w) \<noteq> None"
  by (auto simp: pcf_self_def pcf_context_init_def pcf_sessions_def empty_pcf_context_def split: option.splits)

lemma pcf_self_Some [simp]: "p_ctx w = Some c \<Longrightarrow> pcf_self w = w"
  by (simp add: pcf_self_def pcf_context_init_def)

lemma inv_session_new [pcf_keeps]:
  assumes "pcf_inv env E w" shows "pcf_inv env E (snd (pcf_session_new env addr w))"
proof (cases "pe_client env addr")
  case True
  define v where "v = pcf_self w"
  obtain c where c: "p_ctx v = Some c" by (cases "p_ctx v") (auto simp: v_def)
  have i: "pcf_inv env E v" using assms inv_pcf_self by (simp add: v_def)
  let ?w = "snd (pcf_session_new env addr w)" and ?p = "p_next v"
  have fresh: "p_sess v ?p = None" "p_apps v ?p = None" using inv_fresh [OF i] by auto
  have w: "p_sess ?w = (p_sess v)(?p \<mapsto> \<lparr>px_addr = addr, px_client = ?p + 1, px_apps = [], px_server = None\<rparr>)"
    "p_apps ?w = p_apps v" "p_servers ?w = p_servers v" "p_next ?w = ?p + 2" "pcf_sessions ?w = pcf_sessions v @ [?p]"
    using True c
    by (simp_all add: pcf_session_new_def Let_def v_def [symmetric] on_pcf_context_def pcf_sessions_def)
  have o: "owner ?w = owner v" by (simp add: owner_def w(2) fun_eq_iff)
  have no: "owner v a \<noteq> Some ?p" for a using i fresh(1) unfolding pcf_inv_def lists_ok_def by metis
  have "?p \<notin> set (pcf_sessions v)" using i fresh(1) by (auto simp: pcf_inv_def sessions_ok_def)
  then have "sessions_ok ?w" using i by (auto simp: pcf_inv_def sessions_ok_def w)
  moreover have "lists_ok ?w" using i no by (auto simp: pcf_inv_def lists_ok_def o w)
  moreover have "addresses_ok ?w"
    using i unfolding pcf_inv_def addresses_ok_def w by (auto simp: less_SucI)
  moreover have "url_ok env E ?w a s" if "url_ok env E v a s" for a s
    using that fresh(1) by (cases "aps_notif_url s") (auto simp: url_ok_def w)
  then have "apps_ok env E ?w" using i unfolding pcf_inv_def apps_ok_def w by blast
  ultimately show ?thesis by (simp add: pcf_inv_def)
qed (use assms in \<open>simp add: pcf_session_new_def\<close>)

lemma remove_apps_inv:
  assumes "fold_option (pcf_app_sess_remove env) as w = Some w'" "pcf_inv env E w"
  shows "pcf_inv env E w' \<and> p_apps w' = (\<lambda>a. if a \<in> set as then None else p_apps w a)"
  using assms
proof (induction as arbitrary: w)
  case (Cons a as)
  then obtain v where v: "pcf_app_sess_remove env a w = Some v" "fold_option (pcf_app_sess_remove env) as v = Some w'"
    by (auto split: bind_splits)
  have "pcf_inv env E v" "p_apps v = (p_apps w)(a := None)" using inv_app_sess_remove [OF Cons.prems(2) v(1)] by auto
  then show ?case using Cons.IH [OF v(2)] by (auto simp: fun_eq_iff)
qed simp

lemma inv_sess_remove_all:
  assumes "pcf_inv env E w" "pcf_sess_remove_all env p w = Some w'"
  shows "pcf_inv env E w' \<and> (\<forall>a. owner w' a \<noteq> Some p)"
proof -
  obtain t where t: "p_sess w p = Some t" "fold_option (pcf_app_sess_remove env) (px_apps t) w = Some w'"
    using assms(2) by (auto simp: pcf_sess_remove_all_def split: bind_splits)
  have r: "pcf_inv env E w'" "p_apps w' = (\<lambda>a. if a \<in> set (px_apps t) then None else p_apps w a)"
    using remove_apps_inv [OF t(2) assms(1)] by auto
  have "owner w' a \<noteq> Some p" for a
    using inv_listed [OF assms(1) t(1), of a] by (auto simp: owner_def r(2))
  then show ?thesis using r(1) by blast
qed

lemma inv_drop_session:
  assumes "pcf_inv env E w" "\<forall>a. owner w a \<noteq> Some p" "p_ctx w = Some c"
  shows "pcf_inv env E ((on_pcf_context (\<lambda>c. c\<lparr>pc_sessions := remove1 p (pc_sessions c)\<rparr>) w)\<lparr>p_sess := (p_sess w)(p := None)\<rparr>)"
    (is "pcf_inv env E ?w")
proof -
  have s: "pcf_sessions ?w = remove1 p (pcf_sessions w)" using assms(3) by (simp add: pcf_sessions_def on_pcf_context_def)
  have f: "p_sess ?w = (p_sess w)(p := None)" "p_apps ?w = p_apps w" "p_servers ?w = p_servers w" "p_next ?w = p_next w"
    by (simp_all add: on_pcf_context_def)
  have o: "owner ?w = owner w" by (simp add: owner_def f fun_eq_iff)
  have "sessions_ok ?w" using assms(1) by (auto simp: pcf_inv_def sessions_ok_def s f)
  moreover have "lists_ok ?w" using assms(1,2) by (auto simp: pcf_inv_def lists_ok_def o f)
  moreover have "addresses_ok ?w" using assms(1) unfolding pcf_inv_def addresses_ok_def f by auto
  moreover have "url_ok env E ?w a x" if "p_apps w a = Some x" "url_ok env E w a x" for a x
  proof -
    have "aps_session x \<noteq> p" using assms(2) that(1) by (auto simp: owner_def)
    then show ?thesis using that(2) by (cases "aps_notif_url x") (auto simp: url_ok_def f)
  qed
  then have "apps_ok env E ?w" using assms(1) unfolding pcf_inv_def apps_ok_def f by blast
  ultimately show ?thesis by (simp add: pcf_inv_def)
qed

lemma inv_session_free [pcf_keeps]:
  assumes "pcf_inv env E w" "pcf_session_free env p w = Some w'"
  shows "pcf_inv env E w'"
proof -
  obtain v where v1: "pcf_sess_remove_all env p w = Some v"
    using assms(2) by (auto simp: pcf_session_free_def split: bind_splits)
  obtain t where t: "p_sess v p = Some t"
    using assms(2) v1 by (auto simp: pcf_session_free_def Let_def on_pcf_context_def split: bind_splits)
  have v2: "w' = (let u = pcf_log (Pcf_client_removed (px_client t))
                (on_pcf_context (\<lambda>c. c\<lparr>pc_sessions := remove1 p (pc_sessions c)\<rparr>) (pcf_self v))
             in u\<lparr>p_sess := (p_sess u)(p := None)\<rparr>)"
    using assms(2) v1 t by (simp add: pcf_session_free_def Let_def on_pcf_context_def)
  note v = v1 v2
  define u where "u = pcf_log (Pcf_client_removed (px_client t)) (pcf_self v)"
  have i: "pcf_inv env E v" "\<forall>a. owner v a \<noteq> Some p" using inv_sess_remove_all [OF assms(1) v(1)] by auto
  obtain c where c: "p_ctx u = Some c" by (cases "p_ctx u") (auto simp: u_def)
  have "pcf_inv env E u" unfolding u_def by (rule inv_pcf_log [OF inv_pcf_self [OF i(1)]])
  moreover have "\<forall>a. owner u a \<noteq> Some p" using i(2) by (simp add: u_def owner_def)
  moreover have "w' = (on_pcf_context (\<lambda>c. c\<lparr>pc_sessions := remove1 p (pc_sessions c)\<rparr>) u)\<lparr>p_sess := (p_sess u)(p := None)\<rparr>"
    by (simp add: v(2) u_def Let_def on_pcf_context_def pcf_log_def)
  ultimately show ?thesis using inv_drop_session c by simp
qed

subsection \<open>The end of the library\<close>

lemma dom_app_sess_remove:
  assumes "pcf_app_sess_remove env a w = Some w'" shows "dom (p_sess w') = dom (p_sess w)"
proof -
  obtain r v where v: "pcf_app_session_change_callback_call env (Some a) True w = Some (r, v)"
      "release_app_session (Some a) v = Some w'"
    using assms by (auto simp: pcf_app_sess_remove_def split: bind_splits)
  have "p_sess v = p_sess w" using v(1) by (rule change_callback_cases) (simp split: option.split)
  moreover obtain s t where st: "p_apps v a = Some s" "p_sess v (aps_session s) = Some t"
    using v(2) by (auto simp: release_app_session_def split: bind_splits)
  ultimately show ?thesis
    using v(2) release_eq [OF st] by (auto simp: without_app_def split: if_splits)
qed

lemma dom_session_free:
  assumes "pcf_session_free env p w = Some w'" shows "dom (p_sess w') = dom (p_sess w) - {p}"
proof -
  obtain v where v: "pcf_sess_remove_all env p w = Some v" "p_sess w' = (p_sess v)(p := None)"
    using assms by (auto simp: pcf_session_free_def Let_def on_pcf_context_def split: bind_splits)
  obtain t where t: "p_sess w p = Some t" "fold_option (pcf_app_sess_remove env) (px_apps t) w = Some v"
    using v(1) by (auto simp: pcf_sess_remove_all_def split: bind_splits)
  have "dom (p_sess v) = dom (p_sess w)"
    by (rule fold_option_inv [where P = "\<lambda>u. dom (p_sess u) = dom (p_sess w)", OF t(2) refl])
      (use dom_app_sess_remove in blast)
  then show ?thesis by (simp add: v(2))
qed

lemma session_frees:
  assumes "fold_option (pcf_session_free env) ps w = Some w'" "pcf_inv env E w"
  shows "pcf_inv env E w' \<and> dom (p_sess w') = dom (p_sess w) - set ps"
  using assms
proof (induction ps arbitrary: w)
  case (Cons p ps)
  then obtain v where v: "pcf_session_free env p w = Some v" "fold_option (pcf_session_free env) ps v = Some w'"
    by (auto split: bind_splits)
  show ?case using Cons.IH [OF v(2) inv_session_free [OF Cons.prems(2) v(1)]] dom_session_free [OF v(1)] by auto
qed simp

lemma inv_pcf_final [pcf_keeps]:
  assumes "pcf_inv env E w" "pcf_context_final env w = Some w'"
  shows "pcf_inv env E w' \<and> p_sess w' = (\<lambda>_. None) \<and> p_apps w' = (\<lambda>_. None) \<and> p_ctx w' = None"
proof -
  let ?v = "pcf_notification_listener_remove_all w"
  obtain c u where u: "p_ctx w = Some c" "fold_option (pcf_session_free env) (pcf_sessions ?v) ?v = Some u"
      "w' = u\<lparr>p_ctx := None\<rparr>"
    using assms(2)
    by (auto simp: pcf_context_final_def pcf_session_remove_all_def Let_def
        pcf_notification_listener_remove_all_def on_pcf_context_def split: option.splits bind_splits)
  have "pcf_inv env E ?v"
    by (rule inv_frame [OF assms(1)])
      (simp_all add: pcf_notification_listener_remove_all_def on_pcf_context_def pcf_sessions_def u(1))
  then have i: "pcf_inv env E u" "dom (p_sess u) = {}"
    using session_frees [OF u(2)] by (auto simp: pcf_inv_def sessions_ok_def)
  then have none: "p_sess u = (\<lambda>_. None)" "pcf_sessions u = []" by (auto simp: pcf_inv_def sessions_ok_def)
  have "p_apps u a = None" for a using inv_owner [OF i(1), of a] none(1) by (cases "p_apps u a") auto
  moreover have "pcf_inv env E w'"
    by (rule inv_frame [OF i(1)]) (use none in \<open>simp_all add: u(3) pcf_sessions_def\<close>)
  ultimately show ?thesis using none by (auto simp: u(3))
qed

section \<open>Events\<close>

lemma inv_tell_change [pcf_keeps]:
  "pcf_inv env E w \<Longrightarrow> tell_change env a d w = Some w' \<Longrightarrow> pcf_inv env E w'"
  by (auto simp: tell_change_def dest: inv_change_callback)

lemma inv_create_reply [pcf_keeps]:
  assumes "pcf_inv env E w" "pcf_policyauthorization_create env a m w = Some w'"
  shows "pcf_inv env E w'"
proof -
  obtain s where s: "p_apps w a = Some s"
    using assms(2) by (auto simp: pcf_policyauthorization_create_def split: bind_splits)
  let ?s = "\<lambda>c. snd (pcf_client_received_app_sess_context_set env (Some c) s)"
  let ?t = "\<lambda>c f i. ?s c\<lparr>aps_features := aps_features (?s c) AND pe_features env f, aps_id := Some i\<rparr>"
  have i: "pcf_inv env E (put_app a (?s c) w)" for c by (rule inv_same_shape [OF assms(1) s same_shape_setters(2)])
  have i2: "pcf_inv env E (put_app a (?t c f x) (put_app a (?s c) w))" for c f x
    by (rule inv_put_app_same [OF i, where s = "?s c"]) (auto simp: app_typed_def)
  show ?thesis
  proof (cases "Option.bind (re_location m) (pe_location env)")
    case (Some path)
    note loc = Some
    show ?thesis
    proof (cases "component path 1")
      case (Some x)
      note comp = Some
      show ?thesis
      proof (cases "re_context m")
        case (Some c)
        note ctx = Some
        show ?thesis
        proof (cases "Option.bind c rd_supp_feat")
          case None
          then show ?thesis
            using assms(2) s loc comp ctx i [of c] by (simp add: pcf_policyauthorization_create_def Let_def)
        next
          case (Some f)
          then have "tell_change env a False (put_app a (?t c f x) (put_app a (?s c) w)) = Some w'"
            using assms(2) s loc comp ctx by (simp add: pcf_policyauthorization_create_def Let_def)
          then show ?thesis using inv_tell_change [OF i2] by blast
        qed
      qed (use assms s loc comp in \<open>simp add: pcf_policyauthorization_create_def\<close>)
    qed (use assms s loc in \<open>simp add: pcf_policyauthorization_create_def\<close>)
  qed (use assms s in \<open>simp add: pcf_policyauthorization_create_def\<close>)
qed

lemma inv_update_reply [pcf_keeps]:
  assumes "pcf_inv env E w" "pcf_policyauthorization_update env a m w = Some w'"
  shows "pcf_inv env E w'"
proof -
  obtain s where s: "p_apps w a = Some s"
    using assms(2) by (auto simp: pcf_policyauthorization_update_def split: bind_splits)
  show ?thesis
    using assms s inv_same_shape [OF assms(1) s same_shape_setters(4)]
    by (auto simp: pcf_policyauthorization_update_def Let_def split: option.splits if_splits intro: inv_tell_change)
qed

lemma inv_subscribe_reply [pcf_keeps]:
  "pcf_inv env E w \<Longrightarrow> pcf_policyauthorization_subscribe_event env a m w = Some w' \<Longrightarrow> pcf_inv env E w'"
  by (auto simp: pcf_policyauthorization_subscribe_event_def split: if_splits intro: inv_tell_change)

lemma inv_app_sessions [pcf_keeps]:
  "pcf_inv env E w \<Longrightarrow> handle_app_sessions env a m w = Some w' \<Longrightarrow> pcf_inv env E w'"
  by (auto simp: handle_app_sessions_def Let_def split: option.splits if_splits
      intro: inv_subscribe_reply inv_delete inv_update_reply inv_create_reply dest: inv_app_sess_remove)

lemma inv_client_response [pcf_keeps]:
  "pcf_inv env E w \<Longrightarrow> handle_client_response env a st r w = Some w' \<Longrightarrow> pcf_inv env E w'"
  by (auto simp: handle_client_response_def split: client_state.splits bind_splits if_splits
      intro: inv_app_sessions dest: inv_app_sess_remove)

lemma inv_notify_all [pcf_keeps]:
  "notify_all env a es m ns r w = Some (r', w') \<Longrightarrow> pcf_inv env E w \<Longrightarrow> pcf_inv env E w'"
  by (induction ns arbitrary: r w) (auto split: if_splits option.splits intro: inv_pcf_log)

lemma inv_notify_app [pcf_keeps]:
  "pcf_inv env E w \<Longrightarrow> notify_app_session env stream a r w = Some w' \<Longrightarrow> pcf_inv env E w'"
  by (auto simp: notify_app_session_def error_reply_def pcf_app_session_notifications_callback_call_def
      split: bind_splits if_splits notification_body.splits intro!: inv_pcf_log intro: inv_notify_all)

lemma inv_notification [pcf_keeps]:
  "pcf_inv env E w \<Longrightarrow> handle_pcf_notification env stream r w = Some w' \<Longrightarrow> pcf_inv env E w'"
  by (auto simp: handle_pcf_notification_def error_reply_def
      split: option.splits if_splits prod.splits intro: inv_pcf_log inv_notify_app)

lemma inv_event [pcf_keeps]:
  assumes "pcf_inv env E w" "pcf_process_event env e w = Some (r, w')"
  shows "pcf_inv env E w'"
  using assms(2) inv_pcf_self [OF assms(1)]
  by (auto simp: pcf_process_event_def Let_def split: pcf_event.splits bind_splits if_splits
      intro: inv_notification inv_client_response)

lemma inv_pcf_parse [pcf_keeps]:
  "pcf_inv env E w \<Longrightarrow> pcf_parse_config benv local document w = Some (r, w') \<Longrightarrow> pcf_inv env E w'"
  by (drule same_but_listeners_parse) (auto simp: same_but_listeners_def intro: inv_frame)

lemma inv_init [pcf_keeps]: "pcf_inv env E w \<Longrightarrow> pcf_context_init w = Some w' \<Longrightarrow> pcf_inv env E w'"
  using inv_pcf_self [of env E w] by (simp add: pcf_self_def)

section \<open>The machine\<close>

lemma pcf_step_inv:
  assumes "pcf_step env l w = Some w'" "pcf_inv env {} w" shows "pcf_inv env {} w'"
  using assms
  by (cases l) (auto simp: pcf_session_process_event_def pcf_service_consumer_final_def
      intro: inv_init inv_pcf_parse inv_session_new inv_create inv_update inv_app_free inv_subscribe inv_unsubscribe
        inv_session_free inv_event inv_blocks dest: inv_pcf_final)

interpretation pcf: invariant_machine "pcf_step env" "pcf_inv env {}" for env
  by unfold_locales (rule pcf_step_inv)

end
