(* ===== verification/Pcf_Props.thy ===== *)
theory Pcf_Props
  imports Pcf_Machine
begin

text \<open>
  Lemmas on single operations of the PCF library that the theorems of \<open>Pcf_Spec\<close> rest on: what
  looking up, notifying, creating and releasing compute in a state that satisfies the invariant,
  and the table of notifications as a set.
\<close>

section \<open>Looking up\<close>

lemma walk_apps_first:
  assumes "\<And>b. b \<in> set as \<Longrightarrow> \<exists>s. p_apps w b = Some s \<and> P b s = Some (b = a)"
  shows "walk_apps w P as = Some (if a \<in> set as then Some a else None)"
  using assms
proof (induction as)
  case (Cons b as)
  obtain s where "p_apps w b = Some s" "P b s = Some (b = a)" using Cons.prems [of b] by auto
  then show ?case using Cons by auto
qed simp

lemma has_server_total:
  "(\<And>p. p \<in> set ps \<Longrightarrow> p_sess w p \<noteq> None) \<Longrightarrow>
     has_server v ps w = Some (\<exists>p\<in>set ps. px_server (the (p_sess w p)) = Some v)"
proof (induction ps)
  case (Cons p ps)
  obtain t where "p_sess w p = Some t" using Cons.prems [of p] by auto
  then show ?case using Cons by (auto simp: pcf_session_has_notification_server_def)
qed simp

lemma inv_has_server:
  assumes "pcf_inv env E w"
  shows "has_server v (pcf_sessions w) w = Some (\<exists>p t. p_sess w p = Some t \<and> px_server t = Some v)"
proof -
  have d: "set (pcf_sessions w) = dom (p_sess w)" using assms by (simp add: pcf_inv_def sessions_ok_def)
  have "(\<exists>p\<in>dom (p_sess w). px_server (the (p_sess w p)) = Some v) \<longleftrightarrow>
      (\<exists>p t. p_sess w p = Some t \<and> px_server t = Some v)" by (fastforce simp: dom_def)
  then show ?thesis using has_server_total [of "pcf_sessions w" w v] d by auto
qed

section \<open>Notifying\<close>

definition wanted :: "events_notification \<Rightarrow> event_notification \<Rightarrow> bool" where
  "wanted es n \<longleftrightarrow> en_events n AND events_notification_to_events_mask (Some es) \<noteq> 0"

definition delivered :: "nat \<Rightarrow> events_notification \<Rightarrow> event_notification \<Rightarrow> pcf_action" where
  "delivered a es n = Pcf_notified (the (en_callback n)) a es (en_user_data n)"

lemma notify_all_eq:
  assumes "\<And>n. n \<in> set ns \<Longrightarrow> en_callback n \<noteq> None"
  shows "\<exists>r'. notify_all env a es m ns r w =
    Some (r', w\<lparr>p_log := p_log w @ map (delivered a es) (filter (\<lambda>n. en_events n AND m \<noteq> 0) ns)\<rparr>)"
  using assms
proof (induction ns arbitrary: r w)
  case (Cons n ns)
  obtain f where f: "en_callback n = Some f" using Cons.prems [of n] by auto
  have h: "delivered a es n = Pcf_notified f a es (en_user_data n)" by (simp add: delivered_def f)
  show ?case
  proof (cases "en_events n AND m = 0")
    case True
    then show ?thesis using Cons.IH [of r w] Cons.prems by simp
  next
    case False
    obtain r' where "notify_all env a es m ns (r \<and> pe_notify env f a es (en_user_data n))
        (pcf_log (Pcf_notified f a es (en_user_data n)) w) =
      Some (r', (pcf_log (Pcf_notified f a es (en_user_data n)) w)\<lparr>p_log :=
        p_log (pcf_log (Pcf_notified f a es (en_user_data n)) w) @
          map (delivered a es) (filter (\<lambda>n. en_events n AND m \<noteq> 0) ns)\<rparr>)"
      using Cons.IH Cons.prems by (meson list.set_intros(2))
    then show ?thesis using False f h by (simp add: pcf_log_def)
  qed
qed simp

section \<open>The table of notifications as a set\<close>

text \<open>Which callback with which data is told of which event bit.\<close>

definition table :: "event_notification list \<Rightarrow> (nat option \<times> nat option \<times> nat) set" where
  "table ns = {(en_callback n, en_user_data n, i) | n i. n \<in> set ns \<and> bit (en_events n) i}"

lemma table_simps [simp]:
  "table [] = {}"
  "table (n # ns) = {(en_callback n, en_user_data n, i) | i. bit (en_events n) i} \<union> table ns"
  "table (ns @ ms) = table ns \<union> table ms"
  by (auto simp: table_def)

lemma word_eq_0_bits: "m = 0 \<longleftrightarrow> (\<forall>i. \<not> bit m i)" for m :: "32 word"
  by (metis bit_0_eq bit_eqI bot_apply bot_bool_def)

definition removed_entries :: "32 word \<Rightarrow> nat option \<Rightarrow> nat option \<Rightarrow> (nat option \<times> nat option \<times> nat) set" where
  "removed_entries m cb d = {(c, u, i). bit m i \<and> (cb = None \<or> (c = cb \<and> (d = None \<or> u = d)))}"

lemma table_drop_events: "table (drop_events m cb d ns) = table ns - removed_entries m cb d"
proof (induction ns)
  case (Cons n ns)
  have w: "{(en_callback n, en_user_data n, i) | i. bit (en_events n) i} - removed_entries m cb d =
      (if concerns cb d n then {(en_callback n, en_user_data n, i) | i. bit (en_events n AND NOT m) i}
       else {(en_callback n, en_user_data n, i) | i. bit (en_events n) i})"
    using bit_imp_le_length [of "en_events n"]
    by (auto simp: removed_entries_def concerns_def bit_and_iff bit_not_iff)
  show ?case
    using Cons w by (auto simp: Let_def Un_Diff word_eq_0_bits)
qed simp

lemma table_add_notification:
  "table (aps_notifs (add_notification m cb d s)) = table (aps_notifs s) \<union> {(cb, d, i) | i. bit m i}"
  by (auto simp: add_notification_def)

lemma wanted_table: "(\<exists>n\<in>set ns. wanted es n \<and> en_callback n = c \<and> en_user_data n = u) \<longleftrightarrow>
    (\<exists>e\<in>set es. \<exists>i. event_index e = Some i \<and> (c, u, i) \<in> table ns)"
proof -
  have m: "bit (events_notification_to_events_mask (Some es)) i \<longleftrightarrow> (\<exists>e\<in>set es. event_index e = Some i)" for i
    by (simp add: events_notification_to_events_mask_def bit_fold_or bit_event_mask)
  show ?thesis by (auto simp: wanted_def table_def word_eq_0_bits bit_and_iff m; blast)
qed

section \<open>Creating\<close>

lemma get_server_result:
  assumes "p_sess w p = Some t"
    "px_server t = None \<longrightarrow> (\<exists>loc. pe_local env (px_addr t) = Some loc \<and> pe_starts env (ephemeral loc))"
  shows "\<exists>v w'. pcf_session_get_notifications_server env (Some p) w = Some (Some v, w') \<and>
    (px_server t \<noteq> None \<longrightarrow> px_server t = Some v) \<and> p_apps w' = p_apps w \<and> p_blocks w' = p_blocks w \<and>
    p_sess w' = (p_sess w)(p \<mapsto> t\<lparr>px_server := Some v\<rparr>) \<and>
    (\<exists>as. p_log w' = p_log w @ as \<and> (\<forall>x\<in>set as. \<exists>l. x = Pcf_server_start l))"
proof (cases "px_server t")
  case None
  then obtain loc where "pe_local env (px_addr t) = Some loc" "pe_starts env (ephemeral loc)" using assms(2) by blast
  then show ?thesis using assms(1) None by (simp add: pcf_session_get_notifications_server_def Let_def)
next
  case (Some v)
  moreover have "(p_sess w)(p \<mapsto> t\<lparr>px_server := Some v\<rparr>) = p_sess w"
    using assms(1) Some by (simp add: fun_upd_idem)
  ultimately show ?thesis
    using assms(1) by (intro exI [of _ v] exI [of _ w]) (simp add: pcf_session_get_notifications_server_def)
qed

lemma get_url_result:
  assumes "p_apps w a = Some s" "aps_notif_url s = None" "p_sess w (aps_session s) = Some t"
    "px_server t = None \<longrightarrow> (\<exists>loc. pe_local env (px_addr t) = Some loc \<and> pe_starts env (ephemeral loc))"
  shows "\<exists>v w'. pcf_app_session_get_notif_url env (Some a) w = Some (Some (pe_server_uri env v (url_path a)), w') \<and>
    (px_server t \<noteq> None \<longrightarrow> px_server t = Some v) \<and> p_blocks w' = p_blocks w \<and>
    p_apps w' = (p_apps w)(a \<mapsto> s\<lparr>aps_notif_url := Some (pe_server_uri env v (url_path a))\<rparr>) \<and>
    p_sess w' = (p_sess w)(aps_session s \<mapsto> t\<lparr>px_server := Some v\<rparr>) \<and>
    (\<exists>as. p_log w' = p_log w @ as \<and> (\<forall>x\<in>set as. \<exists>l. x = Pcf_server_start l))"
proof -
  obtain v w1 where "pcf_session_get_notifications_server env (Some (aps_session s)) w = Some (Some v, w1)"
      "px_server t \<noteq> None \<longrightarrow> px_server t = Some v" "p_apps w1 = p_apps w" "p_blocks w1 = p_blocks w"
      "p_sess w1 = (p_sess w)(aps_session s \<mapsto> t\<lparr>px_server := Some v\<rparr>)"
      "\<exists>as. p_log w1 = p_log w @ as \<and> (\<forall>x\<in>set as. \<exists>l. x = Pcf_server_start l)"
    using get_server_result [OF assms(3,4)] by metis
  then show ?thesis
    using assms(1,2)
    by (intro exI [of _ v] exI [of _ "put_app a (s\<lparr>aps_notif_url := Some (pe_server_uri env v (url_path a))\<rparr>) w1"])
      (simp add: pcf_app_session_get_notif_url_def url_path_def Let_def)
qed

section \<open>Releasing\<close>

definition removal_log :: "pcf_world \<Rightarrow> nat \<Rightarrow> pcf_action list" where
  "removal_log w a =
     (case p_apps w a of
        None \<Rightarrow> []
      | Some s \<Rightarrow> (case aps_change_cb s of None \<Rightarrow> [] | Some f \<Rightarrow> [Pcf_changed f None (aps_change_data s)]))"

lemma app_sess_remove_result:
  assumes "p_apps w a = Some s" "p_sess w (aps_session s) = Some t"
  shows "pcf_app_sess_remove env a w = Some ((without_app a s t w)\<lparr>p_log := p_log w @ removal_log w a\<rparr>)"
  using assms
  by (cases "aps_change_cb s")
    (simp_all add: pcf_app_sess_remove_def pcf_app_session_change_callback_call_def release_eq removal_log_def
      without_app_def pcf_log_def)

lemma remove_apps_result:
  assumes "distinct as" "\<forall>a\<in>set as. \<exists>s. p_apps w a = Some s \<and> aps_session s = p" "p_sess w p = Some t"
  shows "\<exists>w'. fold_option (pcf_app_sess_remove env) as w = Some w' \<and>
    p_log w' = p_log w @ concat (map (removal_log w) as) \<and> p_ctx w' = p_ctx w \<and>
    p_apps w' = (\<lambda>a. if a \<in> set as then None else p_apps w a) \<and>
    (\<exists>t'. p_sess w' = (p_sess w)(p \<mapsto> t') \<and> px_client t' = px_client t)"
  using assms
proof (induction as arbitrary: w t)
  case Nil
  then have "p_sess w = (p_sess w)(p \<mapsto> t)" by (simp add: fun_upd_idem)
  then have t: "\<exists>t'. p_sess w = (p_sess w)(p \<mapsto> t') \<and> px_client t' = px_client t"
    by (intro exI [of _ t] conjI refl)
  show ?case by (intro exI [of _ w] conjI t) simp_all
next
  case (Cons a as)
  obtain s where s: "p_apps w a = Some s" "aps_session s = p" using Cons.prems(2) by auto
  let ?v = "(without_app a s t w)\<lparr>p_log := p_log w @ removal_log w a\<rparr>"
  have v: "pcf_app_sess_remove env a w = Some ?v" using app_sess_remove_result s Cons.prems(3) by simp
  have d: "distinct as" using Cons.prems(1) by simp
  have alive: "\<forall>b\<in>set as. \<exists>s. p_apps ?v b = Some s \<and> aps_session s = p"
    using Cons.prems(1,2) by (auto simp: without_app_def)
  have sess: "p_sess ?v p = Some (t\<lparr>px_apps := remove1 a (px_apps t)\<rparr>)" using s by (simp add: without_app_def)
  obtain w' t' where w': "fold_option (pcf_app_sess_remove env) as ?v = Some w'"
      "p_log w' = p_log ?v @ concat (map (removal_log ?v) as)" "p_ctx w' = p_ctx ?v"
      "p_apps w' = (\<lambda>a. if a \<in> set as then None else p_apps ?v a)" "p_sess w' = (p_sess ?v)(p \<mapsto> t')"
      "px_client t' = px_client (t\<lparr>px_apps := remove1 a (px_apps t)\<rparr>)"
    using Cons.IH [OF d alive sess] by (elim exE conjE) (rule that; assumption)
  have m: "map (removal_log ?v) as = map (removal_log w) as"
    using Cons.prems(1) by (auto simp: removal_log_def without_app_def)
  have sel: "p_log ?v = p_log w @ removal_log w a" "p_ctx ?v = p_ctx w" "p_apps ?v = (p_apps w)(a := None)"
      "p_sess ?v = (p_sess w)(p \<mapsto> t\<lparr>px_apps := remove1 a (px_apps t)\<rparr>)"
    by (simp_all add: without_app_def s(2))
  show ?case
  proof (intro exI [of _ w'] conjI exI [of _ t'])
    show "fold_option (pcf_app_sess_remove env) (a # as) w = Some w'" by (simp only: fold_option.simps v w'(1) bind.bind_lunit)
    show "p_log w' = p_log w @ concat (map (removal_log w) (a # as))" unfolding w'(2) m sel by simp
    show "p_ctx w' = p_ctx w" using w'(3) sel by simp
    show "p_apps w' = (\<lambda>b. if b \<in> set (a # as) then None else p_apps w b)" unfolding w'(4) sel by auto
    show "p_sess w' = (p_sess w)(p \<mapsto> t')" unfolding w'(5) sel by simp
    show "px_client t' = px_client t" using w'(6) by simp
  qed
qed

lemma session_free_result:
  assumes "pcf_inv env E w" "p_sess w p = Some t"
  shows "\<exists>w'. pcf_session_free env p w = Some w' \<and>
    p_log w' = p_log w @ concat (map (removal_log w) (px_apps t)) @ [Pcf_client_removed (px_client t)] \<and>
    p_apps w' = (\<lambda>a. if a \<in> set (px_apps t) then None else p_apps w a) \<and> p_sess w' = (p_sess w)(p := None)"
proof -
  have "distinct (px_apps t)" using assms by (simp add: pcf_inv_def lists_ok_def)
  moreover have "\<forall>a\<in>set (px_apps t). \<exists>s. p_apps w a = Some s \<and> aps_session s = p"
    using inv_listed [OF assms] by simp
  ultimately obtain v t' where v: "fold_option (pcf_app_sess_remove env) (px_apps t) w = Some v"
      "p_log v = p_log w @ concat (map (removal_log w) (px_apps t))"
      "p_apps v = (\<lambda>a. if a \<in> set (px_apps t) then None else p_apps w a)"
      "p_sess v = (p_sess w)(p \<mapsto> t')" "px_client t' = px_client t"
    using remove_apps_result [OF _ _ assms(2)] by blast
  then have "pcf_sess_remove_all env p w = Some v" by (simp add: pcf_sess_remove_all_def assms(2))
  then show ?thesis using v by (simp add: pcf_session_free_def on_pcf_context_def Let_def)
qed

lemma session_frees_total:
  assumes "pcf_inv env E w" "distinct ps" "\<And>p. p \<in> set ps \<Longrightarrow> p_sess w p \<noteq> None"
  shows "\<exists>w'. fold_option (pcf_session_free env) ps w = Some w'"
  using assms
proof (induction ps arbitrary: w)
  case (Cons p ps)
  obtain t where "p_sess w p = Some t" using Cons.prems(3) [of p] by auto
  then obtain v where v: "pcf_session_free env p w = Some v" "p_sess v = (p_sess w)(p := None)"
    using session_free_result [OF Cons.prems(1)] by blast
  have "p_sess v q \<noteq> None" if "q \<in> set ps" for q
    using Cons.prems(2) Cons.prems(3) [of q] that v(2) by auto
  then have "\<exists>w'. fold_option (pcf_session_free env) ps v = Some w'"
    using Cons.IH [OF inv_session_free [OF Cons.prems(1) v(1)]] Cons.prems(2) by simp
  then show ?case using v(1) by simp
qed simp

lemma final_total:
  assumes "pcf_inv env E w" "p_ctx w \<noteq> None"
  shows "\<exists>w'. pcf_context_final env w = Some w'"
proof -
  obtain c where c: "p_ctx w = Some c" using assms(2) by auto
  let ?v = "pcf_notification_listener_remove_all w"
  have s: "pcf_sessions ?v = pcf_sessions w" "p_sess ?v = p_sess w"
    by (simp_all add: pcf_notification_listener_remove_all_def on_pcf_context_def pcf_sessions_def c)
  have "pcf_inv env E ?v"
    by (rule inv_frame [OF assms(1)])
      (simp_all add: pcf_notification_listener_remove_all_def on_pcf_context_def pcf_sessions_def c)
  then have "\<exists>w'. fold_option (pcf_session_free env) (pcf_sessions w) ?v = Some w'"
    by (rule session_frees_total) (use assms(1) s in \<open>auto simp: pcf_inv_def sessions_ok_def\<close>)
  moreover have "pcf_self ?v = ?v"
    by (rule pcf_self_Some) (simp add: pcf_notification_listener_remove_all_def on_pcf_context_def c)
  ultimately show ?thesis using c s by (auto simp: pcf_context_final_def pcf_session_remove_all_def Let_def)
qed

end
