(* ===== verification/Pcf_Spec.thy ===== *)
theory Pcf_Spec
  imports Pcf_Props
begin

text \<open>
  What the PCF library does for its application: what every reachable state looks like, the
  request that creates an application session and its answer, the delivery of notifications,
  the release of sessions, and where the library fails its application.  The theorems about
  runs rest on the interpretation of \<open>Pcf_Machine\<close>.
\<close>

section \<open>Example\<close>

definition pcf_example :: pcf_env where
  "pcf_example =
     \<lparr>pe_ipstr = (\<lambda>a. if sa_family a = Af_inet then ''10.45.0.2'' else ''fd00::2''),
      pe_change = (\<lambda>f a d. True), pe_notify = (\<lambda>f a es d. True), pe_client = (\<lambda>a. True),
      pe_local = (\<lambda>a. Some \<lparr>sa_family = Af_inet, sa_addr = [10, 0, 0, 1], sa_port = 4000\<rparr>),
      pe_starts = (\<lambda>a. True), pe_server_uri = (\<lambda>v path. ''http://10.0.0.1:9000'' @ concat (map ((@) ''/'') path)),
      pe_copy_context = Some, pe_copy_patch = Some, pe_copy_subsc = Some,
      pe_features_text = (\<lambda>f. ''0''), pe_features = (\<lambda>s. 3), pe_sd_text = (\<lambda>d. None),
      pe_location = (\<lambda>l. Some [''app-sessions'', ''42'']), pe_builds = (\<lambda>r. True)\<rparr>"

definition pcf_addr :: sockaddr where
  "pcf_addr = \<lparr>sa_family = Af_inet, sa_addr = [127, 0, 0, 13], sa_port = 7777\<rparr>"

definition example_ue :: ue_network_identifier where
  "example_ue =
     \<lparr>ue_address = Some \<lparr>sa_family = Af_inet, sa_addr = [10, 45, 0, 2], sa_port = 0\<rparr>, ue_supi = None,
      ue_gpsi = None, ue_dnn = None, ue_ip_domain = None\<rparr>"

text \<open>A PCF session (address 1, client 2) and an application session (3) that wants to be told of
  application detection and whose changes are told to callback 8.\<close>

definition pcf_example_calls :: "pcf_call list" where
  "pcf_example_calls =
     [Pcf_init, Pcf_session_new pcf_addr,
      Pcf_create True 1 example_ue 4 None (Some 7) (Some 70) (Some 8) (Some 80)]"

definition example_url :: string where
  "example_url = pe_server_uri pcf_example 4 (url_path 3)"

definition example_data :: req_data where
  "example_data =
     \<lparr>rd_notif_uri = Some example_url, rd_supp_feat = Some ''0'', rd_ue_ipv4 = Some ''10.45.0.2'', rd_ue_ipv6 = None,
      rd_dnn = None, rd_ev_subsc = Some \<lparr>es_events = events_subsc_create 4, es_notif_uri = Some example_url\<rparr>,
      rd_slice = None, rd_spon = Sponsor_disabled, rd_supi = None, rd_gpsi = None, rd_res_prio = 16, rd_media = None\<rparr>"

definition example_app :: app_session where
  "example_app =
     (empty_app_session 1 example_ue)\<lparr>aps_ipv4addr := Some ''10.45.0.2'', aps_requested := Some (Some example_data),
       aps_change_cb := Some 8, aps_change_data := Some 80,
       aps_notifs := [\<lparr>en_callback = Some 7, en_events = 4, en_user_data = Some 70\<rparr>], aps_notif_url := Some example_url\<rparr>"

definition example_pcf :: pcf_world where
  "example_pcf =
     \<lparr>p_ctx = Some \<lparr>pc_listeners = [], pc_sessions = [1]\<rparr>,
      p_sess = (\<lambda>p. if p = 1 then Some \<lparr>px_addr = pcf_addr, px_client = 2, px_apps = [3], px_server = Some 4\<rparr> else None),
      p_apps = (\<lambda>a. if a = 3 then Some example_app else None), p_servers = [4], p_blocks = {}, p_next = 5,
      p_log = [Pcf_server_start \<lparr>sa_family = Af_inet, sa_addr = [10, 0, 0, 1], sa_port = 0\<rparr>,
               Pcf_send 2 3 \<lparr>pr_method = ''POST'', pr_uri = app_sessions_uri pcf_example pcf_addr [],
                             pr_body = Pb_context (Some example_data)\<rparr> True]\<rparr>"

lemma example_run_pcf: "run (pcf_step pcf_example) pcf_example_calls initial_pcf = Some example_pcf"
  by (simp add: pcf_example_calls_def initial_pcf_def pcf_context_init_def empty_pcf_context_def pcf_session_new_def
      on_pcf_context_def pcf_session_create_app_session_def app_new_eq with_app_def new_app_def empty_app_session_def
      add_notification_def put_psess_def put_app_def pcf_log_def set_ue_texts_def
      pcf_client_sess_ipv4addr_set_from_sockaddr_def pcf_client_sess_ipv6prefix_set_from_sockaddr_def
      pcf_policyauthorization_request_create_def pcf_app_session_get_notif_url_def
      pcf_session_get_notifications_server_def create_data_def pcf_client_requested_app_sess_context_set_def
      free_media_def built_def send_app_request_def Let_def example_pcf_def example_ue_def example_app_def
      example_data_def example_url_def url_path_def pcf_example_def ephemeral_def pcf_addr_def fun_eq_iff
      pcf_self_def numeral_3_eq_3)

lemma example_reachable: "reachable (pcf_step pcf_example) initial_pcf example_pcf"
  using example_run_pcf reachable_run by metis

lemma example_sel [simp]:
  "p_ctx example_pcf = Some \<lparr>pc_listeners = [], pc_sessions = [1]\<rparr>"
  "p_sess example_pcf 1 = Some \<lparr>px_addr = pcf_addr, px_client = 2, px_apps = [3], px_server = Some 4\<rparr>"
  "p_apps example_pcf 3 = Some example_app" "p_servers example_pcf = [4]"
  "aps_session example_app = 1" "aps_id example_app = None" "aps_change_cb example_app = Some 8"
  "aps_change_data example_app = Some 80" "aps_requested example_app = Some (Some example_data)"
  "aps_notifs example_app = [\<lparr>en_callback = Some 7, en_events = 4, en_user_data = Some 70\<rparr>]"
  "p_sess example_pcf (Suc 0) = Some \<lparr>px_addr = pcf_addr, px_client = 2, px_apps = [3], px_server = Some 4\<rparr>"
  by (simp_all add: example_pcf_def example_app_def empty_app_session_def)

section \<open>Reachable states\<close>

text \<open>C4: In every state the library can reach, whatever the application calls and whatever the
  network answers in whatever order: the test whether a pointer is a known application session is
  exact; every application session is well formed (the address texts come from an address of the
  right family, the members that the library never sets are empty, every registered callback is
  there), it is on the list of exactly the session it belongs to, and its notification URL names
  the server of that session and its own address.\<close>

theorem pcf_states_well_formed:
  assumes "reachable (pcf_step env) initial_pcf w"
  shows "pcf_app_session_exists a w = Some (p_apps w a \<noteq> None) \<and>
    (\<forall>s. p_apps w a = Some s \<longrightarrow>
       app_typed env s \<and>
       (\<exists>t v. p_sess w (aps_session s) = Some t \<and> distinct (px_apps t) \<and> a \<in> set (px_apps t) \<and>
          (\<forall>p u. p_sess w p = Some u \<longrightarrow> a \<in> set (px_apps u) \<longrightarrow> p = aps_session s) \<and>
          px_server t = Some v \<and> v \<in> set (p_servers w) \<and> aps_notif_url s = Some (pe_server_uri env v (url_path a))))"
proof -
  have inv: "pcf_inv env {} w" by (rule pcf.reachable_inv [OF assms initial_pcf_inv])
  have "app_typed env s \<and>
       (\<exists>t v. p_sess w (aps_session s) = Some t \<and> distinct (px_apps t) \<and> a \<in> set (px_apps t) \<and>
          (\<forall>p u. p_sess w p = Some u \<longrightarrow> a \<in> set (px_apps u) \<longrightarrow> p = aps_session s) \<and>
          px_server t = Some v \<and> v \<in> set (p_servers w) \<and> aps_notif_url s = Some (pe_server_uri env v (url_path a)))"
    if s: "p_apps w a = Some s" for s
  proof -
    have ok: "app_typed env s" "url_ok env {} w a s" using inv s by (auto simp: pcf_inv_def apps_ok_def)
    obtain t where t: "p_sess w (aps_session s) = Some t" "a \<in> set (px_apps t)" using inv_owner [OF inv s] by blast
    obtain v where v: "px_server t = Some v" "aps_notif_url s = Some (pe_server_uri env v (url_path a))"
      using ok(2) t(1) by (auto simp: url_ok_def split: option.splits)
    have dist: "distinct (px_apps t)" using inv t(1) by (simp add: pcf_inv_def lists_ok_def)
    have serv: "v \<in> set (p_servers w)" using inv t(1) v(1) by (auto simp: pcf_inv_def addresses_ok_def)
    have uniq: "\<forall>p u. p_sess w p = Some u \<longrightarrow> a \<in> set (px_apps u) \<longrightarrow> p = aps_session s"
      using inv_listed [OF inv] s by fastforce
    show ?thesis by (intro conjI exI [of _ t] exI [of _ v]) (fact ok t v dist serv uniq)+
  qed
  then show ?thesis by (intro conjI [OF exists_exact [OF inv]] allI impI)
qed

theorem pcf_states_well_formed_witness:
  "pcf_app_session_exists 3 example_pcf = Some True \<and> app_typed pcf_example example_app \<and>
     pcf_app_session_exists 5 example_pcf = Some False"
proof -
  have none: "p_apps example_pcf 5 = None" by (simp add: example_pcf_def)
  note w = pcf_states_well_formed [OF example_reachable]
  show ?thesis
    using w [of 3, THEN conjunct1] w [of 5, THEN conjunct1] none
      w [of 3, THEN conjunct2, THEN spec, THEN mp, OF example_sel(3), THEN conjunct1] by simp
qed

section \<open>Creating an application session\<close>

text \<open>The text of an IPv4 address of a UE, and the data of the request.\<close>

definition ipv4_text :: "pcf_env \<Rightarrow> ue_network_identifier \<Rightarrow> string option" where
  "ipv4_text env u =
     (case ue_address u of None \<Rightarrow> None | Some a \<Rightarrow> if sa_family a = Af_inet then Some (pe_ipstr env a) else None)"

definition requested_data ::
  "pcf_env \<Rightarrow> ue_network_identifier \<Rightarrow> string \<Rightarrow> 32 word \<Rightarrow> media_components option \<Rightarrow> req_data" where
  "requested_data env u url events media =
     \<lparr>rd_notif_uri = Some url, rd_supp_feat = Some (pe_features_text env 0), rd_ue_ipv4 = ipv4_text env u,
      rd_ue_ipv6 = None, rd_dnn = None,
      rd_ev_subsc = Some \<lparr>es_events = events_subsc_create events, es_notif_uri = Some url\<rparr>,
      rd_slice = None, rd_spon = Sponsor_disabled, rd_supi = None, rd_gpsi = None, rd_res_prio = 16, rd_media = media\<rparr>"

lemma new_app_data:
  "create_data env ((set_ue_texts env (new_app p u events f d cf cd))\<lparr>aps_notif_url := x\<rparr>) url events media =
     requested_data env u url events media"
  by (auto simp: create_data_def requested_data_def set_ue_texts_def new_app_def empty_app_session_def
      add_notification_def pcf_client_sess_ipv4addr_set_from_sockaddr_def
      pcf_client_sess_ipv6prefix_set_from_sockaddr_def ipv4_text_def Let_def split: option.split)

lemma set_ue_texts_sel [simp]:
  "aps_session (set_ue_texts env s) = aps_session s" "aps_notif_url (set_ue_texts env s) = aps_notif_url s"
  "aps_id (set_ue_texts env s) = aps_id s" "aps_notifs (set_ue_texts env s) = aps_notifs s"
  "aps_change_cb (set_ue_texts env s) = aps_change_cb s" "aps_change_data (set_ue_texts env s) = aps_change_data s"
  by (simp_all add: set_ue_texts_def pcf_client_sess_ipv4addr_set_from_sockaddr_def
      pcf_client_sess_ipv6prefix_set_from_sockaddr_def Let_def split: option.split)

lemma new_app_sel [simp]:
  "aps_notif_url (new_app p u events f d cf cd) = None" "aps_id (new_app p u events f d cf cd) = None"
  "aps_change_cb (new_app p u events f d cf cd) = cf" "aps_change_data (new_app p u events f d cf cd) = cd"
  "aps_notifs (new_app p u events (Some g) d cf cd) = [\<lparr>en_callback = Some g, en_events = events, en_user_data = d\<rparr>]"
  by (simp_all add: new_app_def empty_app_session_def add_notification_def)

text \<open>C7: Creating an application session on a session whose PCF is reachable: exactly one POST goes to
  the PCF, whose body asks for the events of the mask at the notification URL of the new session,
  with the media components that are given, which are freed; the UE is named by its IPv4 address
  only, so a UE with an IPv6 address, and the SUPI, GPSI and DNN that the application gives, are not
  named at all, and no feature is ever offered.  The new session is the last of its PCF session, has
  no id yet, keeps a copy of what was asked for, and has the one notification callback.\<close>

theorem app_session_created:
  assumes "p_sess w p = Some t"
    and "px_server t = None \<longrightarrow> (\<exists>loc. pe_local env (px_addr t) = Some loc \<and> pe_starts env (ephemeral loc))"
    and "\<forall>m. media = Some m \<longrightarrow> distinct (media_blocks m) \<and> set (media_blocks m) \<subseteq> p_blocks w"
    and "\<forall>rq. pe_builds env rq"
  shows "\<exists>w' v s as. pcf_session_create_app_session env sent p u events media (Some f) fd cf cd w = Some (sent, w') \<and>
    (px_server t \<noteq> None \<longrightarrow> px_server t = Some v) \<and>
    p_sess w' = (p_sess w)(p \<mapsto> t\<lparr>px_apps := px_apps t @ [p_next w], px_server := Some v\<rparr>) \<and>
    p_apps w' = (p_apps w)(p_next w \<mapsto> s) \<and> aps_session s = p \<and> aps_id s = None \<and>
    aps_requested s = pe_copy_context env (Some (requested_data env u (pe_server_uri env v (url_path (p_next w))) events media)) \<and>
    aps_notifs s = [\<lparr>en_callback = Some f, en_events = events, en_user_data = fd\<rparr>] \<and>
    aps_change_cb s = cf \<and> aps_change_data s = cd \<and>
    p_blocks w' = p_blocks w - (case media of None \<Rightarrow> {} | Some m \<Rightarrow> set (media_blocks m)) \<and>
    p_log w' = p_log w @ as @
      [Pcf_send (px_client t) (p_next w)
         \<lparr>pr_method = ''POST'', pr_uri = app_sessions_uri env (px_addr t) [],
          pr_body = Pb_context (Some (requested_data env u (pe_server_uri env v (url_path (p_next w))) events media))\<rparr> sent] \<and>
    (\<forall>x\<in>set as. \<exists>l. x = Pcf_server_start l)"
proof -
  let ?a = "p_next w" and ?n = "new_app p u events (Some f) fd cf cd"
  let ?s = "set_ue_texts env ?n" and ?t = "t\<lparr>px_apps := px_apps t @ [p_next w]\<rparr>"
  define w1 where "w1 = put_app ?a ?s (with_app ?n t w)"
  have w1: "p_apps w1 ?a = Some ?s" "p_sess w1 (aps_session ?s) = Some ?t" "p_log w1 = p_log w" "p_blocks w1 = p_blocks w"
      "p_apps w1 = (p_apps w)(?a \<mapsto> ?s)" "p_sess w1 = (p_sess w)(p \<mapsto> ?t)"
    by (simp_all add: w1_def)
  have srv: "px_server ?t = None \<longrightarrow> (\<exists>loc. pe_local env (px_addr ?t) = Some loc \<and> pe_starts env (ephemeral loc))"
    using assms(2) by simp
  obtain v w2 as where w2: "pcf_app_session_get_notif_url env (Some ?a) w1 = Some (Some (pe_server_uri env v (url_path ?a)), w2)"
      "px_server ?t \<noteq> None \<longrightarrow> px_server ?t = Some v" "p_blocks w2 = p_blocks w1"
      "p_apps w2 = (p_apps w1)(?a \<mapsto> ?s\<lparr>aps_notif_url := Some (pe_server_uri env v (url_path ?a))\<rparr>)"
      "p_sess w2 = (p_sess w1)(aps_session ?s \<mapsto> ?t\<lparr>px_server := Some v\<rparr>)"
      "p_log w2 = p_log w1 @ as" "\<forall>x\<in>set as. \<exists>l. x = Pcf_server_start l"
    using get_url_result [OF w1(1) _ w1(2) srv] by (simp only: set_ue_texts_sel new_app_sel simp_thms) blast
  define url where "url = pe_server_uri env v (url_path ?a)"
  let ?u = "?s\<lparr>aps_notif_url := Some url\<rparr>"
  let ?d = "requested_data env u url events media"
  let ?r = "?u\<lparr>aps_requested := pe_copy_context env (Some ?d)\<rparr>"
  have d: "create_data env ?u url events media = ?d" by (rule new_app_data)
  obtain w3 where w3: "free_media media (put_app ?a ?r w2) = Some w3" "p_apps w3 = (p_apps w2)(?a \<mapsto> ?r)"
      "p_sess w3 = p_sess w2" "p_log w3 = p_log w2"
      "p_blocks w3 = p_blocks w - (case media of None \<Rightarrow> {} | Some m \<Rightarrow> set (media_blocks m))"
    using assms(3) w2(3) w1(4)
    by (cases media) (auto simp: free_media_def media_components_free_def free_blocks_eq)
  let ?rq = "\<lparr>pr_method = ''POST'', pr_uri = app_sessions_uri env (px_addr t) [], pr_body = Pb_context (Some ?d)\<rparr>"
  have rq: "pcf_policyauthorization_request_create env ?a media events w1 = Some (Some ?rq, w3)"
    using w2 w3(1) assms(4) d
    by (simp add: pcf_policyauthorization_request_create_def url_def [symmetric] Let_def built_def
        pcf_client_requested_app_sess_context_set_def)
  have "pcf_session_create_app_session env sent p u events media (Some f) fd cf cd w =
      Some (sent, pcf_log (Pcf_send (px_client t) ?a ?rq sent) w3)"
    using rq w3 w2 by (simp add: pcf_session_create_app_session_def app_new_eq [OF assms(1)] w1_def [symmetric] send_app_request_def)
  then show ?thesis
    using w1 w2 w3
    by (intro exI [of _ "pcf_log (Pcf_send (px_client t) ?a ?rq sent) w3"] exI [of _ v] exI [of _ ?r] exI [of _ as])
      (simp add: url_def [symmetric])
qed

definition ipv6_ue :: ue_network_identifier where
  "ipv6_ue = example_ue\<lparr>ue_address := Some \<lparr>sa_family = Af_inet6, sa_addr = replicate 16 7, sa_port = 0\<rparr>, ue_supi := Some ''imsi-1''\<rparr>"

theorem app_session_created_witness:
  "\<exists>w' d as. pcf_session_create_app_session pcf_example True 1 ipv6_ue 4 None (Some 7) None None None example_pcf = Some (True, w') \<and>
     p_log w' = p_log example_pcf @ as @
       [Pcf_send 2 5 \<lparr>pr_method = ''POST'', pr_uri = app_sessions_uri pcf_example pcf_addr [], pr_body = Pb_context (Some d)\<rparr> True] \<and>
     rd_ue_ipv4 d = None \<and> rd_ue_ipv6 d = None \<and> rd_supi d = None"
proof -
  have n: "p_next example_pcf = 5" by (simp add: example_pcf_def)
  have b: "\<forall>rq. pe_builds pcf_example rq" by (simp add: pcf_example_def)
  have d: "rd_ue_ipv4 (requested_data pcf_example ipv6_ue url 4 None) = None"
    "rd_ue_ipv6 (requested_data pcf_example ipv6_ue url 4 None) = None"
    "rd_supi (requested_data pcf_example ipv6_ue url 4 None) = None" for url
    by (simp_all add: requested_data_def ipv4_text_def ipv6_ue_def)
  let ?t = "\<lparr>px_addr = pcf_addr, px_client = 2, px_apps = [3], px_server = Some 4\<rparr>"
  have h: "px_server ?t = None \<longrightarrow> (\<exists>loc. pe_local pcf_example (px_addr ?t) = Some loc \<and> pe_starts pcf_example (ephemeral loc))"
    "\<forall>m. (None :: media_components option) = Some m \<longrightarrow> distinct (media_blocks m) \<and> set (media_blocks m) \<subseteq> p_blocks example_pcf"
    by simp_all
  from app_session_created [OF example_sel(2) h b, of True ipv6_ue 4 7 None None None]
  obtain w' v as where "pcf_session_create_app_session pcf_example True 1 ipv6_ue 4 None (Some 7) None None None example_pcf = Some (True, w')"
      "p_log w' = p_log example_pcf @ as @ [Pcf_send (px_client ?t) 5 \<lparr>pr_method = ''POST'', pr_uri = app_sessions_uri pcf_example (px_addr ?t) [],
          pr_body = Pb_context (Some (requested_data pcf_example ipv6_ue (pe_server_uri pcf_example v (url_path 5)) 4 None))\<rparr> True]"
    unfolding n by (elim exE conjE) (rule that; assumption)
  then show ?thesis using d unfolding pcf_session.simps by blast
qed

section \<open>The answer to a creation\<close>

lemma process_client:
  assumes "pcf_inv env {} w" "p_apps w a \<noteq> None"
  shows "pcf_process_event env (Pcf_client a st r) w =
    map_option (\<lambda>w. (True, w)) (handle_client_response env a st r (pcf_self w))"
  using exists_exact [OF inv_pcf_self [OF assms(1)], of a] assms(2) by (simp add: pcf_process_event_def Let_def)

definition answers_app_sessions :: "pcf_response \<Rightarrow> bool" where
  "answers_app_sessions m \<longleftrightarrow> re_parsed m \<and> re_service m = Some ''npcf-policyauthorization'' \<and>
     component (re_components m) 0 = Some ''app-sessions''"

lemma handle_answer:
  assumes "answers_app_sessions m"
  shows "handle_client_response env a Client_ok (Some m) w = handle_app_sessions env a m w"
  using assms by (simp add: handle_client_response_def answers_app_sessions_def switch_string_def)

definition is_creation :: "pcf_response \<Rightarrow> bool" where
  "is_creation m \<longleftrightarrow> answers_app_sessions m \<and> component (re_components m) 1 = None \<and> re_method m = Some ''POST''"

lemma handle_creation:
  assumes "is_creation m"
  shows "handle_client_response env a Client_ok (Some m) w =
    (if re_status m = 201 then pcf_policyauthorization_create env a m w else pcf_app_sess_remove env a w)"
  using assms by (simp add: is_creation_def handle_answer handle_app_sessions_def switch_string_def Let_def)

lemma reachable_ctx: "p_apps w a \<noteq> None \<Longrightarrow> pcf_inv env E w \<Longrightarrow> pcf_self w = w"
proof -
  assume a: "p_apps w a \<noteq> None" and i: "pcf_inv env E w"
  then obtain s where "p_apps w a = Some s" by auto
  then obtain t where "p_sess w (aps_session s) = Some t" using inv_owner [OF i] by blast
  then have "pcf_sessions w \<noteq> []" using i by (auto simp: pcf_inv_def sessions_ok_def)
  then obtain c where "p_ctx w = Some c" by (auto simp: pcf_sessions_def split: option.splits)
  then show ?thesis by simp
qed


definition created_response :: "int \<Rightarrow> string option \<Rightarrow> pcf_response" where
  "created_response status loc =
     \<lparr>re_status = status, re_parsed = True, re_service = Some ''npcf-policyauthorization'', re_method = Some ''POST'',
      re_components = [''app-sessions''], re_location = loc, re_context = Some (Some example_data), re_patch = None,
      re_content = True\<rparr>"

lemma created_response_is: "is_creation (created_response st loc)"
  by (simp add: is_creation_def answers_app_sessions_def created_response_def component_def)


section \<open>A creation that is not acknowledged\<close>



section \<open>Deletion\<close>

definition is_deletion :: "pcf_response \<Rightarrow> bool" where
  "is_deletion m \<longleftrightarrow> answers_app_sessions m \<and> component (re_components m) 1 \<noteq> None \<and>
     component (re_components m) 2 = Some ''delete''"

text \<open>C21: The answer to a deletion removes exactly the session it is for, when every session of that PCF
  session has an id and no other has the same: it leaves the list, its object is freed, the
  application is told once, and nothing else changes; the list node is unlinked twice, to no
  effect.\<close>

theorem deletion_answered:
  assumes "reachable (pcf_step env) initial_pcf w" "p_apps w a = Some s" "aps_id s = Some i"
    and "p_sess w (aps_session s) = Some t" "is_deletion m"
    and "\<forall>b\<in>set (px_apps t). \<exists>j. Option.bind (p_apps w b) aps_id = Some j \<and> (j = i \<longrightarrow> b = a)"
  shows "pcf_session_process_event env (Pcf_client a Client_ok (Some m)) w =
    Some (True, (without_app a s t w)\<lparr>p_log := p_log w @ removal_log w a\<rparr>)"
proof -
  have inv: "pcf_inv env {} w" by (rule pcf.reachable_inv [OF assms(1) initial_pcf_inv])
  have self: "pcf_self w = w" using reachable_ctx [OF _ inv] assms(2) by blast
  have dist: "distinct (px_apps t)" using inv assms(4) by (simp add: pcf_inv_def lists_ok_def)
  have mem: "a \<in> set (px_apps t)" using inv_owner [OF inv assms(2)] assms(4) by simp
  have "\<exists>x. p_apps w b = Some x \<and> same_text (aps_id s) (aps_id x) = Some (b = a)" if b: "b \<in> set (px_apps t)" for b
  proof -
    obtain j where j: "Option.bind (p_apps w b) aps_id = Some j" "j = i \<longrightarrow> b = a" using assms(6) b by blast
    then obtain x where "p_apps w b = Some x" "aps_id x = Some j" by (auto split: bind_splits)
    moreover have "(i = j) = (b = a)" using j(2) calculation assms(2,3) by auto
    ultimately show ?thesis using assms(3) by (simp add: same_text_def)
  qed
  then have walk: "walk_apps w (\<lambda>_ x. same_text (aps_id s) (aps_id x)) (px_apps t) = Some (Some a)"
    using walk_apps_first [of "px_apps t" w "\<lambda>_ x. same_text (aps_id s) (aps_id x)" a] mem by simp
  have h: "handle_client_response env a Client_ok (Some m) w = pcf_policyauthorization_delete env a w"
    using assms(5) by (auto simp: is_deletion_def handle_answer handle_app_sessions_def Let_def split: option.split)
  have "pcf_policyauthorization_delete env a w = pcf_app_sess_remove env a w"
    using assms(2,4) walk remove_after_unlink [OF assms(2,4) dist] by (simp add: pcf_policyauthorization_delete_def)
  then show ?thesis
    using process_client [OF inv, of a] assms(2) h self app_sess_remove_result [OF assms(2,4)]
    by (simp add: pcf_session_process_event_def)
qed

definition identified_pcf :: pcf_world where
  "identified_pcf = snd (the (pcf_session_process_event pcf_example
     (Pcf_client 3 Client_ok (Some (created_response 201 (Some ''/app-sessions/42'')))) example_pcf))"

definition deleted_response :: pcf_response where
  "deleted_response = (created_response 204 None)\<lparr>re_components := [''app-sessions'', ''42'', ''delete'']\<rparr>"

lemma identified_step:
  "pcf_session_process_event pcf_example (Pcf_client 3 Client_ok (Some (created_response 201 (Some ''/app-sessions/42'')))) example_pcf =
     Some (True, identified_pcf)"
  "identified_pcf = example_pcf\<lparr>p_apps := (p_apps example_pcf)(3 \<mapsto> example_app\<lparr>aps_received := Some (Some example_data), aps_id := Some ''42''\<rparr>),
     p_log := p_log example_pcf @ [Pcf_changed 8 (Some 3) (Some 80)]\<rparr>"
proof -
  have u: "example_app\<lparr>aps_received := c, aps_features := 0, aps_id := y\<rparr> = example_app\<lparr>aps_received := c, aps_id := y\<rparr>" for c y
    by (simp add: example_app_def empty_app_session_def)
  have f: "aps_features example_app = 0" by (simp add: example_app_def empty_app_session_def)
  have r: "handle_client_response pcf_example 3 Client_ok (Some (created_response 201 (Some ''/app-sessions/42''))) example_pcf =
     Some (example_pcf\<lparr>p_apps := (p_apps example_pcf)(3 \<mapsto> example_app\<lparr>aps_received := Some (Some example_data), aps_id := Some ''42''\<rparr>),
       p_log := p_log example_pcf @ [Pcf_changed 8 (Some 3) (Some 80)]\<rparr>)"
    unfolding handle_creation [OF created_response_is]
    by (simp add: created_response_def component_def pcf_example_def example_data_def
        pcf_policyauthorization_create_def pcf_client_received_app_sess_context_set_def tell_change_def
        pcf_app_session_change_callback_call_def put_app_def pcf_log_def Let_def f u)
  have "pcf_session_process_event pcf_example (Pcf_client 3 Client_ok (Some (created_response 201 (Some ''/app-sessions/42'')))) example_pcf =
     Some (True, example_pcf\<lparr>p_apps := (p_apps example_pcf)(3 \<mapsto> example_app\<lparr>aps_received := Some (Some example_data), aps_id := Some ''42''\<rparr>),
       p_log := p_log example_pcf @ [Pcf_changed 8 (Some 3) (Some 80)]\<rparr>)"
    using process_client [OF pcf.reachable_inv [OF example_reachable initial_pcf_inv], of 3] r
    by (simp add: pcf_session_process_event_def)
  then show "pcf_session_process_event pcf_example (Pcf_client 3 Client_ok (Some (created_response 201 (Some ''/app-sessions/42'')))) example_pcf =
     Some (True, identified_pcf)"
    "identified_pcf = example_pcf\<lparr>p_apps := (p_apps example_pcf)(3 \<mapsto> example_app\<lparr>aps_received := Some (Some example_data), aps_id := Some ''42''\<rparr>),
     p_log := p_log example_pcf @ [Pcf_changed 8 (Some 3) (Some 80)]\<rparr>"
    by (simp_all add: identified_pcf_def)
qed

lemma identified_reachable: "reachable (pcf_step pcf_example) initial_pcf identified_pcf"
  by (rule reachable_step [OF example_reachable,
      where l = "Pcf_event (Pcf_client 3 Client_ok (Some (created_response 201 (Some ''/app-sessions/42''))))"])
    (simp add: identified_step(1))

lemma identified_sel [simp]:
  "p_apps identified_pcf 3 = Some (example_app\<lparr>aps_received := Some (Some example_data), aps_id := Some ''42''\<rparr>)"
  "p_sess identified_pcf 1 = Some \<lparr>px_addr = pcf_addr, px_client = 2, px_apps = [3], px_server = Some 4\<rparr>"
  "p_ctx identified_pcf = Some \<lparr>pc_listeners = [], pc_sessions = [1]\<rparr>"
  "p_sess identified_pcf (Suc 0) = Some \<lparr>px_addr = pcf_addr, px_client = 2, px_apps = [3], px_server = Some 4\<rparr>"
  by (simp_all add: identified_step(2))

theorem deletion_answered_witness:
  "\<exists>w'. pcf_session_process_event pcf_example (Pcf_client 3 Client_ok (Some deleted_response)) identified_pcf = Some (True, w') \<and>
     p_apps w' 3 = None \<and> p_log w' = p_log identified_pcf @ [Pcf_changed 8 None (Some 80)]"
proof -
  have d: "is_deletion deleted_response"
    by (simp add: is_deletion_def answers_app_sessions_def deleted_response_def created_response_def component_def numeral_2_eq_2)
  show ?thesis
    using deletion_answered [OF identified_reachable identified_sel(1) _ _ d, where i = "''42''"
        and t = "\<lparr>px_addr = pcf_addr, px_client = 2, px_apps = [3], px_server = Some 4\<rparr>"]
    by (simp add: without_app_def removal_log_def)
qed

section \<open>Notifications\<close>

text \<open>The request the PCF sends for an application session: the path of its notification URL, with
  the operation \<open>notify\<close>.\<close>

definition notification_request :: "nat \<Rightarrow> events_notification \<Rightarrow> pcf_server_request" where
  "notification_request a es =
     \<lparr>sr_header = True, sr_service = Some (hd (url_path a)), sr_components = drop 2 (url_path a) @ [''notify''],
      sr_body = Nb_events es\<rparr>"

text \<open>C8: A notification sent to the notification URL of an application session reaches exactly that
  session, since the pointer in the URL is read back as it was printed: the callbacks registered for
  one of the reported events are called, in the order of their registration and with their own data,
  no other callback is, and the request is answered with 204.\<close>

theorem notification_delivered:
  assumes "reachable (pcf_step env) initial_pcf w" "p_apps w a = Some s" "a < 2 ^ 64"
    and "p_sess w (aps_session s) = Some t" "px_server t = Some v"
  shows "pcf_session_process_event env (Pcf_server v stream (notification_request a es)) w =
    Some (True, w\<lparr>p_log := p_log w @ map (delivered a es) (filter (wanted es) (aps_notifs s)) @ [Pcf_reply stream 204]\<rparr>)"
proof -
  have inv: "pcf_inv env {} w" by (rule pcf.reachable_inv [OF assms(1) initial_pcf_inv])
  have self: "pcf_self w = w" using reachable_ctx [OF _ inv] assms(2) by blast
  have pos: "0 < a" using inv assms(2) by (auto simp: pcf_inv_def addresses_ok_def)
  have cb: "\<And>n. n \<in> set (aps_notifs s) \<Longrightarrow> en_callback n \<noteq> None"
    using inv assms(2) by (auto simp: pcf_inv_def apps_ok_def app_typed_def)
  have "has_server v (pcf_sessions w) w = Some True" using inv_has_server [OF inv] assms(4,5) by auto
  then have "pcf_process_event env (Pcf_server v stream (notification_request a es)) w =
      map_option (\<lambda>w. (True, w)) (handle_pcf_notification env stream (notification_request a es) w)"
    by (simp add: pcf_process_event_def self Let_def notification_request_def)
  moreover have "handle_pcf_notification env stream (notification_request a es) w =
      notify_app_session env stream a (notification_request a es) w"
    using strtoul_pointer_text [OF pos assms(3)] assms(3)
    by (simp add: handle_pcf_notification_def notification_request_def url_path_def component_def unsigned_of_nat
        take_bit_nat_eq_self)
  moreover obtain r where "notify_all env a es (events_notification_to_events_mask (Some es)) (aps_notifs s) True w =
      Some (r, w\<lparr>p_log := p_log w @ map (delivered a es) (filter (wanted es) (aps_notifs s))\<rparr>)"
    using notify_all_eq [OF cb, where env = env and a = a and es = es
        and m = "events_notification_to_events_mask (Some es)" and r = True and w = w]
    by (auto simp: wanted_def [abs_def])
  then have "notify_app_session env stream a (notification_request a es) w =
      Some (w\<lparr>p_log := p_log w @ map (delivered a es) (filter (wanted es) (aps_notifs s)) @ [Pcf_reply stream 204]\<rparr>)"
    using exists_exact [OF inv, of a] assms(2)
    by (simp add: notify_app_session_def notification_request_def url_path_def component_def
        pcf_app_session_notifications_callback_call_def pcf_log_def numeral_2_eq_2)
  ultimately show ?thesis by (simp add: pcf_session_process_event_def)
qed

theorem notification_delivered_witness:
  "pcf_session_process_event pcf_example (Pcf_server 4 9 (notification_request 3 [Plmn_chg, App_detection])) example_pcf =
    Some (True, example_pcf\<lparr>p_log := p_log example_pcf @
      [Pcf_notified 7 3 [Plmn_chg, App_detection] (Some 70), Pcf_reply 9 204]\<rparr>)"
  using notification_delivered [OF example_reachable example_sel(3), where v = 4 and stream = 9 and es = "[Plmn_chg, App_detection]"
      and t = "\<lparr>px_addr = pcf_addr, px_client = 2, px_apps = [3], px_server = Some 4\<rparr>"]
  by (simp add: delivered_def wanted_def events_notification_to_events_mask_def)

text \<open>C20: The notifications of an application session refine a set of triples of callback, data and event
  bit: registering adds the bits of the mask, removing takes away the bits of the mask for the
  callback and data it names (or for all), and the callbacks told of a report are those with a triple
  for one of its events.\<close>

theorem notifications_refine_table:
  "table (aps_notifs (add_notification m cb d s)) = table (aps_notifs s) \<union> {(cb, d, i) | i. bit m i} \<and>
   table (drop_events m cb d ns) = table ns - removed_entries m cb d \<and>
   {(en_callback n, en_user_data n) | n. n \<in> set ns \<and> wanted es n} =
     {(c, u) | c u e i. e \<in> set es \<and> event_index e = Some i \<and> (c, u, i) \<in> table ns}"
proof (intro conjI table_add_notification table_drop_events)
  have "(c, u) \<in> {(en_callback n, en_user_data n) | n. n \<in> set ns \<and> wanted es n} \<longleftrightarrow>
      (\<exists>n\<in>set ns. wanted es n \<and> en_callback n = c \<and> en_user_data n = u)" for c u by auto
  then have "(c, u) \<in> {(en_callback n, en_user_data n) | n. n \<in> set ns \<and> wanted es n} \<longleftrightarrow>
      (c, u) \<in> {(c, u) | c u e i. e \<in> set es \<and> event_index e = Some i \<and> (c, u, i) \<in> table ns}" for c u
    unfolding wanted_table by blast
  then show "{(en_callback n, en_user_data n) | n. n \<in> set ns \<and> wanted es n} =
     {(c, u) | c u e i. e \<in> set es \<and> event_index e = Some i \<and> (c, u, i) \<in> table ns}"
    by (intro set_eqI) (simp only: split_paired_all)
qed

text \<open>C29: The list of subscriptions built from a mask reads back as that mask, without the bits that are no
  event; and the two functions that read a list of subscriptions, which are written independently (a
  table and a switch), agree on every list.\<close>

theorem event_masks_roundtrip:
  "pcf_app_session_evts (events_subsc_create m) = m AND event_type_all \<and>
   pcf_app_session_evts subs = events_subsc_req_data_to_events_mask (Some subs)"
  using evts_create evts_eq_mask by blast

section \<open>Subscribing to further events\<close>

text \<open>C19: Merging a subscription into what was asked for before returns exactly when nothing was asked for
  or all new subscriptions are the same one: the loop walks the list it appends to, so two different
  new subscriptions make it run (and allocate) for ever.  When it returns, every earlier subscription
  that differs has added a further copy of the new ones.\<close>

theorem merging_returns_iff:
  assumes "p_apps w a = Some s" "requested_subsc s = Some u"
  shows "merge_event_subsc_to_app_session_context a req w =
    (if es_events u = [] \<or> (\<forall>x\<in>set req. \<forall>y\<in>set req. same_subscription x y)
     then Some (length (differing req (es_events u)) * length req,
            put_app a (set_requested_events (es_events u @
              concat (replicate (length (differing req (es_events u))) req)) s) w)
     else None)"
proof -
  have m: "merge_event_subsc (es_events u) req =
    (if es_events u = [] \<or> (\<forall>x\<in>set req. \<forall>y\<in>set req. same_subscription x y)
     then Some (length (differing req (es_events u)) * length req,
            es_events u @ concat (replicate (length (differing req (es_events u))) req)) else None)"
  proof (cases "\<forall>x\<in>set req. \<forall>y\<in>set req. same_subscription x y")
    case True
    then show ?thesis using merge_event_subsc_uniform [of req "es_events u"] by (simp add: Let_def)
  next
    case False
    then show ?thesis
      using merge_event_subsc_diverges [of _ req _ "es_events u"]
      by (auto simp: merge_event_subsc_def differing_def)
  qed
  show ?thesis using assms by (simp add: merge_event_subsc_to_app_session_context_def m)
qed

lemma example_subsc:
  "requested_subsc example_app = Some \<lparr>es_events = [\<lparr>sb_event = App_detection, sb_method = Event_detection\<rparr>], es_notif_uri = Some example_url\<rparr>"
  by (simp add: requested_subsc_def example_data_def events_subsc_create_def events_map_def)

theorem merging_returns_iff_witness:
  "merge_event_subsc_to_app_session_context 3 (events_subsc_create 3) example_pcf = None \<and>
   map_option fst (merge_event_subsc_to_app_session_context 3 (events_subsc_create 2) example_pcf) = Some 1"
  using merging_returns_iff [OF example_sel(3) example_subsc, of "events_subsc_create 3"]
    merging_returns_iff [OF example_sel(3) example_subsc, of "events_subsc_create 2"]
  by (simp add: events_subsc_create_def events_map_def same_subscription_def differing_def)

section \<open>Release and the end of the library\<close>

text \<open>C22: Releasing a PCF session, in any reachable state, never fails: it tells the application once of
  every application session it has, in their order, frees them and the client, and leaves every other
  session as it was.  Terminating the library then never fails either and leaves nothing allocated,
  but terminating it a second time ends in an assertion, because \<open>initialized\<close> stays set.\<close>

theorem session_released:
  assumes "reachable (pcf_step env) initial_pcf w" "p_sess w p = Some t"
  shows "(\<exists>w'. pcf_session_free env p w = Some w' \<and>
      p_log w' = p_log w @ concat (map (removal_log w) (px_apps t)) @ [Pcf_client_removed (px_client t)] \<and>
      p_apps w' = (\<lambda>a. if a \<in> set (px_apps t) then None else p_apps w a) \<and> p_sess w' = (p_sess w)(p := None)) \<and>
    (\<exists>w'. pcf_terminate env (True, w) = Some (True, w') \<and> p_sess w' = (\<lambda>_. None) \<and> p_apps w' = (\<lambda>_. None) \<and>
      pcf_terminate env (True, w') = None)"
proof
  have inv: "pcf_inv env {} w" by (rule pcf.reachable_inv [OF assms(1) initial_pcf_inv])
  show "\<exists>w'. pcf_session_free env p w = Some w' \<and>
      p_log w' = p_log w @ concat (map (removal_log w) (px_apps t)) @ [Pcf_client_removed (px_client t)] \<and>
      p_apps w' = (\<lambda>a. if a \<in> set (px_apps t) then None else p_apps w a) \<and> p_sess w' = (p_sess w)(p := None)"
    by (rule session_free_result [OF inv assms(2)])
  have "pcf_sessions w \<noteq> []" using inv assms(2) by (auto simp: pcf_inv_def sessions_ok_def)
  then have "p_ctx w \<noteq> None" by (auto simp: pcf_sessions_def split: option.splits)
  then obtain w' where w': "pcf_context_final env w = Some w'" using final_total [OF inv] by blast
  have "p_sess w' = (\<lambda>_. None) \<and> p_apps w' = (\<lambda>_. None) \<and> p_ctx w' = None" using inv_pcf_final [OF inv w'] by blast
  then show "\<exists>w'. pcf_terminate env (True, w) = Some (True, w') \<and> p_sess w' = (\<lambda>_. None) \<and> p_apps w' = (\<lambda>_. None) \<and>
      pcf_terminate env (True, w') = None"
    using w' by (intro exI [of _ w']) (simp add: pcf_terminate_def pcf_context_final_def)
qed

theorem session_released_witness:
  "\<exists>w'. pcf_session_free pcf_example 1 example_pcf = Some w' \<and>
     p_log w' = p_log example_pcf @ [Pcf_changed 8 None (Some 80), Pcf_client_removed 2] \<and> p_apps w' 3 = None"
  using session_released [OF example_reachable example_sel(2), THEN conjunct1]
  by (auto simp: removal_log_def)

end
