(* ===== verification/Spec2Isabelle.thy ===== *)
theory Spec2Isabelle
  imports Data_Spec State_Spec Event_Spec Handle_Spec Reply_Spec Build_Spec Bsf_Spec Pcf_Spec
begin

text \<open>
  Service consumer libraries of rt-5gc-service-consumers: the MB-SMF library
  (\<open>lib/mb-smf-service-consumer\<close>), with which an application manages MBS sessions, TMGIs and
  status subscriptions at an MB-SMF of a 5G core over the service-based interface of Open5GS,
  the BSF library (\<open>lib/bsf-service-consumer\<close>), which finds the PCF that serves a UE, and the
  PCF library (\<open>lib/pcf-service-consumer\<close>), which creates application sessions at a PCF, changes
  and deletes them, and passes the events of the PCF on.
  An application of the MB-SMF library fills in the public structure of a session, pushes it, and is told the result
  through callbacks; the library keeps a cached copy of what the MB-SMF was told, and sends a
  creation, a removal, a JSON patch or nothing, depending on what changed since.

  Parts and theories, in the order of their imports:
  \<^item> \<open>Sc_Prelude\<close>: comparison idioms, decimal and hexadecimal digits, collections of simp rules.
  \<^item> \<open>Ogs_Api\<close>: code that is not in the repository (Open5GS, libc, the OpenAPI structures and
    their generated JSON conversion) as the members of the record \<open>ogs_api\<close>, an argument of the
    definitions that use it.  What is relied on is a named hypothesis (\<open>plmn_laws\<close>,
    \<open>conv_tai_law\<close> and so on); \<open>Example_Api\<close> holds functions that meet all of them.
  \<^item> \<open>Sc_Utils\<close> (\<open>utils.c\<close>), \<open>Json_Patch\<close> (\<open>json-patch.c\<close> and the diff idioms), \<open>Tai\<close>, \<open>Ncgi\<close>,
    \<open>Service_Area\<close>, \<open>Geo_Area\<close>, \<open>Geo_Coords\<close>, \<open>Civic_Address\<close>, \<open>Ext_Service_Area\<close>, \<open>Qos_Media\<close> (\<open>arp.c\<close>,
    \<open>mbs-qos-req.c\<close>, \<open>mbs-media-info.c\<close>), \<open>Media_Comp\<close> (\<open>flow-description.c\<close>,
    \<open>mbs-media-comp.c\<close>, \<open>mbs-service-info.c\<close>), \<open>Fsa_Ssm\<close> (\<open>mbs-fsa-id.c\<close>, \<open>ssm-addr.c\<close>,
    \<open>associated-session-id.c\<close>): one record and one definition per C function for each data
    type.  A record is the C structure, an optional member a pointer, a list member an
    \<open>ogs_list_t\<close>, an association list an \<open>ogs_hash_t\<close> in iteration order.
  \<^item> \<open>Sc_State\<close> (\<open>context.c\<close>, \<open>ref_count_sbi_object.h\<close> and the private structures),
    \<open>Status_Subscription\<close>, \<open>Tmgi\<close>, \<open>Session_Data\<close>, \<open>Session_Ops\<close>, \<open>Session_Push\<close>
    (\<open>mbs-status-subscription.c\<close>, \<open>tmgi.c\<close>, \<open>mbs-session.c\<close>): the run-time objects under their
    addresses in the record \<open>world\<close>, and the operations as functions from a state to an option
    of the next.  \<open>None\<close> is undefined behaviour of the C code: a null or freed pointer is used, a
    loop does not end, or a node is unlinked from a list it is not in.  What leaves the library
    (requests, callbacks, freed data, stopped servers) is appended to the log.
  \<^item> \<open>Sc_Config\<close> (the YAML configuration in \<open>context.c\<close>) and \<open>Sc_Build\<close>
    (\<open>nmbsmf-mbs-session-build.c\<close>, \<open>nmbsmf-tmgi-build.c\<close>): method, path and OpenAPI object of
    every request that the log of the world names.
  \<^item> \<open>Sbi_Message\<close> (the parsed messages, transactions and events of Open5GS), \<open>Tmgi_Handle\<close>
    (\<open>nmbsmf-tmgi-handle.c\<close>, \<open>nnrf-disc-handle.c\<close>), \<open>Session_Handle\<close>
    (\<open>nmbsmf-mbs-session-handle.c\<close>), \<open>Process_Event\<close> (\<open>mb-smf-service-consumer.c\<close>): what the library
    does with responses, notifications and timeouts.
  \<^item> \<open>Sc_Refs\<close>, \<open>Tmgi_Props\<close>, \<open>Session_Props\<close>, \<open>Push_Props\<close>: the lemmas about the state;
    \<open>Sc_Invariant\<close>, \<open>Sc_Inv_Push\<close>, \<open>Sc_Inv_Events\<close>: the invariant \<open>lib_inv\<close> of the library, kept by
    every operation up to the event handler.
  \<^item> \<open>Machine\<close>: runs and reachable states of a library, with the locale \<open>invariant_machine\<close>;
    \<open>Sc_Machine\<close> has the calls of an application to the MB-SMF library and interprets it;
    \<open>Public_Api\<close> has the functions of the public headers that only hand their arguments on.
  \<^item> \<open>Yaml\<close> (configuration documents), \<open>Bsf_Cache\<close> (\<open>pcf-bindings-cache.c\<close>), \<open>Bsf_Config\<close>
    (\<open>bsf-configuration.c\<close>), \<open>Bsf_Context\<close> (\<open>context.c\<close>, \<open>bsf-client-sess.c\<close>, \<open>local.c\<close>,
    \<open>nbsf-management-build.c\<close>), \<open>Bsf_Parse\<close> (the configuration in \<open>context.c\<close>), \<open>Bsf_Process\<close>
    (\<open>pcf-bind.c\<close>, \<open>nbsf-process.c\<close>): the BSF library.  A session, the block of a UE address and a
    transaction take their addresses from one counter in the record \<open>bsf_world\<close>; the cache keeps
    the address of the block its key is in, as the hash table keeps the pointer.
    \<open>Bsf_Machine\<close> and \<open>Bsf_Cache_Dead\<close> hold its invariants.
  \<^item> \<open>Pcf_Events\<close> (\<open>pcf-evsubsc.c\<close> and the merging of subscriptions in \<open>pcf-client-sess.c\<close>),
    \<open>Pcf_Context\<close> (\<open>context.c\<close>), \<open>Pcf_Session\<close> (\<open>pcf-client.c\<close>, \<open>pcf-client-sess.c\<close>), \<open>Pcf_Config\<close>
    (the configuration in \<open>context.c\<close>, and \<open>init.c\<close>), \<open>Pcf_Build\<close> (\<open>pcf-build.c\<close>), \<open>Pcf_Process\<close>
    (\<open>pcf-service-consumer.c\<close>, \<open>pcf-handler.c\<close>, \<open>npcf-process.c\<close>): the PCF library, with PCF
    sessions, application sessions and servers under their addresses in the record \<open>pcf_world\<close>.
    \<open>Pcf_Machine\<close> and \<open>Pcf_Props\<close> hold its calls, its invariant and the facts about them.
  \<^item> \<open>Data_Spec\<close>, \<open>State_Spec\<close>, \<open>Event_Spec\<close>, \<open>Handle_Spec\<close>, \<open>Reply_Spec\<close>, \<open>Build_Spec\<close>, \<open>Bsf_Spec\<close>,
    \<open>Pcf_Spec\<close> and this theory: the properties and their concrete instances.

  What the lemma groups show.  The patch lists are given a meaning by an RFC 6902 evaluator in
  \<open>Json_Patch\<close>; the array diff is verified once in the locale \<open>array_diff\<close>, which is interpreted
  for every type that has one, and the member diffs by a lemma per shape, so that the patch
  list between two values turns the JSON of the first into the JSON of the second wherever it
  is defined, and the cases where it is not are characterised.  The comparisons are shown to
  decide equality of multisets of keys.  \<open>Sc_Refs\<close> states the counting invariant \<open>refs_ok\<close>:
  every SBI object has as many references as TMGIs and sessions hold, plus those in flight;
  each operation preserves it.  \<open>lib_inv\<close> adds the context lists and the cached texts, and
  \<open>bsf_inv\<close> says for the BSF library that the active sessions are alive, own their addresses and
  have not been answered, and \<open>pcf_inv\<close> for the PCF library that its lists and its objects refer
  to each other; all three hold in every reachable state, by one interpretation each of
  \<open>invariant_machine\<close>.  The loop that merges an event subscription need not end, so it is a
  partial function without a bound and the properties say when it returns.  \<open>Build_Spec\<close> shows
  what the creation of a session asks for, what it leaves out, and that the identities in a
  request are those by which the handlers of responses find the session and the TMGI again.  The locale \<open>expiring_map\<close> states
  what a cache with expiry times promises to its user and is interpreted on the cache of
  bindings; \<open>Bsf_Spec\<close> shows why the library does not get that: the key of an entry is freed
  with the session that stores it.  \<open>Push_Props\<close> gives the abstract decision (\<open>push_decision\<close>,
  \<open>decision_requests\<close>) and shows that \<open>_mbs_session_push_changes\<close> refines it.

  Conventions.  A definition with an argument \<open>api\<close>, \<open>be\<close> or \<open>env\<close> uses code outside the
  repository.  Allocation never fails.  Callbacks of the application are logged and do not call
  back into the library.  \<open>ogs_sbi_xact_add\<close> runs the request builder at once; in the MB-SMF
  library the effect of a builder on the state is part of the send operation, and what the
  builder puts into the request is in \<open>Sc_Build\<close>.  A hash table is visited in the order of its
  association list.  A double is a real with an explicit rounding, and the two loops that
  normalise a longitude are partial functions without a bound.  No definition uses fuel.

  Not modelled: the printing and parsing of OpenAPI objects by generated code, for which the
  environment stands; log domains; the functions that only free a value without pointers into
  the state; \<open>pcf_policyauthorization_request_subscribe_event\<close> and
  \<open>pcf_policyauthorization_event_notification\<close>, which nothing calls and which change no state;
  the command line tools, which are applications of the libraries made of option parsing,
  printing and the start-up of Open5GS; and the tests.
\<close>

section \<open>Pushing the changes of a session\<close>







section \<open>The cached copy\<close>




text \<open>C24: A session with a start time whose cached copy was taken from it cannot be released: the
  copy shares the memory of the start time, which is freed with the copy and again with the
  session.\<close>

theorem cached_start_time_double_free:
  assumes "mbs_session_public_copy None (Some p) w = Some (d, w')" "se_start_time p = Some x"
    and "w_sessions v a = Some s" "ps_public s = p" "ps_previous s = d"
  shows "mbs_session_delete (Some a) v = None"
proof -
  obtain c where c: "d = Some c"
    using assms(1) by (auto simp: mbs_session_public_copy_def split: bind_splits)
  then have "se_start_time c = Some x" using copy_start_time [of None p w c w'] assms(1,2) by simp
  then show ?thesis using shared_start_time_double_free [of v a s c x] assms c by simp
qed

abbreviation started_session :: mbs_session where
  "started_session \<equiv> mbs_session_calloc\<lparr>se_start_time := Some 9\<rparr>"

theorem cached_start_time_double_free_witness:
  "\<exists>d w'. mbs_session_public_copy None (Some started_session) small_world = Some (d, w') \<and>
     mbs_session_delete (Some 0)
       (example_world ((plain_session None)\<lparr>ps_public := started_session, ps_previous := d\<rparr>)
          (plain_subscription None)) = None"
proof -
  have "session_info_ok started_session" by (simp add: session_info_ok_def mbs_session_calloc_def)
  then obtain d w' where "mbs_session_public_copy None (Some started_session) small_world = Some (d, w')"
    by (auto simp: mbs_session_public_copy_def copy_values_new) (simp add: mbs_session_calloc_def)
  then show ?thesis
    using cached_start_time_double_free [of started_session small_world d w' 9
        "example_world ((plain_session None)\<lparr>ps_public := started_session, ps_previous := d\<rparr>)
          (plain_subscription None)" 0 "(plain_session None)\<lparr>ps_public := started_session, ps_previous := d\<rparr>"]
    by auto
qed

end
